(* ===== verification/Prelude.thy ===== *)
theory Prelude
  imports Complex_Main "HOL-Library.Word" "HOL-Library.AList" "HOL-Library.Monad_Syntax"
begin

text \<open>
  Shared vocabulary of the development: the machine integers of the Rust sources, the
  saturating operations the sources use on them, the instants of \<^verbatim>\<open>std::time\<close>, the status
  values of the gRPC services, and the generic lemmas on lists, options and association lists
  that the component theories rely on. A computation that may panic is a value of type
  \<open>'a option\<close> with \<open>None\<close> for the panic, sequenced with the \<open>do\<close> notation of
  \<open>HOL-Library.Monad_Syntax\<close>.
\<close>

named_theorems frame_simps "fields and components an operation leaves alone"
named_theorems inv_intros "operations that keep an invariant"

subsection \<open>Machine integers\<close>

type_synonym u8 = "8 word"
type_synonym u16 = "16 word"
type_synonym u32 = "32 word"
type_synonym u64 = "64 word"
type_synonym bytes = "u8 list"

text \<open>\<^verbatim>\<open>saturating_add\<close> and \<^verbatim>\<open>saturating_sub\<close> on unsigned integers.\<close>

definition sat_add :: "'a::len word \<Rightarrow> 'a word \<Rightarrow> 'a word" where
  "sat_add a b = (if unat a + unat b < 2 ^ LENGTH('a) then a + b else - 1)"

definition sat_sub :: "'a::len word \<Rightarrow> 'a word \<Rightarrow> 'a word" where
  "sat_sub a b = (if a \<le> b then 0 else a - b)"

lemma unat_sat_sub [simp]: "unat (sat_sub a b) = unat a - unat b"
  by (auto simp: sat_sub_def word_le_nat_alt unat_sub_if')

lemma unat_max_word: "unat (- 1 :: 'a::len word) = 2 ^ LENGTH('a) - 1"
  by (simp add: unsigned_minus_1_eq_mask mask_eq_exp_minus_1)

lemma unat_sat_add [simp]:
  "unat (sat_add a b) = min (unat a + unat b) (2 ^ LENGTH('a) - 1)" for a b :: "'a::len word"
proof (cases "unat a + unat b < 2 ^ LENGTH('a)")
  case True
  then have "unat (a + b) = unat a + unat b"
    by (simp add: unat_word_ariths)
  with True show ?thesis by (simp add: sat_add_def)
next
  case False
  then show ?thesis by (simp add: sat_add_def unat_max_word)
qed

lemma le_sat_add: "a \<le> sat_add a b" for a b :: "'a::len word"
proof -
  have "unat a < 2 ^ LENGTH('a)" by (rule unsigned_less)
  then have "unat a \<le> 2 ^ LENGTH('a) - 1" by linarith
  then show ?thesis by (simp add: word_le_nat_alt)
qed

lemma sat_sub_le: "sat_sub a b \<le> a"
  by (simp add: word_le_nat_alt)

lemma sat_sub_1_less: "0 < a \<Longrightarrow> unat (sat_sub a 1) = unat a - 1"
  for a :: "'a::len word"
  by simp

lemma unat_Suc_below: "unat a < unat b \<Longrightarrow> unat (a + 1) = Suc (unat a)"
  for a b :: "'a::len word"
proof -
  assume "unat a < unat b"
  moreover have "unat b < 2 ^ LENGTH('a)" by (rule unsigned_less)
  ultimately have "unat a + 1 < 2 ^ LENGTH('a)" by linarith
  then show ?thesis by (simp add: unat_word_ariths)
qed

subsection \<open>Instants and durations\<close>

text \<open>
  A monotonic \<^verbatim>\<open>Instant\<close> is its number of nanoseconds since an arbitrary origin;
  \<^verbatim>\<open>Instant::now()\<close> is an argument of the operations that read the clock.
\<close>

type_synonym instant = nat

definition from_secs :: "nat \<Rightarrow> nat" where
  "from_secs s = s * 1000000000"

subsection \<open>Addresses\<close>

text \<open>\<^verbatim>\<open>std::net::IpAddr\<close>: the four octets or the eight groups of an address.\<close>

datatype IpAddr = V4 "nat list" | V6 "nat list"

subsection \<open>Decimal output\<close>

text \<open>\<^verbatim>\<open>to_string\<close> of an unsigned integer.\<close>

fun show_nat :: "nat \<Rightarrow> string" where
  "show_nat n = (if n < 10 then [char_of (48 + n)] else show_nat (n div 10) @ [char_of (48 + n mod 10)])"

declare show_nat.simps [simp del]

subsection \<open>Ordered maps\<close>

text \<open>A \<^verbatim>\<open>BTreeMap\<close> is the list of its entries in key order.\<close>

fun btree_insert :: "'k::linorder \<Rightarrow> 'v \<Rightarrow> ('k \<times> 'v) list \<Rightarrow> ('k \<times> 'v) list" where
  "btree_insert k v [] = [(k, v)]"
| "btree_insert k v ((k', v') # xs) =
     (if k < k' then (k, v) # (k', v') # xs
      else if k = k' then (k, v) # xs
      else (k', v') # btree_insert k v xs)"

subsection \<open>Status values of the gRPC services\<close>

datatype Code = Internal | InvalidArgument | Unauthenticated | DeadlineExceeded
  | ResourceExhausted | PermissionDenied | NotFound | Cancelled

record Status =
  code :: Code
  message :: string

definition mk_status :: "Code \<Rightarrow> string \<Rightarrow> Status" where
  "mk_status c m = \<lparr>code = c, message = m\<rparr>"

lemma code_mk_status [simp]: "code (mk_status c m) = c"
  by (simp add: mk_status_def)

lemma message_mk_status [simp]: "message (mk_status c m) = m"
  by (simp add: mk_status_def)

subsection \<open>Lists and options\<close>

text \<open>A loop over a list whose body may panic.\<close>

fun foldM :: "('a \<Rightarrow> 's \<Rightarrow> 's option) \<Rightarrow> 'a list \<Rightarrow> 's \<Rightarrow> 's option" where
  "foldM f [] s = Some s"
| "foldM f (x # xs) s = Option.bind (f x s) (foldM f xs)"

lemma foldM_invariant:
  assumes "foldM f xs s = Some s'" and "P s"
    and "\<And>x t t'. x \<in> set xs \<Longrightarrow> P t \<Longrightarrow> f x t = Some t' \<Longrightarrow> P t'"
  shows "P s'"
  using assms
proof (induction xs arbitrary: s)
  case Nil
  then show ?case by simp
next
  case (Cons x xs)
  then obtain t where t: "f x s = Some t" "foldM f xs t = Some s'"
    by (auto simp: bind_eq_Some_conv)
  with Cons.prems have "P t" by auto
  with Cons.IH [OF t(2)] Cons.prems(3) show ?case by auto
qed

lemma foldM_total:
  assumes "P s"
    and "\<And>x t. x \<in> set xs \<Longrightarrow> P t \<Longrightarrow> \<exists>t'. f x t = Some t' \<and> P t'"
  shows "\<exists>s'. foldM f xs s = Some s' \<and> P s'"
  using assms
proof (induction xs arbitrary: s)
  case Nil
  then show ?case by simp
next
  case (Cons x xs)
  then obtain t where "f x s = Some t" "P t" by fastforce
  with Cons.IH [of t] Cons.prems(2) show ?case by auto
qed

lemma foldM_cong_inv:
  assumes "\<And>x s. P s \<Longrightarrow> f x s = g x s" "\<And>x s s'. P s \<Longrightarrow> g x s = Some s' \<Longrightarrow> P s'" "P s"
  shows "foldM f xs s = foldM g xs s"
  using assms(3)
proof (induction xs arbitrary: s)
  case (Cons x xs)
  then show ?case using assms(1) [of s x] assms(2) [of s x] by (cases "g x s") simp_all
qed simp

lemma fold_invariant_set:
  assumes "P s" and "\<And>x t. x \<in> set xs \<Longrightarrow> P t \<Longrightarrow> P (f x t)"
  shows "P (fold f xs s)"
  using assms by (induction xs arbitrary: s) auto

lemma distinct_map_fst_unique:
  "distinct (map fst xs) \<Longrightarrow> (k, v) \<in> set xs \<Longrightarrow> (k, v') \<in> set xs \<Longrightarrow> v = v'"
  by (metis map_of_is_SomeI option.inject)

end
