(* ===== verification/Limiter.thy ===== *)
theory Limiter
  imports Prelude
begin

text \<open>
  The contract the two per-key request limiters of the server promise (\<^verbatim>\<open>auth/rate_limit.rs\<close>
  and \<^verbatim>\<open>telemetry.rs\<close>): a key has a budget for the window the current instant falls in, a
  request is admitted exactly while the budget is positive, and a request of one key never
  spends the budget of another. The number of requests admitted in a window is proved once from
  the contract; the theories of the two limiters discharge it for their own definitions.
\<close>

text \<open>A sequence of requests, each a key and the instant it arrives at.\<close>

fun run_checks ::
  "('s \<Rightarrow> 'k \<Rightarrow> instant \<Rightarrow> bool \<times> 's) \<Rightarrow> 's \<Rightarrow> ('k \<times> instant) list \<Rightarrow> bool list" where
  "run_checks check s [] = []"
| "run_checks check s ((k, t) # rs) =
     (case check s k t of (ok, s') \<Rightarrow> ok # run_checks check s' rs)"

definition admitted ::
  "('s \<Rightarrow> 'k \<Rightarrow> instant \<Rightarrow> bool \<times> 's) \<Rightarrow> 's \<Rightarrow> ('k \<times> instant) list \<Rightarrow> 'k \<Rightarrow> nat" where
  "admitted check s rs k =
     length (filter (\<lambda>((k', t), ok). k' = k \<and> ok) (zip rs (run_checks check s rs)))"

definition requests :: "('k \<times> instant) list \<Rightarrow> 'k \<Rightarrow> nat" where
  "requests rs k = length (filter (\<lambda>(k', t). k' = k) rs)"

lemma admitted_Nil [simp]: "admitted check s [] k = 0"
  by (simp add: admitted_def)

lemma requests_Nil [simp]: "requests [] k = 0"
  by (simp add: requests_def)

lemma requests_Cons [simp]:
  "requests ((k', t) # rs) k = (if k' = k then Suc (requests rs k) else requests rs k)"
  by (simp add: requests_def)

lemma admitted_Cons:
  "admitted check s ((k', t) # rs) k =
     (if k' = k \<and> fst (check s k' t) then 1 else 0) + admitted check (snd (check s k' t)) rs k"
  by (auto simp: admitted_def case_prod_beta)

text \<open>The state after a sequence of requests.\<close>

fun run_state ::
  "('s \<Rightarrow> 'k \<Rightarrow> instant \<Rightarrow> bool \<times> 's) \<Rightarrow> 's \<Rightarrow> ('k \<times> instant) list \<Rightarrow> 's" where
  "run_state check s [] = s"
| "run_state check s ((k, t) # rs) = run_state check (snd (check s k t)) rs"

lemma admitted_append:
  "admitted check s (xs @ ys) k = admitted check s xs k + admitted check (run_state check s xs) ys k"
  by (induction xs arbitrary: s) (auto simp: admitted_Cons)

locale window_limiter =
  fixes check :: "'s \<Rightarrow> 'k \<Rightarrow> instant \<Rightarrow> bool \<times> 's"
    and budget :: "'s \<Rightarrow> 'k \<Rightarrow> instant \<Rightarrow> nat"
    and window_end :: "'s \<Rightarrow> 'k \<Rightarrow> instant \<Rightarrow> instant"
  assumes admit_iff: "fst (check s k t) \<longleftrightarrow> 0 < budget s k t"
    and spend: "t \<le> t' \<Longrightarrow> t' \<le> window_end s k t \<Longrightarrow>
      budget (snd (check s k t)) k t' = budget s k t - 1"
    and window_kept: "t \<le> t' \<Longrightarrow> t' \<le> window_end s k t \<Longrightarrow>
      window_end (snd (check s k t)) k t' = window_end s k t"
    and other_budget: "k' \<noteq> k \<Longrightarrow> t \<le> t' \<Longrightarrow> budget (snd (check s k t)) k' t' = budget s k' t'"
    and other_window: "k' \<noteq> k \<Longrightarrow> t \<le> t' \<Longrightarrow>
      window_end (snd (check s k t)) k' t' = window_end s k' t'"
begin

text \<open>While every window reaches at least to \<open>e\<close>, the budget is spent request by request.\<close>

lemma admitted_anchored:
  assumes "sorted (map snd rs)" and "\<And>r. r \<in> set rs \<Longrightarrow> t \<le> snd r \<and> snd r \<le> e"
    and "\<And>t'. t \<le> t' \<Longrightarrow> t' \<le> e \<Longrightarrow> budget s k t' = b \<and> e \<le> window_end s k t'"
  shows "admitted check s rs k = min (requests rs k) b"
  using assms
proof (induction rs arbitrary: s t b)
  case Nil
  then show ?case by simp
next
  case (Cons r rs)
  obtain k' u where r: "r = (k', u)" by (cases r)
  let ?s = "snd (check s k' u)"
  from Cons.prems(2) [of r] r have u: "t \<le> u" "u \<le> e" by auto
  have later: "u \<le> snd r' \<and> snd r' \<le> e" if "r' \<in> set rs" for r'
    using Cons.prems(1,2) r that by auto
  show ?case
  proof (cases "k' = k")
    case True
    have at: "budget s k u = b" "e \<le> window_end s k u"
      using Cons.prems(3) [of u] u by auto
    have "budget ?s k t' = b - 1 \<and> e \<le> window_end ?s k t'" if "u \<le> t'" "t' \<le> e" for t'
      using that at True by (simp add: spend window_kept)
    then have "admitted check ?s rs k = min (requests rs k) (b - 1)"
      using Cons.IH [of u ?s "b - 1"] Cons.prems(1) later by simp
    then show ?thesis
      using at True by (auto simp: r admitted_Cons admit_iff)
  next
    case False
    have "budget ?s k t' = b \<and> e \<le> window_end ?s k t'" if "u \<le> t'" "t' \<le> e" for t'
      using that False u Cons.prems(3) [of t'] by (simp add: other_budget other_window)
    then have "admitted check ?s rs k = min (requests rs k) b"
      using Cons.IH [of u ?s b] Cons.prems(1) later by simp
    then show ?thesis
      using False by (simp add: r admitted_Cons)
  qed
qed

lemma admitted_in_window:
  assumes "sorted (t # map snd rs)" and "\<And>r. r \<in> set rs \<Longrightarrow> snd r \<le> window_end s k t"
  shows "admitted check s ((k, t) # rs) k = min (Suc (requests rs k)) (budget s k t)"
proof -
  let ?s = "snd (check s k t)" and ?e = "window_end s k t"
  have "budget ?s k t' = budget s k t - 1 \<and> ?e \<le> window_end ?s k t'"
    if "t \<le> t'" "t' \<le> ?e" for t'
    using that by (simp add: spend window_kept)
  then have "admitted check ?s rs k = min (requests rs k) (budget s k t - 1)"
    using admitted_anchored [of rs t ?e ?s k "budget s k t - 1"] assms by simp
  then show ?thesis
    by (auto simp: admitted_Cons admit_iff)
qed

end

end
