(* ===== verification/Rate_Limit.thy ===== *)
theory Rate_Limit
  imports Limiter
begin

text \<open>
  \<^verbatim>\<open>crates/aetheris-server/src/auth/rate_limit.rs\<close>: the in-memory limiter of authentication
  attempts, five per hour and e-mail address, thirty per hour and IP address. The clock
  (\<^verbatim>\<open>Instant::now()\<close>) is the last argument of each operation. The limiter is an instance of
  the contract of theory \<open>Limiter\<close>.
\<close>

datatype RateLimitType = Email | Ip

record RateLimitEntry =
  count :: u32
  reset_at :: instant

type_synonym InMemoryRateLimiter = "(RateLimitType \<times> string) \<rightharpoonup> RateLimitEntry"

definition new_limiter :: InMemoryRateLimiter where
  "new_limiter = Map.empty"

text \<open>The \<^verbatim>\<open>Debug\<close> rendering of the limit type in the error message.\<close>

fun show_type :: "RateLimitType \<Rightarrow> string" where
  "show_type Email = ''Email''"
| "show_type Ip = ''Ip''"

fun type_limit :: "RateLimitType \<Rightarrow> u32" where
  "type_limit Email = 5"
| "type_limit Ip = 30"

definition check_limit ::
  "InMemoryRateLimiter \<Rightarrow> RateLimitType \<Rightarrow> string \<Rightarrow> instant \<Rightarrow>
     (Status + unit) \<times> InMemoryRateLimiter" where
  "check_limit st limit_type identity now =
     (let key = (limit_type, identity);
          entry = (case st key of
                     Some e \<Rightarrow> e
                   | None \<Rightarrow> \<lparr>count = 0, reset_at = now + from_secs 3600\<rparr>);
          entry = (if now > reset_at entry
                   then entry\<lparr>count := 0, reset_at := now + from_secs 3600\<rparr> else entry);
          limit = type_limit limit_type
      in if count entry \<ge> limit
         then (Inl (mk_status ResourceExhausted
                 (''Rate limit exceeded for '' @ show_type limit_type @ '': '' @ identity
                  @ ''. Try again later.'')),
               st(key \<mapsto> entry))
         else (Inr (), st(key \<mapsto> entry\<lparr>count := count entry + 1\<rparr>)))"

definition cleanup :: "InMemoryRateLimiter \<Rightarrow> instant \<Rightarrow> InMemoryRateLimiter" where
  "cleanup st now =
     (\<lambda>key. case st key of
              Some entry \<Rightarrow> if reset_at entry > now then Some entry else None
            | None \<Rightarrow> None)"

subsection \<open>The limiter meets the window contract\<close>

definition rl_check ::
  "InMemoryRateLimiter \<Rightarrow> RateLimitType \<times> string \<Rightarrow> instant \<Rightarrow> bool \<times> InMemoryRateLimiter" where
  "rl_check st key now =
     (case check_limit st (fst key) (snd key) now of (r, st') \<Rightarrow> (r = Inr (), st'))"

definition rl_budget :: "InMemoryRateLimiter \<Rightarrow> RateLimitType \<times> string \<Rightarrow> instant \<Rightarrow> nat" where
  "rl_budget st key now =
     (case st key of
        None \<Rightarrow> unat (type_limit (fst key))
      | Some e \<Rightarrow> if now > reset_at e then unat (type_limit (fst key))
                  else unat (type_limit (fst key)) - unat (count e))"

definition rl_window_end ::
  "InMemoryRateLimiter \<Rightarrow> RateLimitType \<times> string \<Rightarrow> instant \<Rightarrow> instant" where
  "rl_window_end st key now =
     (case st key of
        None \<Rightarrow> now + from_secs 3600
      | Some e \<Rightarrow> if now > reset_at e then now + from_secs 3600 else reset_at e)"

lemma type_limit_pos [simp]: "\<not> type_limit ty \<le> 0" "0 < unat (type_limit ty)"
  by (cases ty; simp)+

lemmas rl_defs = rl_check_def check_limit_def rl_budget_def rl_window_end_def Let_def

interpretation rl: window_limiter rl_check rl_budget rl_window_end
proof (unfold_locales, goal_cases)
  case (1 st k t)
  then show ?case
    by (auto simp: rl_defs word_le_nat_alt split: option.splits if_splits)
next
  case (2 t t' st k)
  then show ?case
    by (auto simp: rl_defs word_le_nat_alt not_le unat_Suc_below split: option.splits if_splits)
next
  case (3 t t' st k)
  then show ?case
    by (auto simp: rl_defs split: option.splits if_splits)
next
  case (4 k' k t t' st)
  then show ?case
    by (auto simp: rl_defs split: option.splits if_splits)
next
  case (5 k' k t t' st)
  then show ?case
    by (auto simp: rl_defs split: option.splits if_splits)
qed

subsection \<open>Properties\<close>

text \<open>
  One window of the limiter: after the first request of a key that has no entry yet, of all
  the requests (of any keys, in order of time) that arrive within the hour, the key gets exactly
  the first \<open>limit\<close> admitted, five for an e-mail address and thirty for an IP address,
  whatever the other keys do.
\<close>

lemma rate_limit_per_window:
  assumes "st (ty, i) = None"
    and "sorted (t # map snd rs)" and "\<forall>r \<in> set rs. snd r \<le> t + from_secs 3600"
  shows "admitted rl_check st (((ty, i), t) # rs) (ty, i) =
           min (Suc (requests rs (ty, i))) (unat (type_limit ty))"
  using rl.admitted_in_window [of t rs st "(ty, i)"] assms
  by (simp add: rl_budget_def rl_window_end_def)

text \<open>A state and its cleaned-up copy differ only in entries whose window is over.\<close>

definition cleaned_up_to :: "instant \<Rightarrow> InMemoryRateLimiter \<Rightarrow> InMemoryRateLimiter \<Rightarrow> bool" where
  "cleaned_up_to t st st' \<longleftrightarrow>
     (\<forall>k. st' k = st k \<or> st' k = None \<and> (\<exists>e. st k = Some e \<and> reset_at e \<le> t))"

lemma cleaned_up_to_cleanup: "cleaned_up_to t st (cleanup st t)"
  by (auto simp: cleaned_up_to_def cleanup_def split: option.splits)

text \<open>The answer and the new entry are a function of the key's own entry, an expired entry
  counting as no entry.\<close>

definition rl_local ::
  "RateLimitType \<Rightarrow> RateLimitEntry option \<Rightarrow> instant \<Rightarrow> bool \<times> RateLimitEntry" where
  "rl_local ty eo now =
     (let e = (case eo of Some e \<Rightarrow> if now > reset_at e then \<lparr>count = 0, reset_at = now + from_secs 3600\<rparr> else e
               | None \<Rightarrow> \<lparr>count = 0, reset_at = now + from_secs 3600\<rparr>)
      in if count e \<ge> type_limit ty then (False, e) else (True, e\<lparr>count := count e + 1\<rparr>))"

lemma rl_check_local:
  "rl_check st k now = (fst (rl_local (fst k) (st k) now), st(k \<mapsto> snd (rl_local (fst k) (st k) now)))"
  by (cases "st k"; cases "the (st k)") (simp_all add: rl_defs rl_local_def)

lemma rl_local_cleaned_up:
  assumes "cleaned_up_to t st st'" and "t < now"
  shows "rl_local ty (st' k) now = rl_local ty (st k) now"
proof -
  from assms(1) consider "st' k = st k"
    | e where "st' k = None" "st k = Some e" "reset_at e \<le> t"
    unfolding cleaned_up_to_def by blast
  then show ?thesis
    by cases (use assms(2) in \<open>simp_all add: rl_local_def\<close>)
qed

lemma cleaned_up_to_update:
  "cleaned_up_to t st st' \<Longrightarrow> cleaned_up_to t (st(k \<mapsto> e)) (st'(k \<mapsto> e))"
  by (simp add: cleaned_up_to_def)

lemma run_checks_cleaned_up:
  assumes "cleaned_up_to t st st'" and "\<forall>r \<in> set rs. t < snd r"
  shows "run_checks rl_check st' rs = run_checks rl_check st rs"
  using assms
proof (induction rs arbitrary: st st')
  case Nil
  then show ?case by simp
next
  case (Cons r rs)
  obtain k now where r: "r = (k, now)" by (cases r)
  define e where "e = snd (rl_local (fst k) (st k) now)"
  have "run_checks rl_check (st'(k \<mapsto> e)) rs = run_checks rl_check (st(k \<mapsto> e)) rs"
    by (rule Cons.IH [OF cleaned_up_to_update [OF Cons.prems(1)]]) (use Cons.prems(2) in simp)
  moreover from Cons.prems r have "rl_local (fst k) (st' k) now = rl_local (fst k) (st k) now"
    by (intro rl_local_cleaned_up) auto
  ultimately show ?case
    by (simp add: r e_def rl_check_local [of st k] rl_check_local [of st' k])
qed

text \<open>
  Periodic cleanup is invisible: no sequence of later requests is answered differently
  because \<^verbatim>\<open>cleanup\<close> ran before it.
\<close>

lemma cleanup_transparent:
  assumes "\<forall>r \<in> set rs. t < snd r"
  shows "run_checks rl_check (cleanup st t) rs = run_checks rl_check st rs"
  using cleaned_up_to_cleanup assms by (rule run_checks_cleaned_up)

end
