(* ===== verification/Auth.thy ===== *)
theory Auth
  imports Rate_Limit "HOL-Library.Countable"
begin

text \<open>
  \<^verbatim>\<open>crates/aetheris-server/src/auth/mod.rs\<close> and \<^verbatim>\<open>google.rs\<close>: one-time passwords, Google
  logins, session tokens with a sliding idle window, logout, refresh and connect tokens.

  The service's \<^verbatim>\<open>DashMap\<close>s are the maps of a record. What a handler draws from outside (clock
  readings, random numbers, fresh ULIDs) is an argument. Third-party code (PASETO, Blake2b,
  SHA-256, ULID and RFC 3339 rendering, base64, hex, OpenID Connect) is the record
  \<open>auth_lib\<close> and the fields of \<open>GoogleOidcClient\<close>. A \<^verbatim>\<open>DateTime<Utc>\<close> is its number of
  nanoseconds since the Unix epoch. Strings are ASCII. Mail given to the spawned sender task is
  appended to \<open>outbox\<close>; log output is dropped.
\<close>

subsection \<open>Data\<close>

record VerifiedSession =
  vs_player_id :: string
  vs_jti :: string

datatype AuthError = InvalidToken | MissingJti | MissingSub | SessionExpired
  | RateLimitExceeded string

fun show_auth_error :: "AuthError \<Rightarrow> string" where
  "show_auth_error InvalidToken = ''Invalid session token''"
| "show_auth_error MissingJti = ''Session missing jti claim''"
| "show_auth_error MissingSub = ''Session missing sub claim''"
| "show_auth_error SessionExpired = ''Session revoked or expired''"
| "show_auth_error (RateLimitExceeded m) = ''Authentication rate limit exceeded: '' @ m"

fun auth_error_status :: "AuthError \<Rightarrow> Status" where
  "auth_error_status (RateLimitExceeded msg) = mk_status ResourceExhausted msg"
| "auth_error_status err = mk_status Unauthenticated (show_auth_error err)"

text \<open>JSON values and claim sets.\<close>

datatype Value = VNull | VBool bool | VNumber int | VString string
  | VArray "Value list" | VObject "(string \<times> Value) list"

type_synonym Claims = "(string \<times> Value) list"

fun as_str :: "Value \<Rightarrow> string option" where
  "as_str (VString s) = Some s"
| "as_str _ = None"

definition claim_str :: "Claims \<Rightarrow> string \<Rightarrow> string option" where
  "claim_str c k = Option.bind (map_of c k) as_str"

type_synonym datetime = int

definition timestamp :: "datetime \<Rightarrow> int" where
  "timestamp t = t div 1000000000"

definition timestamp_millis :: "datetime \<Rightarrow> int" where
  "timestamp_millis t = t div 1000000"

definition minutes :: "int \<Rightarrow> int" where
  "minutes m = m * 60 * 1000000000"

definition hours :: "int \<Rightarrow> int" where
  "hours h = minutes (h * 60)"

record OtpRecord =
  otp_email :: string
  code_hash :: bytes
  google_nonce :: "string option"
  expires_at :: datetime
  attempts :: u8

text \<open>The library calls of the service. \<open>paseto_build\<close> takes the key, the claims, and the
  builder's own clock reading and nonce; \<open>paseto_parse\<close> the key, the token and the parser's
  clock reading.\<close>

record auth_lib =
  paseto_build :: "string \<Rightarrow> Claims \<Rightarrow> datetime \<times> nat \<Rightarrow> string + string"
  paseto_parse :: "string \<Rightarrow> string \<Rightarrow> datetime \<Rightarrow> Claims option"
  blake2b :: "string \<Rightarrow> bytes"
  sha256 :: "string \<Rightarrow> bytes"
  ulid_string :: "128 word \<Rightarrow> string"
  to_rfc3339 :: "datetime \<Rightarrow> string"
  base64 :: "bytes \<Rightarrow> string"
  hex :: "bytes \<Rightarrow> string"

text \<open>\<^verbatim>\<open>google.rs\<close>: the parser and the claim verifier of the OpenID Connect client.\<close>

record GoogleOidcClient =
  id_token_error :: "string \<Rightarrow> string option"
  id_token_subject :: "string \<Rightarrow> string \<Rightarrow> string + string"

definition verify_token :: "GoogleOidcClient \<Rightarrow> string \<Rightarrow> string \<Rightarrow> Status + string" where
  "verify_token g id_token nonce =
     (case id_token_error g id_token of
        Some e \<Rightarrow> Inl (mk_status Unauthenticated (''Malformed ID token: '' @ e))
      | None \<Rightarrow>
          (case id_token_subject g id_token nonce of
             Inl e \<Rightarrow> Inl (mk_status Unauthenticated (''Invalid ID token claims: '' @ e))
           | Inr subject \<Rightarrow> Inr subject))"

record mail =
  mail_to :: string
  mail_subject :: string
  mail_text :: string
  mail_html :: string

record AuthServiceImpl =
  otp_store :: "string \<rightharpoonup> OtpRecord"
  session_activity :: "string \<rightharpoonup> int"
  player_registry :: "string \<rightharpoonup> unit"
  google_client :: "GoogleOidcClient option"
  session_key :: string
  transport_key :: string
  rate_limiter :: InMemoryRateLimiter
  bypass_enabled :: bool
  outbox :: "mail list"

subsection \<open>Strings\<close>

definition is_whitespace :: "char \<Rightarrow> bool" where
  "is_whitespace c \<longleftrightarrow> of_char c \<in> {9 :: nat, 10, 11, 12, 13, 32}"

definition trim :: "string \<Rightarrow> string" where
  "trim s = rev (dropWhile is_whitespace (rev (dropWhile is_whitespace s)))"

definition char_to_lower :: "char \<Rightarrow> char" where
  "char_to_lower c = (if 65 \<le> (of_char c :: nat) \<and> of_char c \<le> (90 :: nat)
                      then char_of (of_char c + 32 :: nat) else c)"

definition to_lowercase :: "string \<Rightarrow> string" where
  "to_lowercase s = map char_to_lower s"

text \<open>\<^verbatim>\<open>trim_start_matches\<close> removes the prefix as often as it occurs.\<close>

function trim_start_bearer :: "string \<Rightarrow> string" where
  "trim_start_bearer s =
     (if take 7 s = ''Bearer '' then trim_start_bearer (drop 7 s) else s)"
  by auto
termination
proof (relation "measure length")
  fix s :: string
  assume "take 7 s = ''Bearer ''"
  then have "s \<noteq> []" by auto
  then show "(drop 7 s, s) \<in> measure length" by simp
qed simp

declare trim_start_bearer.simps [simp del]

definition starts_with :: "string \<Rightarrow> string \<Rightarrow> bool" where
  "starts_with p s \<longleftrightarrow> take (length p) s = p"

text \<open>\<^verbatim>\<open>format!("{:06}", n)\<close> for a number below one million.\<close>

definition format06 :: "nat \<Rightarrow> string" where
  "format06 n = map (\<lambda>d. char_of (48 + n div d mod 10)) [100000, 10000, 1000, 100, 10, 1]"

definition u128_from_be_bytes :: "bytes \<Rightarrow> 128 word" where
  "u128_from_be_bytes bs = fold (\<lambda>b acc. acc * 256 + ucast b) bs 0"

subsection \<open>Construction\<close>

definition dev_key :: string where
  "dev_key = ''01234567890123456789012345678901''"

text \<open>\<open>None\<close> is a failed assertion; \<open>g\<close> is the outcome of the OpenID discovery.\<close>

definition new_auth :: "(string \<rightharpoonup> string) \<Rightarrow> GoogleOidcClient option \<Rightarrow> AuthServiceImpl option" where
  "new_auth vars g =
     (let env = (case vars ''AETHERIS_ENV'' of Some e \<Rightarrow> e | None \<Rightarrow> ''dev'');
          session = vars ''SESSION_PASETO_KEY'';
          transport = vars ''TRANSPORT_PASETO_KEY'';
          bypass = (case vars ''AETHERIS_AUTH_BYPASS'' of
                      Some v \<Rightarrow> to_lowercase v \<in> {''1'', ''true'', ''yes'', ''on''}
                    | None \<Rightarrow> False)
      in if env = ''production'' \<and> bypass then None
         else if env = ''production'' \<and> (session = None \<or> transport = None) then None
         else
           let session_val = (case session of Some k \<Rightarrow> k | None \<Rightarrow> dev_key);
               transport_val = (case transport of Some k \<Rightarrow> k | None \<Rightarrow> dev_key)
           in if length session_val \<noteq> 32 \<or> length transport_val \<noteq> 32 then None
              else Some
                \<lparr>otp_store = Map.empty, session_activity = Map.empty, player_registry = Map.empty,
                 google_client = g, session_key = session_val, transport_key = transport_val,
                 rate_limiter = new_limiter, bypass_enabled = bypass, outbox = []\<rparr>)"

definition normalize_email :: "string \<Rightarrow> string" where
  "normalize_email email = to_lowercase (trim email)"

definition derive_player_id :: "auth_lib \<Rightarrow> string \<Rightarrow> string \<Rightarrow> string" where
  "derive_player_id L mth identifier =
     ulid_string L (u128_from_be_bytes
       (take 16 (sha256 L (''aetheris:'' @ mth @ '':'' @ identifier))))"

subsection \<open>Sessions\<close>

definition jitter :: "string \<Rightarrow> u64" where
  "jitter jti = fold (\<lambda>c acc. acc + of_char c) jti 0"

definition needs_update :: "string \<Rightarrow> u64 option \<Rightarrow> bool" where
  "needs_update jti tick = (case tick of None \<Rightarrow> True | Some t \<Rightarrow> (t + jitter jti) mod 60 = 0)"

definition is_session_authorized_with_tick ::
  "AuthServiceImpl \<Rightarrow> string \<Rightarrow> u64 option \<Rightarrow> datetime \<Rightarrow> bool \<times> AuthServiceImpl" where
  "is_session_authorized_with_tick st jti tick now =
     (case session_activity st jti of
        None \<Rightarrow> (False, st)
      | Some activity \<Rightarrow>
          if timestamp now - activity > 3600 then (False, st)
          else if needs_update jti tick
          then (True, st\<lparr>session_activity := (session_activity st)(jti \<mapsto> timestamp now)\<rparr>)
          else (True, st))"

text \<open>\<open>ulid\<close> is the fresh identifier, \<open>seed\<close> the builder's own draw.\<close>

definition mint_session_token ::
  "auth_lib \<Rightarrow> AuthServiceImpl \<Rightarrow> string \<Rightarrow> string option \<Rightarrow> string \<Rightarrow> datetime \<times> nat \<Rightarrow> datetime \<Rightarrow>
     (Status + string \<times> u64) \<times> AuthServiceImpl" where
  "mint_session_token L st player_id jti_opt ulid seed now =
     (let jti = (case jti_opt of Some j \<Rightarrow> j | None \<Rightarrow> ulid);
          exp = now + hours 24
      in case paseto_build L (session_key st)
                [(''sub'', VString player_id), (''jti'', VString jti),
                 (''iat'', VString (to_rfc3339 L now)), (''exp'', VString (to_rfc3339 L exp))] seed of
           Inl e \<Rightarrow> (Inl (mk_status Internal e), st)
         | Inr token \<Rightarrow>
             (Inr (token, word_of_int (timestamp_millis exp)),
              st\<lparr>session_activity := (session_activity st)(jti \<mapsto> timestamp now)\<rparr>))"

text \<open>\<open>now\<close> is the parser's clock reading, \<open>now'\<close> the one of the activity check.\<close>

definition verify_session ::
  "auth_lib \<Rightarrow> AuthServiceImpl \<Rightarrow> string \<Rightarrow> u64 option \<Rightarrow> datetime \<Rightarrow> datetime \<Rightarrow>
     (AuthError + VerifiedSession) \<times> AuthServiceImpl" where
  "verify_session L st token tick now now' =
     (case paseto_parse L (session_key st) token now of
        None \<Rightarrow> (Inl InvalidToken, st)
      | Some claims \<Rightarrow>
          (case claim_str claims ''jti'' of
             None \<Rightarrow> (Inl MissingJti, st)
           | Some jti \<Rightarrow>
               (case claim_str claims ''sub'' of
                  None \<Rightarrow> (Inl MissingSub, st)
                | Some sub \<Rightarrow>
                    (case is_session_authorized_with_tick st jti tick now' of
                       (True, st') \<Rightarrow> (Inr \<lparr>vs_player_id = sub, vs_jti = jti\<rparr>, st')
                     | (False, st') \<Rightarrow> (Inl SessionExpired, st')))))"

definition is_authorized ::
  "auth_lib \<Rightarrow> AuthServiceImpl \<Rightarrow> string \<Rightarrow> datetime \<Rightarrow> datetime \<Rightarrow> bool \<times> AuthServiceImpl" where
  "is_authorized L st token now now' =
     (case verify_session L st token None now now' of (r, st') \<Rightarrow> (case r of Inr _ \<Rightarrow> True | Inl _ \<Rightarrow> False, st'))"
subsection \<open>One-time passwords and logins\<close>

record OtpRequestAck =
  ack_request_id :: string
  ack_expires_at_unix_ms :: u64
  ack_retry_after_seconds :: "u32 option"

text \<open>What \<^verbatim>\<open>request_otp\<close> draws: the clock readings of the two limiter checks, the six-digit
  code, the request id and the wall clock.\<close>

record otp_draw =
  od_ip_now :: instant
  od_email_now :: instant
  od_code :: nat
  od_ulid :: string
  od_utc :: datetime

definition ip_limit ::
  "AuthServiceImpl \<Rightarrow> string option \<Rightarrow> instant \<Rightarrow> (Status + unit) \<times> InMemoryRateLimiter" where
  "ip_limit st remote_ip now =
     (case remote_ip of
        Some ip \<Rightarrow> if bypass_enabled st then (Inr (), rate_limiter st)
                   else check_limit (rate_limiter st) Ip ip now
      | None \<Rightarrow> (Inr (), rate_limiter st))"

definition email_limit ::
  "AuthServiceImpl \<Rightarrow> string \<Rightarrow> instant \<Rightarrow> (Status + unit) \<times> InMemoryRateLimiter" where
  "email_limit st email now =
     (if bypass_enabled st then (Inr (), rate_limiter st)
      else check_limit (rate_limiter st) Email email now)"

definition issue_otp ::
  "auth_lib \<Rightarrow> AuthServiceImpl \<Rightarrow> string \<Rightarrow> otp_draw \<Rightarrow> OtpRequestAck \<times> AuthServiceImpl" where
  "issue_otp L st email d =
     (let otp = format06 (od_code d);
          request_id = od_ulid d;
          expires = od_utc d + minutes 10
      in (\<lparr>ack_request_id = request_id,
           ack_expires_at_unix_ms = word_of_int (timestamp_millis expires),
           ack_retry_after_seconds = Some 0\<rparr>,
          st\<lparr>otp_store := (otp_store st)(request_id \<mapsto>
               \<lparr>otp_email = email, code_hash = blake2b L (otp @ request_id), google_nonce = None,
                expires_at = expires, attempts = 0\<rparr>),
             outbox := outbox st @
               [\<lparr>mail_to = email, mail_subject = ''Your Aetheris OTP'',
                 mail_text = ''Code: '' @ otp, mail_html = ''<h1>Code: '' @ otp @ ''</h1>''\<rparr>]\<rparr>))"

definition request_otp ::
  "auth_lib \<Rightarrow> AuthServiceImpl \<Rightarrow> string option \<Rightarrow> string \<Rightarrow> otp_draw \<Rightarrow>
     (Status + OtpRequestAck) \<times> AuthServiceImpl" where
  "request_otp L st remote_ip req_email d =
     (case ip_limit st remote_ip (od_ip_now d) of
        (Inl e, rl) \<Rightarrow> (Inl e, st\<lparr>rate_limiter := rl\<rparr>)
      | (Inr _, rl) \<Rightarrow>
          let st = st\<lparr>rate_limiter := rl\<rparr>; email = normalize_email req_email
          in case email_limit st email (od_email_now d) of
               (Inl e, rl) \<Rightarrow> (Inl e, st\<lparr>rate_limiter := rl\<rparr>)
             | (Inr _, rl) \<Rightarrow>
                 (case issue_otp L (st\<lparr>rate_limiter := rl\<rparr>) email d of
                    (ack, st') \<Rightarrow> (Inr ack, st')))"

datatype LoginMethod = EmailOtp | GoogleOidc

record LoginResponse =
  lr_session_token :: string
  lr_expires_at_unix_ms :: u64
  lr_player_id :: string
  lr_is_new_player :: bool
  lr_login_method :: LoginMethod

datatype Method = OtpLogin string string | GoogleLogin string string

text \<open>What a login draws: the expiry check's clock reading, and the reading, the ULID and the
  seed of the minted token.\<close>

record login_draw =
  ld_utc :: datetime
  ld_mint :: datetime
  ld_ulid :: string
  ld_seed :: "datetime \<times> nat"

text \<open>Registration of the player and minting of the token, shared by the login paths.\<close>

definition login_player ::
  "auth_lib \<Rightarrow> AuthServiceImpl \<Rightarrow> string \<Rightarrow> string option \<Rightarrow> LoginMethod \<Rightarrow> login_draw \<Rightarrow>
     (Status + LoginResponse) \<times> AuthServiceImpl" where
  "login_player L st player_id jti_opt mth d =
     (let is_new = (player_registry st player_id = None);
          st = st\<lparr>player_registry := (player_registry st)(player_id \<mapsto> ())\<rparr>
      in case mint_session_token L st player_id jti_opt (ld_ulid d) (ld_seed d) (ld_mint d) of
           (Inl e, st') \<Rightarrow> (Inl e, st')
         | (Inr (token, exp_ms), st') \<Rightarrow>
             (Inr \<lparr>lr_session_token = token, lr_expires_at_unix_ms = exp_ms, lr_player_id = player_id,
                   lr_is_new_player = is_new, lr_login_method = mth\<rparr>, st'))"

definition otp_remove :: "AuthServiceImpl \<Rightarrow> string \<Rightarrow> AuthServiceImpl" where
  "otp_remove st request_id = st\<lparr>otp_store := (otp_store st)(request_id := None)\<rparr>"

definition fail_attempt ::
  "AuthServiceImpl \<Rightarrow> string \<Rightarrow> OtpRecord \<Rightarrow> string \<Rightarrow>
     (Status + LoginResponse) \<times> AuthServiceImpl \<times> bool" where
  "fail_attempt st request_id entry msg =
     (let entry = entry\<lparr>attempts := attempts entry + 1\<rparr>
      in (Inl (mk_status Unauthenticated msg),
          st\<lparr>otp_store := (otp_store st)(request_id \<mapsto> entry)\<rparr>, attempts entry \<ge> 3))"

definition bypass_email :: "AuthServiceImpl \<Rightarrow> string \<Rightarrow> bool" where
  "bypass_email st email \<longleftrightarrow>
     bypass_enabled st \<and> (email = ''smoke-test@aetheris.dev'' \<or> starts_with ''bot_'' email)"

text \<open>
  The part of an OTP login that runs while the guard on the store entry is held. The last
  component says whether the entry is removed once the guard has been dropped.
\<close>

definition login_otp_locked ::
  "auth_lib \<Rightarrow> AuthServiceImpl \<Rightarrow> string \<Rightarrow> string \<Rightarrow> login_draw \<Rightarrow>
     (Status + LoginResponse) \<times> AuthServiceImpl \<times> bool" where
  "login_otp_locked L st request_id otp_code d =
     (case otp_store st request_id of
        None \<Rightarrow> (Inl (mk_status Unauthenticated ''Invalid credentials''), st, False)
      | Some entry \<Rightarrow>
          let succeed = (\<lambda>jti_opt.
                case login_player L st (derive_player_id L ''email'' (otp_email entry))
                       jti_opt EmailOtp d of
                  (Inl e, st') \<Rightarrow> (Inl e, st', False)
                | (Inr r, st') \<Rightarrow> (Inr r, st', True))
          in if bypass_email st (otp_email entry) \<and> otp_code = ''000001''
             then succeed (Some ''admin'')
             else if bypass_email st (otp_email entry) \<and> otp_code = ''000000''
             then fail_attempt st request_id entry ''Bypass: Forced failure for 000000''
             else if ld_utc d > expires_at entry
             then (Inl (mk_status DeadlineExceeded ''OTP expired''), st, True)
             else if blake2b L (otp_code @ request_id) = code_hash entry
             then succeed None
             else fail_attempt st request_id entry ''Invalid code'')"

definition login_otp ::
  "auth_lib \<Rightarrow> AuthServiceImpl \<Rightarrow> string \<Rightarrow> string \<Rightarrow> login_draw \<Rightarrow>
     (Status + LoginResponse) \<times> AuthServiceImpl" where
  "login_otp L st request_id otp_code d =
     (case login_otp_locked L st request_id otp_code d of
        (r, st', remove) \<Rightarrow> (r, if remove then otp_remove st' request_id else st'))"

definition login_google ::
  "auth_lib \<Rightarrow> AuthServiceImpl \<Rightarrow> string \<Rightarrow> string \<Rightarrow> login_draw \<Rightarrow>
     (Status + LoginResponse) \<times> AuthServiceImpl" where
  "login_google L st nonce_handle id_token d =
     (case google_client st of
        None \<Rightarrow> (Inl (mk_status Internal ''Google OIDC not configured''), st)
      | Some g \<Rightarrow>
          (case Option.bind (otp_store st nonce_handle) google_nonce of
             None \<Rightarrow> (Inl (mk_status Unauthenticated ''Invalid nonce_handle''), st)
           | Some nonce \<Rightarrow>
               (case verify_token g id_token nonce of
                  Inl e \<Rightarrow> (Inl e, st)
                | Inr subject \<Rightarrow>
                    login_player L (otp_remove st nonce_handle)
                      (derive_player_id L ''google'' subject) None GoogleOidc d)))"

definition login ::
  "auth_lib \<Rightarrow> AuthServiceImpl \<Rightarrow> Method option \<Rightarrow> login_draw \<Rightarrow>
     (Status + LoginResponse) \<times> AuthServiceImpl" where
  "login L st mth d =
     (case mth of
        None \<Rightarrow> (Inl (mk_status InvalidArgument ''Missing login method''), st)
      | Some (OtpLogin request_id otp_code) \<Rightarrow> login_otp L st request_id otp_code d
      | Some (GoogleLogin nonce_handle id_token) \<Rightarrow> login_google L st nonce_handle id_token d)"

subsection \<open>Logout, refresh, connect tokens, nonces\<close>

definition logout ::
  "auth_lib \<Rightarrow> AuthServiceImpl \<Rightarrow> string option \<Rightarrow> string \<Rightarrow> datetime \<Rightarrow> bool \<times> AuthServiceImpl" where
  "logout L st authorization body_token now =
     (let token_str = (case authorization of
                         Some s \<Rightarrow> Some (trim_start_bearer s)
                       | None \<Rightarrow> if body_token = '''' then None else Some body_token);
          jti_to_revoke =
            do { token \<leftarrow> token_str;
                 claims \<leftarrow> paseto_parse L (session_key st) token now;
                 claim_str claims ''jti'' }
      in (True, case jti_to_revoke of
                  Some jti \<Rightarrow> st\<lparr>session_activity := (session_activity st)(jti := None)\<rparr>
                | None \<Rightarrow> st))"

text \<open>\<open>now\<close> is the parser's clock reading; the activity check reads \<open>ld_utc\<close>.\<close>

definition refresh_token ::
  "auth_lib \<Rightarrow> AuthServiceImpl \<Rightarrow> string \<Rightarrow> datetime \<Rightarrow> login_draw \<Rightarrow>
     (Status + string \<times> u64) \<times> AuthServiceImpl" where
  "refresh_token L st token now d =
     (case paseto_parse L (session_key st) token now of
        None \<Rightarrow> (Inl (mk_status Unauthenticated ''Invalid session token''), st)
      | Some claims \<Rightarrow>
          (case claim_str claims ''jti'' of
             None \<Rightarrow> (Inl (mk_status Unauthenticated ''Token missing jti''), st)
           | Some jti \<Rightarrow>
               (case claim_str claims ''sub'' of
                  None \<Rightarrow> (Inl (mk_status Unauthenticated ''Token missing sub''), st)
                | Some sub \<Rightarrow>
                    (case is_session_authorized_with_tick st jti None (ld_utc d) of
                       (False, st') \<Rightarrow>
                         (Inl (mk_status Unauthenticated ''Session revoked or expired''), st')
                     | (True, st') \<Rightarrow>
                         mint_session_token L
                           (st'\<lparr>session_activity := (session_activity st')(jti := None)\<rparr>) sub
                           (if jti = ''admin'' then Some ''admin'' else None)
                           (ld_ulid d) (ld_seed d) (ld_mint d)))))"

record QuicConnectToken =
  qt_paseto :: string
  qt_server_address :: string
  qt_expires_at_unix_ms :: u64
  qt_client_id :: u64

definition issue_connect_token ::
  "auth_lib \<Rightarrow> AuthServiceImpl \<Rightarrow> string \<Rightarrow> u64 \<Rightarrow> bytes \<Rightarrow> datetime \<times> nat \<Rightarrow> datetime \<Rightarrow>
     Status + QuicConnectToken" where
  "issue_connect_token L st server_address client_id nonce seed now =
     (let server_nonce = base64 L nonce; exp = now + minutes 5
      in case paseto_build L (transport_key st)
                [(''client_id'', VNumber (uint client_id)), (''server'', VString server_address),
                 (''server_nonce'', VString server_nonce),
                 (''iat'', VString (to_rfc3339 L now)), (''exp'', VString (to_rfc3339 L exp))] seed of
           Inl e \<Rightarrow> Inl (mk_status Internal e)
         | Inr token \<Rightarrow>
             Inr \<lparr>qt_paseto = token, qt_server_address = server_address,
                  qt_expires_at_unix_ms = word_of_int (timestamp_millis exp),
                  qt_client_id = client_id\<rparr>)"

record GoogleLoginNonceResponse =
  gn_nonce_handle :: string
  gn_nonce :: string
  gn_expires_at_unix_ms :: u64

definition create_google_login_nonce ::
  "auth_lib \<Rightarrow> AuthServiceImpl \<Rightarrow> bytes \<Rightarrow> string \<Rightarrow> datetime \<Rightarrow>
     GoogleLoginNonceResponse \<times> AuthServiceImpl" where
  "create_google_login_nonce L st nonce_bytes ulid now =
     (let nonce = hex L nonce_bytes; expires = now + minutes 10
      in (\<lparr>gn_nonce_handle = ulid, gn_nonce = nonce,
           gn_expires_at_unix_ms = word_of_int (timestamp_millis expires)\<rparr>,
          st\<lparr>otp_store := (otp_store st)(ulid \<mapsto>
               \<lparr>otp_email = '''', code_hash = [], google_nonce = Some nonce,
                expires_at = expires, attempts = 0\<rparr>)\<rparr>))"

subsection \<open>Runs of the service\<close>

datatype Op =
    RequestOtp "string option" string otp_draw
  | Login "Method option" login_draw
  | Logout "string option" string datetime
  | Refresh string datetime login_draw
  | CreateNonce bytes string datetime
  | Verify string "u64 option" datetime datetime

text \<open>One call of a handler: the state it leaves.\<close>

fun exec_op :: "auth_lib \<Rightarrow> Op \<Rightarrow> AuthServiceImpl \<Rightarrow> AuthServiceImpl" where
  "exec_op L (RequestOtp ip email d) st = snd (request_otp L st ip email d)"
| "exec_op L (Login mth d) st = snd (login L st mth d)"
| "exec_op L (Logout hdr body now) st = snd (logout L st hdr body now)"
| "exec_op L (Refresh tok now d) st = snd (refresh_token L st tok now d)"
| "exec_op L (CreateNonce n ulid now) st = snd (create_google_login_nonce L st n ulid now)"
| "exec_op L (Verify tok tick now now') st = snd (verify_session L st tok tick now now')"

text \<open>The identifier a call draws for a new session or a new store entry.\<close>

fun session_ulid :: "Op \<Rightarrow> string option" where
  "session_ulid (Login _ d) = Some (ld_ulid d)"
| "session_ulid (Refresh _ _ d) = Some (ld_ulid d)"
| "session_ulid _ = None"

fun store_ulid :: "Op \<Rightarrow> string option" where
  "store_ulid (RequestOtp _ _ d) = Some (od_ulid d)"
| "store_ulid (CreateNonce _ ulid _) = Some ulid"
| "store_ulid _ = None"

end
