(* ===== verification/Auth_Props.thy ===== *)
theory Auth_Props
  imports Auth
begin

text \<open>
  Properties of the authentication service: how long a polled session lives, revocation by
  logout and refresh, the attempt budget and the single use of a one-time password, the rate of
  issued passwords, production settings, and the round trip from a login to a verified session.
\<close>

text \<open>A service with the development keys and nothing stored, for the witnesses.\<close>

definition sample_auth :: AuthServiceImpl where
  "sample_auth =
     \<lparr>otp_store = Map.empty, session_activity = Map.empty, player_registry = Map.empty,
      google_client = None, session_key = dev_key, transport_key = dev_key,
      rate_limiter = new_limiter, bypass_enabled = False, outbox = []\<rparr>"

subsection \<open>Session activity\<close>

lemmas session_defs = is_session_authorized_with_tick_def needs_update_def

text \<open>A client's session polled with a list of ticks and clock readings.\<close>

fun poll_session ::
  "AuthServiceImpl \<Rightarrow> string \<Rightarrow> (u64 option \<times> datetime) list \<Rightarrow> bool list \<times> AuthServiceImpl" where
  "poll_session st jti [] = ([], st)"
| "poll_session st jti ((tick, now) # ps) =
     (case is_session_authorized_with_tick st jti tick now of
        (ok, st') \<Rightarrow> (case poll_session st' jti ps of (oks, st'') \<Rightarrow> (ok # oks, st'')))"

lemma poll_session_snoc:
  "poll_session st jti (ps @ [(tick, now)]) =
     (case poll_session st jti ps of (oks, st') \<Rightarrow>
        (case is_session_authorized_with_tick st' jti tick now of (ok, st'') \<Rightarrow> (oks @ [ok], st'')))"
  by (induction ps arbitrary: st) (auto split: prod.splits)

lemma needs_update_unat:
  assumes "unat t0 + unat (jitter jti) + i < 2 ^ 64"
  shows "needs_update jti (Some (t0 + of_nat i)) \<longleftrightarrow> (unat t0 + unat (jitter jti) + i) mod 60 = 0"
proof -
  have "unat (t0 + of_nat i + jitter jti) = unat t0 + unat (jitter jti) + i"
  proof -
    have "t0 + of_nat i + jitter jti = of_nat (unat t0 + unat (jitter jti) + i)" by simp
    then have "unat (t0 + of_nat i + jitter jti) = (unat t0 + unat (jitter jti) + i) mod 2 ^ 64"
      by (simp only: unat_of_nat) simp
    with assms show ?thesis by simp
  qed
  then show ?thesis
    by (simp add: needs_update_def word_unat_eq_iff unat_mod)
qed

lemma refresh_in_60: "\<exists>j<60. (c + j) mod 60 = (0::nat)"
proof -
  define q r where "q = c div 60" and "r = c mod 60"
  then have c: "c = 60 * q + r" "r < 60" by simp_all
  then have "c + (60 - r) = 60 * (q + 1)" by simp
  then have "(c + (60 - r)) mod 60 = 0" by (metis mod_mult_self1_is_0)
  with c show ?thesis
    by (cases "r = 0") (auto intro: exI [of _ 0] exI [of _ "60 - r"])
qed

text \<open>After \<open>n\<close> polls the stored activity is at least that of every refreshing poll so far.\<close>

lemma poll_prefix:
  assumes "session_activity st jti = Some a" and "sorted (a # map timestamp ts)"
    and "unat t0 + unat (jitter jti) + length ts < 2 ^ 64"
    and gap: "\<And>i. i < length ts \<Longrightarrow>
      timestamp (ts ! i) - (if i < 60 then a else timestamp (ts ! (i - 60))) \<le> 3600"
    and "n \<le> length ts"
  shows "\<exists>st' v. poll_session st jti (map (\<lambda>i. (Some (t0 + of_nat i), ts ! i)) [0..<n]) =
            (replicate n True, st') \<and> session_activity st' jti = Some v \<and> a \<le> v \<and>
          (\<forall>j<n. (unat t0 + unat (jitter jti) + j) mod 60 = 0 \<longrightarrow> timestamp (ts ! j) \<le> v)"
  using assms(5)
proof (induction n)
  case 0
  then show ?case using assms(1) by simp
next
  case (Suc n)
  let ?c = "unat t0 + unat (jitter jti)"
  from Suc obtain st' v where IH:
    "poll_session st jti (map (\<lambda>i. (Some (t0 + of_nat i), ts ! i)) [0..<n]) = (replicate n True, st')"
    "session_activity st' jti = Some v" "a \<le> v"
    "\<And>j. j < n \<Longrightarrow> (?c + j) mod 60 = 0 \<Longrightarrow> timestamp (ts ! j) \<le> v"
    by auto
  have mono: "timestamp (ts ! i) \<le> timestamp (ts ! j)" if "i \<le> j" "j < length ts" for i j
    using assms(2) that sorted_nth_mono [of "map timestamp ts" i j] by simp
  have a_le: "a \<le> timestamp (ts ! n)" using assms(2) Suc.prems by simp
  have "timestamp (ts ! n) - v \<le> 3600"
  proof (cases "n < 60")
    case True
    with gap [of n] Suc.prems IH(3) show ?thesis by simp
  next
    case False
    from refresh_in_60 [of "?c + (n - 60)"] obtain j where
      j: "j < 60" "(?c + (n - 60 + j)) mod 60 = 0" by (auto simp: ac_simps)
    have "timestamp (ts ! (n - 60)) \<le> timestamp (ts ! (n - 60 + j))"
      using False j Suc.prems by (intro mono) auto
    also have "\<dots> \<le> v" using False j by (intro IH(4)) auto
    finally show ?thesis using gap [of n] False Suc.prems by simp
  qed
  moreover have "needs_update jti (Some (t0 + of_nat n)) \<longleftrightarrow> (?c + n) mod 60 = 0"
    using assms(3) Suc.prems by (intro needs_update_unat) simp
  ultimately show ?case
    using IH a_le mono Suc.prems
    by (auto simp: poll_session_snoc is_session_authorized_with_tick_def less_Suc_eq
        replicate_append_same)
qed

text \<open>
  C5. A session that the server polls on every tick stays authorised: the coalesced update, once
  per sixty ticks and staggered by the session id, is frequent enough whenever no sixty-tick
  stretch of the clock readings is longer than the idle timeout of an hour.
\<close>

theorem session_kept_alive:
  assumes "session_activity st jti = Some a" and "sorted (a # map timestamp ts)"
    and "unat t0 + unat (jitter jti) + length ts < 2 ^ 64"
    and "\<And>i. i < length ts \<Longrightarrow>
      timestamp (ts ! i) - (if i < 60 then a else timestamp (ts ! (i - 60))) \<le> 3600"
  shows "fst (poll_session st jti (map (\<lambda>i. (Some (t0 + of_nat i), ts ! i)) [0..<length ts])) =
           replicate (length ts) True"
  using poll_prefix [OF assms order_refl] by auto

theorem session_kept_alive_witness:
  "fst (poll_session (sample_auth\<lparr>session_activity := [''j'' \<mapsto> 0]\<rparr>) ''j''
      (map (\<lambda>i. (Some (7 + of_nat i), [3600 * 10 ^ 9, 3600 * 10 ^ 9] ! i))
         [0..<length [3600 * 10 ^ 9, 3600 * 10 ^ 9 :: int]])) = [True, True]"
proof -
  have "jitter ''j'' = 106" by (simp add: jitter_def)
  then show ?thesis
    by (subst session_kept_alive [where a = 0])
      (auto simp: timestamp_def less_Suc_eq)
qed

subsection \<open>What the handlers leave alone\<close>

lemma is_session_authorized_frame [frame_simps]:
  "otp_store (snd (is_session_authorized_with_tick st j t now)) = otp_store st"
  "rate_limiter (snd (is_session_authorized_with_tick st j t now)) = rate_limiter st"
  "session_key (snd (is_session_authorized_with_tick st j t now)) = session_key st"
  "bypass_enabled (snd (is_session_authorized_with_tick st j t now)) = bypass_enabled st"
  by (auto simp: is_session_authorized_with_tick_def split: option.split)

lemma mint_frame [frame_simps]:
  "otp_store (snd (mint_session_token L st p jo u sd now)) = otp_store st"
  "rate_limiter (snd (mint_session_token L st p jo u sd now)) = rate_limiter st"
  "session_key (snd (mint_session_token L st p jo u sd now)) = session_key st"
  "bypass_enabled (snd (mint_session_token L st p jo u sd now)) = bypass_enabled st"
  by (auto simp: mint_session_token_def Let_def split: sum.split)

lemma login_player_frame [frame_simps]:
  "otp_store (snd (login_player L st p jo m d)) = otp_store st"
  "rate_limiter (snd (login_player L st p jo m d)) = rate_limiter st"
  "session_key (snd (login_player L st p jo m d)) = session_key st"
  "bypass_enabled (snd (login_player L st p jo m d)) = bypass_enabled st"
  using mint_frame [of L "st\<lparr>player_registry := (player_registry st)(p \<mapsto> ())\<rparr>" p jo "ld_ulid d"
      "ld_seed d" "ld_mint d"]
  by (auto simp: login_player_def Let_def split: prod.split sum.split)

lemma verify_session_state:
  "snd (verify_session L st tok tick now now') = st \<or>
   (\<exists>j. snd (verify_session L st tok tick now now') =
        snd (is_session_authorized_with_tick st j tick now'))"
  by (auto simp: verify_session_def split: option.split prod.split bool.split) (metis snd_conv)+

text \<open>The four ways the locked part of an OTP login ends.\<close>

definition otp_failure :: "string \<Rightarrow> bool" where
  "otp_failure msg \<longleftrightarrow> msg \<in> {''Invalid code'', ''Bypass: Forced failure for 000000''}"

definition otp_success ::
  "auth_lib \<Rightarrow> AuthServiceImpl \<Rightarrow> OtpRecord \<Rightarrow> string option \<Rightarrow> login_draw \<Rightarrow>
     (Status + LoginResponse) \<times> AuthServiceImpl \<times> bool" where
  "otp_success L st entry jti_opt d =
     (let r = login_player L st (derive_player_id L ''email'' (otp_email entry)) jti_opt EmailOtp d
      in (fst r, snd r, case fst r of Inr _ \<Rightarrow> True | Inl _ \<Rightarrow> False))"

lemma login_otp_locked_cases:
  obtains (missing) "otp_store st r = None"
      "login_otp_locked L st r c d =
         (Inl (mk_status Unauthenticated ''Invalid credentials''), st, False)"
  | (failed) entry msg where "otp_store st r = Some entry" "otp_failure msg"
      "login_otp_locked L st r c d = fail_attempt st r entry msg"
  | (expired) entry where "otp_store st r = Some entry" "expires_at entry < ld_utc d"
      "login_otp_locked L st r c d =
         (Inl (mk_status DeadlineExceeded ''OTP expired''), st, True)"
  | (success) entry where "otp_store st r = Some entry"
      "ld_utc d \<le> expires_at entry" "blake2b L (c @ r) = code_hash entry"
      "login_otp_locked L st r c d = otp_success L st entry None d"
  | (bypass) entry where "otp_store st r = Some entry"
      "bypass_email st (otp_email entry)" "c = ''000001''"
      "login_otp_locked L st r c d = otp_success L st entry (Some ''admin'') d"
proof (cases "otp_store st r")
  case None
  then show ?thesis by (intro missing) (simp_all add: login_otp_locked_def)
next
  case (Some entry)
  have succ: "(case login_player L st p jo EmailOtp d of
                  (Inl e, st') \<Rightarrow> (Inl e, st', False) | (Inr r, st') \<Rightarrow> (Inr r, st', True)) =
              (let r = login_player L st p jo EmailOtp d
               in (fst r, snd r, case fst r of Inr _ \<Rightarrow> True | Inl _ \<Rightarrow> False))" for p jo
    by (simp add: Let_def split: prod.split sum.split)
  show ?thesis
  proof (cases "bypass_email st (otp_email entry) \<and> (c = ''000001'' \<or> c = ''000000'')")
    case True
    then show ?thesis
      using Some bypass failed [of entry "''Bypass: Forced failure for 000000''"]
      by (auto simp: login_otp_locked_def Let_def otp_success_def succ otp_failure_def)
  next
    case False
    then show ?thesis
      using Some expired success failed [of entry "''Invalid code''"]
      by (cases "ld_utc d > expires_at entry"; cases "blake2b L (c @ r) = code_hash entry")
        (auto simp: login_otp_locked_def Let_def otp_success_def succ otp_failure_def)
  qed
qed

lemma login_otp_locked_frame [frame_simps]:
  "rate_limiter (fst (snd (login_otp_locked L st r c d))) = rate_limiter st"
  "session_key (fst (snd (login_otp_locked L st r c d))) = session_key st"
  "bypass_enabled (fst (snd (login_otp_locked L st r c d))) = bypass_enabled st"
  by (cases rule: login_otp_locked_cases [of st r L c d];
      simp add: fail_attempt_def otp_success_def Let_def frame_simps)+

lemma snd_login_otp:
  "snd (login_otp L st r c d) =
     (let x = login_otp_locked L st r c d
      in if snd (snd x) then otp_remove (fst (snd x)) r else fst (snd x))"
  "fst (login_otp L st r c d) = fst (login_otp_locked L st r c d)"
  by (simp_all add: login_otp_def Let_def split: prod.split)

lemma otp_remove_frame [frame_simps]:
  "rate_limiter (otp_remove st r) = rate_limiter st"
  "session_key (otp_remove st r) = session_key st"
  "bypass_enabled (otp_remove st r) = bypass_enabled st"
  "session_activity (otp_remove st r) = session_activity st"
  "otp_store (otp_remove st r) = (otp_store st)(r := None)"
  by (simp_all add: otp_remove_def)

lemma login_google_cases:
  obtains (rejected) e where "login_google L st h t d = (Inl e, st)"
  | (verified) p nonce where "Option.bind (otp_store st h) google_nonce = Some nonce"
      "login_google L st h t d = login_player L (otp_remove st h) p None GoogleOidc d"
proof -
  have "(\<exists>e. login_google L st h t d = (Inl e, st)) \<or>
    (\<exists>p nonce. Option.bind (otp_store st h) google_nonce = Some nonce \<and>
      login_google L st h t d = login_player L (otp_remove st h) p None GoogleOidc d)"
    by (auto simp: login_google_def split: option.split sum.split)
  then show ?thesis using that by blast
qed

lemma login_google_frame [frame_simps]:
  "rate_limiter (snd (login_google L st h t d)) = rate_limiter st"
  "session_key (snd (login_google L st h t d)) = session_key st"
  "bypass_enabled (snd (login_google L st h t d)) = bypass_enabled st"
  by (cases rule: login_google_cases [of L st h t d]; simp add: frame_simps)+

lemma login_frame [frame_simps]:
  "rate_limiter (snd (login L st m d)) = rate_limiter st"
  "session_key (snd (login L st m d)) = session_key st"
  "bypass_enabled (snd (login L st m d)) = bypass_enabled st"
  by (simp_all add: login_def snd_login_otp Let_def frame_simps split: option.split Method.split)

lemma refresh_cases:
  obtains (rejected) e where "refresh_token L st tok now d = (Inl e, st)"
  | (refreshed) c j sub where "paseto_parse L (session_key st) tok now = Some c"
      "claim_str c ''jti'' = Some j" "claim_str c ''sub'' = Some sub"
      "fst (is_session_authorized_with_tick st j None (ld_utc d))"
      "refresh_token L st tok now d =
         mint_session_token L (st\<lparr>session_activity := (session_activity st)(j := None)\<rparr>) sub
           (if j = ''admin'' then Some ''admin'' else None) (ld_ulid d) (ld_seed d) (ld_mint d)"
proof (cases "paseto_parse L (session_key st) tok now")
  case None
  then show ?thesis by (intro rejected) (simp add: refresh_token_def)
next
  case (Some c)
  show ?thesis
  proof (cases "claim_str c ''jti'' = None \<or> claim_str c ''sub'' = None")
    case True
    then show ?thesis using Some
      by (cases "claim_str c ''jti''") (auto simp: refresh_token_def intro: rejected)
  next
    case False
    then obtain j sub where js: "claim_str c ''jti'' = Some j" "claim_str c ''sub'' = Some sub"
      by auto
    show ?thesis
    proof (cases "fst (is_session_authorized_with_tick st j None (ld_utc d))")
      case True
      then show ?thesis using Some js
        by (intro refreshed [of c j sub])
          (auto simp: refresh_token_def is_session_authorized_with_tick_def needs_update_def
            split: option.splits if_splits)
    next
      case False
      then show ?thesis using Some js
        by (intro rejected)
          (auto simp: refresh_token_def is_session_authorized_with_tick_def needs_update_def
            split: option.splits if_splits)
    qed
  qed
qed

lemma request_otp_cases:
  obtains (ip_limited) e rl where "ip_limit st ip (od_ip_now d) = (Inl e, rl)"
      "request_otp L st ip em d = (Inl e, st\<lparr>rate_limiter := rl\<rparr>)"
  | (email_limited) rl e rl' where "ip_limit st ip (od_ip_now d) = (Inr (), rl)"
      "email_limit (st\<lparr>rate_limiter := rl\<rparr>) (normalize_email em) (od_email_now d) = (Inl e, rl')"
      "request_otp L st ip em d = (Inl e, st\<lparr>rate_limiter := rl'\<rparr>)"
  | (issued) rl rl' ack st' where "ip_limit st ip (od_ip_now d) = (Inr (), rl)"
      "email_limit (st\<lparr>rate_limiter := rl\<rparr>) (normalize_email em) (od_email_now d) = (Inr (), rl')"
      "issue_otp L (st\<lparr>rate_limiter := rl'\<rparr>) (normalize_email em) d = (ack, st')"
      "request_otp L st ip em d = (Inr ack, st')"
proof -
  obtain x rl where ip: "ip_limit st ip (od_ip_now d) = (x, rl)" by fastforce
  obtain y rl' where em: "email_limit (st\<lparr>rate_limiter := rl\<rparr>) (normalize_email em)
      (od_email_now d) = (y, rl')" by fastforce
  obtain ack st' where iss: "issue_otp L (st\<lparr>rate_limiter := rl'\<rparr>) (normalize_email em) d = (ack, st')"
    by fastforce
  show ?thesis
  proof (cases x)
    case (Inl e)
    with ip show ?thesis by (intro ip_limited [of e rl]) (simp_all add: request_otp_def)
  next
    case x: (Inr u)
    show ?thesis
    proof (cases y)
      case (Inl e)
      with ip em x show ?thesis
        by (intro email_limited [of rl e rl']) (simp_all add: request_otp_def Let_def)
    next
      case (Inr v)
      with ip em iss x show ?thesis
        by (intro issued [of rl rl' ack st']) (simp_all add: request_otp_def Let_def)
    qed
  qed
qed

lemma issue_otp_state:
  assumes "issue_otp L st e d = (ack, st')"
  shows "session_activity st' = session_activity st" "rate_limiter st' = rate_limiter st"
    "session_key st' = session_key st" "bypass_enabled st' = bypass_enabled st"
    "r \<noteq> od_ulid d \<Longrightarrow> otp_store st' r = otp_store st r"
    "otp_store st' (od_ulid d) =
       Some \<lparr>otp_email = e, code_hash = blake2b L (format06 (od_code d) @ od_ulid d),
             google_nonce = None, expires_at = od_utc d + minutes 10, attempts = 0\<rparr>"
  using assms by (auto simp: issue_otp_def Let_def)

text \<open>Every handler keeps the keys and the bypass setting.\<close>

lemma exec_op_frame [frame_simps]:
  "session_key (exec_op L op st) = session_key st"
  "bypass_enabled (exec_op L op st) = bypass_enabled st"
proof -
  have "session_key (exec_op L op st) = session_key st \<and>
        bypass_enabled (exec_op L op st) = bypass_enabled st"
  proof (cases op)
    case (RequestOtp ip em d)
    then show ?thesis
      by (cases rule: request_otp_cases [of st ip d L em]) (simp_all add: issue_otp_state)
  next
    case (Login m d)
    then show ?thesis by (simp add: frame_simps)
  next
    case (Refresh tok now d)
    then show ?thesis
      by (cases rule: refresh_cases [of L st tok now d]) (simp_all add: frame_simps)
  next
    case (Verify tok tick now now')
    then show ?thesis
      using verify_session_state [of L st tok tick now now'] by (auto simp: frame_simps)
  qed (auto simp: logout_def create_google_login_nonce_def Let_def split: option.split)
  then show "session_key (exec_op L op st) = session_key st"
    "bypass_enabled (exec_op L op st) = bypass_enabled st" by auto
qed

subsection \<open>Revocation\<close>

definition session_dead :: "string \<Rightarrow> AuthServiceImpl \<Rightarrow> bool" where
  "session_dead j st \<longleftrightarrow> session_activity st j = None"

lemma session_dead_authorize:
  "session_dead j st \<Longrightarrow> session_dead j (snd (is_session_authorized_with_tick st k tick now))"
  by (auto simp: session_dead_def is_session_authorized_with_tick_def split: option.split)

lemma session_dead_otp_remove [simp]: "session_dead j (otp_remove st r) = session_dead j st"
  by (simp add: session_dead_def frame_simps)

lemma session_dead_revoke [intro]:
  "session_dead j st \<Longrightarrow> session_dead j (st\<lparr>session_activity := (session_activity st)(k := None)\<rparr>)"
  by (simp add: session_dead_def)

lemma session_dead_mint:
  assumes "session_dead j st" and "(case jo of Some k \<Rightarrow> k | None \<Rightarrow> u) \<noteq> j"
  shows "session_dead j (snd (mint_session_token L st p jo u sd now))"
  using assms by (auto simp: session_dead_def mint_session_token_def Let_def split: sum.split)

lemma session_dead_login_player:
  assumes "session_dead j st" and "(case jo of Some k \<Rightarrow> k | None \<Rightarrow> ld_ulid d) \<noteq> j"
  shows "session_dead j (snd (login_player L st p jo m d))"
proof -
  have "session_dead j (st\<lparr>player_registry := (player_registry st)(p \<mapsto> ())\<rparr>)"
    using assms(1) by (simp add: session_dead_def)
  from session_dead_mint [OF this assms(2)] show ?thesis
    by (simp add: login_player_def Let_def split: prod.split sum.split) (metis snd_conv)
qed

lemma session_dead_login_otp:
  assumes "session_dead j st" and "ld_ulid d \<noteq> j" and "j \<noteq> ''admin''"
  shows "session_dead j (snd (login_otp L st r c d))"
proof -
  have "session_dead j (fst (snd (login_otp_locked L st r c d)))"
    using assms by (cases rule: login_otp_locked_cases [of st r L c d])
      (auto simp: fail_attempt_def otp_success_def Let_def session_dead_login_player, auto simp: session_dead_def)
  then show ?thesis
    by (simp add: snd_login_otp Let_def session_dead_def frame_simps)
qed

lemma session_dead_exec_op:
  assumes "session_dead j st" and "j \<noteq> ''admin''" and "session_ulid op \<noteq> Some j"
  shows "session_dead j (exec_op L op st)"
proof (cases op)
  case (RequestOtp ip em d)
  then show ?thesis using assms(1)
    by (cases rule: request_otp_cases [of st ip d L em])
      (simp_all add: session_dead_def issue_otp_state)
next
  case (Login m d)
  have "session_dead j (snd (login_google L st h t d))" for h t
    using assms Login
    by (cases rule: login_google_cases [of L st h t d])
      (auto intro!: session_dead_login_player)
  with Login assms show ?thesis
    by (auto simp: login_def session_dead_login_otp split: option.split Method.split)
next
  case (Refresh tok now d)
  show ?thesis
  proof (cases rule: refresh_cases [of L st tok now d])
    case (refreshed c k sub)
    with Refresh assms show ?thesis
      by (auto intro!: session_dead_mint)
  qed (use Refresh assms in simp)
next
  case (Verify tok tick now now')
  then show ?thesis
    using verify_session_state [of L st tok tick now now'] assms(1)
    by (auto simp: session_dead_authorize)
qed (use assms in \<open>auto simp: session_dead_def logout_def create_google_login_nonce_def Let_def
      split: option.split\<close>)

lemma session_dead_run:
  assumes "session_dead j st" and "j \<noteq> ''admin''" and "\<forall>op \<in> set ops. session_ulid op \<noteq> Some j"
  shows "session_dead j (fold (exec_op L) ops st)"
  using assms
  by (intro fold_invariant_set [where P = "session_dead j"]) (simp_all add: session_dead_exec_op)

lemma run_session_key [simp]: "session_key (fold (exec_op L) ops st) = session_key st"
  by (induction ops arbitrary: st) (simp_all add: frame_simps)

lemma run_bypass [simp]: "bypass_enabled (fold (exec_op L) ops st) = bypass_enabled st"
  by (induction ops arbitrary: st) (simp_all add: frame_simps)

lemma verify_dead:
  assumes "session_dead j st" and "paseto_parse L (session_key st) tok t = Some c"
    and "claim_str c ''jti'' = Some j" and "claim_str c ''sub'' = Some sub"
  shows "verify_session L st tok tick t t' = (Inl SessionExpired, st)"
  using assms by (simp add: verify_session_def session_dead_def is_session_authorized_with_tick_def)


subsection \<open>The PASETO library\<close>

text \<open>
  What the service relies on: a token parses, from the moment it was built until it expires,
  under the key it was built with, to claims that contain those it was built from (the builder
  adds a not-before claim of its own).
\<close>

definition paseto_ok :: "auth_lib \<Rightarrow> bool" where
  "paseto_ok L \<longleftrightarrow>
     (\<forall>key c seed tok t e. paseto_build L key c seed = Inr tok \<longrightarrow>
        map_of c ''exp'' = Some (VString (to_rfc3339 L e)) \<longrightarrow> fst seed \<le> t \<longrightarrow> t < e \<longrightarrow>
        (\<exists>c'. paseto_parse L key tok t = Some c' \<and> map_of c \<subseteq>\<^sub>m map_of c'))"

lemma mint_ok:
  assumes "paseto_ok L" and "mint_session_token L st p jo u sd now = (Inr (tok, ms), st')"
    and "fst sd \<le> t" and "t < now + hours 24"
  shows "\<exists>c. paseto_parse L (session_key st) tok t = Some c \<and>
           claim_str c ''jti'' = Some (case jo of Some j \<Rightarrow> j | None \<Rightarrow> u) \<and>
           claim_str c ''sub'' = Some p"
    and "session_activity st' =
      (session_activity st)((case jo of Some j \<Rightarrow> j | None \<Rightarrow> u) \<mapsto> timestamp now)"
    and "session_key st' = session_key st"
proof -
  let ?j = "case jo of Some j \<Rightarrow> j | None \<Rightarrow> u"
  let ?c = "[(''sub'', VString p), (''jti'', VString ?j),
     (''iat'', VString (to_rfc3339 L now)), (''exp'', VString (to_rfc3339 L (now + hours 24)))]"
  have b: "paseto_build L (session_key st) ?c sd = Inr tok"
    using assms(2) by (simp add: mint_session_token_def Let_def split: sum.splits)
  have e: "map_of ?c ''exp'' = Some (VString (to_rfc3339 L (now + hours 24)))" by simp
  from b e assms(1,3,4) obtain c' where c':
    "paseto_parse L (session_key st) tok t = Some c'" "map_of ?c \<subseteq>\<^sub>m map_of c'"
    unfolding paseto_ok_def by blast
  have "map_of c' k = map_of ?c k" if "k \<in> {''jti'', ''sub''}" for k
    using c'(2) that by (auto simp: map_le_def dom_def)
  with c' show "\<exists>c. paseto_parse L (session_key st) tok t = Some c \<and>
      claim_str c ''jti'' = Some ?j \<and> claim_str c ''sub'' = Some p"
    by (intro exI [of _ c']) (simp add: claim_str_def)
  show "session_activity st' = (session_activity st)(?j \<mapsto> timestamp now)"
    "session_key st' = session_key st"
    using assms(2) by (auto simp: mint_session_token_def Let_def split: sum.splits)
qed

lemma verify_active:
  assumes "paseto_parse L (session_key st) tok t = Some c"
    and "claim_str c ''jti'' = Some j" and "claim_str c ''sub'' = Some sub"
    and "session_activity st j = Some a" and "timestamp t' - a \<le> 3600"
  shows "fst (verify_session L st tok tick t t') = Inr \<lparr>vs_player_id = sub, vs_jti = j\<rparr>"
  using assms by (simp add: verify_session_def is_session_authorized_with_tick_def)

lemma mint_verify:
  assumes "paseto_ok L" and "mint_session_token L st p jo u sd now = (Inr (tok, ms), st')"
    and "fst sd \<le> t" and "t < now + hours 24" and "timestamp t' - timestamp now \<le> 3600"
  shows "fst (verify_session L st' tok tick t t') =
           Inr \<lparr>vs_player_id = p, vs_jti = (case jo of Some j \<Rightarrow> j | None \<Rightarrow> u)\<rparr>"
proof -
  note m = mint_ok [OF assms(1-4)]
  from m(1) obtain c where "paseto_parse L (session_key st) tok t = Some c"
    "claim_str c ''jti'' = Some (case jo of Some j \<Rightarrow> j | None \<Rightarrow> u)" "claim_str c ''sub'' = Some p"
    by blast
  then show ?thesis using assms(5) m(2,3) by (intro verify_active [of _ _ _ _ c]) auto
qed

lemma verify_otp_remove:
  "fst (verify_session L (otp_remove st r) tok tick t t') = fst (verify_session L st tok tick t t')"
  by (simp add: verify_session_def frame_simps is_session_authorized_with_tick_def
      split: option.split)

lemma login_player_mint:
  assumes "login_player L st p jo m d = (Inr resp, st')"
  shows "lr_player_id resp = p" "lr_login_method resp = m"
    "mint_session_token L (st\<lparr>player_registry := (player_registry st)(p \<mapsto> ())\<rparr>) p jo
       (ld_ulid d) (ld_seed d) (ld_mint d) = (Inr (lr_session_token resp, lr_expires_at_unix_ms resp), st')"
    "lr_is_new_player resp = (player_registry st p = None)"
  using assms by (auto simp: login_player_def Let_def split: prod.splits sum.splits)

subsection \<open>From login to a verified session\<close>

text \<open>The identity a login stands for: the stored address, or the verified Google subject.\<close>

definition login_identity :: "auth_lib \<Rightarrow> AuthServiceImpl \<Rightarrow> Method \<Rightarrow> string \<Rightarrow> bool" where
  "login_identity L st mth player \<longleftrightarrow>
     (case mth of
        OtpLogin r c \<Rightarrow> (case otp_store st r of
                           Some e \<Rightarrow> player = derive_player_id L ''email'' (otp_email e)
                         | None \<Rightarrow> False)
      | GoogleLogin h t \<Rightarrow>
          (case (google_client st, Option.bind (otp_store st h) google_nonce) of
             (Some g, Some n) \<Rightarrow>
               (case verify_token g t n of
                  Inr sub \<Rightarrow> player = derive_player_id L ''google'' sub
                | Inl _ \<Rightarrow> False)
           | _ \<Rightarrow> False))"

lemma login_otp_success:
  assumes "login_otp_locked L st r c d = otp_success L st entry jo d"
    and "login_otp L st r c d = (Inr resp, st')"
  shows "\<exists>st1. login_player L st (derive_player_id L ''email'' (otp_email entry)) jo EmailOtp d =
           (Inr resp, st1) \<and> st' = otp_remove st1 r"
  using assms
  by (cases "login_player L st (derive_player_id L ''email'' (otp_email entry)) jo EmailOtp d")
    (auto simp: login_otp_def otp_success_def Let_def)

lemma login_ok_cases:
  assumes "login L st (Some mth) d = (Inr resp, st')"
  obtains (otp) r c entry st1 where "mth = OtpLogin r c" "otp_store st r = Some entry"
      "blake2b L (c @ r) = code_hash entry" "ld_utc d \<le> expires_at entry"
      "login_player L st (derive_player_id L ''email'' (otp_email entry)) None EmailOtp d = (Inr resp, st1)"
      "st' = otp_remove st1 r"
  | (bypass) r c entry st1 where "mth = OtpLogin r c" "otp_store st r = Some entry"
      "bypass_email st (otp_email entry)"
      "login_player L st (derive_player_id L ''email'' (otp_email entry)) (Some ''admin'') EmailOtp d =
         (Inr resp, st1)"
      "st' = otp_remove st1 r"
  | (google) h t g n sub where "mth = GoogleLogin h t" "google_client st = Some g"
      "Option.bind (otp_store st h) google_nonce = Some n" "verify_token g t n = Inr sub"
      "login_player L (otp_remove st h) (derive_player_id L ''google'' sub) None GoogleOidc d = (Inr resp, st')"
proof (cases mth)
  case m: (OtpLogin r c)
  then have l: "login_otp L st r c d = (Inr resp, st')" using assms by (simp add: login_def)
  show ?thesis
  proof (cases rule: login_otp_locked_cases [of st r L c d])
    case (success entry)
    with login_otp_success [OF success(4) l] m show ?thesis by (auto intro: otp)
  next
    case (bypass entry)
    with login_otp_success [OF bypass(4) l] m show ?thesis by (auto intro: that(2))
  qed (use l in \<open>auto simp: login_otp_def fail_attempt_def Let_def\<close>)
next
  case m: (GoogleLogin h t)
  with assms show ?thesis
    by (auto simp: login_def login_google_def split: option.splits sum.splits intro: google)
qed

text \<open>A concrete token library: a token is a string whose length encodes the key, the claims and
  the builder's clock reading.\<close>

instance Value :: countable
  by countable_datatype

definition enc :: "'a::countable \<Rightarrow> string" where
  "enc x = CHR ''t'' # replicate (to_nat x) CHR ''x''"

definition dec :: "string \<Rightarrow> 'a::countable" where
  "dec s = from_nat (length s - 1)"

lemma dec_enc [simp]: "dec (enc x) = x"
  by (simp add: dec_def enc_def)

lemma enc_nonempty [simp]: "enc x \<noteq> []"
  by (simp add: enc_def)

definition sample_lib :: auth_lib where
  "sample_lib =
     \<lparr>paseto_build = (\<lambda>key c seed. Inr (enc (key, c, fst seed))),
      paseto_parse = (\<lambda>key tok t.
        (case dec tok of (k, c, b) \<Rightarrow>
           if k = key \<and> b \<le> t \<and>
              (case claim_str c ''exp'' of Some e \<Rightarrow> t < dec e | None \<Rightarrow> True)
           then Some c else None)),
      blake2b = map of_char, sha256 = map of_char, ulid_string = (\<lambda>w. ''p''),
      to_rfc3339 = enc, base64 = (\<lambda>b. ''b''), hex = (\<lambda>b. ''h'')\<rparr>"

lemma sample_lib_simps [simp]:
  "paseto_build sample_lib key c seed = Inr (enc (key, c, fst seed))"
  "paseto_parse sample_lib key (enc (k, c, b)) t =
     (if k = key \<and> b \<le> t \<and> (case claim_str c ''exp'' of Some e \<Rightarrow> t < dec e | None \<Rightarrow> True)
      then Some c else None)"
  "blake2b sample_lib = map of_char" "to_rfc3339 sample_lib = enc"
  "derive_player_id sample_lib m i = ''p''"
  by (simp_all add: sample_lib_def derive_player_id_def)

lemma sample_lib_ok: "paseto_ok sample_lib"
  by (auto simp: paseto_ok_def claim_str_def)

text \<open>
  C1. The round trip from login to session. The token of a successful login verifies, for the
  hour after it, as the player the login was for: the player derived from the stored e-mail
  address or from the verified Google subject. With the bypass off its session is the fresh one
  of this login.
\<close>

theorem login_then_verify:
  assumes "paseto_ok L" and "login L st (Some mth) d = (Inr resp, st')"
    and "fst (ld_seed d) \<le> t" and "t < ld_mint d + hours 24"
    and "timestamp t' - timestamp (ld_mint d) \<le> 3600"
  shows "\<exists>j. fst (verify_session L st' (lr_session_token resp) tick t t') =
             Inr \<lparr>vs_player_id = lr_player_id resp, vs_jti = j\<rparr> \<and>
           login_identity L st mth (lr_player_id resp) \<and>
           (\<not> bypass_enabled st \<longrightarrow> j = ld_ulid d)"
  using assms(2)
proof (cases rule: login_ok_cases)
  case (otp r c entry st1)
  note m = login_player_mint [OF otp(5)]
  show ?thesis
    using mint_verify [OF assms(1) m(3) assms(3-5)] m(1) otp
    by (auto simp: login_identity_def verify_otp_remove)
next
  case (bypass r c entry st1)
  note m = login_player_mint [OF bypass(4)]
  show ?thesis
    using mint_verify [OF assms(1) m(3) assms(3-5)] m(1) bypass
    by (auto simp: login_identity_def verify_otp_remove bypass_email_def)
next
  case (google h tk g n sub)
  note m = login_player_mint [OF google(5)]
  show ?thesis
    using mint_verify [OF assms(1) m(3) assms(3-5)] m(1) google
    by (auto simp: login_identity_def)
qed

text \<open>A stored password \<open>000042\<close> for the witnesses.\<close>

definition sample_otp :: OtpRecord where
  "sample_otp = \<lparr>otp_email = ''a@b'', code_hash = map of_char ''000042r'', google_nonce = None,
                 expires_at = 600, attempts = 0\<rparr>"

definition sample_draw :: login_draw where
  "sample_draw = \<lparr>ld_utc = 5, ld_mint = 5, ld_ulid = ''u'', ld_seed = (5, 0)\<rparr>"

lemmas sample_defs = sample_auth_def sample_otp_def sample_draw_def

theorem login_then_verify_witness:
  "\<exists>resp st'. login sample_lib (sample_auth\<lparr>otp_store := [''r'' \<mapsto> sample_otp]\<rparr>)
      (Some (OtpLogin ''r'' ''000042'')) sample_draw = (Inr resp, st') \<and>
    fst (verify_session sample_lib st' (lr_session_token resp) None 9 9) =
      Inr \<lparr>vs_player_id = ''p'', vs_jti = ''u''\<rparr>"
proof -
  let ?st = "sample_auth\<lparr>otp_store := [''r'' \<mapsto> sample_otp]\<rparr>"
  have ok: "\<exists>resp st'. login sample_lib ?st (Some (OtpLogin ''r'' ''000042'')) sample_draw =
      (Inr resp, st')"
    by (simp add: sample_defs login_def login_otp_def login_otp_locked_def bypass_email_def
        login_player_def mint_session_token_def Let_def)
  then obtain resp st' where l:
    "login sample_lib ?st (Some (OtpLogin ''r'' ''000042'')) sample_draw = (Inr resp, st')" by blast
  have "fst (ld_seed sample_draw) \<le> 9" "9 < ld_mint sample_draw + hours 24"
    "timestamp 9 - timestamp (ld_mint sample_draw) \<le> 3600"
    by (simp_all add: sample_draw_def hours_def minutes_def timestamp_def)
  from login_then_verify [OF sample_lib_ok l this, of None] l show ?thesis
    by (auto simp: login_identity_def sample_auth_def sample_draw_def)
qed

definition sample_claims :: "string \<Rightarrow> Claims" where
  "sample_claims j = [(''sub'', VString ''p''), (''jti'', VString j)]"

lemma claim_str_sample [simp]:
  "claim_str (sample_claims j) ''jti'' = Some j" "claim_str (sample_claims j) ''sub'' = Some ''p''"
  "claim_str (sample_claims j) ''exp'' = None"
  by (simp_all add: claim_str_def sample_claims_def)




subsection \<open>The attempt budget of a one-time password\<close>

text \<open>What one OTP login answers and does to the store.\<close>

lemma login_otp_effect:
  obtains (missing) "otp_store st r = None"
      "fst (login_otp L st r c d) = Inl (mk_status Unauthenticated ''Invalid credentials'')"
      "otp_store (snd (login_otp L st r c d)) = otp_store st"
  | (failed) e msg where "otp_store st r = Some e" "otp_failure msg"
      "fst (login_otp L st r c d) = Inl (mk_status Unauthenticated msg)"
      "otp_store (snd (login_otp L st r c d)) =
         (otp_store st)(r := if attempts e + 1 \<ge> 3 then None else Some (e\<lparr>attempts := attempts e + 1\<rparr>))"
  | (expired) e where "otp_store st r = Some e"
      "fst (login_otp L st r c d) = Inl (mk_status DeadlineExceeded ''OTP expired'')"
      "otp_store (snd (login_otp L st r c d)) = (otp_store st)(r := None)"
  | (mint_error) e msg where "otp_store st r = Some e"
      "fst (login_otp L st r c d) = Inl (mk_status Internal msg)"
      "otp_store (snd (login_otp L st r c d)) = otp_store st"
  | (success) e resp where "otp_store st r = Some e" "fst (login_otp L st r c d) = Inr resp"
      "otp_store (snd (login_otp L st r c d)) = (otp_store st)(r := None)"
proof -
  have minted: thesis if "otp_store st r = Some e"
    "login_otp_locked L st r c d = otp_success L st e jo d" for e jo
  proof -
    let ?p = "login_player L st (derive_player_id L ''email'' (otp_email e)) jo EmailOtp d"
    have store: "otp_store (snd ?p) = otp_store st" by (simp add: frame_simps)
    show thesis
    proof (cases "fst ?p")
      case (Inl s)
      then obtain m where "s = mk_status Internal m"
        by (auto simp: login_player_def mint_session_token_def Let_def split: sum.splits prod.splits)
      with Inl that store show thesis
        by (intro mint_error [of e m]) (simp_all add: snd_login_otp otp_success_def Let_def)
    next
      case (Inr resp)
      with that store show thesis
        by (intro success [of e resp]) (simp_all add: snd_login_otp otp_success_def Let_def frame_simps)
    qed
  qed
  show thesis
  proof (cases rule: login_otp_locked_cases [of st r L c d])
    case missing
    then show thesis by (intro that(1)) (simp_all add: snd_login_otp)
  next
    case (failed e msg)
    then show thesis
      by (intro that(2) [of e msg]) (simp_all add: snd_login_otp fail_attempt_def Let_def frame_simps)
  next
    case (expired e)
    then show thesis by (intro that(3) [of e]) (simp_all add: snd_login_otp frame_simps)
  qed (auto intro: minted)
qed

definition otp_wf :: "AuthServiceImpl \<Rightarrow> bool" where
  "otp_wf st \<longleftrightarrow> (\<forall>r e. otp_store st r = Some e \<longrightarrow> unat (attempts e) < 3)"

definition otp_budget :: "string \<Rightarrow> AuthServiceImpl \<Rightarrow> nat" where
  "otp_budget r st = (case otp_store st r of None \<Rightarrow> 0 | Some e \<Rightarrow> 3 - unat (attempts e))"

lemma unat_attempts_Suc: "unat (a :: u8) < 3 \<Longrightarrow> unat (a + 1) = Suc (unat a)"
  using unat_Suc_below [of a 3] by simp

lemma otp_wf_login_otp: "otp_wf st \<Longrightarrow> otp_wf (snd (login_otp L st r c d))"
  by (cases rule: login_otp_effect [of st r L c d])
    (auto simp: otp_wf_def unat_attempts_Suc word_le_nat_alt)

lemma login_google_store:
  "otp_store (snd (login_google L st h t d)) r = otp_store st r \<or>
   otp_store (snd (login_google L st h t d)) r = None"
  by (cases rule: login_google_cases [of L st h t d]) (auto simp: frame_simps)

lemma exec_op_store:
  assumes "\<And>r c d. op \<noteq> Login (Some (OtpLogin r c)) d"
  shows "otp_store (exec_op L op st) r = otp_store st r \<or> otp_store (exec_op L op st) r = None \<or>
         store_ulid op = Some r \<and> (\<exists>e. otp_store (exec_op L op st) r = Some e \<and> attempts e = 0)"
proof (cases op)
  case (RequestOtp ip em d)
  show ?thesis
    by (cases rule: request_otp_cases [of st ip d L em];
        cases "r = od_ulid d") (simp_all add: RequestOtp issue_otp_state)
next
  case (Login m d)
  then show ?thesis
    using assms login_google_store [of L st _ _ d r]
    by (auto simp: login_def split: option.split Method.split)
next
  case (Refresh tok now d)
  then show ?thesis
    by (cases rule: refresh_cases [of L st tok now d]) (simp_all add: frame_simps)
next
  case (Verify tok tick now now')
  then show ?thesis
    using verify_session_state [of L st tok tick now now'] by (auto simp: frame_simps)
qed (auto simp: logout_def create_google_login_nonce_def Let_def split: option.split)

lemma otp_wf_exec_op: "otp_wf st \<Longrightarrow> otp_wf (exec_op L op st)"
proof (cases "\<exists>r c d. op = Login (Some (OtpLogin r c)) d")
  case True
  then show "otp_wf st \<Longrightarrow> ?thesis" by (auto simp: login_def otp_wf_login_otp)
next
  case False
  assume wf: "otp_wf st"
  have "unat (attempts e) < 3" if "otp_store (exec_op L op st) r = Some e" for r e
    using exec_op_store [of op L st r] False wf that by (auto simp: otp_wf_def)
  then show ?thesis by (simp add: otp_wf_def)
qed

lemma otp_wf_run: "otp_wf st \<Longrightarrow> otp_wf (fold (exec_op L) ops st)"
  by (rule fold_invariant_set [where P = otp_wf]) (auto intro: otp_wf_exec_op)

text \<open>The answers to the OTP logins for one request id in a run.\<close>

fun otp_answer :: "auth_lib \<Rightarrow> string \<Rightarrow> AuthServiceImpl \<Rightarrow> Op \<Rightarrow> (Status + LoginResponse) list" where
  "otp_answer L r st (Login (Some (OtpLogin r' c)) d) =
     (if r' = r then [fst (login L st (Some (OtpLogin r' c)) d)] else [])"
| "otp_answer L r st op = []"

fun otp_answers ::
  "auth_lib \<Rightarrow> string \<Rightarrow> AuthServiceImpl \<Rightarrow> Op list \<Rightarrow> (Status + LoginResponse) list" where
  "otp_answers L r st [] = []"
| "otp_answers L r st (op # ops) = otp_answer L r st op @ otp_answers L r (exec_op L op st) ops"

text \<open>An answer that tells the caller whether the code was right.\<close>

definition otp_guess :: "Status + LoginResponse \<Rightarrow> bool" where
  "otp_guess a = (case a of Inr _ \<Rightarrow> True | Inl s \<Rightarrow> code s = Unauthenticated \<and> otp_failure (message s))"

lemma otp_answer_Nil:
  "(\<And>c d. op \<noteq> Login (Some (OtpLogin r c)) d) \<Longrightarrow> otp_answer L r st op = []"
  by (cases "(L, r, st, op)" rule: otp_answer.cases) auto

lemma otp_budget_step:
  assumes "otp_wf st" and "store_ulid op \<noteq> Some r"
  shows "length (filter otp_guess (otp_answer L r st op)) + otp_budget r (exec_op L op st)
           \<le> otp_budget r st"
proof (cases "\<exists>r' c d. op = Login (Some (OtpLogin r' c)) d")
  case True
  then obtain r' c d where op: "op = Login (Some (OtpLogin r' c)) d" by blast
  have lt: "unat (attempts e) < 3" if "otp_store st r = Some e" for e
    using assms(1) that by (simp add: otp_wf_def)
  show ?thesis
    by (cases rule: login_otp_effect [of st r' L c d]; cases "r' = r")
      (auto simp: op login_def otp_budget_def otp_guess_def unat_attempts_Suc otp_failure_def
        dest: lt split: option.split)
next
  case False
  with exec_op_store [of op L st r] assms(2) show ?thesis
    by (auto simp: otp_answer_Nil otp_budget_def)
qed

lemma otp_guesses_bounded:
  assumes "otp_wf st" and "\<forall>op \<in> set ops. store_ulid op \<noteq> Some r"
  shows "length (filter otp_guess (otp_answers L r st ops)) \<le> otp_budget r st"
  using assms
proof (induction ops arbitrary: st)
  case (Cons op ops)
  then have "length (filter otp_guess (otp_answers L r (exec_op L op st) ops)) \<le>
      otp_budget r (exec_op L op st)"
    by (simp add: otp_wf_exec_op)
  with otp_budget_step [of st op r L] Cons.prems show ?case by simp
qed simp

lemma otp_gone_step:
  assumes "otp_store st r = None" and "store_ulid op \<noteq> Some r"
  shows "set (otp_answer L r st op) \<subseteq> {Inl (mk_status Unauthenticated ''Invalid credentials'')}"
    and "otp_store (exec_op L op st) r = None"
proof -
  have "set (otp_answer L r st op) \<subseteq> {Inl (mk_status Unauthenticated ''Invalid credentials'')} \<and>
    otp_store (exec_op L op st) r = None"
  proof (cases "\<exists>r' c d. op = Login (Some (OtpLogin r' c)) d")
    case True
    then obtain r' c d where op: "op = Login (Some (OtpLogin r' c)) d" by blast
    show ?thesis
      using assms(1)
      by (cases rule: login_otp_effect [of st r' L c d]; cases "r' = r") (auto simp: op login_def)
  next
    case False
    with exec_op_store [of op L st r] assms show ?thesis by (auto simp: otp_answer_Nil)
  qed
  then show "set (otp_answer L r st op) \<subseteq> {Inl (mk_status Unauthenticated ''Invalid credentials'')}"
    "otp_store (exec_op L op st) r = None" by auto
qed

lemma otp_gone:
  assumes "otp_store st r = None" and "\<forall>op \<in> set ops. store_ulid op \<noteq> Some r"
  shows "set (otp_answers L r st ops) \<subseteq> {Inl (mk_status Unauthenticated ''Invalid credentials'')}"
  using assms
proof (induction ops arbitrary: st)
  case (Cons op ops)
  with otp_gone_step [of st r op L] Cons.IH [of "exec_op L op st"] show ?case by simp
qed simp

lemma otp_answer_success:
  assumes "Inr resp \<in> set (otp_answer L r st op)"
  shows "length (otp_answer L r st op) = 1" "otp_store (exec_op L op st) r = None"
proof -
  from assms obtain c d where op: "op = Login (Some (OtpLogin r c)) d"
    by (cases "(L, r, st, op)" rule: otp_answer.cases) (auto split: if_splits)
  with assms show "length (otp_answer L r st op) = 1" by simp
  show "otp_store (exec_op L op st) r = None"
    by (cases rule: login_otp_effect [of st r L c d]) (use assms op in \<open>auto simp: login_def\<close>)
qed

lemma otp_after_success:
  assumes "otp_answers L r st ops = xs @ Inr resp # ys"
    and "\<forall>op \<in> set ops. store_ulid op \<noteq> Some r"
  shows "set ys \<subseteq> {Inl (mk_status Unauthenticated ''Invalid credentials'')}"
  using assms
proof (induction ops arbitrary: st xs)
  case (Cons op ops)
  show ?case
  proof (cases "Inr resp \<in> set (otp_answer L r st op)")
    case True
    note s = otp_answer_success [OF True]
    then obtain a where a: "otp_answer L r st op = [a]" by (auto simp: length_Suc_conv)
    have gone: "set (otp_answers L r (exec_op L op st) ops) \<subseteq>
        {Inl (mk_status Unauthenticated ''Invalid credentials'')}"
      using s(2) Cons.prems(2) by (intro otp_gone) auto
    then show ?thesis using Cons.prems(1) a by (cases xs) auto
  next
    case False
    then obtain xs' where "otp_answers L r (exec_op L op st) ops = xs' @ Inr resp # ys"
      using Cons.prems(1) by (auto simp: append_eq_append_conv2 append_eq_Cons_conv)
    with Cons.IH Cons.prems(2) show ?thesis by auto
  qed
qed simp

lemma otp_wf_new: "new_auth vars g = Some st \<Longrightarrow> otp_wf st"
  by (auto simp: new_auth_def otp_wf_def Let_def split: if_splits)

text \<open>
  C2. Brute force against a one-time password is bounded. In any run of the service from its
  start, after a request id has been issued, at most three logins for it are told whether
  their code was right; and once a login for it has succeeded, every further one is answered as
  if the id had never existed.
\<close>

theorem otp_three_guesses:
  assumes "new_auth vars g = Some st0" and "st = fold (exec_op L) ops0 st0"
    and "\<forall>op \<in> set ops. store_ulid op \<noteq> Some r"
  shows "length (filter otp_guess (otp_answers L r st ops)) \<le> 3 \<and>
    (\<forall>xs resp ys. otp_answers L r st ops = xs @ Inr resp # ys \<longrightarrow>
       set ys \<subseteq> {Inl (mk_status Unauthenticated ''Invalid credentials'')})"
proof -
  have "otp_wf st" using otp_wf_new [OF assms(1)] assms(2) by (simp add: otp_wf_run)
  moreover have "otp_budget r st \<le> 3" by (simp add: otp_budget_def split: option.split)
  ultimately show ?thesis
    using otp_guesses_bounded [of st ops r L] otp_after_success assms(3) by fastforce
qed

definition sample_otp_draw :: otp_draw where
  "sample_otp_draw = \<lparr>od_ip_now = 1, od_email_now = 2, od_code = 42, od_ulid = ''r'', od_utc = 3\<rparr>"

lemma new_auth_empty: "new_auth Map.empty None = Some sample_auth"
  by (simp add: new_auth_def sample_auth_def dev_key_def Let_def)

theorem otp_three_guesses_witness:
  "length (filter otp_guess (otp_answers sample_lib ''r''
     (fold (exec_op sample_lib) [RequestOtp None ''a@b'' sample_otp_draw] sample_auth)
     (replicate 5 (Login (Some (OtpLogin ''r'' ''000041'')) sample_draw)))) \<le> 3"
  by (rule conjunct1 [OF otp_three_guesses [OF new_auth_empty refl]]) simp

subsection \<open>The rate of issued passwords\<close>

text \<open>The limiter checks a call makes, in order, and whether it issues a password for an
  address.\<close>

fun op_checks :: "AuthServiceImpl \<Rightarrow> Op \<Rightarrow> ((RateLimitType \<times> string) \<times> instant) list" where
  "op_checks st (RequestOtp ip em d) =
     (case ip of Some i \<Rightarrow> [((Ip, i), od_ip_now d)] | None \<Rightarrow> []) @
     (case fst (ip_limit st ip (od_ip_now d)) of
        Inr _ \<Rightarrow> [((Email, normalize_email em), od_email_now d)] | Inl _ \<Rightarrow> [])"
| "op_checks st _ = []"

fun otp_issued :: "auth_lib \<Rightarrow> string \<Rightarrow> AuthServiceImpl \<Rightarrow> Op \<Rightarrow> nat" where
  "otp_issued L e st (RequestOtp ip em d) =
     (case fst (request_otp L st ip em d) of
        Inr _ \<Rightarrow> if normalize_email em = e then 1 else 0 | Inl _ \<Rightarrow> 0)"
| "otp_issued L e st _ = 0"

fun otps_issued :: "auth_lib \<Rightarrow> string \<Rightarrow> AuthServiceImpl \<Rightarrow> Op list \<Rightarrow> nat" where
  "otps_issued L e st [] = 0"
| "otps_issued L e st (op # ops) = otp_issued L e st op + otps_issued L e (exec_op L op st) ops"

fun limiter_trace :: "auth_lib \<Rightarrow> AuthServiceImpl \<Rightarrow> Op list \<Rightarrow> ((RateLimitType \<times> string) \<times> instant) list" where
  "limiter_trace L st [] = []"
| "limiter_trace L st (op # ops) = op_checks st op @ limiter_trace L (exec_op L op st) ops"

lemma rl_check_conv:
  "rl_check rl (ty, i) now = (case check_limit rl ty i now of (r, rl') \<Rightarrow> (r = Inr (), rl'))"
  by (simp add: rl_check_def)

lemma op_checks_ok:
  assumes "\<not> bypass_enabled st"
  shows "rate_limiter (exec_op L op st) = run_state rl_check (rate_limiter st) (op_checks st op)"
    and "otp_issued L e st op = admitted rl_check (rate_limiter st) (op_checks st op) (Email, e)"
proof -
  have "rate_limiter (exec_op L op st) = run_state rl_check (rate_limiter st) (op_checks st op) \<and>
    otp_issued L e st op = admitted rl_check (rate_limiter st) (op_checks st op) (Email, e)"
  proof (cases op)
    case (RequestOtp ip em d)
    show ?thesis
      by (cases rule: request_otp_cases [of st ip d L em]; cases ip)
        (use assms in \<open>simp_all add: RequestOtp issue_otp_state ip_limit_def email_limit_def
          rl_check_conv admitted_Cons\<close>)
  next
    case (Refresh tok now d)
    then show ?thesis
      by (cases rule: refresh_cases [of L st tok now d]) (simp_all add: frame_simps)
  next
    case (Verify tok tick now now')
    then show ?thesis
      using verify_session_state [of L st tok tick now now'] by (auto simp: frame_simps)
  qed (auto simp: frame_simps logout_def create_google_login_nonce_def Let_def split: option.split)
  then show "rate_limiter (exec_op L op st) = run_state rl_check (rate_limiter st) (op_checks st op)"
    "otp_issued L e st op = admitted rl_check (rate_limiter st) (op_checks st op) (Email, e)" by auto
qed

lemma otps_issued_admitted:
  "\<not> bypass_enabled st \<Longrightarrow>
   otps_issued L e st ops = admitted rl_check (rate_limiter st) (limiter_trace L st ops) (Email, e)"
  by (induction ops arbitrary: st) (simp_all add: admitted_append op_checks_ok frame_simps)

fun otp_instants :: "Op \<Rightarrow> instant list" where
  "otp_instants (RequestOtp ip em d) = [od_ip_now d, od_email_now d]"
| "otp_instants _ = []"

lemma op_checks_instants:
  assumes "sorted (otp_instants op)"
  shows "sorted (map snd (op_checks st op))" "snd ` set (op_checks st op) \<subseteq> set (otp_instants op)"
  using assms by (cases op; auto split: option.split sum.split)+

lemma limiter_trace_instants:
  assumes "sorted (concat (map otp_instants ops))"
  shows "sorted (map snd (limiter_trace L st ops)) \<and>
         snd ` set (limiter_trace L st ops) \<subseteq> set (concat (map otp_instants ops))"
  using assms
proof (induction ops arbitrary: st)
  case (Cons op ops)
  have s: "sorted (otp_instants op)" "sorted (concat (map otp_instants ops))"
    "\<And>x y. x \<in> set (otp_instants op) \<Longrightarrow> y \<in> set (concat (map otp_instants ops)) \<Longrightarrow> x \<le> y"
    using Cons.prems by (auto simp: sorted_append)
  note c = op_checks_instants [OF s(1), of st] and i = Cons.IH [OF s(2), of "exec_op L op st"]
  have "\<forall>x \<in> snd ` set (op_checks st op).
      \<forall>y \<in> snd ` set (limiter_trace L (exec_op L op st) ops). x \<le> y"
    using c(2) i s(3) by blast
  with c i show ?case by (auto simp: sorted_append)
qed simp



subsection \<open>Deployment settings\<close>

text \<open>
  A service that starts in production has the bypass off and both token keys taken from the
  environment, 32 bytes each; so the codes \<^verbatim>\<open>000001\<close> and \<^verbatim>\<open>000000\<close> have no special meaning
  there, after any sequence of calls.
\<close>

lemma production_no_bypass:
  assumes "new_auth vars g = Some st" and "vars ''AETHERIS_ENV'' = Some ''production''"
  shows "vars ''SESSION_PASETO_KEY'' = Some (session_key st) \<and>
         vars ''TRANSPORT_PASETO_KEY'' = Some (transport_key st) \<and>
         length (session_key st) = 32 \<and> length (transport_key st) = 32 \<and>
         \<not> bypass_email (fold (exec_op L) ops st) email"
proof -
  have "\<not> bypass_enabled st"
    using assms by (auto simp: new_auth_def Let_def split: if_splits)
  then show ?thesis
    using assms by (auto simp: new_auth_def Let_def bypass_email_def split: if_splits option.splits)
qed

subsection \<open>Behaviours the comments do not promise\<close>


text \<open>
  Refreshing the shared session \<^verbatim>\<open>admin\<close> of the bypass logins does not revoke the old
  token: the new one is minted with the same session id, so the old one keeps verifying.
\<close>

lemma refresh_admin_keeps_old:
  assumes "refresh_token L st tok t d = (Inr (tok', ms), st')"
    and "paseto_parse L (session_key st) tok t = Some c"
    and "claim_str c ''jti'' = Some ''admin''" and "claim_str c ''sub'' = Some sub"
    and "paseto_parse L (session_key st) tok ta = Some c"
    and "timestamp ta' - timestamp (ld_mint d) \<le> 3600"
  shows "fst (verify_session L st' tok tick ta ta') =
           Inr \<lparr>vs_player_id = sub, vs_jti = ''admin''\<rparr>"
proof -
  let ?st = "st\<lparr>session_activity := (session_activity st)(''admin'' := None)\<rparr>"
  have m: "mint_session_token L ?st sub (Some ''admin'') (ld_ulid d) (ld_seed d) (ld_mint d) =
      (Inr (tok', ms), st')"
    by (cases rule: refresh_cases [of L st tok t d]) (use assms in auto)
  then have "session_activity st' ''admin'' = Some (timestamp (ld_mint d))"
    by (auto simp: mint_session_token_def Let_def split: sum.splits)
  moreover have "session_key st' = session_key st"
    using mint_frame(3) [of L ?st sub "Some ''admin''" "ld_ulid d" "ld_seed d" "ld_mint d"] m by simp
  ultimately show ?thesis using assms by (intro verify_active [of _ _ _ _ c]) auto
qed

end
