(* ===== verification/Ieee.thy ===== *)
theory Ieee
  imports Prelude
begin

text \<open>
  The floating-point arithmetic of Rust (\<^verbatim>\<open>f32\<close> and \<^verbatim>\<open>f64\<close>), which the simulation computes with:
  IEEE 754 values as NaN, signed infinities and signed magnitudes, every operation the exact
  result rounded to nearest, ties to even, with overflow to infinity and gradual underflow. The
  lemmas give what the component proofs use: rounding is monotone, exact on representable
  numbers, and off by at most half a unit in the last place.
\<close>

datatype fmt = F32 | F64

fun prec :: "fmt \<Rightarrow> nat" where
  "prec F32 = 24"
| "prec F64 = 53"

fun emin :: "fmt \<Rightarrow> int" where
  "emin F32 = - 149"
| "emin F64 = - 1074"

fun emax :: "fmt \<Rightarrow> int" where
  "emax F32 = 104"
| "emax F64 = 971"

text \<open>\<open>Fin s m\<close> is the number of magnitude \<open>m\<close>, negative if \<open>s\<close>; both zeros are values.\<close>

datatype fp = NaN | Inf bool | Fin bool real

type_synonym f32 = fp
type_synonym f64 = fp

definition pow2 :: "int \<Rightarrow> real" where
  "pow2 e = (if 0 \<le> e then 2 ^ nat e else 1 / 2 ^ nat (- e))"

subsection \<open>Rounding\<close>

text \<open>Round to nearest integer, ties to even.\<close>

definition rne :: "real \<Rightarrow> int" where
  "rne x = (let k = \<lfloor>x\<rfloor>; d = x - of_int k
            in if d < 1 / 2 \<or> d = 1 / 2 \<and> even k then k else k + 1)"

text \<open>The exponent of the last place of a magnitude: the least one whose range contains it.\<close>

definition exp_of :: "fmt \<Rightarrow> real \<Rightarrow> int option" where
  "exp_of F r = List.find (\<lambda>e. r < pow2 (e + int (prec F))) [emin F..emax F]"

definition fround :: "fmt \<Rightarrow> bool \<Rightarrow> real \<Rightarrow> fp" where
  "fround F s r =
     (case exp_of F r of
        None \<Rightarrow> Inf s
      | Some e \<Rightarrow>
          let k = rne (r / pow2 e)
          in if e = emax F \<and> k \<ge> 2 ^ prec F then Inf s else Fin s (of_int k * pow2 e))"

text \<open>A real with the sign of its own, or \<open>z\<close> if it is zero.\<close>

definition fround_signed :: "fmt \<Rightarrow> bool \<Rightarrow> real \<Rightarrow> fp" where
  "fround_signed F z x = (if x = 0 then Fin z 0 else fround F (x < 0) \<bar>x\<bar>)"

definition fval :: "bool \<Rightarrow> real \<Rightarrow> real" where
  "fval s m = (if s then - m else m)"

subsection \<open>Operations\<close>

fun fneg :: "fp \<Rightarrow> fp" where
  "fneg NaN = NaN"
| "fneg (Inf s) = Inf (\<not> s)"
| "fneg (Fin s m) = Fin (\<not> s) m"

fun fabs :: "fp \<Rightarrow> fp" where
  "fabs NaN = NaN"
| "fabs (Inf s) = Inf False"
| "fabs (Fin s m) = Fin False m"

fun fadd :: "fmt \<Rightarrow> fp \<Rightarrow> fp \<Rightarrow> fp" where
  "fadd F NaN _ = NaN"
| "fadd F _ NaN = NaN"
| "fadd F (Inf s) (Inf t) = (if s = t then Inf s else NaN)"
| "fadd F (Inf s) (Fin _ _) = Inf s"
| "fadd F (Fin _ _) (Inf t) = Inf t"
| "fadd F (Fin s m) (Fin t n) = fround_signed F (s \<and> t) (fval s m + fval t n)"

definition fsub :: "fmt \<Rightarrow> fp \<Rightarrow> fp \<Rightarrow> fp" where
  "fsub F a b = fadd F a (fneg b)"

fun fmul :: "fmt \<Rightarrow> fp \<Rightarrow> fp \<Rightarrow> fp" where
  "fmul F NaN _ = NaN"
| "fmul F _ NaN = NaN"
| "fmul F (Inf s) (Inf t) = Inf (s \<noteq> t)"
| "fmul F (Inf s) (Fin t n) = (if n = 0 then NaN else Inf (s \<noteq> t))"
| "fmul F (Fin s m) (Inf t) = (if m = 0 then NaN else Inf (s \<noteq> t))"
| "fmul F (Fin s m) (Fin t n) = fround F (s \<noteq> t) (m * n)"

fun fdiv :: "fmt \<Rightarrow> fp \<Rightarrow> fp \<Rightarrow> fp" where
  "fdiv F NaN _ = NaN"
| "fdiv F _ NaN = NaN"
| "fdiv F (Inf s) (Inf t) = NaN"
| "fdiv F (Inf s) (Fin t n) = Inf (s \<noteq> t)"
| "fdiv F (Fin s m) (Inf t) = Fin (s \<noteq> t) 0"
| "fdiv F (Fin s m) (Fin t n) =
     (if n = 0 then if m = 0 then NaN else Inf (s \<noteq> t) else fround F (s \<noteq> t) (m / n))"

text \<open>The integer square root, digit by digit in base four.\<close>

fun isqrt :: "nat \<Rightarrow> nat" where
  "isqrt n = (if n = 0 then 0
              else let r = 2 * isqrt (n div 4) in if (r + 1) * (r + 1) \<le> n then r + 1 else r)"

declare isqrt.simps [simp del]

text \<open>
  The square root rounded to nearest. The magnitude is a multiple of the square of a half unit
  below the result's last place, so the integer root of the quotient and whether it is exact
  decide the rounding. Every exponent of the format is tried as for \<open>exp_of\<close>.
\<close>

definition sqrt_exp :: "fmt \<Rightarrow> real \<Rightarrow> int option" where
  "sqrt_exp F r = List.find (\<lambda>e. r < pow2 (2 * (e + int (prec F)))) [emin F..emax F]"

definition fsqrt_mag :: "fmt \<Rightarrow> real \<Rightarrow> real" where
  "fsqrt_mag F r =
     (case sqrt_exp F r of
        None \<Rightarrow> 0
      | Some e \<Rightarrow>
          let q = r / pow2 (2 * e); k = isqrt (nat \<lfloor>q\<rfloor>)
          in if q \<le> (real k + 1 / 2)\<^sup>2 then real k * pow2 e else real (k + 1) * pow2 e)"

fun fsqrt :: "fmt \<Rightarrow> fp \<Rightarrow> fp" where
  "fsqrt F NaN = NaN"
| "fsqrt F (Inf s) = (if s then NaN else Inf False)"
| "fsqrt F (Fin s m) = (if m = 0 then Fin s 0 else if s then NaN else Fin False (fsqrt_mag F m))"

text \<open>\<^verbatim>\<open>%\<close>: the exact remainder of the truncated quotient, with the dividend's sign.\<close>

fun frem :: "fp \<Rightarrow> fp \<Rightarrow> fp" where
  "frem NaN _ = NaN"
| "frem _ NaN = NaN"
| "frem (Inf _) _ = NaN"
| "frem (Fin s m) (Inf _) = Fin s m"
| "frem (Fin s m) (Fin t n) = (if n = 0 then NaN else Fin s (m - of_int \<lfloor>m / n\<rfloor> * n))"

fun flt :: "fp \<Rightarrow> fp \<Rightarrow> bool" where
  "flt NaN _ = False"
| "flt _ NaN = False"
| "flt (Inf s) (Inf t) = (s \<and> \<not> t)"
| "flt (Inf s) (Fin _ _) = s"
| "flt (Fin _ _) (Inf t) = (\<not> t)"
| "flt (Fin s m) (Fin t n) = (fval s m < fval t n)"

definition fgt :: "fp \<Rightarrow> fp \<Rightarrow> bool" where
  "fgt a b = flt b a"

text \<open>\<^verbatim>\<open>rem_euclid\<close>, \<^verbatim>\<open>max\<close> (a NaN operand is ignored), \<^verbatim>\<open>signum\<close>, \<^verbatim>\<open>powi(2)\<close>.\<close>

definition fone :: fp where
  "fone = Fin False 1"

definition fzero :: fp where
  "fzero = Fin False 0"

definition rem_euclid :: "fmt \<Rightarrow> fp \<Rightarrow> fp \<Rightarrow> fp" where
  "rem_euclid F a b = (let r = frem a b in if flt r fzero then fadd F r (fabs b) else r)"

definition fmax :: "fp \<Rightarrow> fp \<Rightarrow> fp" where
  "fmax a b = (if a = NaN then b else if b = NaN then a else if flt a b then b else a)"

fun fsignum :: "fp \<Rightarrow> fp" where
  "fsignum NaN = NaN"
| "fsignum (Inf s) = Fin s 1"
| "fsignum (Fin s _) = Fin s 1"

definition fsquare :: "fmt \<Rightarrow> fp \<Rightarrow> fp" where
  "fsquare F a = fmul F a a"

text \<open>\<^verbatim>\<open>round\<close> (half away from zero) followed by the saturating cast to \<^verbatim>\<open>u16\<close>.\<close>

fun round_as_u16 :: "fp \<Rightarrow> u16" where
  "round_as_u16 NaN = 0"
| "round_as_u16 (Inf s) = (if s then 0 else - 1)"
| "round_as_u16 (Fin s m) =
     (let k = \<lfloor>m + 1 / 2\<rfloor> in if s then 0 else if k \<ge> 65535 then - 1 else word_of_int k)"

definition fp_of_nat :: "fmt \<Rightarrow> nat \<Rightarrow> fp" where
  "fp_of_nat F n = fround F False (real n)"

text \<open>Literals are rounded to the format.\<close>

definition f32_lit :: "real \<Rightarrow> fp" where
  "f32_lit x = fround_signed F32 False x"

definition f32_pi :: fp where
  "f32_pi = Fin False (13176795 * pow2 (- 22))"

definition f32_tau :: fp where
  "f32_tau = Fin False (13176795 * pow2 (- 21))"

definition f32_epsilon :: fp where
  "f32_epsilon = Fin False (pow2 (- 23))"

definition to_radians :: "fp \<Rightarrow> fp" where
  "to_radians a = fmul F32 a (fdiv F32 f32_pi (f32_lit 180))"

subsection \<open>Rounding is monotone, exact and close\<close>

lemma pow2_powi: "pow2 e = 2 powi e"
  by (simp add: pow2_def power_int_def power_one_over)

lemma pow2_pos [simp]: "0 < pow2 e"
  by (simp add: pow2_def)

lemma pow2_nonneg [simp]: "0 \<le> pow2 e"
  using pow2_pos less_imp_le by blast

lemma pow2_nz [simp]: "pow2 e \<noteq> 0"
  using pow2_pos less_irrefl by metis

lemma pow2_add: "pow2 (a + b) = pow2 a * pow2 b"
  by (simp add: pow2_powi power_int_add)

lemma pow2_nat [simp]: "pow2 (int n) = 2 ^ n"
  by (simp add: pow2_def)

lemma pow2_mono: "a \<le> b \<Longrightarrow> pow2 a \<le> pow2 b"
  by (simp add: pow2_powi power_int_increasing)

lemma pow2_strict_mono: "a < b \<Longrightarrow> pow2 a < pow2 b"
  by (simp add: pow2_powi power_int_strict_increasing)

lemma pow2_less_iff [simp]: "pow2 a < pow2 b \<longleftrightarrow> a < b"
  using pow2_mono pow2_strict_mono by (metis linorder_not_less)

lemma rne_of_int [simp]: "rne (of_int k) = k"
  by (simp add: rne_def)

lemma rne_error: "\<bar>of_int (rne x) - x\<bar> \<le> 1 / 2"
  unfolding rne_def Let_def by (simp add: abs_real_def) linarith

lemma rne_mono: "x \<le> y \<Longrightarrow> rne x \<le> rne y"
proof -
  assume xy: "x \<le> y"
  have fl: "\<lfloor>x\<rfloor> \<le> \<lfloor>y\<rfloor>" using xy by (rule floor_mono)
  show "rne x \<le> rne y"
  proof (cases "\<lfloor>x\<rfloor> = \<lfloor>y\<rfloor>")
    case True
    with xy show ?thesis by (auto simp: rne_def Let_def)
  next
    case False
    with fl have "\<lfloor>x\<rfloor> + 1 \<le> \<lfloor>y\<rfloor>" by simp
    then show ?thesis by (auto simp: rne_def Let_def)
  qed
qed

lemma rne_less: "0 \<le> x \<Longrightarrow> x < 2 ^ n \<Longrightarrow> rne x \<le> 2 ^ n"
  using rne_mono [of x "of_int (2 ^ n)"] by (simp del: rne_of_int add: less_imp_le) (metis of_int_numeral of_int_power rne_of_int)

lemma rne_ge: "of_int k \<le> x \<Longrightarrow> k \<le> rne x"
  using rne_mono [of "of_int k" x] by simp

lemma rne_nonneg: "0 \<le> x \<Longrightarrow> 0 \<le> rne x"
  using rne_ge [of 0 x] by simp

lemma find_upto:
  assumes "List.find P [a..b] = Some e"
  shows "P e" "a \<le> e" "e \<le> b" "\<And>x. a \<le> x \<Longrightarrow> x < e \<Longrightarrow> \<not> P x"
proof -
  from assms obtain i where i: "i < length [a..b]" "P ([a..b] ! i)" "e = [a..b] ! i"
    "\<forall>j<i. \<not> P ([a..b] ! j)"
    by (auto simp: find_Some_iff)
  then have e: "e = a + int i" "int i < b - a + 1" by auto
  with i show "P e" "a \<le> e" "e \<le> b" by auto
  show "\<not> P x" if "a \<le> x" "x < e" for x
  proof -
    have "nat (x - a) < i" "[a..b] ! nat (x - a) = x" using that e by auto
    with i(4) show ?thesis by metis
  qed
qed

lemma find_upto_None: "List.find P [a..b] = None \<Longrightarrow> a \<le> x \<Longrightarrow> x \<le> b \<Longrightarrow> \<not> P x"
  by (auto simp: find_None_iff)

lemma emin_le_emax [simp]: "emin F \<le> emax F"
  by (cases F) auto

lemma prec_pos [simp]: "0 < prec F"
  by (cases F) auto

lemma exp_of_SomeD:
  assumes "exp_of F r = Some e"
  shows "emin F \<le> e" "e \<le> emax F" "r < pow2 (e + int (prec F))"
    "emin F < e \<Longrightarrow> pow2 (e + int (prec F) - 1) \<le> r"
proof -
  note f = find_upto [OF assms [unfolded exp_of_def]]
  show "emin F \<le> e" "e \<le> emax F" "r < pow2 (e + int (prec F))" using f by auto
  assume "emin F < e"
  with f(4) [of "e - 1"] show "pow2 (e + int (prec F) - 1) \<le> r"
    by (simp add: algebra_simps not_less)
qed

lemma exp_of_le:
  assumes "r < pow2 (e' + int (prec F))" "emin F \<le> e'" "e' \<le> emax F"
  shows "\<exists>e. exp_of F r = Some e \<and> e \<le> e'"
proof -
  obtain e where e: "exp_of F r = Some e"
    using assms find_upto_None [of "\<lambda>e. r < pow2 (e + int (prec F))" "emin F" "emax F" e']
    by (cases "exp_of F r") (auto simp: exp_of_def)
  have "e \<le> e'"
    using find_upto(4) [OF e [unfolded exp_of_def], of e'] assms(1,2) by (meson not_le)
  with e show ?thesis by blast
qed

lemma exp_of_mono:
  assumes "r \<le> s" and "exp_of F s = Some e'"
  shows "\<exists>e. exp_of F r = Some e \<and> e \<le> e'"
  using exp_of_SomeD [OF assms(2)] assms(1) by (intro exp_of_le) auto

lemma pow2_1 [simp]: "pow2 1 = 2"
  by (simp add: pow2_def)

lemma pow2_carry: "2 ^ prec F * pow2 e = 2 ^ (prec F - 1) * pow2 (e + 1)"
proof -
  obtain p where "prec F = Suc p" using prec_pos [of F] gr0_implies_Suc by blast
  then show ?thesis by (simp add: pow2_add)
qed

definition repr :: "fmt \<Rightarrow> real \<Rightarrow> bool" where
  "repr F r \<longleftrightarrow> (\<exists>k e. 0 \<le> k \<and> k < 2 ^ prec F \<and> emin F \<le> e \<and> e \<le> emax F \<and> r = of_int k * pow2 e)"

lemma reprI: "0 \<le> k \<Longrightarrow> k < 2 ^ prec F \<Longrightarrow> emin F \<le> e \<Longrightarrow> e \<le> emax F \<Longrightarrow> repr F (of_int k * pow2 e)"
  by (auto simp: repr_def)

lemma repr_nonneg: "repr F r \<Longrightarrow> 0 \<le> r"
  by (auto simp: repr_def)

lemma repr_of_nat: "n < 2 ^ prec F \<Longrightarrow> repr F (real n)"
  unfolding repr_def by (rule exI [of _ "int n"], rule exI [of _ 0]) (cases F; simp add: pow2_def)

lemma repr_0 [simp]: "repr F 0"
  using repr_of_nat [of 0 F] by simp

lemma repr_1 [simp]: "repr F 1"
  using repr_of_nat [of 1 F] by (cases F) simp_all

lemma exp_of_repr:
  assumes "0 \<le> k" "k < 2 ^ prec F" "emin F \<le> e" "e \<le> emax F"
  shows "\<exists>e'. exp_of F (of_int k * pow2 e) = Some e' \<and> e' \<le> e"
proof -
  have lt: "of_int k * pow2 e < pow2 (e + int (prec F))"
  proof -
    have "real_of_int k < 2 ^ prec F" using assms(2) by (metis of_int_less_iff of_int_numeral of_int_power)
    then have "of_int k * pow2 e < 2 ^ prec F * pow2 e" by simp
    then show ?thesis by (simp add: pow2_add mult.commute)
  qed
  obtain e' where e': "exp_of F (of_int k * pow2 e) = Some e'"
    using find_upto_None [of "\<lambda>e'. of_int k * pow2 e < pow2 (e' + int (prec F))" "emin F" "emax F" e]
      assms lt by (cases "exp_of F (of_int k * pow2 e)") (auto simp: exp_of_def)
  moreover have "e' \<le> e"
    using find_upto(4) [OF e' [unfolded exp_of_def], of e] assms(3) lt by (meson not_le)
  ultimately show ?thesis by blast
qed

lemma fround_exact:
  assumes "repr F r"
  shows "fround F s r = Fin s r"
proof -
  from assms obtain k e where ke: "0 \<le> k" "k < 2 ^ prec F" "emin F \<le> e" "e \<le> emax F"
    "r = of_int k * pow2 e" by (auto simp: repr_def)
  from exp_of_repr [OF ke(1-4)] ke(5) obtain e' where e': "exp_of F r = Some e'" "e' \<le> e" by auto
  define j where "j = k * 2 ^ nat (e - e')"
  have "pow2 e = pow2 (int (nat (e - e')) + e')" using e'(2) by simp
  also have "\<dots> = 2 ^ nat (e - e') * pow2 e'" by (simp only: pow2_add pow2_nat)
  finally have r: "r = of_int j * pow2 e'" by (simp add: ke(5) j_def)
  have "of_int j * pow2 e' < 2 ^ prec F * pow2 e'"
    using exp_of_SomeD(3) [OF e'(1)] by (simp add: r pow2_add mult.commute)
  then have "real_of_int j < 2 ^ prec F" by simp
  then have "j < 2 ^ prec F" by (metis of_int_less_iff of_int_numeral of_int_power)
  then show ?thesis using e'(1) by (simp add: fround_def r Let_def)
qed

lemma fround_Fin:
  assumes "fround F s r = Fin t m"
  obtains e where "exp_of F r = Some e" "t = s" "m = of_int (rne (r / pow2 e)) * pow2 e"
    "e = emax F \<Longrightarrow> rne (r / pow2 e) < 2 ^ prec F"
  using assms by (auto simp: fround_def Let_def split: option.splits if_splits)

lemma fround_error:
  assumes "fround F s r = Fin t m" and "exp_of F r = Some e"
  shows "\<bar>m - r\<bar> \<le> pow2 e / 2"
proof -
  from assms have m: "m = of_int (rne (r / pow2 e)) * pow2 e"
    by (auto elim: fround_Fin)
  have "m - r = (of_int (rne (r / pow2 e)) - r / pow2 e) * pow2 e"
    by (simp add: m left_diff_distrib)
  then have "\<bar>m - r\<bar> = \<bar>of_int (rne (r / pow2 e)) - r / pow2 e\<bar> * pow2 e"
    by (simp add: abs_mult)
  also have "\<dots> \<le> 1 / 2 * pow2 e"
    by (intro mult_right_mono rne_error) simp
  finally show ?thesis by simp
qed

lemma rne_scaled_le:
  assumes "0 \<le> r" and "exp_of F r = Some e"
  shows "rne (r / pow2 e) \<le> 2 ^ prec F" "0 \<le> rne (r / pow2 e)"
proof -
  have "r / pow2 e < 2 ^ prec F"
    using exp_of_SomeD(3) [OF assms(2)] by (simp add: pow2_add field_simps)
  then show "rne (r / pow2 e) \<le> 2 ^ prec F" using assms(1) by (intro rne_less) auto
  show "0 \<le> rne (r / pow2 e)" using assms(1) by (intro rne_nonneg) simp
qed

lemma fround_repr:
  assumes "fround F s r = Fin t m" and "0 \<le> r"
  shows "repr F m" "t = s"
proof -
  from assms(1) show "t = s" by (auto elim: fround_Fin)
  from assms(1) obtain e where e: "exp_of F r = Some e" "m = of_int (rne (r / pow2 e)) * pow2 e"
    "e = emax F \<Longrightarrow> rne (r / pow2 e) < 2 ^ prec F" by (auto elim: fround_Fin)
  note b = rne_scaled_le [OF assms(2) e(1)] and d = exp_of_SomeD(1,2) [OF e(1)]
  show "repr F m"
  proof (cases "rne (r / pow2 e) = 2 ^ prec F")
    case True
    with e(3) d have lt: "e < emax F" by fastforce
    have "m = of_int (2 ^ (prec F - 1)) * pow2 (e + 1)"
      using True by (simp add: e(2) pow2_carry)
    moreover have "repr F (of_int (2 ^ (prec F - 1)) * pow2 (e + 1))"
      using lt d by (intro reprI) (auto simp: power_strict_increasing)
    ultimately show ?thesis by simp
  next
    case False
    with b d e(2) show ?thesis by (auto intro!: reprI)
  qed
qed

lemma fround_mono:
  assumes "0 \<le> r" "r \<le> u" and "fround F s u = Fin t b"
  shows "\<exists>a. fround F z r = Fin z a \<and> 0 \<le> a \<and> a \<le> b"
proof -
  from assms(3) obtain e' where e': "exp_of F u = Some e'" "b = of_int (rne (u / pow2 e')) * pow2 e'"
    "e' = emax F \<Longrightarrow> rne (u / pow2 e') < 2 ^ prec F" by (auto elim: fround_Fin)
  from exp_of_mono [OF assms(2) e'(1)] obtain e where e: "exp_of F r = Some e" "e \<le> e'" by blast
  note br = rne_scaled_le [OF assms(1) e(1)]
  show ?thesis
  proof (cases "e = e'")
    case True
    have "rne (r / pow2 e) \<le> rne (u / pow2 e)"
      using assms(2) by (intro rne_mono) (simp add: divide_right_mono)
    with True e e' br show ?thesis
      by (auto simp: fround_def Let_def intro!: mult_right_mono)
  next
    case False
    with e have lt: "e < e'" by simp
    with exp_of_SomeD(1) [OF e(1)] have "pow2 (e' + int (prec F) - 1) \<le> u"
      by (intro exp_of_SomeD(4) [OF e'(1)]) simp
    then have "of_int (2 ^ (prec F - 1)) \<le> u / pow2 e'"
      using pow2_add [of "int (prec F) - 1" e'] pow2_nat [of "prec F - 1"] prec_pos [of F]
      by (simp add: field_simps of_nat_diff Suc_leI)
    then have ge: "2 ^ (prec F - 1) \<le> rne (u / pow2 e')" by (rule rne_ge)
    have "of_int (rne (r / pow2 e)) * pow2 e \<le> 2 ^ prec F * pow2 e"
      using br(1) by (intro mult_right_mono) (auto simp flip: of_int_le_iff)
    also have "\<dots> = 2 ^ (prec F - 1) * pow2 (e + 1)"
      by (rule pow2_carry)
    also have "\<dots> \<le> 2 ^ (prec F - 1) * pow2 e'" using lt by (simp add: pow2_mono)
    also have "\<dots> \<le> b" using ge by (simp add: e'(2))
    finally show ?thesis
      using e lt exp_of_SomeD(2) [OF e'(1)] br by (auto simp: fround_def Let_def)
  qed
qed

lemma fround_le:
  assumes "0 \<le> r" "r \<le> x" "repr F x"
  shows "\<exists>m. fround F s r = Fin s m \<and> 0 \<le> m \<and> m \<le> x"
  using fround_mono [OF assms(1,2) fround_exact [OF assms(3), of False]] .

lemma fround_ge:
  assumes "0 \<le> x" "x \<le> r" "repr F x" "fround F s r = Fin t m"
  shows "x \<le> m"
  using fround_mono [OF assms(1,2,4), of s] fround_exact [OF assms(3), of s] by auto

end
