(* ===== verification/Components.thy ===== *)
theory Components
  imports Ieee
begin

text \<open>
  The component types of \<^verbatim>\<open>crates/aetheris-ecs-bevy/src/components.rs\<close> and the wire types of
  the protocol crate they wrap. A structure is a record with the source's fields; the variants of
  protocol enumerations that the sources never name are one constructor with a number. An entity
  identifier is a number.
  The components an entity can carry are the constructors of \<open>comp\<close>; \<open>ckind\<close> names their types.
\<close>

type_synonym NetworkId = u64
type_synonym ClientId = u64
type_synonym ComponentKind = u16
type_synonym Entity = nat

subsection \<open>Protocol types\<close>

record Transform =
  tr_x :: f32
  tr_y :: f32
  tr_z :: f32
  tr_rotation :: f32
  tr_entity_type :: u16

datatype AgentKind = Standard | Heavy | Carrier | OtherAgentKind nat

record AgentProperties =
  ap_integrity :: u16
  ap_max_integrity :: u16
  ap_priority :: u16
  ap_max_priority :: u16
  ap_energy :: u16
  ap_max_energy :: u16
  ap_priority_regen_per_s :: u16
  ap_energy_regen_per_s :: u16

record Tool =
  cooldown_ticks :: u32
  last_fired_tick :: u64

record Pool =
  pool_current :: u16
  pool_max :: u16

datatype InteractionBeamType = PulseBeam | OtherBeamType nat

datatype WorkspaceAccessPolicy = Open | OtherAccess nat

record WorkspaceDefinition =
  wd_name :: string
  wd_capacity :: u32
  wd_access :: WorkspaceAccessPolicy
  wd_is_template :: bool

record WorkspaceBounds =
  min_x :: f32
  min_y :: f32
  max_x :: f32
  max_y :: f32

datatype RespawnLocation = Coordinate f32 f32 | OtherLocation nat

datatype PlayerInputKind = Move f32 f32 | ToggleExtraction NetworkId | OtherInput nat

record InputCommand =
  ic_tick :: u64
  ic_actions :: "PlayerInputKind list"
  ic_actions_mask :: u32
  ic_last_seen_input_tick :: "u64 option"

datatype PlatformEvent =
    ResourceExhaustedEvent NetworkId
  | PayloadCollected NetworkId u16
  | Termination NetworkId
  | Interaction NetworkId NetworkId u16
  | Possession NetworkId
  | WorkspaceManifest "(string \<times> string) list"
  | OtherPlatformEvent nat

datatype WireEvent = PlatformWire PlatformEvent | EntityDespawnedWire NetworkId

record ReplicationEvent =
  re_network_id :: NetworkId
  re_component_kind :: ComponentKind
  re_payload :: bytes
  re_tick :: u64

record ComponentUpdate =
  cu_network_id :: NetworkId
  cu_component_kind :: ComponentKind
  cu_payload :: bytes
  cu_tick :: u64

subsection \<open>Components\<close>

record Velocity =
  vel_dx :: f32
  vel_dy :: f32
  vel_dz :: f32

record AgentConfiguration =
  cfg_agent_kind :: AgentKind
  tool_ids :: "nat list"
  tool_count :: u8
  integrity_tier :: u8
  mobility_tier :: u8
  priority_tier :: u8

record ResourceIntegrity =
  ri_integrity :: u16
  ri_max_integrity :: u16

record ResourceYield =
  ry_payload_type :: nat
  payload_per_exhaust :: u16

record DataDrop =
  dd_payload_type :: nat
  dd_amount :: u16

record Station =
  st_position :: "f32 \<times> f32"
  safe_zone_radius :: f32

record ZoneGate =
  destination_zone :: nat
  activation_radius :: f32

record BeamMarker =
  beam_type :: InteractionBeamType
  spawn_pos :: "f32 \<times> f32"
  max_range :: f32
  bm_owner :: NetworkId
  lifetime_ticks :: u32

record DockedState =
  station_id :: NetworkId
  docked_at_tick :: u64

record ExtractionBeam =
  eb_active :: bool
  eb_target :: "NetworkId option"
  extraction_range :: f32
  base_extraction_rate :: u16
  last_seen_input_tick :: "u64 option"

record DataStore =
  payload_count :: u16
  capacity :: u16

record Resource =
  payload_remaining :: u16
  total_capacity :: u16

record PhysicsBody =
  base_mass :: f32
  thrust_force :: f32
  max_velocity :: f32
  turn_rate :: f32
  drag :: f32
  mass_per_payload :: f32

record ResourceRespawn =
  rr_delay_ticks :: u32
  rr_remaining :: u32
  rr_x :: f32
  rr_y :: f32
  rr_total_capacity :: u16

record RespawnTimer =
  rt_delay_ticks :: u16
  rt_location :: RespawnLocation

record LatestInput =
  li_command :: InputCommand
  last_client_tick :: u64

datatype comp =
    CNetworked NetworkId
  | CTransform Transform
  | CVelocity Velocity
  | CAgentProperties AgentProperties
  | CAgentConfiguration AgentConfiguration
  | CAgentKind AgentKind
  | CPlayerName string
  | CFactionTag u8
  | CResourceIntegrity ResourceIntegrity
  | CResourceYield ResourceYield
  | CDataDrop DataDrop
  | CStation Station
  | CZoneGate ZoneGate
  | CBeamMarker BeamMarker
  | CDockedState DockedState
  | CExtractionBeam ExtractionBeam
  | CDataStore DataStore
  | CResource Resource
  | CTool Tool
  | CPriorityPool Pool
  | CIntegrityPool Pool
  | CDataDropComponent u16
  | CWorkspaceDefinition WorkspaceDefinition
  | CWorkspaceBounds WorkspaceBounds
  | CWorkspaceMembership NetworkId
  | CPhysicsBody PhysicsBody
  | CResourceRespawn ResourceRespawn
  | CPriorityRegenTimer u16
  | CRespawnTimer RespawnTimer
  | CLatestInput LatestInput
  | CNetworkOwner ClientId
  | CSessionAgent
  | CTrainingTarget
  | CAiControlled

datatype ckind =
    KNetworked | KTransform | KVelocity | KAgentProperties | KAgentConfiguration | KAgentKind
  | KPlayerName | KFactionTag | KResourceIntegrity | KResourceYield | KDataDrop | KStation
  | KZoneGate | KBeamMarker | KDockedState | KExtractionBeam | KDataStore | KResource | KTool
  | KPriorityPool | KIntegrityPool | KDataDropComponent | KWorkspaceDefinition
  | KWorkspaceBounds | KWorkspaceMembership | KPhysicsBody | KResourceRespawn
  | KPriorityRegenTimer | KRespawnTimer | KLatestInput | KNetworkOwner | KSessionAgent
  | KTrainingTarget | KAiControlled

primrec kind_of :: "comp \<Rightarrow> ckind" where
  "kind_of (CNetworked _) = KNetworked"
| "kind_of (CTransform _) = KTransform"
| "kind_of (CVelocity _) = KVelocity"
| "kind_of (CAgentProperties _) = KAgentProperties"
| "kind_of (CAgentConfiguration _) = KAgentConfiguration"
| "kind_of (CAgentKind _) = KAgentKind"
| "kind_of (CPlayerName _) = KPlayerName"
| "kind_of (CFactionTag _) = KFactionTag"
| "kind_of (CResourceIntegrity _) = KResourceIntegrity"
| "kind_of (CResourceYield _) = KResourceYield"
| "kind_of (CDataDrop _) = KDataDrop"
| "kind_of (CStation _) = KStation"
| "kind_of (CZoneGate _) = KZoneGate"
| "kind_of (CBeamMarker _) = KBeamMarker"
| "kind_of (CDockedState _) = KDockedState"
| "kind_of (CExtractionBeam _) = KExtractionBeam"
| "kind_of (CDataStore _) = KDataStore"
| "kind_of (CResource _) = KResource"
| "kind_of (CTool _) = KTool"
| "kind_of (CPriorityPool _) = KPriorityPool"
| "kind_of (CIntegrityPool _) = KIntegrityPool"
| "kind_of (CDataDropComponent _) = KDataDropComponent"
| "kind_of (CWorkspaceDefinition _) = KWorkspaceDefinition"
| "kind_of (CWorkspaceBounds _) = KWorkspaceBounds"
| "kind_of (CWorkspaceMembership _) = KWorkspaceMembership"
| "kind_of (CPhysicsBody _) = KPhysicsBody"
| "kind_of (CResourceRespawn _) = KResourceRespawn"
| "kind_of (CPriorityRegenTimer _) = KPriorityRegenTimer"
| "kind_of (CRespawnTimer _) = KRespawnTimer"
| "kind_of (CLatestInput _) = KLatestInput"
| "kind_of (CNetworkOwner _) = KNetworkOwner"
| "kind_of CSessionAgent = KSessionAgent"
| "kind_of CTrainingTarget = KTrainingTarget"
| "kind_of CAiControlled = KAiControlled"

end
