(* ===== verification/World.thy ===== *)
theory World
  imports Components "HOL-Library.Multiset"
begin

text \<open>
  The entity store the systems of \<^verbatim>\<open>crates/aetheris-ecs-bevy\<close> work on (a \<^verbatim>\<open>bevy_ecs::World\<close>):
  the live entities, their components with the change tick of the last write, and the resources
  the adapter installs. What the library leaves open is a parameter, the record \<open>ecs_env\<close>: the
  order in which a query visits entities, the identifier of a spawned entity, the comparison of
  change ticks, the iteration order of the identifier map, the network id allocator, and the
  constants, codecs and libm functions of other crates.
\<close>

type_synonym tick = nat

record WorkspaceIndex =
  memberships :: "NetworkId \<rightharpoonup> Entity set"
  client_workspaces :: "ClientId \<rightharpoonup> NetworkId"

record BeamSpawn =
  bs_pos :: "f32 \<times> f32"
  bs_vel :: "f32 \<times> f32"
  bs_owner :: NetworkId

record world =
  live :: "Entity list"
  store :: "Entity \<Rightarrow> ckind \<Rightarrow> (comp \<times> tick) option"
  change_tick :: tick
  ServerTick :: "u64 option"
  ReliableEvents :: "(ClientId option \<times> WireEvent) list option"
  BeamSpawnRequests :: "BeamSpawn list option"
  WorkspaceIdx :: "WorkspaceIndex option"

type_synonym bimap = "(NetworkId \<times> Entity) list"

text \<open>The kinds of the protocol crate that the registry names symbolically.\<close>

record kind_consts =
  BEAM_MARKER_KIND :: ComponentKind
  EXTRACTION_BEAM_KIND :: ComponentKind
  DATA_STORE_KIND :: ComponentKind
  RESOURCE_KIND :: ComponentKind
  TOOL_KIND :: ComponentKind
  PRIORITY_POOL_KIND :: ComponentKind
  INTEGRITY_POOL_KIND :: ComponentKind
  DATA_DROP_KIND :: ComponentKind
  WORKSPACE_DEFINITION_KIND :: ComponentKind
  WORKSPACE_BOUNDS_KIND :: ComponentKind
  WORKSPACE_MEMBERSHIP_KIND :: ComponentKind
  INPUT_COMMAND_KIND :: ComponentKind

record entity_types =
  ENTITY_TYPE_AGENT :: u16
  ENTITY_TYPE_AI_AGENT :: u16
  ENTITY_TYPE_BEAM :: u16
  ENTITY_TYPE_CARRIER_AGENT :: u16
  ENTITY_TYPE_DATA_DROP :: u16
  ENTITY_TYPE_HEAVY_AGENT :: u16
  ENTITY_TYPE_RESOURCE :: u16
  ENTITY_TYPE_TRAINING_TARGET :: u16

text \<open>What \<^verbatim>\<open>state_hash\<close> feeds to the hasher.\<close>

datatype hash_item = HashNetworkId NetworkId | HashF32 f32 | HashU16 u16

record ecs_env =
  query_order :: "world \<Rightarrow> Entity list"
  fresh_entity :: "world \<Rightarrow> Entity"
  is_changed :: "tick \<Rightarrow> tick \<Rightarrow> tick \<Rightarrow> bool"
  bimap_order :: "bimap \<Rightarrow> bimap"
  alloc_init :: nat
  allocate :: "nat \<Rightarrow> (NetworkId \<times> nat) option"
  alloc_reset :: "nat \<Rightarrow> nat"
  kinds :: kind_consts
  types :: entity_types
  get_default_properties :: "u16 \<Rightarrow> u16 \<times> u16"
  ACTION_USE_TOOL :: u32
  serialize :: "comp \<Rightarrow> bytes option"
  deserialize :: "ckind \<Rightarrow> bytes \<Rightarrow> comp option"
  deserialize_input :: "bytes \<Rightarrow> InputCommand option"
  input_valid :: "InputCommand \<Rightarrow> bool"
  atan2f :: "f32 \<Rightarrow> f32 \<Rightarrow> f32"
  cosf :: "f32 \<Rightarrow> f32"
  sinf :: "f32 \<Rightarrow> f32"
  rng_seed :: "u64 \<Rightarrow> nat"
  random_range :: "f32 \<Rightarrow> f32 \<Rightarrow> nat \<Rightarrow> f32 \<times> nat"
  default_hasher :: "hash_item list \<Rightarrow> u64"

subsection \<open>Entities and components\<close>

definition alive :: "world \<Rightarrow> Entity \<Rightarrow> bool" where
  "alive w e \<longleftrightarrow> e \<in> set (live w)"

definition get_cell :: "world \<Rightarrow> Entity \<Rightarrow> ckind \<Rightarrow> (comp \<times> tick) option" where
  "get_cell w e k = (if alive w e then store w e k else None)"

definition get_comp :: "world \<Rightarrow> Entity \<Rightarrow> ckind \<Rightarrow> comp option" where
  "get_comp w e k = map_option fst (get_cell w e k)"

definition has_comp :: "world \<Rightarrow> ckind \<Rightarrow> Entity \<Rightarrow> bool" where
  "has_comp w k e \<longleftrightarrow> get_comp w e k \<noteq> None"

text \<open>\<^verbatim>\<open>insert\<close> of one component and of a bundle; a write through \<^verbatim>\<open>Mut\<close> is the same.\<close>

definition put_comp :: "comp \<Rightarrow> Entity \<Rightarrow> world \<Rightarrow> world" where
  "put_comp c e w =
     w\<lparr>store := (store w)(e := (store w e)(kind_of c \<mapsto> (c, change_tick w)))\<rparr>"

definition insert_bundle :: "comp list \<Rightarrow> Entity \<Rightarrow> world \<Rightarrow> world" where
  "insert_bundle cs e w = fold (\<lambda>c. put_comp c e) cs w"

definition spawn_entity :: "ecs_env \<Rightarrow> comp list \<Rightarrow> world \<Rightarrow> Entity \<times> world" where
  "spawn_entity env cs w =
     (let e = fresh_entity env w
      in (e, insert_bundle cs e (w\<lparr>live := live w @ [e], store := (store w)(e := Map.empty)\<rparr>)))"

definition despawn :: "Entity \<Rightarrow> world \<Rightarrow> world" where
  "despawn e w = w\<lparr>live := removeAll e (live w), store := (store w)(e := Map.empty)\<rparr>"

text \<open>A query over the entities that carry all of the given components.\<close>

definition query :: "ecs_env \<Rightarrow> world \<Rightarrow> ckind list \<Rightarrow> Entity list" where
  "query env w ks = filter (\<lambda>e. list_all (\<lambda>k. has_comp w k e) ks) (query_order env w)"

subsection \<open>Typed access\<close>

definition get_networked :: "world \<Rightarrow> Entity \<Rightarrow> NetworkId option" where
  "get_networked w e = (case get_comp w e KNetworked of Some (CNetworked n) \<Rightarrow> Some n | _ \<Rightarrow> None)"

definition get_transform :: "world \<Rightarrow> Entity \<Rightarrow> Transform option" where
  "get_transform w e = (case get_comp w e KTransform of Some (CTransform t) \<Rightarrow> Some t | _ \<Rightarrow> None)"

definition get_velocity :: "world \<Rightarrow> Entity \<Rightarrow> Velocity option" where
  "get_velocity w e = (case get_comp w e KVelocity of Some (CVelocity v) \<Rightarrow> Some v | _ \<Rightarrow> None)"

definition get_physics :: "world \<Rightarrow> Entity \<Rightarrow> PhysicsBody option" where
  "get_physics w e = (case get_comp w e KPhysicsBody of Some (CPhysicsBody p) \<Rightarrow> Some p | _ \<Rightarrow> None)"

definition get_latest_input :: "world \<Rightarrow> Entity \<Rightarrow> LatestInput option" where
  "get_latest_input w e =
     (case get_comp w e KLatestInput of Some (CLatestInput l) \<Rightarrow> Some l | _ \<Rightarrow> None)"

definition get_data_store :: "world \<Rightarrow> Entity \<Rightarrow> DataStore option" where
  "get_data_store w e = (case get_comp w e KDataStore of Some (CDataStore s) \<Rightarrow> Some s | _ \<Rightarrow> None)"

definition get_resource :: "world \<Rightarrow> Entity \<Rightarrow> Resource option" where
  "get_resource w e = (case get_comp w e KResource of Some (CResource r) \<Rightarrow> Some r | _ \<Rightarrow> None)"

definition get_extraction_beam :: "world \<Rightarrow> Entity \<Rightarrow> ExtractionBeam option" where
  "get_extraction_beam w e =
     (case get_comp w e KExtractionBeam of Some (CExtractionBeam b) \<Rightarrow> Some b | _ \<Rightarrow> None)"

definition get_beam_marker :: "world \<Rightarrow> Entity \<Rightarrow> BeamMarker option" where
  "get_beam_marker w e =
     (case get_comp w e KBeamMarker of Some (CBeamMarker m) \<Rightarrow> Some m | _ \<Rightarrow> None)"

definition get_tool :: "world \<Rightarrow> Entity \<Rightarrow> Tool option" where
  "get_tool w e = (case get_comp w e KTool of Some (CTool t) \<Rightarrow> Some t | _ \<Rightarrow> None)"

definition get_priority :: "world \<Rightarrow> Entity \<Rightarrow> Pool option" where
  "get_priority w e =
     (case get_comp w e KPriorityPool of Some (CPriorityPool p) \<Rightarrow> Some p | _ \<Rightarrow> None)"

definition get_integrity :: "world \<Rightarrow> Entity \<Rightarrow> Pool option" where
  "get_integrity w e =
     (case get_comp w e KIntegrityPool of Some (CIntegrityPool p) \<Rightarrow> Some p | _ \<Rightarrow> None)"

definition get_resource_integrity :: "world \<Rightarrow> Entity \<Rightarrow> ResourceIntegrity option" where
  "get_resource_integrity w e =
     (case get_comp w e KResourceIntegrity of Some (CResourceIntegrity r) \<Rightarrow> Some r | _ \<Rightarrow> None)"

definition get_data_drop :: "world \<Rightarrow> Entity \<Rightarrow> u16 option" where
  "get_data_drop w e =
     (case get_comp w e KDataDropComponent of Some (CDataDropComponent a) \<Rightarrow> Some a | _ \<Rightarrow> None)"

definition get_ws_definition :: "world \<Rightarrow> Entity \<Rightarrow> WorkspaceDefinition option" where
  "get_ws_definition w e =
     (case get_comp w e KWorkspaceDefinition of Some (CWorkspaceDefinition d) \<Rightarrow> Some d | _ \<Rightarrow> None)"

definition get_ws_bounds :: "world \<Rightarrow> Entity \<Rightarrow> WorkspaceBounds option" where
  "get_ws_bounds w e =
     (case get_comp w e KWorkspaceBounds of Some (CWorkspaceBounds b) \<Rightarrow> Some b | _ \<Rightarrow> None)"

definition get_ws_membership :: "world \<Rightarrow> Entity \<Rightarrow> NetworkId option" where
  "get_ws_membership w e =
     (case get_comp w e KWorkspaceMembership of Some (CWorkspaceMembership n) \<Rightarrow> Some n | _ \<Rightarrow> None)"

definition get_owner :: "world \<Rightarrow> Entity \<Rightarrow> ClientId option" where
  "get_owner w e =
     (case get_comp w e KNetworkOwner of Some (CNetworkOwner c) \<Rightarrow> Some c | _ \<Rightarrow> None)"

definition get_resource_respawn :: "world \<Rightarrow> Entity \<Rightarrow> ResourceRespawn option" where
  "get_resource_respawn w e =
     (case get_comp w e KResourceRespawn of Some (CResourceRespawn r) \<Rightarrow> Some r | _ \<Rightarrow> None)"

definition get_regen_timer :: "world \<Rightarrow> Entity \<Rightarrow> u16 option" where
  "get_regen_timer w e =
     (case get_comp w e KPriorityRegenTimer of Some (CPriorityRegenTimer t) \<Rightarrow> Some t | _ \<Rightarrow> None)"

definition get_respawn_timer :: "world \<Rightarrow> Entity \<Rightarrow> RespawnTimer option" where
  "get_respawn_timer w e =
     (case get_comp w e KRespawnTimer of Some (CRespawnTimer t) \<Rightarrow> Some t | _ \<Rightarrow> None)"

subsection \<open>Resources\<close>

definition server_tick :: "world \<Rightarrow> u64" where
  "server_tick w = (case ServerTick w of Some t \<Rightarrow> t | None \<Rightarrow> 0)"

definition push_reliable :: "(ClientId option \<times> WireEvent) list \<Rightarrow> world \<Rightarrow> world" where
  "push_reliable evs w = w\<lparr>ReliableEvents := map_option (\<lambda>q. q @ evs) (ReliableEvents w)\<rparr>"

subsection \<open>The identifier map\<close>

text \<open>A \<^verbatim>\<open>BiHashMap\<close> is the list of its pairs; an insertion replaces the pairs that share either
  side.\<close>

definition get_by_left :: "bimap \<Rightarrow> NetworkId \<Rightarrow> Entity option" where
  "get_by_left b n = map_of b n"

definition get_by_right :: "bimap \<Rightarrow> Entity \<Rightarrow> NetworkId option" where
  "get_by_right b e = map_of (map prod.swap b) e"

definition bimap_insert :: "NetworkId \<Rightarrow> Entity \<Rightarrow> bimap \<Rightarrow> bimap" where
  "bimap_insert n e b = (n, e) # filter (\<lambda>(n', e'). n' \<noteq> n \<and> e' \<noteq> e) b"

definition remove_by_left :: "NetworkId \<Rightarrow> bimap \<Rightarrow> bimap" where
  "remove_by_left n b = filter (\<lambda>(n', e'). n' \<noteq> n) b"

subsection \<open>What the libraries promise\<close>

text \<open>
  A query visits every live entity once, a spawned entity is new, map iteration visits every
  entry once, and a decoder returns a component of the type asked for.
\<close>

definition ecs_ok :: "ecs_env \<Rightarrow> bool" where
  "ecs_ok env \<longleftrightarrow>
     (\<forall>w. mset (query_order env w) = mset (live w)) \<and>
     (\<forall>w. fresh_entity env w \<notin> set (live w)) \<and>
     (\<forall>b. mset (bimap_order env b) = mset b) \<and>
     (\<forall>k b c. deserialize env k b = Some c \<longrightarrow> kind_of c = k)"

text \<open>An allocator never hands out an identifier twice before it is reset: what it has issued
  stays below a bound that grows with every allocation.\<close>

definition alloc_ok :: "ecs_env \<Rightarrow> (nat \<Rightarrow> nat) \<Rightarrow> bool" where
  "alloc_ok env bound \<longleftrightarrow>
     (\<forall>al n al'. allocate env al = Some (n, al') \<longrightarrow> bound al \<le> unat n \<and> unat n < bound al')"

lemma ecs_ok_query: "ecs_ok env \<Longrightarrow> set (query_order env w) = set (live w)"
  by (metis ecs_ok_def set_mset_mset)

lemma ecs_ok_query_distinct: "ecs_ok env \<Longrightarrow> distinct (live w) \<Longrightarrow> distinct (query_order env w)"
  by (metis ecs_ok_def mset_eq_imp_distinct_iff)

lemma ecs_ok_fresh: "ecs_ok env \<Longrightarrow> fresh_entity env w \<notin> set (live w)"
  by (simp add: ecs_ok_def)

lemma ecs_ok_bimap: "ecs_ok env \<Longrightarrow> mset (bimap_order env b) = mset b"
  by (simp add: ecs_ok_def)

lemma ecs_ok_decode: "ecs_ok env \<Longrightarrow> deserialize env k b = Some c \<Longrightarrow> kind_of c = k"
  by (simp add: ecs_ok_def)

lemma in_query:
  "ecs_ok env \<Longrightarrow> e \<in> set (query env w ks) \<longleftrightarrow> alive w e \<and> (\<forall>k \<in> set ks. has_comp w k e)"
  by (auto simp: query_def ecs_ok_query alive_def list_all_iff)

lemma distinct_query: "ecs_ok env \<Longrightarrow> distinct (live w) \<Longrightarrow> distinct (query env w ks)"
  by (simp add: query_def ecs_ok_query_distinct)

subsection \<open>Reading back what was written\<close>

text \<open>A component is read back at its entity and its type, and nothing else changes.\<close>

lemma alive_put_comp [simp]: "alive (put_comp c e w) = alive w"
  by (auto simp: alive_def put_comp_def)

lemma get_cell_put_comp:
  "get_cell (put_comp c e w) e' k =
     (if e' = e \<and> k = kind_of c \<and> alive w e then Some (c, change_tick w) else get_cell w e' k)"
  by (simp add: get_cell_def put_comp_def alive_def)

lemma get_comp_put_comp:
  "get_comp (put_comp c e w) e' k =
     (if e' = e \<and> k = kind_of c \<and> alive w e then Some c else get_comp w e' k)"
  by (simp add: get_comp_def get_cell_put_comp)

lemma put_comp_frame [simp]:
  "live (put_comp c e w) = live w" "change_tick (put_comp c e w) = change_tick w"
  "ServerTick (put_comp c e w) = ServerTick w" "ReliableEvents (put_comp c e w) = ReliableEvents w"
  "BeamSpawnRequests (put_comp c e w) = BeamSpawnRequests w"
  "WorkspaceIdx (put_comp c e w) = WorkspaceIdx w" "server_tick (put_comp c e w) = server_tick w"
  by (simp_all add: put_comp_def server_tick_def)

lemma get_comp_alive: "get_comp w e k = Some c \<Longrightarrow> alive w e"
  by (auto simp: get_comp_def get_cell_def split: if_splits)

lemma has_comp_alive: "has_comp w k e \<Longrightarrow> alive w e"
  by (auto simp: has_comp_def dest: get_comp_alive)

text \<open>Reading depends on the live entities and the store only.\<close>

lemma get_comp_cong:
  "live w' = live w \<Longrightarrow> store w' = store w \<Longrightarrow> get_comp w' = get_comp w"
  by (intro ext) (simp add: get_comp_def get_cell_def alive_def)

lemma get_comp_push_reliable [simp]: "get_comp (push_reliable evs w) = get_comp w"
  by (rule get_comp_cong) (simp_all add: push_reliable_def)

lemma push_reliable_frame [simp]:
  "live (push_reliable evs w) = live w" "store (push_reliable evs w) = store w"
  "change_tick (push_reliable evs w) = change_tick w"
  "ServerTick (push_reliable evs w) = ServerTick w"
  "BeamSpawnRequests (push_reliable evs w) = BeamSpawnRequests w"
  "WorkspaceIdx (push_reliable evs w) = WorkspaceIdx w"
  "alive (push_reliable evs w) = alive w"
  by (auto simp: push_reliable_def alive_def)

text \<open>Every stored component sits at its own type; typed getters then never miss.\<close>

definition well_typed :: "world \<Rightarrow> bool" where
  "well_typed w \<longleftrightarrow> (\<forall>e k c. get_comp w e k = Some c \<longrightarrow> kind_of c = k)"

lemma well_typed_put_comp [intro]: "well_typed w \<Longrightarrow> well_typed (put_comp c e w)"
  by (auto simp: well_typed_def get_comp_put_comp)

lemmas getter_defs =
  get_networked_def get_transform_def get_velocity_def
  get_physics_def get_latest_input_def get_data_store_def
  get_resource_def get_extraction_beam_def get_beam_marker_def
  get_tool_def get_priority_def get_integrity_def
  get_resource_integrity_def get_data_drop_def get_ws_definition_def
  get_ws_bounds_def get_ws_membership_def get_owner_def
  get_resource_respawn_def get_regen_timer_def get_respawn_timer_def

text \<open>Typed getters after a write of their own type and of another type.\<close>

lemma get_networked_put [simp]:
  "get_networked (put_comp (CNetworked x) e w) e' = (if e' = e \<and> alive w e then Some x else get_networked w e')"
  "kind_of c \<noteq> KNetworked \<Longrightarrow> get_networked (put_comp c e w) = get_networked w"
  by (auto simp: get_networked_def get_comp_put_comp)

lemma get_transform_put [simp]:
  "get_transform (put_comp (CTransform x) e w) e' = (if e' = e \<and> alive w e then Some x else get_transform w e')"
  "kind_of c \<noteq> KTransform \<Longrightarrow> get_transform (put_comp c e w) = get_transform w"
  by (auto simp: get_transform_def get_comp_put_comp)

lemma get_velocity_put [simp]:
  "get_velocity (put_comp (CVelocity x) e w) e' = (if e' = e \<and> alive w e then Some x else get_velocity w e')"
  "kind_of c \<noteq> KVelocity \<Longrightarrow> get_velocity (put_comp c e w) = get_velocity w"
  by (auto simp: get_velocity_def get_comp_put_comp)

lemma get_physics_put [simp]:
  "get_physics (put_comp (CPhysicsBody x) e w) e' = (if e' = e \<and> alive w e then Some x else get_physics w e')"
  "kind_of c \<noteq> KPhysicsBody \<Longrightarrow> get_physics (put_comp c e w) = get_physics w"
  by (auto simp: get_physics_def get_comp_put_comp)

lemma get_latest_input_put [simp]:
  "get_latest_input (put_comp (CLatestInput x) e w) e' = (if e' = e \<and> alive w e then Some x else get_latest_input w e')"
  "kind_of c \<noteq> KLatestInput \<Longrightarrow> get_latest_input (put_comp c e w) = get_latest_input w"
  by (auto simp: get_latest_input_def get_comp_put_comp)

lemma get_data_store_put [simp]:
  "get_data_store (put_comp (CDataStore x) e w) e' = (if e' = e \<and> alive w e then Some x else get_data_store w e')"
  "kind_of c \<noteq> KDataStore \<Longrightarrow> get_data_store (put_comp c e w) = get_data_store w"
  by (auto simp: get_data_store_def get_comp_put_comp)

lemma get_resource_put [simp]:
  "get_resource (put_comp (CResource x) e w) e' = (if e' = e \<and> alive w e then Some x else get_resource w e')"
  "kind_of c \<noteq> KResource \<Longrightarrow> get_resource (put_comp c e w) = get_resource w"
  by (auto simp: get_resource_def get_comp_put_comp)

lemma get_extraction_beam_put [simp]:
  "get_extraction_beam (put_comp (CExtractionBeam x) e w) e' = (if e' = e \<and> alive w e then Some x else get_extraction_beam w e')"
  "kind_of c \<noteq> KExtractionBeam \<Longrightarrow> get_extraction_beam (put_comp c e w) = get_extraction_beam w"
  by (auto simp: get_extraction_beam_def get_comp_put_comp)

lemma get_beam_marker_put [simp]:
  "get_beam_marker (put_comp (CBeamMarker x) e w) e' = (if e' = e \<and> alive w e then Some x else get_beam_marker w e')"
  "kind_of c \<noteq> KBeamMarker \<Longrightarrow> get_beam_marker (put_comp c e w) = get_beam_marker w"
  by (auto simp: get_beam_marker_def get_comp_put_comp)

lemma get_tool_put [simp]:
  "get_tool (put_comp (CTool x) e w) e' = (if e' = e \<and> alive w e then Some x else get_tool w e')"
  "kind_of c \<noteq> KTool \<Longrightarrow> get_tool (put_comp c e w) = get_tool w"
  by (auto simp: get_tool_def get_comp_put_comp)

lemma get_priority_put [simp]:
  "get_priority (put_comp (CPriorityPool x) e w) e' = (if e' = e \<and> alive w e then Some x else get_priority w e')"
  "kind_of c \<noteq> KPriorityPool \<Longrightarrow> get_priority (put_comp c e w) = get_priority w"
  by (auto simp: get_priority_def get_comp_put_comp)

lemma get_integrity_put [simp]:
  "get_integrity (put_comp (CIntegrityPool x) e w) e' = (if e' = e \<and> alive w e then Some x else get_integrity w e')"
  "kind_of c \<noteq> KIntegrityPool \<Longrightarrow> get_integrity (put_comp c e w) = get_integrity w"
  by (auto simp: get_integrity_def get_comp_put_comp)

lemma get_resource_integrity_put [simp]:
  "get_resource_integrity (put_comp (CResourceIntegrity x) e w) e' = (if e' = e \<and> alive w e then Some x else get_resource_integrity w e')"
  "kind_of c \<noteq> KResourceIntegrity \<Longrightarrow> get_resource_integrity (put_comp c e w) = get_resource_integrity w"
  by (auto simp: get_resource_integrity_def get_comp_put_comp)

lemma get_data_drop_put [simp]:
  "get_data_drop (put_comp (CDataDropComponent x) e w) e' = (if e' = e \<and> alive w e then Some x else get_data_drop w e')"
  "kind_of c \<noteq> KDataDropComponent \<Longrightarrow> get_data_drop (put_comp c e w) = get_data_drop w"
  by (auto simp: get_data_drop_def get_comp_put_comp)

lemma get_ws_definition_put [simp]:
  "get_ws_definition (put_comp (CWorkspaceDefinition x) e w) e' = (if e' = e \<and> alive w e then Some x else get_ws_definition w e')"
  "kind_of c \<noteq> KWorkspaceDefinition \<Longrightarrow> get_ws_definition (put_comp c e w) = get_ws_definition w"
  by (auto simp: get_ws_definition_def get_comp_put_comp)

lemma get_ws_bounds_put [simp]:
  "get_ws_bounds (put_comp (CWorkspaceBounds x) e w) e' = (if e' = e \<and> alive w e then Some x else get_ws_bounds w e')"
  "kind_of c \<noteq> KWorkspaceBounds \<Longrightarrow> get_ws_bounds (put_comp c e w) = get_ws_bounds w"
  by (auto simp: get_ws_bounds_def get_comp_put_comp)

lemma get_ws_membership_put [simp]:
  "get_ws_membership (put_comp (CWorkspaceMembership x) e w) e' = (if e' = e \<and> alive w e then Some x else get_ws_membership w e')"
  "kind_of c \<noteq> KWorkspaceMembership \<Longrightarrow> get_ws_membership (put_comp c e w) = get_ws_membership w"
  by (auto simp: get_ws_membership_def get_comp_put_comp)

lemma get_owner_put [simp]:
  "get_owner (put_comp (CNetworkOwner x) e w) e' = (if e' = e \<and> alive w e then Some x else get_owner w e')"
  "kind_of c \<noteq> KNetworkOwner \<Longrightarrow> get_owner (put_comp c e w) = get_owner w"
  by (auto simp: get_owner_def get_comp_put_comp)

lemma get_resource_respawn_put [simp]:
  "get_resource_respawn (put_comp (CResourceRespawn x) e w) e' = (if e' = e \<and> alive w e then Some x else get_resource_respawn w e')"
  "kind_of c \<noteq> KResourceRespawn \<Longrightarrow> get_resource_respawn (put_comp c e w) = get_resource_respawn w"
  by (auto simp: get_resource_respawn_def get_comp_put_comp)

lemma get_regen_timer_put [simp]:
  "get_regen_timer (put_comp (CPriorityRegenTimer x) e w) e' = (if e' = e \<and> alive w e then Some x else get_regen_timer w e')"
  "kind_of c \<noteq> KPriorityRegenTimer \<Longrightarrow> get_regen_timer (put_comp c e w) = get_regen_timer w"
  by (auto simp: get_regen_timer_def get_comp_put_comp)

lemma get_respawn_timer_put [simp]:
  "get_respawn_timer (put_comp (CRespawnTimer x) e w) e' = (if e' = e \<and> alive w e then Some x else get_respawn_timer w e')"
  "kind_of c \<noteq> KRespawnTimer \<Longrightarrow> get_respawn_timer (put_comp c e w) = get_respawn_timer w"
  by (auto simp: get_respawn_timer_def get_comp_put_comp)

text \<open>A typed getter answers exactly where the component is present.\<close>

lemma get_networked_iff: "well_typed w \<Longrightarrow> get_networked w e = Some x \<longleftrightarrow> get_comp w e KNetworked = Some (CNetworked x)"
  by (auto simp: get_networked_def well_typed_def split: option.splits comp.splits)

lemma get_transform_iff: "well_typed w \<Longrightarrow> get_transform w e = Some x \<longleftrightarrow> get_comp w e KTransform = Some (CTransform x)"
  by (auto simp: get_transform_def well_typed_def split: option.splits comp.splits)

lemma get_velocity_iff: "well_typed w \<Longrightarrow> get_velocity w e = Some x \<longleftrightarrow> get_comp w e KVelocity = Some (CVelocity x)"
  by (auto simp: get_velocity_def well_typed_def split: option.splits comp.splits)

lemma get_physics_iff: "well_typed w \<Longrightarrow> get_physics w e = Some x \<longleftrightarrow> get_comp w e KPhysicsBody = Some (CPhysicsBody x)"
  by (auto simp: get_physics_def well_typed_def split: option.splits comp.splits)

lemma get_latest_input_iff: "well_typed w \<Longrightarrow> get_latest_input w e = Some x \<longleftrightarrow> get_comp w e KLatestInput = Some (CLatestInput x)"
  by (auto simp: get_latest_input_def well_typed_def split: option.splits comp.splits)

lemma get_data_store_iff: "well_typed w \<Longrightarrow> get_data_store w e = Some x \<longleftrightarrow> get_comp w e KDataStore = Some (CDataStore x)"
  by (auto simp: get_data_store_def well_typed_def split: option.splits comp.splits)

lemma get_resource_iff: "well_typed w \<Longrightarrow> get_resource w e = Some x \<longleftrightarrow> get_comp w e KResource = Some (CResource x)"
  by (auto simp: get_resource_def well_typed_def split: option.splits comp.splits)

lemma get_extraction_beam_iff: "well_typed w \<Longrightarrow> get_extraction_beam w e = Some x \<longleftrightarrow> get_comp w e KExtractionBeam = Some (CExtractionBeam x)"
  by (auto simp: get_extraction_beam_def well_typed_def split: option.splits comp.splits)

lemma get_beam_marker_iff: "well_typed w \<Longrightarrow> get_beam_marker w e = Some x \<longleftrightarrow> get_comp w e KBeamMarker = Some (CBeamMarker x)"
  by (auto simp: get_beam_marker_def well_typed_def split: option.splits comp.splits)

lemma get_tool_iff: "well_typed w \<Longrightarrow> get_tool w e = Some x \<longleftrightarrow> get_comp w e KTool = Some (CTool x)"
  by (auto simp: get_tool_def well_typed_def split: option.splits comp.splits)

lemma get_priority_iff: "well_typed w \<Longrightarrow> get_priority w e = Some x \<longleftrightarrow> get_comp w e KPriorityPool = Some (CPriorityPool x)"
  by (auto simp: get_priority_def well_typed_def split: option.splits comp.splits)

lemma get_integrity_iff: "well_typed w \<Longrightarrow> get_integrity w e = Some x \<longleftrightarrow> get_comp w e KIntegrityPool = Some (CIntegrityPool x)"
  by (auto simp: get_integrity_def well_typed_def split: option.splits comp.splits)

lemma get_resource_integrity_iff: "well_typed w \<Longrightarrow> get_resource_integrity w e = Some x \<longleftrightarrow> get_comp w e KResourceIntegrity = Some (CResourceIntegrity x)"
  by (auto simp: get_resource_integrity_def well_typed_def split: option.splits comp.splits)

lemma get_data_drop_iff: "well_typed w \<Longrightarrow> get_data_drop w e = Some x \<longleftrightarrow> get_comp w e KDataDropComponent = Some (CDataDropComponent x)"
  by (auto simp: get_data_drop_def well_typed_def split: option.splits comp.splits)

lemma get_ws_definition_iff: "well_typed w \<Longrightarrow> get_ws_definition w e = Some x \<longleftrightarrow> get_comp w e KWorkspaceDefinition = Some (CWorkspaceDefinition x)"
  by (auto simp: get_ws_definition_def well_typed_def split: option.splits comp.splits)

lemma get_ws_bounds_iff: "well_typed w \<Longrightarrow> get_ws_bounds w e = Some x \<longleftrightarrow> get_comp w e KWorkspaceBounds = Some (CWorkspaceBounds x)"
  by (auto simp: get_ws_bounds_def well_typed_def split: option.splits comp.splits)

lemma get_ws_membership_iff: "well_typed w \<Longrightarrow> get_ws_membership w e = Some x \<longleftrightarrow> get_comp w e KWorkspaceMembership = Some (CWorkspaceMembership x)"
  by (auto simp: get_ws_membership_def well_typed_def split: option.splits comp.splits)

lemma get_owner_iff: "well_typed w \<Longrightarrow> get_owner w e = Some x \<longleftrightarrow> get_comp w e KNetworkOwner = Some (CNetworkOwner x)"
  by (auto simp: get_owner_def well_typed_def split: option.splits comp.splits)

lemma get_resource_respawn_iff: "well_typed w \<Longrightarrow> get_resource_respawn w e = Some x \<longleftrightarrow> get_comp w e KResourceRespawn = Some (CResourceRespawn x)"
  by (auto simp: get_resource_respawn_def well_typed_def split: option.splits comp.splits)

lemma get_regen_timer_iff: "well_typed w \<Longrightarrow> get_regen_timer w e = Some x \<longleftrightarrow> get_comp w e KPriorityRegenTimer = Some (CPriorityRegenTimer x)"
  by (auto simp: get_regen_timer_def well_typed_def split: option.splits comp.splits)

lemma get_respawn_timer_iff: "well_typed w \<Longrightarrow> get_respawn_timer w e = Some x \<longleftrightarrow> get_comp w e KRespawnTimer = Some (CRespawnTimer x)"
  by (auto simp: get_respawn_timer_def well_typed_def split: option.splits comp.splits)

subsection \<open>Bundles, spawning, despawning\<close>

lemma alive_insert_bundle [simp]: "alive (insert_bundle cs e w) = alive w"
  unfolding insert_bundle_def by (induction cs arbitrary: w) auto

lemma insert_bundle_frame [simp]:
  "live (insert_bundle cs e w) = live w" "change_tick (insert_bundle cs e w) = change_tick w"
  "ServerTick (insert_bundle cs e w) = ServerTick w"
  "ReliableEvents (insert_bundle cs e w) = ReliableEvents w"
  "BeamSpawnRequests (insert_bundle cs e w) = BeamSpawnRequests w"
  "WorkspaceIdx (insert_bundle cs e w) = WorkspaceIdx w"
  unfolding insert_bundle_def by (induction cs arbitrary: w) auto

text \<open>The last component of its type in the bundle wins.\<close>

definition bundle_get :: "comp list \<Rightarrow> ckind \<Rightarrow> comp option" where
  "bundle_get cs k = List.find (\<lambda>c. kind_of c = k) (rev cs)"

lemma bundle_get_kind: "bundle_get cs k = Some c \<Longrightarrow> kind_of c = k"
  by (auto simp: bundle_get_def find_Some_iff)

lemma bundle_get_snoc:
  "bundle_get (cs @ [c]) k = (if kind_of c = k then Some c else bundle_get cs k)"
  by (simp add: bundle_get_def)

lemma bundle_get_Nil [simp]: "bundle_get [] k = None"
  by (simp add: bundle_get_def)

lemma get_comp_insert_bundle:
  "get_comp (insert_bundle cs e w) e' k =
     (if e' = e \<and> alive w e
      then (case bundle_get cs k of Some c \<Rightarrow> Some c | None \<Rightarrow> get_comp w e k)
      else get_comp w e' k)"
proof (induction cs rule: rev_induct)
  case Nil
  then show ?case by (simp add: insert_bundle_def)
next
  case (snoc c cs)
  have "insert_bundle (cs @ [c]) e w = put_comp c e (insert_bundle cs e w)"
    by (simp add: insert_bundle_def)
  with snoc show ?case by (auto simp: get_comp_put_comp bundle_get_snoc)
qed

lemma spawn_entity_facts:
  assumes "spawn_entity env cs w = (e, w')"
  shows "e = fresh_entity env w" "live w' = live w @ [e]" "change_tick w' = change_tick w"
    "ServerTick w' = ServerTick w" "ReliableEvents w' = ReliableEvents w"
    "BeamSpawnRequests w' = BeamSpawnRequests w" "WorkspaceIdx w' = WorkspaceIdx w"
    "alive w' x \<longleftrightarrow> x = e \<or> alive w x"
  using assms by (auto simp: spawn_entity_def Let_def alive_def)

lemma get_comp_spawn_entity:
  assumes "spawn_entity env cs w = (e, w')"
  shows "get_comp w' e' k = (if e' = e then bundle_get cs k else get_comp w e' k)"
proof -
  let ?w = "w\<lparr>live := live w @ [e], store := (store w)(e := Map.empty)\<rparr>"
  have w': "w' = insert_bundle cs e ?w" using assms by (auto simp: spawn_entity_def Let_def)
  have "get_comp ?w e k = None" for k by (simp add: get_comp_def get_cell_def)
  moreover have "e' \<noteq> e \<Longrightarrow> get_comp ?w e' k = get_comp w e' k"
    by (simp add: get_comp_def get_cell_def alive_def)
  moreover have "alive ?w e" by (simp add: alive_def)
  ultimately show ?thesis by (auto simp: w' get_comp_insert_bundle split: option.split)
qed

lemma alive_despawn [simp]: "alive (despawn e w) e' \<longleftrightarrow> alive w e' \<and> e' \<noteq> e"
  by (auto simp: alive_def despawn_def)

lemma get_comp_despawn: "get_comp (despawn e w) e' k = (if e' = e then None else get_comp w e' k)"
  by (simp add: get_comp_def get_cell_def alive_def despawn_def)

lemma despawn_frame [simp]:
  "live (despawn e w) = removeAll e (live w)" "change_tick (despawn e w) = change_tick w"
  "ServerTick (despawn e w) = ServerTick w" "ReliableEvents (despawn e w) = ReliableEvents w"
  "BeamSpawnRequests (despawn e w) = BeamSpawnRequests w"
  "WorkspaceIdx (despawn e w) = WorkspaceIdx w"
  by (simp_all add: despawn_def)

end
