(* ===== verification/Registry.thy ===== *)
theory Registry
  imports World
begin

text \<open>
  \<^verbatim>\<open>crates/aetheris-ecs-bevy/src/registry.rs\<close>: the component registry, the default replicator of
  a component type, and the replicator of client input with its tick window. The two
  implementations of the trait \<^verbatim>\<open>ComponentReplicator\<close> are the constructors of \<open>Replicator\<close>; the
  trait's operations dispatch on them.
\<close>

datatype ComponentScope = Core | Platform | Visual

datatype ComponentClassification = Persistent | Transient | Simulated

datatype Replicator = DefaultReplicator ckind ComponentKind | InputCommandReplicator

record ComponentDescriptor =
  cd_kind :: ComponentKind
  cd_name :: string
  cd_scope :: ComponentScope
  cd_classification :: ComponentClassification
  cd_replicator :: Replicator

type_synonym ComponentRegistry = "(ComponentKind \<times> ComponentDescriptor) list"

text \<open>\<open>None\<close> is the panic on a duplicate kind.\<close>

definition register :: "ComponentDescriptor \<Rightarrow> ComponentRegistry \<Rightarrow> ComponentRegistry option" where
  "register d reg =
     (if map_of reg (cd_kind d) \<noteq> None then None else Some ((cd_kind d, d) # reg))"

definition descriptor ::
  "ComponentKind \<Rightarrow> string \<Rightarrow> ComponentScope \<Rightarrow> ComponentClassification \<Rightarrow> Replicator \<Rightarrow>
     ComponentDescriptor" where
  "descriptor k n sc cl r =
     \<lparr>cd_kind = k, cd_name = n, cd_scope = sc, cd_classification = cl, cd_replicator = r\<rparr>"

definition platform_descriptors :: "kind_consts \<Rightarrow> ComponentDescriptor list" where
  "platform_descriptors K =
     [descriptor 1 ''Transform'' Core Simulated (DefaultReplicator KTransform 1),
      descriptor 2 ''Velocity'' Core Simulated (DefaultReplicator KVelocity 2),
      descriptor 3 ''AgentProperties'' Platform Simulated (DefaultReplicator KAgentProperties 3),
      descriptor 4 ''AgentConfiguration'' Platform Simulated
        (DefaultReplicator KAgentConfiguration 4),
      descriptor 5 ''AgentKind'' Core Simulated (DefaultReplicator KAgentKind 5),
      descriptor 6 ''PlayerName'' Core Simulated (DefaultReplicator KPlayerName 6),
      descriptor 7 ''FactionTag'' Platform Simulated (DefaultReplicator KFactionTag 7),
      descriptor 8 ''ResourceIntegrity'' Platform Simulated
        (DefaultReplicator KResourceIntegrity 8),
      descriptor 9 ''ResourceYield'' Platform Simulated (DefaultReplicator KResourceYield 9),
      descriptor 10 ''DataDrop'' Platform Simulated (DefaultReplicator KDataDrop 10),
      descriptor 11 ''Station'' Core Simulated (DefaultReplicator KStation 11),
      descriptor 12 ''ZoneGate'' Core Simulated (DefaultReplicator KZoneGate 12),
      descriptor 13 ''BeamMarker'' Platform Simulated
        (DefaultReplicator KBeamMarker (BEAM_MARKER_KIND K)),
      descriptor 14 ''DockedState'' Core Simulated (DefaultReplicator KDockedState 14),
      descriptor (EXTRACTION_BEAM_KIND K) ''ExtractionBeam'' Platform Simulated
        (DefaultReplicator KExtractionBeam (EXTRACTION_BEAM_KIND K)),
      descriptor (DATA_STORE_KIND K) ''DataStore'' Platform Simulated
        (DefaultReplicator KDataStore (DATA_STORE_KIND K)),
      descriptor (RESOURCE_KIND K) ''Resource'' Platform Simulated
        (DefaultReplicator KResource (RESOURCE_KIND K)),
      descriptor (TOOL_KIND K) ''ToolComponent'' Platform Simulated
        (DefaultReplicator KTool (TOOL_KIND K)),
      descriptor (PRIORITY_POOL_KIND K) ''PriorityPoolComponent'' Platform Simulated
        (DefaultReplicator KPriorityPool (PRIORITY_POOL_KIND K)),
      descriptor (INTEGRITY_POOL_KIND K) ''IntegrityPoolComponent'' Platform Simulated
        (DefaultReplicator KIntegrityPool (INTEGRITY_POOL_KIND K)),
      descriptor (DATA_DROP_KIND K) ''DataDropComponent'' Platform Simulated
        (DefaultReplicator KDataDropComponent (DATA_DROP_KIND K)),
      descriptor (WORKSPACE_DEFINITION_KIND K) ''WorkspaceDefinition'' Platform Simulated
        (DefaultReplicator KWorkspaceDefinition (WORKSPACE_DEFINITION_KIND K)),
      descriptor (WORKSPACE_BOUNDS_KIND K) ''WorkspaceBounds'' Platform Simulated
        (DefaultReplicator KWorkspaceBounds (WORKSPACE_BOUNDS_KIND K)),
      descriptor (WORKSPACE_MEMBERSHIP_KIND K) ''WorkspaceMembership'' Platform Simulated
        (DefaultReplicator KWorkspaceMembership (WORKSPACE_MEMBERSHIP_KIND K)),
      descriptor (INPUT_COMMAND_KIND K) ''InputCommand'' Core Transient InputCommandReplicator]"

definition register_platform_components ::
  "kind_consts \<Rightarrow> ComponentRegistry \<Rightarrow> ComponentRegistry option" where
  "register_platform_components K reg = foldM register (platform_descriptors K) reg"

subsection \<open>Replicators\<close>

fun replicator_kind :: "ecs_env \<Rightarrow> Replicator \<Rightarrow> ComponentKind" where
  "replicator_kind env (DefaultReplicator _ k) = k"
| "replicator_kind env InputCommandReplicator = INPUT_COMMAND_KIND (kinds env)"

definition default_extract ::
  "ecs_env \<Rightarrow> ckind \<Rightarrow> ComponentKind \<Rightarrow> world \<Rightarrow> Entity \<Rightarrow> NetworkId \<Rightarrow> u64 \<Rightarrow> tick option \<Rightarrow>
     ReplicationEvent option" where
  "default_extract env ck kind w e network_id tick last_tick =
     do { (component, changed) \<leftarrow> get_cell w e ck;
          if (case last_tick of
                Some l \<Rightarrow> is_changed env changed l (change_tick w)
              | None \<Rightarrow> True)
          then do { payload \<leftarrow> serialize env component;
                    Some \<lparr>re_network_id = network_id, re_component_kind = kind,
                          re_payload = payload, re_tick = tick\<rparr> }
          else None }"

fun replicator_extract ::
  "ecs_env \<Rightarrow> Replicator \<Rightarrow> world \<Rightarrow> Entity \<Rightarrow> NetworkId \<Rightarrow> u64 \<Rightarrow> tick option \<Rightarrow>
     ReplicationEvent option" where
  "replicator_extract env (DefaultReplicator ck kind) w e network_id tick last_tick =
     default_extract env ck kind w e network_id tick last_tick"
| "replicator_extract env InputCommandReplicator w e network_id tick last_tick = None"

definition default_apply :: "ecs_env \<Rightarrow> ckind \<Rightarrow> Entity \<Rightarrow> ComponentUpdate \<Rightarrow> world \<Rightarrow> world" where
  "default_apply env ck e update w =
     (case deserialize env ck (cu_payload update) of
        Some component \<Rightarrow> if alive w e then put_comp component e w else w
      | None \<Rightarrow> w)"

definition MAX_FORWARD_TICK_JUMP :: u64 where
  "MAX_FORWARD_TICK_JUMP = 600"

definition validate_access_gate :: "world \<Rightarrow> Entity \<Rightarrow> bool" where
  "validate_access_gate w e \<longleftrightarrow> has_comp w KNetworkOwner e \<and> has_comp w KSessionAgent e"

definition deserialize_command :: "ecs_env \<Rightarrow> bytes \<Rightarrow> InputCommand option" where
  "deserialize_command env payload =
     (case deserialize_input env payload of
        Some cmd \<Rightarrow> if input_valid env cmd then Some cmd else None
      | None \<Rightarrow> None)"

definition is_valid_jump :: "u64 \<Rightarrow> u64 \<Rightarrow> bool" where
  "is_valid_jump last_tick cmd_tick \<longleftrightarrow>
     cmd_tick > last_tick \<and> cmd_tick \<le> sat_add last_tick MAX_FORWARD_TICK_JUMP"

definition in_server_window :: "u64 \<Rightarrow> u64 \<Rightarrow> bool" where
  "in_server_window server t \<longleftrightarrow>
     t \<le> sat_add server MAX_FORWARD_TICK_JUMP \<and> t \<ge> sat_sub server MAX_FORWARD_TICK_JUMP"

definition accepts_tick :: "u64 \<Rightarrow> u64 \<Rightarrow> u64 \<Rightarrow> bool" where
  "accepts_tick server last_tick cmd_tick \<longleftrightarrow>
     is_valid_jump last_tick cmd_tick \<or>
     in_server_window server cmd_tick \<and> \<not> in_server_window server last_tick"

definition apply_command_update :: "Entity \<Rightarrow> InputCommand \<Rightarrow> world \<Rightarrow> world" where
  "apply_command_update e command w =
     (if alive w e
      then (case get_latest_input w e of
              Some latest \<Rightarrow>
                if accepts_tick (server_tick w) (last_client_tick latest) (ic_tick command)
                then put_comp (CLatestInput \<lparr>li_command = command,
                                             last_client_tick = ic_tick command\<rparr>) e w
                else w
            | None \<Rightarrow>
                let capped_tick = min (ic_tick command)
                                      (sat_add (server_tick w) MAX_FORWARD_TICK_JUMP)
                in put_comp (CLatestInput \<lparr>li_command = command\<lparr>ic_tick := capped_tick\<rparr>,
                                           last_client_tick = capped_tick\<rparr>) e w)
      else w)"

definition input_apply :: "ecs_env \<Rightarrow> Entity \<Rightarrow> ComponentUpdate \<Rightarrow> world \<Rightarrow> world" where
  "input_apply env e update w =
     (if \<not> validate_access_gate w e then w
      else case deserialize_command env (cu_payload update) of
             None \<Rightarrow> w
           | Some command \<Rightarrow> apply_command_update e command w)"

fun apply_update :: "ecs_env \<Rightarrow> Replicator \<Rightarrow> Entity \<Rightarrow> ComponentUpdate \<Rightarrow> world \<Rightarrow> world" where
  "apply_update env (DefaultReplicator ck _) e update w = default_apply env ck e update w"
| "apply_update env InputCommandReplicator e update w = input_apply env e update w"

end
