(* ===== verification/Samples.thy ===== *)
theory Samples
  imports World
begin

text \<open>
  Concrete instances of the library parameters, for the witnesses: queries in spawn order, entity
  and network ids counted up, one-byte codecs, and the numeric constants the comments of
  \<^verbatim>\<open>registry.rs\<close> give. The instances satisfy what the development assumes of the libraries.
\<close>

definition sample_kinds :: kind_consts where
  "sample_kinds =
     \<lparr>BEAM_MARKER_KIND = 13, EXTRACTION_BEAM_KIND = 1024, DATA_STORE_KIND = 1025,
      RESOURCE_KIND = 1026, TOOL_KIND = 1027, PRIORITY_POOL_KIND = 1028,
      INTEGRITY_POOL_KIND = 1029, DATA_DROP_KIND = 1030, WORKSPACE_DEFINITION_KIND = 129,
      WORKSPACE_BOUNDS_KIND = 130, WORKSPACE_MEMBERSHIP_KIND = 131, INPUT_COMMAND_KIND = 128\<rparr>"

definition sample_types :: entity_types where
  "sample_types =
     \<lparr>ENTITY_TYPE_AGENT = 1, ENTITY_TYPE_AI_AGENT = 2, ENTITY_TYPE_BEAM = 3,
      ENTITY_TYPE_CARRIER_AGENT = 4, ENTITY_TYPE_DATA_DROP = 6, ENTITY_TYPE_HEAVY_AGENT = 7,
      ENTITY_TYPE_RESOURCE = 5, ENTITY_TYPE_TRAINING_TARGET = 8\<rparr>"

text \<open>An input command is its tick in two bytes, a faction tag its byte.\<close>

fun sample_decode_input :: "bytes \<Rightarrow> InputCommand option" where
  "sample_decode_input [a, b] =
     Some \<lparr>ic_tick = ucast a * 256 + ucast b, ic_actions = [], ic_actions_mask = 0,
           ic_last_seen_input_tick = None\<rparr>"
| "sample_decode_input _ = None"

definition sample_serialize :: "comp \<Rightarrow> bytes option" where
  "sample_serialize c = (case c of CFactionTag b \<Rightarrow> Some [b] | _ \<Rightarrow> None)"

definition sample_deserialize :: "ckind \<Rightarrow> bytes \<Rightarrow> comp option" where
  "sample_deserialize k bs =
     (if k = KFactionTag \<and> length bs = 1 then Some (CFactionTag (hd bs)) else None)"

definition sample_env :: ecs_env where
  "sample_env =
     \<lparr>query_order = live, fresh_entity = (\<lambda>w. 2 + sum_list (live w)),
      is_changed = (\<lambda>changed l now. l < changed), bimap_order = (\<lambda>b. b), alloc_init = 1,
      allocate = (\<lambda>n. if n < 2 ^ 64 then Some (of_nat n, Suc n) else None),
      alloc_reset = (\<lambda>n. 1), kinds = sample_kinds, types = sample_types,
      get_default_properties = (\<lambda>k. (100, 50)), ACTION_USE_TOOL = 1,
      serialize = sample_serialize, deserialize = sample_deserialize,
      deserialize_input = sample_decode_input, input_valid = (\<lambda>c. True),
      atan2f = (\<lambda>y x. fzero), cosf = (\<lambda>x. fone), sinf = (\<lambda>x. fzero),
      rng_seed = unat, random_range = (\<lambda>lo hi r. (lo, Suc r)), default_hasher = (\<lambda>xs. of_nat (length xs))\<rparr>"

definition empty_world :: world where
  "empty_world =
     \<lparr>live = [], store = (\<lambda>e k. None), change_tick = 0, ServerTick = Some 0,
      ReliableEvents = Some [], BeamSpawnRequests = Some [],
      WorkspaceIdx = Some \<lparr>memberships = Map.empty, client_workspaces = Map.empty\<rparr>\<rparr>"

text \<open>A world with the given entities.\<close>

definition world_of :: "(Entity \<times> comp list) list \<Rightarrow> world" where
  "world_of es =
     fold (\<lambda>(e, cs) w. insert_bundle cs e (w\<lparr>live := live w @ [e]\<rparr>)) es empty_world"

lemma sample_ecs_ok: "ecs_ok sample_env"
proof -
  have "Suc (Suc (sum_list xs)) \<notin> set xs" for xs :: "nat list"
    using member_le_sum_list [of "Suc (Suc (sum_list xs))" xs] by auto
  moreover have "kind_of c = k" if "sample_deserialize k b = Some c" for k b c
    using that by (auto simp: sample_deserialize_def split: if_splits)
  ultimately show ?thesis by (auto simp: ecs_ok_def sample_env_def)
qed

lemma sample_alloc_ok: "alloc_ok sample_env (\<lambda>al. al)"
  by (auto simp: alloc_ok_def sample_env_def unat_of_nat split: if_splits)

end
