(* ===== verification/Registry_Props.thy ===== *)
theory Registry_Props
  imports Registry Samples
begin

text \<open>
  Properties of the registry and of the input replicator: the platform components register
  without a clash, and an input command is applied at most once while the client's clock stays
  in the server's window.
\<close>

subsection \<open>The platform registry\<close>

text \<open>The values the comments of \<^verbatim>\<open>register_platform_components\<close> give for the kinds of the
  protocol crate.\<close>

definition documented_kinds :: "kind_consts \<Rightarrow> bool" where
  "documented_kinds K \<longleftrightarrow>
     BEAM_MARKER_KIND K = 13 \<and> EXTRACTION_BEAM_KIND K = 1024 \<and> DATA_STORE_KIND K = 1025 \<and>
     RESOURCE_KIND K = 1026 \<and> TOOL_KIND K = 1027 \<and> PRIORITY_POOL_KIND K = 1028 \<and>
     INTEGRITY_POOL_KIND K = 1029 \<and> DATA_DROP_KIND K = 1030 \<and>
     WORKSPACE_DEFINITION_KIND K = 129 \<and> WORKSPACE_BOUNDS_KIND K = 130 \<and>
     WORKSPACE_MEMBERSHIP_KIND K = 131 \<and> INPUT_COMMAND_KIND K = 128"

lemma foldM_register:
  assumes "distinct (map cd_kind ds)" and "\<And>d. d \<in> set ds \<Longrightarrow> map_of reg (cd_kind d) = None"
  shows "foldM register ds reg = Some (rev (map (\<lambda>d. (cd_kind d, d)) ds) @ reg)"
  using assms
proof (induction ds arbitrary: reg)
  case (Cons d ds)
  have "foldM register ds ((cd_kind d, d) # reg) =
      Some (rev (map (\<lambda>d. (cd_kind d, d)) ds) @ (cd_kind d, d) # reg)"
    using Cons.prems by (intro Cons.IH) (auto simp: rev_image_eqI)
  moreover have "register d reg = Some ((cd_kind d, d) # reg)"
    using Cons.prems by (simp add: register_def)
  ultimately show ?case by simp
qed simp

lemma platform_kinds_distinct: "documented_kinds K \<Longrightarrow> distinct (map cd_kind (platform_descriptors K))"
  by (simp add: documented_kinds_def platform_descriptors_def descriptor_def)

lemma platform_registered:
  "documented_kinds K \<Longrightarrow>
   register_platform_components K [] = Some (rev (map (\<lambda>d. (cd_kind d, d)) (platform_descriptors K)))"
  unfolding register_platform_components_def
  by (subst foldM_register) (use platform_kinds_distinct [of K] in auto)

text \<open>
  Registering the platform components never panics on a duplicate. The registry then holds
  twenty-five kinds under twenty-five distinct names, each kind maps to a replicator of that same
  kind, no two kinds share a component type, and input is the only kind that is not extracted.
\<close>

lemma platform_registry:
  assumes "documented_kinds (kinds env)"
  shows "\<exists>reg. register_platform_components (kinds env) [] = Some reg \<and>
    length reg = 25 \<and> distinct (map fst reg) \<and> distinct (map (cd_name \<circ> snd) reg) \<and>
    (\<forall>(k, d) \<in> set reg. cd_kind d = k \<and> replicator_kind env (cd_replicator d) = k) \<and>
    distinct (concat (map (\<lambda>(k, d). case cd_replicator d of DefaultReplicator ck _ \<Rightarrow> [ck] | _ \<Rightarrow> []) reg)) \<and>
    (\<forall>(k, d) \<in> set reg. cd_replicator d = InputCommandReplicator \<longleftrightarrow> k = 128)"
proof -
  let ?ds = "platform_descriptors (kinds env)"
  note K = assms [unfolded documented_kinds_def]
  show ?thesis
    by (rule exI [of _ "rev (map (\<lambda>d. (cd_kind d, d)) ?ds)"], intro conjI)
      (use platform_registered [OF assms] K in \<open>simp_all add: platform_descriptors_def descriptor_def\<close>)
qed

subsection \<open>The tick window of input commands\<close>

text \<open>The tick an input update is accepted with, if it is accepted.\<close>

definition input_verdict :: "ecs_env \<Rightarrow> Entity \<Rightarrow> ComponentUpdate \<Rightarrow> world \<Rightarrow> InputCommand option" where
  "input_verdict env e u w =
     (if \<not> validate_access_gate w e then None
      else case deserialize_command env (cu_payload u) of
             None \<Rightarrow> None
           | Some c \<Rightarrow>
               (case get_latest_input w e of
                  Some l \<Rightarrow> if accepts_tick (server_tick w) (last_client_tick l) (ic_tick c)
                            then Some c else None
                | None \<Rightarrow> Some (c\<lparr>ic_tick := min (ic_tick c)
                                     (sat_add (server_tick w) MAX_FORWARD_TICK_JUMP)\<rparr>)))"

lemma input_apply_verdict:
  "input_apply env e u w =
     (case input_verdict env e u w of
        None \<Rightarrow> w
      | Some c \<Rightarrow> put_comp (CLatestInput \<lparr>li_command = c, last_client_tick = ic_tick c\<rparr>) e w)"
proof (cases "validate_access_gate w e")
  case True
  then have "alive w e" by (auto simp: validate_access_gate_def dest: has_comp_alive)
  with True show ?thesis
    by (simp add: input_apply_def input_verdict_def apply_command_update_def Let_def
        split: option.split)
qed (simp add: input_apply_def input_verdict_def)

fun accepted_ticks :: "ecs_env \<Rightarrow> Entity \<Rightarrow> ComponentUpdate list \<Rightarrow> world \<Rightarrow> u64 list" where
  "accepted_ticks env e [] w = []"
| "accepted_ticks env e (u # us) w =
     (case input_verdict env e u w of Some c \<Rightarrow> [ic_tick c] | None \<Rightarrow> []) @
     accepted_ticks env e us (input_apply env e u w)"

lemma gate_put_latest [simp]:
  "validate_access_gate (put_comp (CLatestInput l) e w) = validate_access_gate w"
  by (auto simp: validate_access_gate_def has_comp_def get_comp_put_comp)

lemma verdict_alive: "input_verdict env e u w = Some c \<Longrightarrow> alive w e"
  by (auto simp: input_verdict_def validate_access_gate_def split: if_splits dest: has_comp_alive)

lemma window_step:
  assumes "in_server_window s l" and "accepts_tick s l t" and "t \<le> sat_add s MAX_FORWARD_TICK_JUMP"
  shows "l < t \<and> in_server_window s t"
  using assms by (auto simp: accepts_tick_def is_valid_jump_def in_server_window_def)

text \<open>
  C33. No replay within the window. While the last accepted tick lies in the server's window of
  600 ticks and no command runs ahead of it, the accepted ticks are strictly increasing whatever
  the client sends: no command is applied twice and none is applied out of order.
\<close>

theorem input_no_replay:
  assumes "get_latest_input w e = Some l"
    and "in_server_window (server_tick w) (last_client_tick l)"
    and "\<forall>u \<in> set us. \<forall>c. deserialize_command env (cu_payload u) = Some c \<longrightarrow>
           ic_tick c \<le> sat_add (server_tick w) MAX_FORWARD_TICK_JUMP"
  shows "sorted_wrt (<) (last_client_tick l # accepted_ticks env e us w)"
  using assms
proof (induction us arbitrary: w l)
  case (Cons u us)
  show ?case
  proof (cases "input_verdict env e u w")
    case None
    then show ?thesis using Cons by (simp add: input_apply_verdict)
  next
    case (Some c)
    let ?w = "put_comp (CLatestInput \<lparr>li_command = c, last_client_tick = ic_tick c\<rparr>) e w"
    have c: "accepts_tick (server_tick w) (last_client_tick l) (ic_tick c)"
      "deserialize_command env (cu_payload u) = Some c"
      using Some Cons.prems(1) by (auto simp: input_verdict_def split: if_splits option.splits)
    with Cons.prems(2,3) window_step have lt: "last_client_tick l < ic_tick c"
      "in_server_window (server_tick w) (ic_tick c)" by auto
    have "sorted_wrt (<) (ic_tick c # accepted_ticks env e us ?w)"
      using Cons.IH [of ?w "\<lparr>li_command = c, last_client_tick = ic_tick c\<rparr>"] Cons.prems(3) lt(2)
        verdict_alive [OF Some] by simp
    with lt(1) Some show ?thesis by (auto simp: input_apply_verdict)
  qed
qed simp

definition input_world :: "u64 \<Rightarrow> u64 \<Rightarrow> world" where
  "input_world s t =
     (world_of [(2, [CNetworkOwner 7, CSessionAgent,
        CLatestInput \<lparr>li_command = \<lparr>ic_tick = t, ic_actions = [], ic_actions_mask = 0,
                                    ic_last_seen_input_tick = None\<rparr>, last_client_tick = t\<rparr>])])
       \<lparr>ServerTick := Some s\<rparr>"

definition input_update :: "u8 \<Rightarrow> u8 \<Rightarrow> ComponentUpdate" where
  "input_update hi lo = \<lparr>cu_network_id = 1, cu_component_kind = 128, cu_payload = [hi, lo], cu_tick = 0\<rparr>"

lemmas input_world_simps = input_world_def world_of_def insert_bundle_def empty_world_def
  put_comp_def get_latest_input_def get_comp_def get_cell_def alive_def server_tick_def

lemma input_world_latest:
  "get_latest_input (input_world s t) 2 =
     Some \<lparr>li_command = \<lparr>ic_tick = t, ic_actions = [], ic_actions_mask = 0,
                        ic_last_seen_input_tick = None\<rparr>, last_client_tick = t\<rparr>"
  "server_tick (input_world s t) = s" "validate_access_gate (input_world s t) 2"
  "alive (input_world s t) 2"
  by (simp_all add: input_world_simps validate_access_gate_def has_comp_def)

lemma decode_input_update:
  "deserialize_command sample_env (cu_payload (input_update hi lo)) =
     Some \<lparr>ic_tick = ucast hi * 256 + ucast lo, ic_actions = [], ic_actions_mask = 0,
           ic_last_seen_input_tick = None\<rparr>"
  by (simp add: deserialize_command_def sample_env_def input_update_def)

theorem input_no_replay_witness:
  "sorted_wrt (<) (500 # accepted_ticks sample_env 2
     [input_update 2 0, input_update 2 0, input_update 1 0, input_update 2 1] (input_world 500 500))"
proof -
  have "sorted_wrt (<) (last_client_tick \<lparr>li_command = \<lparr>ic_tick = 500, ic_actions = [],
      ic_actions_mask = 0, ic_last_seen_input_tick = None\<rparr>, last_client_tick = 500\<rparr> #
      accepted_ticks sample_env 2
        [input_update 2 0, input_update 2 0, input_update 1 0, input_update 2 1] (input_world 500 500))"
    by (rule input_no_replay)
      (auto simp: input_world_latest decode_input_update in_server_window_def sat_add_def sat_sub_def
        MAX_FORWARD_TICK_JUMP_def)
  then show ?thesis by simp
qed

text \<open>
  The resynchronisation rule reopens the window. One command ahead of the window makes the
  stored tick leave it, and then a tick that was accepted before is accepted again: at server
  tick 1000 the ticks 1600, 1601, 1000 and again 1600 are all applied.
\<close>

lemma input_replay_after_overrun:
  "accepted_ticks sample_env 2
     [input_update 6 64, input_update 6 65, input_update 3 232, input_update 6 64]
     (input_world 1000 1000) = [1600, 1601, 1000, 1600]"
  by (simp add: input_verdict_def input_apply_verdict input_world_latest decode_input_update
      accepts_tick_def is_valid_jump_def in_server_window_def sat_add_def sat_sub_def
      MAX_FORWARD_TICK_JUMP_def)

end
