(* ===== verification/Payload_Systems.thy ===== *)
theory Payload_Systems
  imports World
begin

text \<open>
  \<^verbatim>\<open>crates/aetheris-ecs-bevy/src/extraction.rs\<close>: extraction beams that move payload from
  resources into data stores, exhaustion and respawn of resources, and collection of data
  drops. Each loop over a query is a list function over the entities the query visits; an
  \<^verbatim>\<open>unwrap\<close> that fails is \<open>None\<close>. Metrics and log output are dropped.
\<close>

subsection \<open>Extraction beams\<close>

record attempt =
  at_agent :: Entity
  at_target :: Entity
  at_transform :: Transform
  at_store :: DataStore
  at_beam :: ExtractionBeam

datatype beam_check = SkipBeam | DisableBeam | AttemptBeam attempt

definition check_beam :: "world \<Rightarrow> bimap \<Rightarrow> Entity \<Rightarrow> beam_check" where
  "check_beam w bm e =
     (case (get_extraction_beam w e, get_transform w e, get_data_store w e) of
        (Some beam, Some transform, Some st) \<Rightarrow>
          if \<not> eb_active beam then SkipBeam
          else (case eb_target beam of
                  Some target_id \<Rightarrow>
                    (case get_by_left bm target_id of
                       Some target \<Rightarrow>
                         AttemptBeam \<lparr>at_agent = e, at_target = target, at_transform = transform,
                                      at_store = st, at_beam = beam\<rparr>
                     | None \<Rightarrow> DisableBeam)
                | None \<Rightarrow> DisableBeam)
      | _ \<Rightarrow> SkipBeam)"

definition distance_sq :: "Transform \<Rightarrow> Transform \<Rightarrow> f32" where
  "distance_sq a b =
     (let ddx = fsub F32 (tr_x a) (tr_x b); ddy = fsub F32 (tr_y a) (tr_y b)
      in fadd F32 (fmul F32 ddx ddx) (fmul F32 ddy ddy))"

definition extraction_amount :: "ExtractionBeam \<Rightarrow> f32 \<Rightarrow> u16" where
  "extraction_amount beam dist_sq =
     (let dist = fsqrt F32 dist_sq;
          efficiency = fmax (fsub F32 fone (fdiv F32 dist (extraction_range beam))) (f32_lit (1 / 10));
          amount = round_as_u16 (fmul F32 (fp_of_nat F32 (unat (base_extraction_rate beam))) efficiency)
      in max amount 1)"

datatype verdict = DisableVerdict | IdleVerdict | TransferVerdict u16

definition validate_attempt :: "world \<Rightarrow> attempt \<Rightarrow> verdict" where
  "validate_attempt w a =
     (case (get_resource w (at_target a), get_transform w (at_target a)) of
        (Some resource, Some t_transform) \<Rightarrow>
          let dist_sq = distance_sq t_transform (at_transform a);
              range = extraction_range (at_beam a)
          in if fgt dist_sq (fmul F32 range range) then DisableVerdict
             else if payload_count (at_store a) \<ge> capacity (at_store a) then DisableVerdict
             else if payload_remaining resource > 0 \<and> server_tick w mod 10 = 0
             then TransferVerdict (extraction_amount (at_beam a) dist_sq)
             else IdleVerdict
      | _ \<Rightarrow> DisableVerdict)"

definition beam_checks :: "ecs_env \<Rightarrow> world \<Rightarrow> bimap \<Rightarrow> (Entity \<times> beam_check) list" where
  "beam_checks env w bm =
     map (\<lambda>e. (e, check_beam w bm e)) (query env w [KExtractionBeam, KTransform, KDataStore])"

definition attempts_of :: "(Entity \<times> beam_check) list \<Rightarrow> attempt list" where
  "attempts_of cs = concat (map (\<lambda>(e, c). case c of AttemptBeam a \<Rightarrow> [a] | _ \<Rightarrow> []) cs)"

definition disabled_of :: "(Entity \<times> beam_check) list \<Rightarrow> Entity list" where
  "disabled_of cs = map fst (filter (\<lambda>(e, c). c = DisableBeam) cs)"

definition transfers_of :: "world \<Rightarrow> attempt list \<Rightarrow> (Entity \<times> Entity \<times> u16) list" where
  "transfers_of w as =
     concat (map (\<lambda>a. case validate_attempt w a of
                        TransferVerdict n \<Rightarrow> [(at_agent a, at_target a, n)] | _ \<Rightarrow> []) as)"

definition rejected_of :: "world \<Rightarrow> attempt list \<Rightarrow> Entity list" where
  "rejected_of w as = map at_agent (filter (\<lambda>a. validate_attempt w a = DisableVerdict) as)"

definition disable_beam :: "Entity \<Rightarrow> world \<Rightarrow> world" where
  "disable_beam e w =
     (case get_extraction_beam w e of
        Some beam \<Rightarrow> put_comp (CExtractionBeam (beam\<lparr>eb_active := False\<rparr>)) e w
      | None \<Rightarrow> w)"

definition transfer :: "Entity \<times> Entity \<times> u16 \<Rightarrow> world \<Rightarrow> world option" where
  "transfer x w =
     (case x of (agent, res, base_amount) \<Rightarrow>
        do { st \<leftarrow> get_data_store w agent;
             resource \<leftarrow> get_resource w res;
             let amount = min (min base_amount (payload_remaining resource))
                              (capacity st - payload_count st);
             if amount > 0
             then do {
               let w = put_comp (CDataStore (st\<lparr>payload_count := payload_count st + amount\<rparr>)) agent w;
               resource \<leftarrow> get_resource w res;
               Some (put_comp (CResource
                 (resource\<lparr>payload_remaining := payload_remaining resource - amount\<rparr>)) res w) }
             else Some w })"

subsection \<open>Exhaustion and respawn\<close>

definition exhausted_resources :: "ecs_env \<Rightarrow> world \<Rightarrow> (Entity \<times> Transform \<times> u16) list" where
  "exhausted_resources env w =
     concat (map (\<lambda>e. case (get_resource w e, get_transform w e) of
                        (Some r, Some t) \<Rightarrow>
                          if payload_remaining r = 0 then [(e, t, total_capacity r)] else []
                      | _ \<Rightarrow> [])
               (query env w [KResource, KTransform]))"

definition respawn_tracker :: "Transform \<Rightarrow> u16 \<Rightarrow> ResourceRespawn" where
  "respawn_tracker t cap =
     \<lparr>rr_delay_ticks = 300, rr_remaining = 301, rr_x = tr_x t, rr_y = tr_y t, rr_total_capacity = cap\<rparr>"

definition handle_resource_exhaustion :: "ecs_env \<Rightarrow> bimap \<Rightarrow> world \<Rightarrow> Entity list \<times> world" where
  "handle_resource_exhaustion env bm w =
     (let known = concat (map (\<lambda>(e, t, cap). case get_by_right bm e of
                                 Some n \<Rightarrow> [(e, n, t, cap)] | None \<Rightarrow> [])
                            (exhausted_resources env w));
          w = push_reliable (map (\<lambda>(e, n, t, cap). (None, PlatformWire (ResourceExhaustedEvent n))) known) w
      in (map fst known,
          fold (\<lambda>(e, n, t, cap) w. snd (spawn_entity env [CResourceRespawn (respawn_tracker t cap)] w))
            known w))"

definition process_extraction :: "ecs_env \<Rightarrow> bimap \<Rightarrow> world \<Rightarrow> (Entity list \<times> world) option" where
  "process_extraction env bm w =
     (let checks = beam_checks env w bm;
          as = attempts_of checks;
          transfers = transfers_of w as;
          w1 = fold disable_beam (disabled_of checks @ rejected_of w as) w
      in do { w2 \<leftarrow> foldM transfer transfers w1;
              Some (handle_resource_exhaustion env bm w2) })"

definition respawn_step ::
  "Entity \<Rightarrow> (f32 \<times> f32 \<times> u16) list \<times> Entity list \<times> world \<Rightarrow> (f32 \<times> f32 \<times> u16) list \<times> Entity list \<times> world" where
  "respawn_step e s =
     (case s of (to_spawn, to_despawn, w) \<Rightarrow>
        (case get_resource_respawn w e of
           None \<Rightarrow> s
         | Some respawn \<Rightarrow>
             let respawn = respawn\<lparr>rr_remaining := sat_sub (rr_remaining respawn) 1\<rparr>;
                 w = put_comp (CResourceRespawn respawn) e w
             in if rr_remaining respawn = 0
                then (to_spawn @ [(rr_x respawn, rr_y respawn, rr_total_capacity respawn)],
                      to_despawn @ [e], w)
                else (to_spawn, to_despawn, w)))"

definition process_respawn :: "ecs_env \<Rightarrow> world \<Rightarrow> (f32 \<times> f32 \<times> u16) list \<times> world" where
  "process_respawn env w =
     (case fold respawn_step (query env w [KResourceRespawn]) ([], [], w) of
        (to_spawn, to_despawn, w) \<Rightarrow> (to_spawn, fold despawn to_despawn w))"

subsection \<open>Data drops\<close>

definition collection_radius_sq :: f32 where
  "collection_radius_sq = fmul F32 (f32_lit 10) (f32_lit 10)"

definition can_collect :: "world \<Rightarrow> Entity \<Rightarrow> Transform \<Rightarrow> Entity \<Rightarrow> bool" where
  "can_collect w d d_transform a =
     (d \<noteq> a \<and>
      (case (get_data_store w a, get_transform w a) of
         (Some st, Some a_transform) \<Rightarrow>
           flt (distance_sq d_transform a_transform) collection_radius_sq \<and>
           sat_sub (capacity st) (payload_count st) > 0
       | _ \<Rightarrow> False))"

definition claim_drop :: "ecs_env \<Rightarrow> world \<Rightarrow> Entity \<Rightarrow> (Entity \<times> Entity \<times> u16) option" where
  "claim_drop env w d =
     do { amount \<leftarrow> get_data_drop w d;
          d_transform \<leftarrow> get_transform w d;
          a \<leftarrow> List.find (can_collect w d d_transform) (query env w [KDataStore, KTransform]);
          st \<leftarrow> get_data_store w a;
          Some (a, d, min amount (sat_sub (capacity st) (payload_count st))) }"

definition collections_of :: "ecs_env \<Rightarrow> world \<Rightarrow> (Entity \<times> Entity \<times> u16) list" where
  "collections_of env w =
     List.map_filter (claim_drop env w) (query env w [KDataDropComponent, KTransform])"

definition collect ::
  "bimap \<Rightarrow> Entity \<times> Entity \<times> u16 \<Rightarrow> Entity list \<times> world \<Rightarrow> Entity list \<times> world" where
  "collect bm x s =
     (case (x, s) of ((a, d, amount), (to_despawn, w)) \<Rightarrow>
        if amount > 0
        then
          let w = (case get_data_store w a of
                     Some st \<Rightarrow> put_comp (CDataStore (st\<lparr>payload_count := payload_count st + amount\<rparr>)) a w
                   | None \<Rightarrow> w);
              (to_despawn, w) =
                (case get_data_drop w d of
                   Some n \<Rightarrow> if amount \<ge> n then (to_despawn @ [d], put_comp (CDataDropComponent 0) d w)
                             else (to_despawn, put_comp (CDataDropComponent (n - amount)) d w)
                 | None \<Rightarrow> (to_despawn, w))
          in (to_despawn,
              case get_by_right bm d of
                Some drop_id \<Rightarrow> push_reliable [(None, PlatformWire (PayloadCollected drop_id amount))] w
              | None \<Rightarrow> w)
        else s)"

definition process_payload_collection :: "ecs_env \<Rightarrow> bimap \<Rightarrow> world \<Rightarrow> Entity list \<times> world" where
  "process_payload_collection env bm w = fold (collect bm) (collections_of env w) ([], w)"

end
