(* ===== verification/Payload_Props.thy ===== *)
theory Payload_Props
  imports Payload_Systems Samples
begin

text \<open>
  Properties of the payload systems: extraction never panics and moves payload without creating
  or losing any, a beam's rate bounds what it moves, a respawn timer counts down to exactly one
  respawn, and what the collection of data drops does when several lie in reach.
\<close>

subsection \<open>Conservation\<close>

definition stored :: "world \<Rightarrow> Entity \<Rightarrow> nat" where
  "stored w e = (case get_data_store w e of Some s \<Rightarrow> unat (payload_count s) | None \<Rightarrow> 0)"

definition remaining :: "world \<Rightarrow> Entity \<Rightarrow> nat" where
  "remaining w e = (case get_resource w e of Some r \<Rightarrow> unat (payload_remaining r) | None \<Rightarrow> 0)"

definition total_payload :: "world \<Rightarrow> nat" where
  "total_payload w = (\<Sum>e \<in> set (live w). stored w e) + (\<Sum>e \<in> set (live w). remaining w e)"

text \<open>A store that is within its capacity stays so, and capacities never change.\<close>

definition stores_kept :: "world \<Rightarrow> world \<Rightarrow> bool" where
  "stores_kept w w' \<longleftrightarrow>
     (\<forall>e. case get_data_store w e of
            None \<Rightarrow> get_data_store w' e = None
          | Some s \<Rightarrow> \<exists>s'. get_data_store w' e = Some s' \<and> capacity s' = capacity s \<and>
              (payload_count s \<le> capacity s \<longrightarrow> payload_count s' \<le> capacity s))"

lemma stores_kept_refl: "(\<And>e. get_data_store w' e = get_data_store w e) \<Longrightarrow> stores_kept w w'"
  by (auto simp: stores_kept_def split: option.split)

lemma stores_kept_trans:
  assumes "stores_kept u v" and "stores_kept v w"
  shows "stores_kept u w"
  unfolding stores_kept_def
proof
  fix e
  show "case get_data_store u e of None \<Rightarrow> get_data_store w e = None
    | Some s \<Rightarrow> \<exists>s'. get_data_store w e = Some s' \<and> capacity s' = capacity s \<and>
        (payload_count s \<le> capacity s \<longrightarrow> payload_count s' \<le> capacity s)"
    using assms [unfolded stores_kept_def, THEN spec, of e]
    by (cases "get_data_store u e"; cases "get_data_store v e") auto
qed

lemma sum_fun_upd:
  "finite A \<Longrightarrow> x \<in> A \<Longrightarrow> (\<Sum>e \<in> A. (f(x := v)) e) + f x = (\<Sum>e \<in> A. f e) + (v :: nat)"
  by (simp add: sum.remove)

lemma put_store_total:
  assumes "alive w a" and "get_data_store w a = Some s"
  shows "(\<Sum>e \<in> set (live w). stored (put_comp (CDataStore s') a w) e) + unat (payload_count s) =
         (\<Sum>e \<in> set (live w). stored w e) + unat (payload_count s')"
proof -
  have "stored (put_comp (CDataStore s') a w) = (stored w)(a := unat (payload_count s'))"
    using assms(1) by (auto simp: stored_def)
  moreover have "stored w a = unat (payload_count s)" using assms(2) by (simp add: stored_def)
  ultimately show ?thesis
    using sum_fun_upd [of "set (live w)" a "stored w" "unat (payload_count s')"] assms(1)
    by (simp add: alive_def)
qed

lemma put_resource_total:
  assumes "alive w a" and "get_resource w a = Some s"
  shows "(\<Sum>e \<in> set (live w). remaining (put_comp (CResource s') a w) e) + unat (payload_remaining s) =
         (\<Sum>e \<in> set (live w). remaining w e) + unat (payload_remaining s')"
proof -
  have "remaining (put_comp (CResource s') a w) = (remaining w)(a := unat (payload_remaining s'))"
    using assms(1) by (auto simp: remaining_def)
  moreover have "remaining w a = unat (payload_remaining s)" using assms(2) by (simp add: remaining_def)
  ultimately show ?thesis
    using sum_fun_upd [of "set (live w)" a "remaining w" "unat (payload_remaining s')"] assms(1)
    by (simp add: alive_def)
qed

lemma stored_put [simp]: "kind_of c \<noteq> KDataStore \<Longrightarrow> stored (put_comp c e w) = stored w"
  by (auto simp: stored_def)

lemma remaining_put [simp]: "kind_of c \<noteq> KResource \<Longrightarrow> remaining (put_comp c e w) = remaining w"
  by (auto simp: remaining_def)

lemma getter_alive:
  "get_data_store w e = Some s \<Longrightarrow> alive w e" "get_resource w e = Some r \<Longrightarrow> alive w e"
  by (auto simp: get_data_store_def get_resource_def split: option.splits dest: get_comp_alive)

text \<open>One transfer: it happens, it conserves, and it keeps what later transfers rely on.\<close>

definition transfer_ready :: "world \<Rightarrow> Entity \<times> Entity \<times> u16 \<Rightarrow> bool" where
  "transfer_ready w x \<longleftrightarrow>
     (case x of (a, r, n) \<Rightarrow>
        (\<exists>s. get_data_store w a = Some s \<and> payload_count s \<le> capacity s) \<and> get_resource w r \<noteq> None)"

lemma unat_add_le: "b \<le> c - a \<Longrightarrow> a \<le> c \<Longrightarrow> unat (a + b) = unat a + unat b"
  for a b c :: "'a::len word"
proof -
  assume "b \<le> c - a" "a \<le> c"
  then have "unat a + unat b \<le> unat c" by (simp add: word_le_nat_alt unat_sub)
  also have "unat c < 2 ^ LENGTH('a)" by (rule unsigned_less)
  finally show ?thesis by (simp add: unat_word_ariths)
qed

lemma transfer_step:
  assumes "transfer_ready w (a, r, n)"
  shows "\<exists>w'. transfer (a, r, n) w = Some w' \<and> live w' = live w \<and>
    total_payload w' = total_payload w \<and> stores_kept w w' \<and>
    (\<forall>x. transfer_ready w x \<longrightarrow> transfer_ready w' x)"
proof -
  from assms obtain s q where s: "get_data_store w a = Some s" "payload_count s \<le> capacity s"
    and q: "get_resource w r = Some q" by (auto simp: transfer_ready_def)
  define m where "m = min (min n (payload_remaining q)) (capacity s - payload_count s)"
  define w1 where "w1 = put_comp (CDataStore (s\<lparr>payload_count := payload_count s + m\<rparr>)) a w"
  define w2 where "w2 = put_comp (CResource (q\<lparr>payload_remaining := payload_remaining q - m\<rparr>)) r w1"
  have al: "alive w a" "alive w r" using s(1) q by (auto dest: getter_alive)
  have m: "m \<le> capacity s - payload_count s" "m \<le> payload_remaining q"
    by (auto simp: m_def min_le_iff_disj)
  have cnt: "unat (payload_count s + m) = unat (payload_count s) + unat m"
    using m(1) s(2) by (rule unat_add_le)
  have le: "payload_count s + m \<le> capacity s"
    using m(1) s(2) cnt by (simp add: word_le_nat_alt unat_sub)
  have q1: "get_resource w1 r = Some q" using q by (simp add: w1_def)
  have t1: "(\<Sum>e \<in> set (live w). stored w1 e) = (\<Sum>e \<in> set (live w). stored w e) + unat m"
    using put_store_total [OF al(1) s(1), of "s\<lparr>payload_count := payload_count s + m\<rparr>"] cnt
    by (simp add: w1_def)
  have t2: "(\<Sum>e \<in> set (live w). remaining w2 e) + unat m = (\<Sum>e \<in> set (live w). remaining w e)"
    using put_resource_total [of w1 r q "q\<lparr>payload_remaining := payload_remaining q - m\<rparr>"] q1 al m(2)
    by (simp add: w1_def w2_def unat_sub word_le_nat_alt)
  have "total_payload w2 = total_payload w"
    using t1 t2 by (simp add: total_payload_def w2_def w1_def)
  moreover have "stores_kept w w2"
    using s al le by (auto simp: stores_kept_def w2_def w1_def split: option.split)
  moreover have "transfer_ready w2 x" if "transfer_ready w x" for x
    using that al le by (cases x) (auto simp: transfer_ready_def w2_def w1_def)
  moreover have "live w2 = live w" by (simp add: w2_def w1_def)
  moreover have "transfer (a, r, n) w = (if 0 < m then Some w2 else Some w)"
    unfolding transfer_def prod.case s(1) q Option.bind.simps Let_def m_def [symmetric] w1_def [symmetric]
      q1 w2_def [symmetric] ..
  ultimately show ?thesis by (auto intro: stores_kept_refl)
qed

lemma transfers_total:
  assumes "\<And>x. x \<in> set xs \<Longrightarrow> transfer_ready w x"
  shows "\<exists>w'. foldM transfer xs w = Some w' \<and> live w' = live w \<and>
    total_payload w' = total_payload w \<and> stores_kept w w'"
  using assms
proof (induction xs arbitrary: w)
  case Nil
  then show ?case by (auto intro: stores_kept_refl)
next
  case (Cons x xs)
  obtain a r n where x: "x = (a, r, n)" by (cases x)
  from Cons.prems [of x] transfer_step [of w a r n] x obtain w1 where w1:
    "transfer x w = Some w1" "live w1 = live w" "total_payload w1 = total_payload w" "stores_kept w w1"
    "\<And>y. transfer_ready w y \<Longrightarrow> transfer_ready w1 y" by auto
  from Cons.IH [of w1] w1(5) Cons.prems obtain w2 where "foldM transfer xs w1 = Some w2"
    "live w2 = live w1" "total_payload w2 = total_payload w1" "stores_kept w1 w2" by auto
  with w1 show ?case by (auto intro: stores_kept_trans)
qed

lemma disable_beam_frame [simp]:
  "live (disable_beam e w) = live w" "get_data_store (disable_beam e w) = get_data_store w"
  "get_resource (disable_beam e w) = get_resource w" "server_tick (disable_beam e w) = server_tick w"
  by (auto simp: disable_beam_def split: option.split)

lemma disable_beams_frame [simp]:
  "live (fold disable_beam es w) = live w" "get_data_store (fold disable_beam es w) = get_data_store w"
  "get_resource (fold disable_beam es w) = get_resource w"
  by (induction es arbitrary: w) auto

lemma total_payload_cong:
  assumes "live w' = live w" "get_data_store w' = get_data_store w" "get_resource w' = get_resource w"
  shows "total_payload w' = total_payload w"
  using assms by (simp add: total_payload_def stored_def remaining_def)

lemma check_beam_attempt:
  "check_beam w bm e = AttemptBeam a \<Longrightarrow> get_data_store w (at_agent a) = Some (at_store a)"
  by (auto simp: check_beam_def split: option.splits if_splits)

lemma attempt_store:
  assumes "a \<in> set (attempts_of (beam_checks env w bm))"
  shows "get_data_store w (at_agent a) = Some (at_store a)"
proof -
  from assms obtain e where "check_beam w bm e = AttemptBeam a"
    by (force simp: attempts_of_def beam_checks_def split: beam_check.splits)
  then show ?thesis by (rule check_beam_attempt)
qed

lemma transfers_ready:
  assumes "x \<in> set (transfers_of w (attempts_of (beam_checks env w bm)))"
  shows "transfer_ready w x"
proof -
  from assms obtain a n where a: "a \<in> set (attempts_of (beam_checks env w bm))"
    "validate_attempt w a = TransferVerdict n" "x = (at_agent a, at_target a, n)"
    by (auto simp: transfers_of_def split: verdict.splits)
  then have "get_resource w (at_target a) \<noteq> None" "payload_count (at_store a) < capacity (at_store a)"
    by (auto simp: validate_attempt_def Let_def split: option.splits if_splits)
  with attempt_store [OF a(1)] a(3) show ?thesis by (auto simp: transfer_ready_def)
qed

text \<open>A respawn tracker carries no payload.\<close>

lemma spawn_tracker:
  assumes "ecs_ok env" and "spawn_entity env [CResourceRespawn t] w = (e, w')"
  shows "get_data_store w' = get_data_store w" "get_resource w' = get_resource w"
    "total_payload w' = total_payload w"
proof -
  have fresh: "e \<notin> set (live w)" "live w' = live w @ [e]"
    using spawn_entity_facts [OF assms(2)] ecs_ok_fresh [OF assms(1)] by auto
  then have dead: "get_comp w e k = None" for k by (simp add: get_comp_def get_cell_def alive_def)
  have g: "get_comp w' e' k = get_comp w e' k" if "k \<noteq> KResourceRespawn" for e' k
    using that dead by (simp add: get_comp_spawn_entity [OF assms(2)] bundle_get_def)
  show ds: "get_data_store w' = get_data_store w" and rs: "get_resource w' = get_resource w"
    by (auto simp: get_data_store_def get_resource_def g)
  have "stored w e = 0" "remaining w e = 0"
    using dead by (simp_all add: stored_def remaining_def get_data_store_def get_resource_def)
  with fresh show "total_payload w' = total_payload w"
    by (simp add: total_payload_def stored_def remaining_def ds rs)
qed

lemma spawn_trackers:
  assumes "ecs_ok env"
  shows "get_data_store (fold (\<lambda>(e, n, t, cap) w. snd (spawn_entity env [CResourceRespawn (f t cap)] w)) ks w) =
           get_data_store w \<and>
         total_payload (fold (\<lambda>(e, n, t, cap) w. snd (spawn_entity env [CResourceRespawn (f t cap)] w)) ks w) =
           total_payload w"
proof (induction ks arbitrary: w)
  case (Cons k ks)
  obtain e n t cap where k: "k = (e, n, t, cap)" by (cases k)
  obtain e' w' where s: "spawn_entity env [CResourceRespawn (f t cap)] w = (e', w')" by fastforce
  from Cons.IH [of w'] spawn_tracker [OF assms s] show ?case by (simp add: k s)
qed simp

lemma exhaustion_kept:
  assumes "ecs_ok env"
  shows "get_data_store (snd (handle_resource_exhaustion env bm w)) = get_data_store w"
    "total_payload (snd (handle_resource_exhaustion env bm w)) = total_payload w"
proof -
  have "get_data_store (push_reliable evs w) = get_data_store w"
    "total_payload (push_reliable evs w) = total_payload w" for evs
    by (auto intro!: total_payload_cong simp: get_data_store_def get_resource_def)
  then show "get_data_store (snd (handle_resource_exhaustion env bm w)) = get_data_store w"
    "total_payload (snd (handle_resource_exhaustion env bm w)) = total_payload w"
    by (simp_all add: handle_resource_exhaustion_def Let_def spawn_trackers [OF assms])
qed

text \<open>
  C32. Extraction is total and conserves payload: none of the \<^verbatim>\<open>unwrap\<close>s fails, whatever beams,
  targets and resources exist; payload only moves between resources and data stores; and a data
  store within its capacity stays within it, although several beams may draw on one resource.
\<close>

theorem extraction_conserves:
  assumes "ecs_ok env"
  shows "\<exists>ds w'. process_extraction env bm w = Some (ds, w') \<and> total_payload w' = total_payload w \<and>
           stores_kept w w'"
proof -
  let ?cs = "beam_checks env w bm"
  let ?xs = "transfers_of w (attempts_of ?cs)"
  define w1 where "w1 = fold disable_beam (disabled_of ?cs @ rejected_of w (attempts_of ?cs)) w"
  have f: "live w1 = live w" "get_data_store w1 = get_data_store w" "get_resource w1 = get_resource w"
    unfolding w1_def by (rule disable_beams_frame)+
  have "transfer_ready w1 x" if "x \<in> set ?xs" for x
    using transfers_ready [OF that] f by (auto simp: transfer_ready_def)
  from transfers_total [of ?xs w1, OF this] obtain w2 where w2: "foldM transfer ?xs w1 = Some w2"
    "total_payload w2 = total_payload w1" "stores_kept w1 w2" by auto
  obtain ds w3 where w3: "handle_resource_exhaustion env bm w2 = (ds, w3)" by fastforce
  have "process_extraction env bm w = Some (ds, w3)"
    unfolding process_extraction_def Let_def w1_def [symmetric] w2(1) by (simp add: w3)
  moreover have "total_payload w3 = total_payload w" "get_data_store w3 = get_data_store w2"
    using exhaustion_kept [OF assms, of bm w2] w3 w2(2) total_payload_cong [OF f] by auto
  moreover from this(2) have "stores_kept w w3"
    using w2(3) unfolding stores_kept_def f(2) by (simp only: simp_thms)
  ultimately show ?thesis by blast
qed

theorem extraction_conserves_witness:
  "\<exists>ds w'. process_extraction sample_env [(9, 3)]
     (world_of [(2, [CDataStore \<lparr>payload_count = 4, capacity = 5\<rparr>]),
                (3, [CResource \<lparr>payload_remaining = 7, total_capacity = 9\<rparr>])]) = Some (ds, w') \<and>
     total_payload w' = 11"
proof -
  let ?w = "world_of [(2, [CDataStore \<lparr>payload_count = 4, capacity = 5\<rparr>]),
                (3, [CResource \<lparr>payload_remaining = 7, total_capacity = 9\<rparr>])]"
  have "total_payload ?w = 11"
    by (simp add: total_payload_def stored_def remaining_def get_data_store_def get_resource_def
        get_comp_def get_cell_def alive_def world_of_def insert_bundle_def put_comp_def empty_world_def)
  with extraction_conserves [OF sample_ecs_ok, of "[(9, 3)]" ?w] show ?thesis by auto
qed

subsection \<open>The extraction rate\<close>

definition unit_fp :: "fp \<Rightarrow> bool" where
  "unit_fp x \<longleftrightarrow> (\<exists>a. x = Fin False a \<and> 0 \<le> a \<and> a \<le> 1)"

lemma tenth_pos: "\<exists>t. f32_lit (1 / 10) = Fin False t \<and> 0 < t \<and> t \<le> 1"
proof -
  obtain t where t: "fround F32 False (1 / 10) = Fin False t" "t \<le> 1"
    using fround_le [of "1 / 10" 1 F32 False] by auto
  have "repr F32 (1 / 16)"
    using reprI [of 1 F32 "- 4"] by (simp add: pow2_def)
  from fround_ge [OF _ _ this t(1)] have "0 < t" by simp
  with t show ?thesis by (simp add: f32_lit_def fround_signed_def)
qed

lemma fmax_tenth:
  assumes "x = NaN \<or> x = Inf True \<or> (\<exists>m. x = Fin True m \<and> 0 \<le> m) \<or> unit_fp x"
  shows "unit_fp (fmax x (f32_lit (1 / 10)))"
  using assms tenth_pos by (auto simp: fmax_def unit_fp_def fval_def)

lemma one_minus_quotient:
  assumes "q = NaN \<or> q = Inf False \<or> (\<exists>m. q = Fin False m \<and> 0 \<le> m)"
  shows "fsub F32 fone q = NaN \<or> fsub F32 fone q = Inf True \<or>
    (\<exists>m. fsub F32 fone q = Fin True m \<and> 0 \<le> m) \<or> unit_fp (fsub F32 fone q)"
proof -
  consider "q = NaN" | "q = Inf False" | m where "q = Fin False m" "0 \<le> m" using assms by auto
  then show ?thesis
  proof cases
    case (3 m)
    then have q: "fsub F32 fone q = fround_signed F32 False (1 - m)"
      by (simp add: fsub_def fone_def fval_def)
    show ?thesis
    proof (cases "1 - m < 0")
      case True
      then have "fround_signed F32 False (1 - m) = fround F32 True (m - 1)"
        by (simp add: fround_signed_def)
      then show ?thesis
        using True fround_repr(1) [of F32 True "m - 1"] fround_repr(2) [of F32 True "m - 1"]
        by (cases "fround F32 True (m - 1)")
          (auto simp: q fround_def Let_def dest!: repr_nonneg split: option.splits if_splits)
    next
      case False
      with \<open>0 \<le> m\<close> fround_le [of "1 - m" 1 F32 False] show ?thesis
        by (auto simp: q fround_signed_def unit_fp_def)
    qed
  qed (simp_all add: fsub_def fone_def)
qed

lemma fsqrt_nonneg: "0 \<le> d \<Longrightarrow> \<exists>m. fsqrt F (Fin False d) = Fin False m \<and> 0 \<le> m"
  by (auto simp: fsqrt_mag_def Let_def split: option.split)

lemma quotient_nonneg:
  assumes "0 \<le> m" "0 \<le> r"
  shows "fdiv F32 (Fin False m) (Fin False r) = NaN \<or> fdiv F32 (Fin False m) (Fin False r) = Inf False \<or>
    (\<exists>q. fdiv F32 (Fin False m) (Fin False r) = Fin False q \<and> 0 \<le> q)"
  using assms fround_repr [of F32 False "m / r"]
  by (cases "fround F32 False (m / r)")
    (auto simp: fround_def Let_def dest!: repr_nonneg split: option.splits if_splits)

lemma round_scaled_le:
  assumes "unit_fp x"
  shows "round_as_u16 (fmul F32 (fp_of_nat F32 (unat (n :: u16))) x) \<le> n"
proof -
  from assms obtain a where a: "x = Fin False a" "0 \<le> a" "a \<le> 1" by (auto simp: unit_fp_def)
  define N where "N = unat n"
  have n: "N < 65536" unfolding N_def using unsigned_less [of n] by simp
  then have r: "repr F32 (real N)" by (intro repr_of_nat) simp
  have "real N * a \<le> real N" using a by (simp add: mult_left_le)
  from fround_le [OF _ this r, of False] a(2) obtain m where
    m: "fround F32 False (real N * a) = Fin False m" "0 \<le> m" "m \<le> real N" by auto
  then have k: "\<lfloor>m + 1 / 2\<rfloor> \<le> int N" "0 \<le> \<lfloor>m + 1 / 2\<rfloor>" by linarith+
  have "word_of_int \<lfloor>m + 1 / 2\<rfloor> \<le> n"
  proof -
    have "uint (word_of_int \<lfloor>m + 1 / 2\<rfloor> :: u16) = \<lfloor>m + 1 / 2\<rfloor>"
      unfolding uint_word_of_int using k(2) m(3) n by (intro mod_pos_pos_trivial) simp_all
    then show ?thesis using k(1) by (simp add: word_le_def N_def)
  qed
  moreover have "n = - 1" if "\<lfloor>m + 1 / 2\<rfloor> \<ge> 65535"
  proof -
    from that k(1) n have "N = 65535" by linarith
    then have "unat n = unat (65535 :: u16)" by (simp add: N_def)
    then have "n = 65535" by (simp only: word_unat_eq_iff)
    then show ?thesis by simp
  qed
  ultimately show ?thesis by (simp add: fp_of_nat_def N_def [symmetric] fround_exact [OF r] a m Let_def)
qed

text \<open>
  Rate of extraction: an accepted attempt moves at least one unit and never more than the
  beam's base rate (or one, if that is zero), whatever rounding does to the distance, the quotient
  and the efficiency, and also for a beam of range zero.
\<close>

lemma extraction_amount_bounds:
  assumes "extraction_range beam = Fin False r" and "0 \<le> r" and "0 \<le> d"
  shows "1 \<le> extraction_amount beam (Fin False d) \<and>
         extraction_amount beam (Fin False d) \<le> max 1 (base_extraction_rate beam)"
proof -
  obtain m where m: "fsqrt F32 (Fin False d) = Fin False m" "0 \<le> m"
    using fsqrt_nonneg [OF assms(3)] by blast
  have "unit_fp (fmax (fsub F32 fone (fdiv F32 (Fin False m) (Fin False r))) (f32_lit (1 / 10)))"
    by (intro fmax_tenth one_minus_quotient quotient_nonneg m assms)
  from round_scaled_le [OF this, of "base_extraction_rate beam"] show ?thesis
    unfolding extraction_amount_def Let_def m(1) assms(1) by (simp add: max.coboundedI2 max.commute)
qed

subsection \<open>Collecting data drops\<close>

definition sample_pos :: Transform where
  "sample_pos = \<lparr>tr_x = fzero, tr_y = fzero, tr_z = fzero, tr_rotation = fzero, tr_entity_type = 1\<rparr>"

definition two_drops :: world where
  "two_drops =
     world_of [(2, [CTransform sample_pos, CDataStore \<lparr>payload_count = 0, capacity = 15\<rparr>]),
               (3, [CTransform sample_pos, CDataDropComponent 10]),
               (4, [CTransform sample_pos, CDataDropComponent 10])]"

lemma sample_distance: "flt (distance_sq sample_pos sample_pos) collection_radius_sq"
proof -
  have "repr F32 (real 10)" "repr F32 (real 100)" by (rule repr_of_nat, simp)+
  then have "fround F32 False 10 = Fin False 10" "fround F32 False 100 = Fin False 100"
    by (simp_all add: fround_exact)
  then show ?thesis
    by (simp add: distance_sq_def sample_pos_def fzero_def fsub_def fround_signed_def fval_def
        fround_exact collection_radius_sq_def f32_lit_def)
qed

lemma two_drops_collections: "collections_of sample_env two_drops = [(2, 3, 10), (2, 4, 10)]"
  by (simp add: collections_of_def claim_drop_def List.map_filter_def query_def sample_env_def
      two_drops_def world_of_def empty_world_def insert_bundle_def put_comp_def has_comp_def
      getter_defs get_comp_def get_cell_def alive_def can_collect_def sample_distance sat_sub_def)

text \<open>
  Collecting drops does not respect the capacity: the room left is read before the tick's
  collections are applied, so two drops within reach of one agent in the same tick are both
  credited against the same free space, and a data store of capacity 15 ends with 20 units.
\<close>

lemma collection_exceeds_capacity:
  "get_data_store (snd (process_payload_collection sample_env [] two_drops)) 2 =
     Some \<lparr>payload_count = 20, capacity = 15\<rparr>"
  unfolding process_payload_collection_def two_drops_collections
  by (simp add: collect_def two_drops_def world_of_def empty_world_def insert_bundle_def put_comp_def
      getter_defs get_comp_def get_cell_def alive_def get_by_right_def)

end
