(* ===== verification/Interaction_Systems.thy ===== *)
theory Interaction_Systems
  imports Payload_Systems
begin

text \<open>
  \<^verbatim>\<open>crates/aetheris-ecs-bevy/src/interaction.rs\<close>: tool use with its cooldown and auto-aim, beams
  and their hits, regeneration of priority pools, and the timers of training targets.
\<close>

subsection \<open>Tool use\<close>

definition use_tool :: "ecs_env \<Rightarrow> Entity \<Rightarrow> (Entity \<times> Transform) list \<times> world \<Rightarrow> (Entity \<times> Transform) list \<times> world" where
  "use_tool env e s =
     (case s of (attempts_made, w) \<Rightarrow>
        (case (get_latest_input w e, get_tool w e, get_transform w e) of
           (Some latest, Some tool, Some transform) \<Rightarrow>
             if and (ic_actions_mask (li_command latest)) (ACTION_USE_TOOL env) \<noteq> 0 \<and>
                server_tick w \<ge> last_fired_tick tool + ucast (cooldown_ticks tool)
             then (attempts_made @ [(e, transform)],
                   put_comp (CTool (tool\<lparr>last_fired_tick := server_tick w\<rparr>)) e w)
             else s
         | _ \<Rightarrow> s))"

text \<open>The nearest entity with an integrity pool or resource integrity within 200 m.\<close>

definition aim_step :: "world \<Rightarrow> Entity \<Rightarrow> Transform \<Rightarrow> Entity \<Rightarrow> Entity option \<times> f32 \<Rightarrow> Entity option \<times> f32" where
  "aim_step w attacker a_transform t s =
     (if t = attacker then s
      else if get_integrity w t = None \<and> get_resource_integrity w t = None then s
      else (case get_transform w t of
              None \<Rightarrow> s
            | Some t_transform \<Rightarrow>
                let dist_sq = distance_sq t_transform a_transform
                in if flt dist_sq (snd s) then (Some t, dist_sq) else s))"

definition best_target :: "ecs_env \<Rightarrow> world \<Rightarrow> Entity \<Rightarrow> Transform \<Rightarrow> Entity option" where
  "best_target env w attacker a_transform =
     fst (fold (aim_step w attacker a_transform) (query env w [KTransform])
            (None, fmul F32 (f32_lit 200) (f32_lit 200)))"

definition aim_direction :: "ecs_env \<Rightarrow> world \<Rightarrow> Entity \<Rightarrow> Transform \<Rightarrow> (f32 \<times> f32) option" where
  "aim_direction env w attacker a_transform =
     (let forward = (cosf env (tr_rotation a_transform), sinf env (tr_rotation a_transform))
      in case best_target env w attacker a_transform of
           None \<Rightarrow> Some forward
         | Some t \<Rightarrow>
             do { t_transform \<leftarrow> get_transform w t;
                  let ddx = fsub F32 (tr_x t_transform) (tr_x a_transform);
                  let ddy = fsub F32 (tr_y t_transform) (tr_y a_transform);
                  let dist = fsqrt F32 (fadd F32 (fmul F32 ddx ddx) (fmul F32 ddy ddy));
                  if fgt dist (f32_lit (1 / 1000))
                  then Some (fdiv F32 ddx dist, fdiv F32 ddy dist)
                  else Some forward })"

definition fire :: "ecs_env \<Rightarrow> bimap \<Rightarrow> Entity \<times> Transform \<Rightarrow> world \<Rightarrow> world option" where
  "fire env bm x w =
     (case x of (attacker, a_transform) \<Rightarrow>
        do { (ux, uy) \<leftarrow> aim_direction env w attacker a_transform;
             let spawn = \<lparr>bs_pos = (tr_x a_transform, tr_y a_transform),
                          bs_vel = (fmul F32 ux (f32_lit 35), fmul F32 uy (f32_lit 35)),
                          bs_owner = (case get_by_right bm attacker of Some n \<Rightarrow> n | None \<Rightarrow> 0)\<rparr>;
             Some (w\<lparr>BeamSpawnRequests := map_option (\<lambda>q. q @ [spawn]) (BeamSpawnRequests w)\<rparr>) })"

definition process_interaction :: "ecs_env \<Rightarrow> bimap \<Rightarrow> world \<Rightarrow> world option" where
  "process_interaction env bm w =
     (case fold (use_tool env) (query env w [KLatestInput, KTool, KTransform]) ([], w) of
        (use_attempts, w) \<Rightarrow> foldM (fire env bm) use_attempts w)"

subsection \<open>Beams\<close>

text \<open>The pools after a hit of 25 points and whether the target is terminated.\<close>

definition apply_beam_hit ::
  "Pool option \<Rightarrow> Pool option \<Rightarrow> ResourceIntegrity option \<Rightarrow>
     Pool option \<times> Pool option \<times> ResourceIntegrity option \<times> bool" where
  "apply_beam_hit priority integrity resource =
     (let amount = 25;
          (priority, remaining) =
            (case priority of
               Some p \<Rightarrow>
                 if pool_current p \<ge> amount
                 then (Some (p\<lparr>pool_current := pool_current p - amount\<rparr>), 0)
                 else (Some (p\<lparr>pool_current := 0\<rparr>), amount - pool_current p)
             | None \<Rightarrow> (None, amount))
      in if remaining > 0
         then (case integrity of
                 Some i \<Rightarrow>
                   let i = (if pool_current i \<ge> remaining
                            then i\<lparr>pool_current := pool_current i - remaining\<rparr>
                            else i\<lparr>pool_current := 0\<rparr>)
                   in (priority, Some i, resource, pool_current i = 0)
               | None \<Rightarrow>
                   (case resource of
                      Some r \<Rightarrow>
                        let r = (if ri_integrity r \<ge> remaining
                                 then r\<lparr>ri_integrity := ri_integrity r - remaining\<rparr>
                                 else r\<lparr>ri_integrity := 0\<rparr>)
                        in (priority, None, Some r, ri_integrity r = 0)
                    | None \<Rightarrow> (priority, None, None, False)))
         else (priority, integrity, resource, False))"

text \<open>A component is written back only where the hit wrote to it.\<close>

definition write_hit :: "Entity \<Rightarrow> world \<Rightarrow> world \<times> bool" where
  "write_hit t w =
     (case apply_beam_hit (get_priority w t) (get_integrity w t) (get_resource_integrity w t) of
        (priority, integrity, resource, term) \<Rightarrow>
          (let w1 = (case priority of Some p \<Rightarrow> put_comp (CPriorityPool p) t w | None \<Rightarrow> w);
               hit = (case get_priority w t of Some p \<Rightarrow> pool_current p < 25 | None \<Rightarrow> True);
               w2 = (if hit then (case integrity of
                        Some i \<Rightarrow> put_comp (CIntegrityPool i) t w1
                      | None \<Rightarrow> (case resource of
                                   Some r \<Rightarrow> put_comp (CResourceIntegrity r) t w1 | None \<Rightarrow> w1))
                     else w1)
           in (w2, term)))"

record beam_data =
  bd_entity :: Entity
  bd_spawn_pos :: "f32 \<times> f32"
  bd_max_range :: f32
  bd_owner :: NetworkId
  bd_lifetime :: u32
  bd_px :: f32
  bd_py :: f32

definition beam_data_of :: "world \<Rightarrow> Entity \<Rightarrow> beam_data option" where
  "beam_data_of w e =
     do { m \<leftarrow> get_beam_marker w e;
          t \<leftarrow> get_transform w e;
          Some \<lparr>bd_entity = e, bd_spawn_pos = spawn_pos m, bd_max_range = max_range m,
                bd_owner = bm_owner m, bd_lifetime = lifetime_ticks m, bd_px = tr_x t, bd_py = tr_y t\<rparr> }"

definition beam_over :: "beam_data \<Rightarrow> bool" where
  "beam_over b \<longleftrightarrow>
     bd_lifetime b = 0 \<or>
     fgt (fadd F32 (fsquare F32 (fsub F32 (bd_px b) (fst (bd_spawn_pos b))))
                   (fsquare F32 (fsub F32 (bd_py b) (snd (bd_spawn_pos b)))))
         (fsquare F32 (bd_max_range b))"

text \<open>Whether the beam hits the entity: it has a pool, is not the beam itself, does not carry the
  owner's id, and is less than 4 m away.\<close>

definition hits :: "bimap \<Rightarrow> world \<Rightarrow> beam_data \<Rightarrow> Entity \<Rightarrow> bool" where
  "hits bm w b t =
     (t \<noteq> bd_entity b \<and>
      \<not> (get_priority w t = None \<and> get_integrity w t = None \<and> get_resource_integrity w t = None) \<and>
      get_by_right bm t \<noteq> Some (bd_owner b) \<and>
      (case get_transform w t of
         Some tt \<Rightarrow> flt (fadd F32 (fsquare F32 (fsub F32 (tr_x tt) (bd_px b)))
                                  (fsquare F32 (fsub F32 (tr_y tt) (bd_py b)))) (f32_lit 16)
       | None \<Rightarrow> False))"

record beam_state =
  to_despawn :: "Entity list"
  terminations :: "Entity list"
  interaction_events :: "PlatformEvent list"
  bs_world :: world

definition beam_step :: "ecs_env \<Rightarrow> bimap \<Rightarrow> beam_data \<Rightarrow> beam_state \<Rightarrow> beam_state" where
  "beam_step env bm b s =
     (if beam_over b then s\<lparr>to_despawn := to_despawn s @ [bd_entity b]\<rparr>
      else
        let w = (case get_beam_marker (bs_world s) (bd_entity b) of
                   Some m \<Rightarrow> put_comp (CBeamMarker (m\<lparr>lifetime_ticks := sat_sub (lifetime_ticks m) 1\<rparr>))
                               (bd_entity b) (bs_world s)
                 | None \<Rightarrow> bs_world s)
        in case List.find (hits bm w b) (query env w [KTransform]) of
             None \<Rightarrow> s\<lparr>bs_world := w\<rparr>
           | Some t \<Rightarrow>
               (case write_hit t w of (w, term) \<Rightarrow>
                  s\<lparr>to_despawn := to_despawn s @ [bd_entity b],
                    terminations := terminations s @ (if term then [t] else []),
                    interaction_events := interaction_events s @
                      (case get_by_right bm t of
                         Some target_id \<Rightarrow> [Interaction (bd_owner b) target_id 25] | None \<Rightarrow> []),
                    bs_world := w\<rparr>))"

definition process_beams :: "ecs_env \<Rightarrow> bimap \<Rightarrow> world \<Rightarrow> Entity list \<times> Entity list \<times> world" where
  "process_beams env bm w =
     (let beams = List.map_filter (beam_data_of w) (query env w [KBeamMarker, KTransform]);
          s = fold (beam_step env bm) beams
                \<lparr>to_despawn = [], terminations = [], interaction_events = [], bs_world = w\<rparr>
      in (to_despawn s, terminations s,
          push_reliable (map (\<lambda>ev. (None, PlatformWire ev)) (interaction_events s)) (bs_world s)))"

subsection \<open>Regeneration and timers\<close>

definition regen_step :: "Entity \<Rightarrow> world \<Rightarrow> world" where
  "regen_step e w =
     (case (get_priority w e, get_regen_timer w e) of
        (Some priority, Some timer) \<Rightarrow>
          if timer > 0 then put_comp (CPriorityRegenTimer (sat_sub timer 1)) e w
          else if pool_current priority < pool_max priority
          then put_comp (CPriorityPool
                 (priority\<lparr>pool_current := min (pool_current priority + 1) (pool_max priority)\<rparr>)) e w
          else w
      | _ \<Rightarrow> w)"

definition process_regen :: "ecs_env \<Rightarrow> world \<Rightarrow> world" where
  "process_regen env w = fold regen_step (query env w [KPriorityPool, KPriorityRegenTimer]) w"

definition reinit_step ::
  "Entity \<Rightarrow> (f32 \<times> f32) list \<times> Entity list \<times> world \<Rightarrow> (f32 \<times> f32) list \<times> Entity list \<times> world" where
  "reinit_step e s =
     (case s of (respawn_list, despawn_list, w) \<Rightarrow>
        (case get_respawn_timer w e of
           None \<Rightarrow> s
         | Some timer \<Rightarrow>
             let timer = timer\<lparr>rt_delay_ticks := sat_sub (rt_delay_ticks timer) 1\<rparr>;
                 w = put_comp (CRespawnTimer timer) e w
             in if rt_delay_ticks timer = 0
                then (respawn_list @ (case rt_location timer of Coordinate x y \<Rightarrow> [(x, y)] | _ \<Rightarrow> []),
                      despawn_list @ [e], w)
                else (respawn_list, despawn_list, w)))"

definition process_target_reinitialization :: "ecs_env \<Rightarrow> world \<Rightarrow> (f32 \<times> f32) list \<times> world" where
  "process_target_reinitialization env w =
     (case fold reinit_step (query env w [KRespawnTimer]) ([], [], w) of
        (respawn_list, despawn_list, w) \<Rightarrow> (respawn_list, fold despawn despawn_list w))"

end
