(* ===== verification/Adapter.thy ===== *)
theory Adapter
  imports Registry Interaction_Systems
begin

text \<open>
  \<^verbatim>\<open>crates/aetheris-ecs-bevy/src/adapter.rs\<close>: the \<^verbatim>\<open>BevyWorldAdapter\<close> and its implementation of
  the trait \<^verbatim>\<open>WorldState\<close>. Operations take and return the adapter record; \<open>None\<close> is a panic (an
  exhausted id allocator, a failed \<^verbatim>\<open>expect\<close>, an access to a dead entity) or a loop that does not
  end. Metrics and log output are dropped.
\<close>

record adapter =
  wrld :: world
  bimap :: bimap
  owners :: "NetworkId \<rightharpoonup> ClientId"
  replicators :: "(ComponentKind \<times> Replicator) list"
  allocator :: nat
  last_extraction_tick :: "tick option"
  tick_rate :: u64
  rng :: nat
  post_simulate_hook :: "(world \<Rightarrow> world) option"

datatype WorldError = EntityNotFound NetworkId

subsection \<open>Construction\<close>

definition empty_index :: WorkspaceIndex where
  "empty_index = \<lparr>memberships = Map.empty, client_workspaces = Map.empty\<rparr>"

definition new_adapter :: "ecs_env \<Rightarrow> world \<Rightarrow> u64 \<Rightarrow> adapter option" where
  "new_adapter env w rate =
     (if rate > 0
      then Some \<lparr>wrld = w\<lparr>ServerTick := Some 0, ReliableEvents := Some [],
                          BeamSpawnRequests := Some [], WorkspaceIdx := Some empty_index\<rparr>,
                 bimap = [], owners = Map.empty, replicators = [],
                 allocator = alloc_init env, last_extraction_tick = None, tick_rate = rate,
                 rng = rng_seed env 0xCAFEBABE, post_simulate_hook = None\<rparr>
      else None)"

definition new_with_rng :: "ecs_env \<Rightarrow> world \<Rightarrow> u64 \<Rightarrow> nat \<Rightarrow> adapter" where
  "new_with_rng env w rate r =
     \<lparr>wrld = w\<lparr>ServerTick := Some 0, ReliableEvents := Some [], WorkspaceIdx := Some empty_index\<rparr>,
      bimap = [], owners = Map.empty, replicators = [],
      allocator = alloc_init env, last_extraction_tick = None, tick_rate = rate,
      rng = r, post_simulate_hook = None\<rparr>"

definition register_replicator :: "ecs_env \<Rightarrow> Replicator \<Rightarrow> adapter \<Rightarrow> adapter" where
  "register_replicator env r a =
     a\<lparr>replicators := btree_insert (replicator_kind env r) r (replicators a)\<rparr>"

definition set_post_simulate_hook :: "(world \<Rightarrow> world) \<Rightarrow> adapter \<Rightarrow> adapter" where
  "set_post_simulate_hook hook a = a\<lparr>post_simulate_hook := Some hook\<rparr>"

subsection \<open>Identifiers, extraction, updates\<close>

definition get_local_id :: "adapter \<Rightarrow> NetworkId \<Rightarrow> Entity option" where
  "get_local_id a nid = get_by_left (bimap a) nid"

definition get_network_id :: "adapter \<Rightarrow> Entity \<Rightarrow> NetworkId option" where
  "get_network_id a local_id = get_by_right (bimap a) local_id"

definition extract_deltas :: "ecs_env \<Rightarrow> adapter \<Rightarrow> ReplicationEvent list \<times> adapter" where
  "extract_deltas env a =
     (let tick = server_tick (wrld a);
          current_tick = change_tick (wrld a);
          deltas = concat (map (\<lambda>(nid, e).
            List.map_filter
              (\<lambda>(k, r). replicator_extract env r (wrld a) e nid tick (last_extraction_tick a))
              (replicators a)) (bimap_order env (bimap a)))
      in (deltas, a\<lparr>last_extraction_tick := Some current_tick\<rparr>))"

definition extract_reliable_events :: "adapter \<Rightarrow> (ClientId option \<times> WireEvent) list \<times> adapter" where
  "extract_reliable_events a =
     (case ReliableEvents (wrld a) of
        Some q \<Rightarrow> (q, a\<lparr>wrld := (wrld a)\<lparr>ReliableEvents := Some []\<rparr>\<rparr>)
      | None \<Rightarrow> ([], a))"

text \<open>The loop of \<^verbatim>\<open>apply_updates\<close> carries the adapter, the kind and the replicator of the last
  authorised update, and the two counters.\<close>

record update_state =
  us_adapter :: adapter
  last_kind :: "ComponentKind option"
  last_replicator :: "Replicator option"
  applied_count :: u64
  unauthorized_count :: u64

definition authorize :: "ClientId \<Rightarrow> NetworkId \<Rightarrow> Entity \<Rightarrow> adapter \<Rightarrow> bool \<times> adapter" where
  "authorize client_id nid e a =
     (case owners a nid of
        Some owner_id \<Rightarrow> (owner_id = client_id, a)
      | None \<Rightarrow>
          (case get_owner (wrld a) e of
             Some o' \<Rightarrow> (o' = client_id, a\<lparr>owners := (owners a)(nid \<mapsto> o')\<rparr>)
           | None \<Rightarrow> (False, a)))"

definition apply_one :: "ecs_env \<Rightarrow> ClientId \<times> ComponentUpdate \<Rightarrow> update_state \<Rightarrow> update_state" where
  "apply_one env x s =
     (case x of (client_id, update) \<Rightarrow>
        (case get_by_left (bimap (us_adapter s)) (cu_network_id update) of
           None \<Rightarrow> s
         | Some e \<Rightarrow>
             (case authorize client_id (cu_network_id update) e (us_adapter s) of
                (False, a) \<Rightarrow> s\<lparr>us_adapter := a, unauthorized_count := unauthorized_count s + 1\<rparr>
              | (True, a) \<Rightarrow>
                  let s = (if last_kind s = Some (cu_component_kind update) then s
                           else s\<lparr>last_kind := Some (cu_component_kind update),
                                  last_replicator := map_of (replicators a) (cu_component_kind update)\<rparr>)
                  in case last_replicator s of
                       Some r \<Rightarrow>
                         s\<lparr>us_adapter := a\<lparr>wrld := apply_update env r e update (wrld a)\<rparr>,
                           applied_count := applied_count s + 1\<rparr>
                     | None \<Rightarrow> s\<lparr>us_adapter := a\<rparr>)))"

definition apply_updates :: "ecs_env \<Rightarrow> (ClientId \<times> ComponentUpdate) list \<Rightarrow> adapter \<Rightarrow> adapter" where
  "apply_updates env updates a =
     us_adapter (fold (apply_one env) updates
       \<lparr>us_adapter = a, last_kind = None, last_replicator = None, applied_count = 0,
        unauthorized_count = 0\<rparr>)"

definition advance_tick :: "adapter \<Rightarrow> adapter" where
  "advance_tick a =
     (let w = (wrld a)\<lparr>change_tick := change_tick (wrld a) + 1\<rparr>
      in a\<lparr>wrld := w\<lparr>ServerTick := map_option (\<lambda>t. sat_add t 1) (ServerTick w)\<rparr>\<rparr>)"

text \<open>\<^verbatim>\<open>clear_trackers\<close> moves the change tick on.\<close>

definition post_extract :: "adapter \<Rightarrow> adapter" where
  "post_extract a = a\<lparr>wrld := (wrld a)\<lparr>change_tick := change_tick (wrld a) + 1\<rparr>\<rparr>"

definition hash_entity :: "adapter \<Rightarrow> NetworkId \<Rightarrow> hash_item list" where
  "hash_entity a nid =
     HashNetworkId nid #
     (case get_local_id a nid of
        None \<Rightarrow> []
      | Some e \<Rightarrow>
          (case get_transform (wrld a) e of
             Some t \<Rightarrow> [HashF32 (tr_x t), HashF32 (tr_y t), HashF32 (tr_z t), HashF32 (tr_rotation t),
                        HashU16 (tr_entity_type t)]
           | None \<Rightarrow> []) @
          (case get_comp (wrld a) e KAgentProperties of
             Some (CAgentProperties p) \<Rightarrow>
               [HashU16 (ap_integrity p), HashU16 (ap_priority p), HashU16 (ap_energy p)]
           | _ \<Rightarrow> []))"

definition state_hash :: "ecs_env \<Rightarrow> adapter \<Rightarrow> u64" where
  "state_hash env a =
     default_hasher env (concat (map (hash_entity a) (sort (map fst (bimap_order env (bimap a))))))"

subsection \<open>Spawning and despawning\<close>

definition spawn_networked :: "ecs_env \<Rightarrow> adapter \<Rightarrow> (NetworkId \<times> adapter) option" where
  "spawn_networked env a =
     do { (id, al) \<leftarrow> allocate env (allocator a);
          let (e, w) = spawn_entity env [CNetworked id] (wrld a);
          Some (id, a\<lparr>allocator := al, wrld := w, bimap := bimap_insert id e (bimap a)\<rparr>) }"

definition zero_velocity :: Velocity where
  "zero_velocity = \<lparr>vel_dx = fzero, vel_dy = fzero, vel_dz = fzero\<rparr>"

text \<open>\<^verbatim>\<open>entity_mut(e).insert(..)\<close> panics on a dead entity.\<close>

definition entity_insert :: "Entity \<Rightarrow> comp list \<Rightarrow> adapter \<Rightarrow> adapter option" where
  "entity_insert e cs a =
     (if alive (wrld a) e then Some (a\<lparr>wrld := insert_bundle cs e (wrld a)\<rparr>) else None)"

definition spawn_networked_for :: "ecs_env \<Rightarrow> ClientId \<Rightarrow> adapter \<Rightarrow> (NetworkId \<times> adapter) option" where
  "spawn_networked_for env client_id a =
     do { (id, a) \<leftarrow> spawn_networked env a;
          e \<leftarrow> get_by_left (bimap a) id;
          a \<leftarrow> entity_insert e
                 [CNetworkOwner client_id,
                  CTransform \<lparr>tr_x = fzero, tr_y = fzero, tr_z = fzero, tr_rotation = fzero,
                              tr_entity_type = 0\<rparr>,
                  CVelocity zero_velocity] a;
          Some (id, a\<lparr>owners := (owners a)(id \<mapsto> client_id)\<rparr>) }"

definition index_remove :: "Entity \<Rightarrow> ClientId option \<Rightarrow> WorkspaceIndex \<Rightarrow> WorkspaceIndex" where
  "index_remove e client ix =
     ix\<lparr>memberships := (\<lambda>n. map_option (\<lambda>s. s - {e}) (memberships ix n)),
        client_workspaces := (case client of
                                Some c \<Rightarrow> (client_workspaces ix)(c := None)
                              | None \<Rightarrow> client_workspaces ix)\<rparr>"

definition despawn_networked :: "NetworkId \<Rightarrow> adapter \<Rightarrow> (WorldError + unit) \<times> adapter" where
  "despawn_networked nid a =
     (case get_by_left (bimap a) nid of
        None \<Rightarrow> (Inl (EntityNotFound nid), a)
      | Some e \<Rightarrow>
          let w = wrld a;
              client = (if has_comp w KSessionAgent e then get_owner w e else None);
              w = w\<lparr>WorkspaceIdx := map_option (index_remove e client) (WorkspaceIdx w)\<rparr>;
              a = a\<lparr>bimap := remove_by_left nid (bimap a), owners := (owners a)(nid := None)\<rparr>
          in if alive w e
             then (Inr (), a\<lparr>wrld := push_reliable [(None, EntityDespawnedWire nid)] (despawn e w)\<rparr>)
             else (Inl (EntityNotFound nid), a\<lparr>wrld := w\<rparr>))"

text \<open>Constants of \<^verbatim>\<open>physics_consts.rs\<close>.\<close>

definition DEFAULT_THRUST_FORCE :: f32 where "DEFAULT_THRUST_FORCE = f32_lit 10000"
definition DEFAULT_MAX_VELOCITY :: f32 where "DEFAULT_MAX_VELOCITY = f32_lit 100"
definition DEFAULT_DRAG :: f32 where "DEFAULT_DRAG = f32_lit 2"
definition MASS_PER_PAYLOAD :: f32 where "MASS_PER_PAYLOAD = f32_lit 2"

definition physics :: "real \<Rightarrow> f32 \<Rightarrow> f32 \<Rightarrow> real \<Rightarrow> f32 \<Rightarrow> f32 \<Rightarrow> PhysicsBody" where
  "physics mass thrust vmax turn drg mpp =
     \<lparr>base_mass = f32_lit mass, thrust_force = thrust, max_velocity = vmax,
      turn_rate = f32_lit turn, drag = drg, mass_per_payload = mpp\<rparr>"

definition agent_properties :: "u16 \<Rightarrow> u16 \<Rightarrow> u16 \<Rightarrow> u16 \<Rightarrow> u16 \<Rightarrow> AgentProperties" where
  "agent_properties hp priority energy pregen eregen =
     \<lparr>ap_integrity = hp, ap_max_integrity = hp, ap_priority = priority, ap_max_priority = priority,
      ap_energy = energy, ap_max_energy = energy, ap_priority_regen_per_s = pregen,
      ap_energy_regen_per_s = eregen\<rparr>"

definition default_extraction_beam :: ExtractionBeam where
  "default_extraction_beam =
     \<lparr>eb_active = False, eb_target = None, extraction_range = fzero, base_extraction_rate = 0,
      last_seen_input_tick = None\<rparr>"

definition full_pool :: "u16 \<Rightarrow> Pool" where
  "full_pool n = \<lparr>pool_current = n, pool_max = n\<rparr>"

definition agent_bundle :: "ecs_env \<Rightarrow> u16 \<Rightarrow> comp list" where
  "agent_bundle env kind =
     (let (hp, priority) = get_default_properties env kind
      in [CAgentKind Standard,
          CAgentProperties (agent_properties hp priority 100 5 10),
          CPhysicsBody (physics 100 DEFAULT_THRUST_FORCE DEFAULT_MAX_VELOCITY 270 DEFAULT_DRAG
            MASS_PER_PAYLOAD),
          CDataStore \<lparr>payload_count = 0, capacity = 500\<rparr>,
          CExtractionBeam (default_extraction_beam\<lparr>extraction_range := f32_lit 15,
            base_extraction_rate := 2\<rparr>),
          CPlayerName (if kind = ENTITY_TYPE_AI_AGENT (types env) then ''AI Agent'' else ''Player''),
          CTool \<lparr>cooldown_ticks = 30, last_fired_tick = 0\<rparr>,
          CPriorityPool (full_pool priority),
          CIntegrityPool (full_pool hp),
          CPriorityRegenTimer 0] @
         (if kind = ENTITY_TYPE_AI_AGENT (types env) then [CAiControlled] else []))"

definition beam_bundle :: "f32 \<Rightarrow> f32 \<Rightarrow> comp list" where
  "beam_bundle x y =
     [CBeamMarker \<lparr>beam_type = PulseBeam, spawn_pos = (x, y), max_range = f32_lit 200, bm_owner = 0,
                   lifetime_ticks = 300\<rparr>,
      CVelocity zero_velocity,
      CPhysicsBody (physics 1 fzero (f32_lit 1000) 0 fzero fzero)]"

definition data_drop_bundle :: "comp list" where
  "data_drop_bundle =
     [CDataDropComponent 0, CPhysicsBody (physics 10 fzero (f32_lit 10) 0 (f32_lit 2) fzero)]"

definition training_target_bundle :: "ecs_env \<Rightarrow> u16 \<Rightarrow> comp list" where
  "training_target_bundle env kind =
     (let (hp, priority) = get_default_properties env kind
      in [CTrainingTarget, CAgentKind Carrier, CPriorityPool (full_pool priority),
          CIntegrityPool (full_pool hp), CPlayerName ''Training Target'', CPriorityRegenTimer 0,
          CPhysicsBody (physics 200 fzero fzero 0 fone fzero)])"

definition heavy_bundle :: "ecs_env \<Rightarrow> u16 \<Rightarrow> comp list" where
  "heavy_bundle env kind =
     (let (hp, priority) = get_default_properties env kind
      in [CAgentKind Heavy,
          CAgentProperties (agent_properties hp priority 300 15 20),
          CPhysicsBody (physics 400 (f32_lit 40000) (f32_lit 60) 60 DEFAULT_DRAG MASS_PER_PAYLOAD),
          CDataStore \<lparr>payload_count = 0, capacity = 500\<rparr>,
          CExtractionBeam default_extraction_beam, CPlayerName ''Heavy Agent'',
          CPriorityPool (full_pool priority), CIntegrityPool (full_pool hp), CPriorityRegenTimer 0])"

definition carrier_bundle :: "ecs_env \<Rightarrow> u16 \<Rightarrow> comp list" where
  "carrier_bundle env kind =
     (let (hp, priority) = get_default_properties env kind
      in [CAgentKind Carrier,
          CAgentProperties (agent_properties hp priority 150 8 12),
          CPhysicsBody (physics 200 (f32_lit 25000) (f32_lit 80) 150 DEFAULT_DRAG MASS_PER_PAYLOAD),
          CDataStore \<lparr>payload_count = 0, capacity = 500\<rparr>,
          CExtractionBeam default_extraction_beam, CPlayerName ''Carrier Agent'',
          CPriorityPool (full_pool priority), CIntegrityPool (full_pool hp), CPriorityRegenTimer 0])"

definition resource_bundle :: "comp list" where
  "resource_bundle =
     [CResource \<lparr>payload_remaining = 100, total_capacity = 100\<rparr>,
      CResourceIntegrity \<lparr>ri_integrity = 500, ri_max_integrity = 500\<rparr>]"

definition kind_bundle :: "ecs_env \<Rightarrow> u16 \<Rightarrow> f32 \<Rightarrow> f32 \<Rightarrow> comp list" where
  "kind_bundle env kind x y =
     (let T = types env
      in if kind = ENTITY_TYPE_AGENT T \<or> kind = ENTITY_TYPE_AI_AGENT T then agent_bundle env kind
         else if kind = ENTITY_TYPE_BEAM T then beam_bundle x y
         else if kind = ENTITY_TYPE_DATA_DROP T then data_drop_bundle
         else if kind = ENTITY_TYPE_TRAINING_TARGET T then training_target_bundle env kind
         else if kind = ENTITY_TYPE_HEAVY_AGENT T then heavy_bundle env kind
         else if kind = ENTITY_TYPE_CARRIER_AGENT T then carrier_bundle env kind
         else if kind = ENTITY_TYPE_RESOURCE T then resource_bundle
         else [])"

definition master_name :: string where
  "master_name = ''Playground_Master''"

text \<open>The first entity, in query order, that is a known workspace with the master's name.\<close>

definition find_master :: "ecs_env \<Rightarrow> adapter \<Rightarrow> NetworkId option" where
  "find_master env a =
     (case List.map_filter
             (\<lambda>e. case get_ws_definition (wrld a) e of
                    Some d \<Rightarrow> if wd_name d = master_name then get_by_right (bimap a) e else None
                  | None \<Rightarrow> None)
             (query env (wrld a) [KWorkspaceDefinition]) of
        [] \<Rightarrow> None
      | n # _ \<Rightarrow> Some n)"

definition master_bundle :: "NetworkId \<Rightarrow> comp list" where
  "master_bundle nid =
     [CWorkspaceDefinition \<lparr>wd_name = master_name, wd_capacity = 0, wd_access = Open,
                            wd_is_template = False\<rparr>,
      CWorkspaceBounds \<lparr>min_x = f32_lit (- 250), min_y = f32_lit (- 250), max_x = f32_lit 250,
                        max_y = f32_lit 250\<rparr>,
      CWorkspaceMembership nid]"

definition index_add :: "NetworkId \<Rightarrow> Entity \<Rightarrow> WorkspaceIndex \<Rightarrow> WorkspaceIndex" where
  "index_add ws e ix =
     ix\<lparr>memberships := (memberships ix)(ws \<mapsto>
          Set.insert e (case memberships ix ws of Some s \<Rightarrow> s | None \<Rightarrow> {}))\<rparr>"

text \<open>The part of \<^verbatim>\<open>spawn_kind\<close> after the master workspace is known.\<close>

definition spawn_in_workspace ::
  "ecs_env \<Rightarrow> NetworkId \<Rightarrow> NetworkId \<Rightarrow> u16 \<Rightarrow> f32 \<Rightarrow> f32 \<Rightarrow> f32 \<Rightarrow> adapter \<Rightarrow> adapter" where
  "spawn_in_workspace env nid master kind x y rot a =
     (let (e, w) = spawn_entity env
            [CNetworked nid,
             CTransform \<lparr>tr_x = x, tr_y = y, tr_z = fzero, tr_rotation = rot, tr_entity_type = kind\<rparr>,
             CVelocity zero_velocity] (wrld a);
          w = insert_bundle (kind_bundle env kind x y) e w;
          w = insert_bundle [CWorkspaceMembership master] e w
      in a\<lparr>wrld := w\<lparr>WorkspaceIdx := map_option (index_add master e) (WorkspaceIdx w)\<rparr>,
           bimap := bimap_insert nid e (bimap a)\<rparr>)"

partial_function (option) spawn_kind ::
  "ecs_env \<Rightarrow> u16 \<Rightarrow> f32 \<Rightarrow> f32 \<Rightarrow> f32 \<Rightarrow> adapter \<Rightarrow> (NetworkId \<times> adapter) option" where
  "spawn_kind env kind x y rot a =
     do { (nid, al) \<leftarrow> allocate env (allocator a);
          let a = a\<lparr>allocator := al\<rparr>;
          (master, a) \<leftarrow>
            (case find_master env a of
               Some m \<Rightarrow> Some (m, a)
             | None \<Rightarrow>
                 do { (ws, a) \<leftarrow> spawn_networked env a;
                      case get_by_left (bimap a) ws of
                        None \<Rightarrow> Some (1, a)
                      | Some e \<Rightarrow>
                          do { a \<leftarrow> entity_insert e (master_bundle ws) a;
                               (r, a) \<leftarrow> spawn_kind env (ENTITY_TYPE_RESOURCE (types env))
                                          (f32_lit 30) fzero fzero a;
                               Some (ws, a) } });
          Some (nid, spawn_in_workspace env nid master kind x y rot a) }"

definition spawn_kind_for ::
  "ecs_env \<Rightarrow> u16 \<Rightarrow> f32 \<Rightarrow> f32 \<Rightarrow> f32 \<Rightarrow> ClientId \<Rightarrow> adapter \<Rightarrow> (NetworkId \<times> adapter) option" where
  "spawn_kind_for env kind x y rot client_id a =
     do { (nid, a) \<leftarrow> spawn_kind env kind x y rot a;
          case get_by_left (bimap a) nid of
            None \<Rightarrow> Some (nid, a)
          | Some e \<Rightarrow>
              do { a \<leftarrow> entity_insert e [CNetworkOwner client_id] a;
                   Some (nid, a\<lparr>owners := (owners a)(nid \<mapsto> client_id)\<rparr>) } }"

definition get_entity_workspace :: "adapter \<Rightarrow> NetworkId \<Rightarrow> NetworkId option" where
  "get_entity_workspace a nid =
     do { e \<leftarrow> get_by_left (bimap a) nid;
          get_ws_membership (wrld a) e }"

definition spawn_session_agent ::
  "ecs_env \<Rightarrow> u16 \<Rightarrow> f32 \<Rightarrow> f32 \<Rightarrow> f32 \<Rightarrow> ClientId \<Rightarrow> adapter \<Rightarrow> (NetworkId \<times> adapter) option" where
  "spawn_session_agent env kind x y rot client_id a =
     do { (nid, a) \<leftarrow> spawn_kind_for env kind x y rot client_id a;
          case get_by_left (bimap a) nid of
            None \<Rightarrow> Some (nid, a)
          | Some e \<Rightarrow>
              do { a \<leftarrow> entity_insert e [CSessionAgent] a;
                   ws \<leftarrow> get_entity_workspace a nid;
                   Some (nid, a\<lparr>wrld := (wrld a)\<lparr>WorkspaceIdx :=
                     map_option (\<lambda>ix. ix\<lparr>client_workspaces := (client_workspaces ix)(client_id \<mapsto> ws)\<rparr>)
                       (WorkspaceIdx (wrld a))\<rparr>\<rparr>) } }"

definition stress_entity ::
  "ecs_env \<Rightarrow> bool \<Rightarrow> nat \<Rightarrow> adapter \<Rightarrow> adapter option" where
  "stress_entity env do_rot i a =
     (let T = types env;
          entity_types_list = [ENTITY_TYPE_AGENT T, ENTITY_TYPE_HEAVY_AGENT T,
            ENTITY_TYPE_CARRIER_AGENT T, ENTITY_TYPE_RESOURCE T, ENTITY_TYPE_DATA_DROP T];
          (x, r) = random_range env (f32_lit (- 20)) (f32_lit 20) (rng a);
          (y, r) = random_range env (f32_lit (- 20)) (f32_lit 20) r;
          (rot, r) = (if do_rot then random_range env fzero f32_tau r else (fzero, r))
      in do { (nid, a) \<leftarrow> spawn_kind env (entity_types_list ! (i mod 5)) x y rot (a\<lparr>rng := r\<rparr>);
              Some a })"

definition stress_test :: "ecs_env \<Rightarrow> u16 \<Rightarrow> bool \<Rightarrow> adapter \<Rightarrow> adapter option" where
  "stress_test env cnt do_rot a = foldM (stress_entity env do_rot) [0..<unat cnt] a"

definition queue_reliable_event :: "ClientId option \<Rightarrow> PlatformEvent \<Rightarrow> adapter \<Rightarrow> adapter" where
  "queue_reliable_event client_id event a =
     a\<lparr>wrld := push_reliable [(client_id, PlatformWire event)] (wrld a)\<rparr>"

definition clear_world :: "ecs_env \<Rightarrow> adapter \<Rightarrow> adapter" where
  "clear_world env a =
     (let ids = map fst (bimap_order env (bimap a));
          a = fold (\<lambda>id a. snd (despawn_networked id a)) ids a;
          w = fold despawn (query env (wrld a) [KResourceRespawn]) (wrld a)
      in a\<lparr>wrld := w\<lparr>WorkspaceIdx := map_option (\<lambda>_. empty_index) (WorkspaceIdx w)\<rparr>,
           allocator := alloc_reset env (allocator a), last_extraction_tick := None\<rparr>)"

definition get_client_workspace :: "ecs_env \<Rightarrow> adapter \<Rightarrow> ClientId \<Rightarrow> NetworkId option" where
  "get_client_workspace env a client_id =
     (case Option.bind (WorkspaceIdx (wrld a)) (\<lambda>ix. client_workspaces ix client_id) of
        Some ws \<Rightarrow> Some ws
      | None \<Rightarrow>
          (case List.find (\<lambda>(n, e). case get_ws_definition (wrld a) e of
                                     Some d \<Rightarrow> wd_name d = master_name | None \<Rightarrow> False)
                  (bimap_order env (bimap a)) of
             Some (n, e) \<Rightarrow> get_by_right (bimap a) e
           | None \<Rightarrow> None))"

end
