(* ===== verification/Simulate.thy ===== *)
theory Simulate
  imports Adapter
begin

text \<open>
  \<^verbatim>\<open>BevyWorldAdapter::simulate\<close> of \<^verbatim>\<open>adapter.rs\<close>: one tick of physics, bounds, targeted actions
  and gameplay systems. The two rotation loops may run for ever, so they are partial functions
  and \<open>None\<close> also stands for a tick that never ends. Log output is dropped.
\<close>

subsection \<open>Physics of one entity\<close>

text \<open>The last \<^verbatim>\<open>Move\<close> of the latest input decides.\<close>

definition move_of :: "LatestInput option \<Rightarrow> f32 \<times> f32" where
  "move_of input =
     (case input of
        None \<Rightarrow> (fzero, fzero)
      | Some latest \<Rightarrow>
          fold (\<lambda>act m. case act of Move x y \<Rightarrow> (x, y) | _ \<Rightarrow> m) (ic_actions (li_command latest))
            (fzero, fzero))"

definition total_mass :: "PhysicsBody \<Rightarrow> DataStore option \<Rightarrow> f32" where
  "total_mass p cargo =
     (let n = (case cargo of Some c \<Rightarrow> fp_of_nat F32 (unat (payload_count c)) | None \<Rightarrow> fzero)
      in fadd F32 (base_mass p) (fmul F32 n (mass_per_payload p)))"

definition accelerate :: "PhysicsBody \<Rightarrow> f32 \<Rightarrow> f32 \<Rightarrow> f32 \<Rightarrow> f32 \<Rightarrow> f32" where
  "accelerate p mass dt move v =
     fadd F32 v (fmul F32 (fmul F32 move (fdiv F32 (thrust_force p) mass)) dt)"

definition drag_factor :: "PhysicsBody \<Rightarrow> f32 \<Rightarrow> f32" where
  "drag_factor p dt = fdiv F32 fone (fadd F32 fone (fmul F32 (drag p) dt))"

definition clamp_velocity :: "PhysicsBody \<Rightarrow> f32 \<times> f32 \<Rightarrow> f32 \<times> f32" where
  "clamp_velocity p v =
     (case v of (vx, vy) \<Rightarrow>
        let speed = fsqrt F32 (fadd F32 (fmul F32 vx vx) (fmul F32 vy vy))
        in if fgt speed (max_velocity p) \<and> fgt speed f32_epsilon
           then let ratio = fdiv F32 (max_velocity p) speed in (fmul F32 vx ratio, fmul F32 vy ratio)
           else (vx, vy))"

definition new_velocity ::
  "f32 \<Rightarrow> PhysicsBody \<Rightarrow> LatestInput option \<Rightarrow> DataStore option \<Rightarrow> Velocity \<Rightarrow> Velocity" where
  "new_velocity dt p input cargo v =
     (let mass = total_mass p cargo;
          (mx, my) = move_of input;
          f = drag_factor p dt;
          vx = fmul F32 (accelerate p mass dt mx (vel_dx v)) f;
          vy = fmul F32 (accelerate p mass dt my (vel_dy v)) f;
          (vx, vy) = clamp_velocity p (vx, vy)
      in v\<lparr>vel_dx := vx, vel_dy := vy\<rparr>)"

partial_function (option) wrap_down :: "f32 \<Rightarrow> f32 option" where
  "wrap_down delta = (if fgt delta f32_pi then wrap_down (fsub F32 delta f32_tau) else Some delta)"

partial_function (option) wrap_up :: "f32 \<Rightarrow> f32 option" where
  "wrap_up delta =
     (if flt delta (fneg f32_pi) then wrap_up (fadd F32 delta f32_tau) else Some delta)"

definition turn :: "ecs_env \<Rightarrow> f32 \<Rightarrow> PhysicsBody \<Rightarrow> Velocity \<Rightarrow> f32 \<Rightarrow> f32 option" where
  "turn env dt p v rotation =
     (let speed_sq = fadd F32 (fmul F32 (vel_dx v) (vel_dx v)) (fmul F32 (vel_dy v) (vel_dy v))
      in if fgt speed_sq (f32_lit (1 / 100))
         then
           let target = atan2f env (vel_dy v) (vel_dx v)
           in do { delta \<leftarrow> wrap_down (fsub F32 target rotation);
                   delta \<leftarrow> wrap_up delta;
                   let max_turn = fmul F32 (to_radians (turn_rate p)) dt;
                   Some (if flt (fabs delta) max_turn then target
                         else fadd F32 rotation (fmul F32 (fsignum delta) max_turn)) }
         else Some rotation)"

definition move_entity :: "ecs_env \<Rightarrow> f32 \<Rightarrow> Entity \<Rightarrow> world \<Rightarrow> world option" where
  "move_entity env dt e w =
     (case (get_velocity w e, get_transform w e, get_physics w e) of
        (Some v, Some t, Some p) \<Rightarrow>
          let v = new_velocity dt p (get_latest_input w e) (get_data_store w e) v;
              t = t\<lparr>tr_x := fadd F32 (tr_x t) (fmul F32 (vel_dx v) dt),
                    tr_y := fadd F32 (tr_y t) (fmul F32 (vel_dy v) dt)\<rparr>
          in do { rot \<leftarrow> turn env dt p v (tr_rotation t);
                  Some (put_comp (CTransform (t\<lparr>tr_rotation := rot\<rparr>)) e (put_comp (CVelocity v) e w)) }
      | _ \<Rightarrow> Some w)"

definition physics_stage :: "ecs_env \<Rightarrow> u64 \<Rightarrow> world \<Rightarrow> world option" where
  "physics_stage env rate w =
     (let dt = fdiv F32 fone (fp_of_nat F32 (unat rate))
      in foldM (move_entity env dt) (query env w [KVelocity, KTransform, KPhysicsBody, KNetworked]) w)"

subsection \<open>Bounds, targeted actions, depth\<close>

definition workspaces :: "ecs_env \<Rightarrow> bimap \<Rightarrow> world \<Rightarrow> (NetworkId \<times> WorkspaceBounds) list" where
  "workspaces env bm w =
     List.map_filter
       (\<lambda>e. case (get_by_right bm e, get_ws_bounds w e) of
              (Some nid, Some b) \<Rightarrow> Some (nid, b) | _ \<Rightarrow> None)
       (query env w [KWorkspaceBounds])"

definition wrap_coord :: "f32 \<Rightarrow> f32 \<Rightarrow> f32 \<Rightarrow> f32" where
  "wrap_coord lo hi x =
     (let width = fsub F32 hi lo
      in if fgt width fzero then fadd F32 (rem_euclid F32 (fsub F32 x lo) width) lo else x)"

definition wrap_entity :: "(NetworkId \<times> WorkspaceBounds) list \<Rightarrow> Entity \<Rightarrow> world \<Rightarrow> world" where
  "wrap_entity ws e w =
     (case (get_transform w e, get_ws_membership w e) of
        (Some t, Some workspace_id) \<Rightarrow>
          (case List.find (\<lambda>(nid, b). nid = workspace_id) ws of
             Some (nid, b) \<Rightarrow>
               let wide = fgt (fsub F32 (max_x b) (min_x b)) fzero;
                   high = fgt (fsub F32 (max_y b) (min_y b)) fzero
               in if wide \<or> high
                  then put_comp (CTransform (t\<lparr>tr_x := wrap_coord (min_x b) (max_x b) (tr_x t),
                                               tr_y := wrap_coord (min_y b) (max_y b) (tr_y t)\<rparr>)) e w
                  else w
           | None \<Rightarrow> w)
      | _ \<Rightarrow> w)"

definition bounds_stage :: "ecs_env \<Rightarrow> bimap \<Rightarrow> world \<Rightarrow> world" where
  "bounds_stage env bm w =
     fold (wrap_entity (workspaces env bm w)) (query env w [KTransform, KWorkspaceMembership]) w"

definition toggle_target :: "PlayerInputKind list \<Rightarrow> NetworkId option" where
  "toggle_target acts =
     (case List.map_filter (\<lambda>act. case act of ToggleExtraction t \<Rightarrow> Some t | _ \<Rightarrow> None) acts of
        [] \<Rightarrow> None | t # _ \<Rightarrow> Some t)"

definition toggle_entity :: "Entity \<Rightarrow> world \<Rightarrow> world" where
  "toggle_entity e w =
     (case (get_latest_input w e, get_extraction_beam w e) of
        (Some latest, Some beam) \<Rightarrow>
          if last_seen_input_tick beam \<noteq> Some (ic_tick (li_command latest))
          then
            let beam = (case toggle_target (ic_actions (li_command latest)) of
                          Some t \<Rightarrow> beam\<lparr>eb_active := \<not> eb_active beam, eb_target := Some t\<rparr>
                        | None \<Rightarrow> beam)
            in put_comp (CExtractionBeam
                 (beam\<lparr>last_seen_input_tick := Some (ic_tick (li_command latest))\<rparr>)) e w
          else w
      | _ \<Rightarrow> w)"

definition toggle_stage :: "ecs_env \<Rightarrow> world \<Rightarrow> world" where
  "toggle_stage env w = fold toggle_entity (query env w [KLatestInput, KExtractionBeam]) w"

definition clamp_z :: "Entity \<Rightarrow> world \<Rightarrow> world" where
  "clamp_z e w =
     (case (get_transform w e, get_velocity w e) of
        (Some t, Some v) \<Rightarrow>
          let w1 = (if fgt (fabs (tr_z t)) f32_epsilon then put_comp (CTransform (t\<lparr>tr_z := fzero\<rparr>)) e w
                    else w)
          in if fgt (fabs (vel_dz v)) f32_epsilon then put_comp (CVelocity (v\<lparr>vel_dz := fzero\<rparr>)) e w1
             else w1
      | _ \<Rightarrow> w)"

definition z_stage :: "ecs_env \<Rightarrow> world \<Rightarrow> world" where
  "z_stage env w = fold clamp_z (query env w [KTransform, KVelocity]) w"

subsection \<open>Consequences of the gameplay systems\<close>

text \<open>Despawn of the entities a system reports, with the event each one causes.\<close>

definition despawn_with ::
  "(NetworkId \<Rightarrow> PlatformEvent) \<Rightarrow> Entity \<Rightarrow> (ClientId option \<times> WireEvent) list \<times> adapter \<Rightarrow>
     (ClientId option \<times> WireEvent) list \<times> adapter" where
  "despawn_with event e s =
     (case s of (evs, a) \<Rightarrow>
        (case get_by_right (bimap a) e of
           Some nid \<Rightarrow> (evs @ [(None, PlatformWire (event nid))], snd (despawn_networked nid a))
         | None \<Rightarrow> s))"

definition drop_payload :: "ecs_env \<Rightarrow> Entity \<Rightarrow> adapter \<Rightarrow> adapter option" where
  "drop_payload env e a =
     (case get_data_store (wrld a) e of
        Some st \<Rightarrow>
          if payload_count st > 0
          then
            let (x, y) = (case get_transform (wrld a) e of
                            Some t \<Rightarrow> (tr_x t, tr_y t) | None \<Rightarrow> (fzero, fzero))
            in do { (drop_id, a) \<leftarrow> spawn_kind env (ENTITY_TYPE_DATA_DROP (types env)) x y fzero a;
                    Some (case get_by_left (bimap a) drop_id of
                            Some d \<Rightarrow>
                              (case get_data_drop (wrld a) d of
                                 Some _ \<Rightarrow> a\<lparr>wrld := put_comp (CDataDropComponent (payload_count st)) d (wrld a)\<rparr>
                               | None \<Rightarrow> a)
                          | None \<Rightarrow> a) }
          else Some a
      | None \<Rightarrow> Some a)"

definition training_tracker :: "RespawnTimer" where
  "training_tracker = \<lparr>rt_delay_ticks = 600, rt_location = Coordinate (f32_lit 50) (f32_lit 50)\<rparr>"

definition terminate ::
  "ecs_env \<Rightarrow> Entity \<Rightarrow> (ClientId option \<times> WireEvent) list \<times> adapter \<Rightarrow>
     ((ClientId option \<times> WireEvent) list \<times> adapter) option" where
  "terminate env e s =
     (case s of (evs, a) \<Rightarrow>
        (case get_by_right (bimap a) e of
           None \<Rightarrow> Some s
         | Some nid \<Rightarrow>
             do { a \<leftarrow> drop_payload env e a;
                  let a = (if has_comp (wrld a) KTrainingTarget e
                           then a\<lparr>wrld := snd (spawn_entity env [CTrainingTarget, CRespawnTimer training_tracker]
                                   (wrld a))\<rparr>
                           else a);
                  Some (evs @ [(None, PlatformWire (Termination nid))], snd (despawn_networked nid a)) }))"

definition despawn_beam ::
  "Entity \<Rightarrow> (ClientId option \<times> WireEvent) list \<times> adapter \<Rightarrow> (ClientId option \<times> WireEvent) list \<times> adapter" where
  "despawn_beam e s =
     (case s of (evs, a) \<Rightarrow>
        (case get_by_right (bimap a) e of
           Some nid \<Rightarrow> (evs @ [(None, PlatformWire (Termination nid))], snd (despawn_networked nid a))
         | None \<Rightarrow> if alive (wrld a) e then (evs, a\<lparr>wrld := despawn e (wrld a)\<rparr>) else s))"

definition spawn_beam :: "ecs_env \<Rightarrow> BeamSpawn \<Rightarrow> adapter \<Rightarrow> adapter option" where
  "spawn_beam env spawn a =
     (let (px, py) = bs_pos spawn; (vx, vy) = bs_vel spawn
      in do { (bid, a) \<leftarrow> spawn_kind env (ENTITY_TYPE_BEAM (types env)) px py (atan2f env vy vx) a;
              Some (case get_by_left (bimap a) bid of
                      None \<Rightarrow> a
                    | Some e \<Rightarrow>
                        let w = wrld a;
                            w = (case get_beam_marker w e of
                                   Some m \<Rightarrow> put_comp (CBeamMarker (m\<lparr>bm_owner := bs_owner spawn\<rparr>)) e w
                                 | None \<Rightarrow> w);
                            w = (case get_velocity w e of
                                   Some v \<Rightarrow> put_comp (CVelocity (v\<lparr>vel_dx := vx, vel_dy := vy\<rparr>)) e w
                                 | None \<Rightarrow> w)
                        in a\<lparr>wrld := w\<rparr>) })"

definition spawn_beams :: "ecs_env \<Rightarrow> adapter \<Rightarrow> adapter option" where
  "spawn_beams env a =
     (case BeamSpawnRequests (wrld a) of
        None \<Rightarrow> Some a
      | Some spawns \<Rightarrow>
          foldM (spawn_beam env) spawns (a\<lparr>wrld := (wrld a)\<lparr>BeamSpawnRequests := Some []\<rparr>\<rparr>))"

definition respawn_target :: "ecs_env \<Rightarrow> f32 \<times> f32 \<Rightarrow> adapter \<Rightarrow> adapter option" where
  "respawn_target env pos a =
     do { (nid, a) \<leftarrow> spawn_kind env (ENTITY_TYPE_TRAINING_TARGET (types env)) (fst pos) (snd pos) fzero a;
          Some a }"

definition respawn_resource :: "ecs_env \<Rightarrow> f32 \<times> f32 \<times> u16 \<Rightarrow> adapter \<Rightarrow> adapter option" where
  "respawn_resource env x a =
     (case x of (px, py, cap) \<Rightarrow>
        do { (nid, a) \<leftarrow> spawn_kind env (ENTITY_TYPE_RESOURCE (types env)) px py fzero a;
             Some (case get_by_left (bimap a) nid of
                     None \<Rightarrow> a
                   | Some e \<Rightarrow>
                       (case get_resource (wrld a) e of
                          Some r \<Rightarrow>
                            a\<lparr>wrld := put_comp (CResource (r\<lparr>total_capacity := cap, payload_remaining := cap\<rparr>))
                                e (wrld a)\<rparr>
                        | None \<Rightarrow> a)) })"

definition gameplay_stage :: "ecs_env \<Rightarrow> adapter \<Rightarrow> adapter option" where
  "gameplay_stage env a =
     do { (exhausted, w) \<leftarrow> process_extraction env (bimap a) (wrld a);
          let s = fold (despawn_with ResourceExhaustedEvent) exhausted ([], a\<lparr>wrld := w\<rparr>);
          let (evs, a) = s;
          w \<leftarrow> process_interaction env (bimap a) (wrld a);
          let (collected, w) = process_payload_collection env (bimap a) w;
          let s = fold (despawn_with (\<lambda>nid. PayloadCollected nid 0)) collected (evs, a\<lparr>wrld := w\<rparr>);
          let (evs, a) = s;
          let (b_to_despawn, b_terminations, w) = process_beams env (bimap a) (wrld a);
          s \<leftarrow> foldM (terminate env) b_terminations (evs, a\<lparr>wrld := w\<rparr>);
          let (evs, a) = fold despawn_beam b_to_despawn s;
          let a = a\<lparr>wrld := push_reliable evs (wrld a)\<rparr>;
          a \<leftarrow> spawn_beams env a;
          let (to_reinit, w) = process_target_reinitialization env (process_regen env (wrld a));
          a \<leftarrow> foldM (respawn_target env) to_reinit (a\<lparr>wrld := w\<rparr>);
          let (to_respawn, w) = process_respawn env (wrld a);
          foldM (respawn_resource env) to_respawn (a\<lparr>wrld := w\<rparr>) }"

definition simulate :: "ecs_env \<Rightarrow> adapter \<Rightarrow> adapter option" where
  "simulate env a =
     do { w \<leftarrow> physics_stage env (tick_rate a) (wrld a);
          let w = toggle_stage env (bounds_stage env (bimap a) w);
          a \<leftarrow> gameplay_stage env (a\<lparr>wrld := w\<rparr>);
          let w = z_stage env (wrld a);
          Some (a\<lparr>wrld := (case post_simulate_hook a of Some hook \<Rightarrow> hook w | None \<Rightarrow> w)\<rparr>) }"

end
