(* ===== verification/Adapter_Inv.thy ===== *)
theory Adapter_Inv
  imports Simulate
begin

text \<open>
  The invariant of the adapter: the identifier map is a bijection between issued network ids and
  live entities, the cache of owners agrees with the world, and the workspace index only names
  entities of the identifier map. Every operation of the adapter keeps it; the game systems are
  covered by one relation between worlds, \<open>soft\<close>, that all of them satisfy.
\<close>

text \<open>The resources are beside the components.\<close>

lemma resource_frame [simp]:
  "get_comp (w\<lparr>WorkspaceIdx := ix\<rparr>) = get_comp w" "alive (w\<lparr>WorkspaceIdx := ix\<rparr>) = alive w"
  "get_comp (w\<lparr>ServerTick := t\<rparr>) = get_comp w" "alive (w\<lparr>ServerTick := t\<rparr>) = alive w"
  "get_comp (w\<lparr>ReliableEvents := q\<rparr>) = get_comp w" "alive (w\<lparr>ReliableEvents := q\<rparr>) = alive w"
  "get_comp (w\<lparr>BeamSpawnRequests := b\<rparr>) = get_comp w" "alive (w\<lparr>BeamSpawnRequests := b\<rparr>) = alive w"
  "get_comp (w\<lparr>change_tick := c\<rparr>) = get_comp w" "alive (w\<lparr>change_tick := c\<rparr>) = alive w"
  by (auto simp: get_comp_def get_cell_def alive_def fun_eq_iff)

subsection \<open>What the game systems leave alone\<close>

text \<open>No entity is listed twice, and no component was changed in the future.\<close>

definition world_ok :: "world \<Rightarrow> bool" where
  "world_ok w \<longleftrightarrow> distinct (live w) \<and> (\<forall>e k c t. get_cell w e k = Some (c, t) \<longrightarrow> t \<le> change_tick w)"

lemma world_ok_put [simp]: "world_ok w \<Longrightarrow> world_ok (put_comp c e w)"
  by (auto simp: world_ok_def get_cell_put_comp)

lemma world_ok_insert_bundle [simp]: "world_ok w \<Longrightarrow> world_ok (insert_bundle cs e w)"
  unfolding insert_bundle_def by (rule fold_invariant_set [where P = world_ok]) auto

lemma world_ok_despawn [simp]: "world_ok w \<Longrightarrow> world_ok (despawn e w)"
  by (auto simp: world_ok_def distinct_removeAll get_cell_def despawn_def alive_def split: if_splits)

lemma world_ok_spawn:
  assumes "ecs_ok env" "spawn_entity env cs w = (e, w')" "world_ok w"
  shows "world_ok w'"
proof -
  have "world_ok (w\<lparr>live := live w @ [e], store := (store w)(e := Map.empty)\<rparr>)"
    using assms(3) spawn_entity_facts(1) [OF assms(2)] ecs_ok_fresh [OF assms(1), of w]
    by (auto simp: world_ok_def get_cell_def alive_def split: if_splits)
  then show ?thesis using assms(2) by (auto simp: spawn_entity_def Let_def)
qed

lemma world_ok_same:
  assumes "live w' = live w" "store w' = store w" "change_tick w \<le> change_tick w'" "world_ok w"
  shows "world_ok w'"
proof -
  have "get_cell w' e k = get_cell w e k" for e k using assms(1,2) by (simp add: get_cell_def alive_def)
  then show ?thesis using assms(1,3,4) unfolding world_ok_def by (metis order_trans)
qed

lemma world_ok_resources [simp]:
  "world_ok (w\<lparr>WorkspaceIdx := ix\<rparr>) = world_ok w" "world_ok (push_reliable evs w) = world_ok w"
  by (simp_all add: world_ok_def get_cell_def alive_def push_reliable_def)

text \<open>The components only the server writes.\<close>

definition server_kinds :: "ckind set" where
  "server_kinds = {KNetworked, KNetworkOwner, KSessionAgent, KResourceRespawn, KRespawnTimer}"

text \<open>A tracker counts down to the respawn of something that is gone.\<close>

definition tracker :: "world \<Rightarrow> Entity \<Rightarrow> bool" where
  "tracker w e \<longleftrightarrow> has_comp w KResourceRespawn e \<or> has_comp w KRespawnTimer e"

definition soft :: "world \<Rightarrow> world \<Rightarrow> bool" where
  "soft w w' \<longleftrightarrow>
     WorkspaceIdx w' = WorkspaceIdx w \<and> (world_ok w \<longrightarrow> world_ok w') \<and>
     (\<forall>e. alive w e \<and> \<not> tracker w e \<longrightarrow>
        alive w' e \<and> (\<forall>k \<in> server_kinds. get_comp w' e k = get_comp w e k))"

lemma softD:
  assumes "soft w w'" "alive w e" "\<not> tracker w e"
  shows "alive w' e" "\<not> tracker w' e" "k \<in> server_kinds \<Longrightarrow> get_comp w' e k = get_comp w e k"
  using assms by (auto simp: soft_def tracker_def has_comp_def server_kinds_def)

lemma soft_index: "soft w w' \<Longrightarrow> WorkspaceIdx w' = WorkspaceIdx w"
  by (simp add: soft_def)

lemma soft_refl [simp]: "soft w w"
  by (simp add: soft_def)

lemma soft_trans [trans]:
  assumes "soft w w'" "soft w' w''"
  shows "soft w w''"
proof -
  have "alive w'' e \<and> (\<forall>k \<in> server_kinds. get_comp w'' e k = get_comp w e k)"
    if "alive w e" "\<not> tracker w e" for e
    using softD [OF assms(1) that] softD [OF assms(2), of e] by simp
  with assms show ?thesis by (simp add: soft_def)
qed

lemma soft_put: "kind_of c \<notin> server_kinds \<Longrightarrow> soft w (put_comp c e w)"
  by (auto simp: soft_def get_comp_put_comp)

lemma soft_put_tracker: "soft w w' \<Longrightarrow> tracker w e \<Longrightarrow> soft w (put_comp c e w')"
  by (auto simp: soft_def get_comp_put_comp)

lemma soft_despawn_tracker: "soft w w' \<Longrightarrow> tracker w e \<Longrightarrow> soft w (despawn e w')"
  by (auto simp: soft_def get_comp_despawn)

lemma soft_spawn:
  assumes "ecs_ok env" "spawn_entity env cs w = (e, w')"
  shows "soft w w'"
  using spawn_entity_facts [OF assms(2)] ecs_ok_fresh [OF assms(1), of w] world_ok_spawn [OF assms]
  by (auto simp: soft_def get_comp_spawn_entity [OF assms(2)] alive_def)

lemma soft_same:
  assumes "live w' = live w" "store w' = store w" "WorkspaceIdx w' = WorkspaceIdx w"
    and "change_tick w \<le> change_tick w'"
  shows "soft w w'"
  using get_comp_cong [OF assms(1,2)] world_ok_same [OF assms(1,2,4)] assms by (simp add: soft_def alive_def)

lemma soft_push: "soft w (push_reliable evs w)"
  by (rule soft_same) simp_all

text \<open>Extending a soft chain by one write.\<close>

lemma soft_puts [simp]: "soft w v \<Longrightarrow> kind_of c \<notin> server_kinds \<Longrightarrow> soft w (put_comp c e v)"
  by (rule soft_trans [OF _ soft_put])

lemma soft_pushes [simp]: "soft w v \<Longrightarrow> soft w (push_reliable evs v)"
  by (rule soft_trans [OF _ soft_push])

lemma soft_fold:
  assumes "\<And>x w. soft w (f x w)"
  shows "soft w (fold f xs w)"
  by (induction xs arbitrary: w) (auto intro: soft_trans [OF assms])

lemma soft_foldM:
  assumes "foldM f xs w = Some w'" and "\<And>x w w'. f x w = Some w' \<Longrightarrow> soft w w'"
  shows "soft w w'"
  by (rule foldM_invariant [OF assms(1), where P = "soft w"]) (auto intro: soft_trans assms(2))

lemmas soft_kinds [simp] = server_kinds_def

subsection \<open>Every system is soft\<close>

lemma soft_disable: "soft w (disable_beam e w)"
  by (auto simp: disable_beam_def split: option.split)

lemma soft_transfer:
  assumes "transfer x w = Some w'"
  shows "soft w w'"
proof -
  have "soft w (put_comp (CResource r) e (put_comp (CDataStore s) e' w))" for r s e e'
    by (rule soft_trans; rule soft_put) simp_all
  with assms show ?thesis
    by (auto simp: transfer_def Let_def split: prod.splits Option.bind_splits if_splits)
qed

lemma soft_exhaustion:
  assumes "ecs_ok env"
  shows "soft w (snd (handle_resource_exhaustion env bm w))"
proof -
  have "soft v (snd (spawn_entity env cs v))" for v cs
    using soft_spawn [OF assms, of cs v] by (metis prod.collapse)
  then have "soft v (fold (\<lambda>(e, n, t, cap) w. snd (spawn_entity env [CResourceRespawn (respawn_tracker t cap)] w))
      ks v)" for v ks
    by (intro soft_fold) (auto split: prod.split)
  then show ?thesis
    unfolding handle_resource_exhaustion_def Let_def snd_conv by (rule soft_trans [OF soft_push])
qed

lemma soft_process_extraction:
  assumes "ecs_ok env" "process_extraction env bm w = Some (ds, w')"
  shows "soft w w'"
proof -
  let ?cs = "beam_checks env w bm"
  define w1 where "w1 = fold disable_beam (disabled_of ?cs @ rejected_of w (attempts_of ?cs)) w"
  obtain w2 where w2: "foldM transfer (transfers_of w (attempts_of ?cs)) w1 = Some w2"
    "handle_resource_exhaustion env bm w2 = (ds, w')"
    using assms(2) unfolding process_extraction_def Let_def w1_def [symmetric]
    by (auto simp only: bind_eq_Some_conv option.inject)
  have "soft w w1" unfolding w1_def by (rule soft_fold) (rule soft_disable)
  moreover have "soft w1 w2" using w2(1) soft_transfer by (rule soft_foldM)
  moreover have "soft w2 w'" using soft_exhaustion [OF assms(1), of w2 bm] by (simp add: w2(2))
  ultimately show ?thesis by (blast intro: soft_trans)
qed

lemma soft_use_tool: "soft w (snd s) \<Longrightarrow> soft w (snd (use_tool env e s))"
  by (auto simp: use_tool_def split: prod.split option.split)

lemma soft_fire: "fire env bm x w = Some w' \<Longrightarrow> soft w w'"
  by (auto simp: fire_def bind_eq_Some_conv split: prod.splits intro!: soft_same)

lemma soft_process_interaction:
  assumes "process_interaction env bm w = Some w'"
  shows "soft w w'"
proof -
  obtain xs v where v: "fold (use_tool env) (query env w [KLatestInput, KTool, KTransform]) ([], w) = (xs, v)"
    by fastforce
  have "soft w (snd (fold (use_tool env) (query env w [KLatestInput, KTool, KTransform]) ([], w)))"
    by (rule fold_invariant_set [where P = "\<lambda>s. soft w (snd s)"]) (simp_all add: soft_use_tool)
  then have "soft w v" by (simp add: v)
  moreover have "foldM (fire env bm) xs v = Some w'"
    using assms by (simp add: process_interaction_def v)
  then have "soft v w'" using soft_fire by (rule soft_foldM)
  ultimately show ?thesis by (rule soft_trans)
qed

lemma soft_collect: "soft w (snd s) \<Longrightarrow> soft w (snd (collect bm x s))"
  by (auto simp: collect_def Let_def split: prod.split option.split)

lemma soft_collection: "soft w (snd (process_payload_collection env bm w))"
  unfolding process_payload_collection_def
  by (rule fold_invariant_set [where P = "\<lambda>s. soft w (snd s)"]) (simp_all add: soft_collect)

lemma soft_write_hit: "write_hit t v = (v', term) \<Longrightarrow> soft w v \<Longrightarrow> soft w v'"
  by (auto simp: write_hit_def Let_def split: prod.splits option.splits if_splits)

lemma soft_beam_step:
  assumes "soft w (bs_world s)"
  shows "soft w (bs_world (beam_step env bm b s))"
proof -
  let ?v = "case get_beam_marker (bs_world s) (bd_entity b) of
      Some m \<Rightarrow> put_comp (CBeamMarker (m\<lparr>lifetime_ticks := sat_sub (lifetime_ticks m) 1\<rparr>))
                 (bd_entity b) (bs_world s) | None \<Rightarrow> bs_world s"
  have v: "soft w ?v" using assms by (auto split: option.split)
  from v soft_write_hit [OF _ v] show ?thesis using assms unfolding beam_step_def Let_def
    by (auto split: option.split prod.split)
qed

lemma soft_process_beams:
  assumes "process_beams env bm w = (ds, ts, w')"
  shows "soft w w'"
proof -
  have "soft w (bs_world (fold (beam_step env bm) bs
      \<lparr>to_despawn = [], terminations = [], interaction_events = [], bs_world = w\<rparr>))" for bs
    by (rule fold_invariant_set [where P = "\<lambda>s. soft w (bs_world s)"]) (simp_all add: soft_beam_step)
  with assms show ?thesis by (auto simp: process_beams_def Let_def)
qed

lemma soft_process_regen: "soft w (process_regen env w)"
  unfolding process_regen_def
  by (rule soft_fold) (auto simp: regen_step_def split: option.split)

text \<open>The timers touch trackers only.\<close>

lemma tracker_getters:
  "get_resource_respawn w e = Some r \<Longrightarrow> tracker w e" "get_respawn_timer w e = Some t \<Longrightarrow> tracker w e"
  by (auto simp: tracker_def has_comp_def get_resource_respawn_def get_respawn_timer_def
      split: option.splits)

lemma tracker_in_query:
  "ecs_ok env \<Longrightarrow> e \<in> set (query env w [KResourceRespawn]) \<Longrightarrow> tracker w e"
  "ecs_ok env \<Longrightarrow> e \<in> set (query env w [KRespawnTimer]) \<Longrightarrow> tracker w e"
  by (auto simp: in_query tracker_def)

lemma soft_despawn_trackers:
  assumes "soft w v" and "\<forall>e \<in> set es. tracker w e"
  shows "soft w (fold despawn es v)"
  using assms by (intro fold_invariant_set [where P = "soft w"]) (auto intro: soft_despawn_tracker)

lemma soft_process_respawn:
  assumes "ecs_ok env" "process_respawn env w = (xs, w')"
  shows "soft w w'"
proof -
  let ?P = "\<lambda>(xs, ds, v). soft w v \<and> (\<forall>e \<in> set ds. tracker w e)"
  let ?s = "fold respawn_step (query env w [KResourceRespawn]) ([], [], w)"
  have "?P ?s"
  proof (rule fold_invariant_set [where P = ?P])
    show "?P (respawn_step e s)" if "e \<in> set (query env w [KResourceRespawn])" "?P s" for e s
      using tracker_in_query(1) [OF assms(1) that(1)] that(2)
      by (auto simp: respawn_step_def Let_def intro: soft_put_tracker split: prod.splits option.splits)
  qed simp
  then show ?thesis using assms(2) soft_despawn_trackers
    by (auto simp: process_respawn_def split: prod.splits)
qed

lemma soft_process_reinit:
  assumes "ecs_ok env" "process_target_reinitialization env w = (xs, w')"
  shows "soft w w'"
proof -
  let ?P = "\<lambda>(xs, ds, v). soft w v \<and> (\<forall>e \<in> set ds. tracker w e)"
  let ?s = "fold reinit_step (query env w [KRespawnTimer]) ([], [], w)"
  have "?P ?s"
  proof (rule fold_invariant_set [where P = ?P])
    show "?P (reinit_step e s)" if "e \<in> set (query env w [KRespawnTimer])" "?P s" for e s
      using tracker_in_query(2) [OF assms(1) that(1)] that(2)
      by (auto simp: reinit_step_def Let_def intro: soft_put_tracker split: prod.splits option.splits)
  qed simp
  then show ?thesis using assms(2) soft_despawn_trackers
    by (auto simp: process_target_reinitialization_def split: prod.splits)
qed

lemma soft_physics_stage: "physics_stage env rate w = Some w' \<Longrightarrow> soft w w'"
  unfolding physics_stage_def Let_def
  by (erule soft_foldM)
    (auto simp: move_entity_def Let_def bind_eq_Some_conv split: option.splits)

lemma soft_stages:
  "soft w (bounds_stage env bm w)" "soft w (toggle_stage env w)" "soft w (z_stage env w)"
  unfolding bounds_stage_def toggle_stage_def z_stage_def
  by (rule soft_fold, auto simp: wrap_entity_def toggle_entity_def clamp_z_def Let_def
      split: option.split)+

lemma soft_insert_bundle: "\<forall>c \<in> set cs. kind_of c \<notin> server_kinds \<Longrightarrow> soft w (insert_bundle cs e w)"
  unfolding insert_bundle_def
  by (rule fold_invariant_set [where P = "soft w"]) auto

subsection \<open>The invariant\<close>

definition replicator_safe :: "Replicator \<Rightarrow> bool" where
  "replicator_safe r = (case r of DefaultReplicator ck _ \<Rightarrow> ck \<notin> server_kinds | InputCommandReplicator \<Rightarrow> True)"

definition adapter_ok :: "(nat \<Rightarrow> nat) \<Rightarrow> adapter \<Rightarrow> bool" where
  "adapter_ok bound a \<longleftrightarrow>
     distinct (map fst (bimap a)) \<and> distinct (map snd (bimap a)) \<and> world_ok (wrld a) \<and>
     (\<forall>(n, e) \<in> set (bimap a). alive (wrld a) e \<and> \<not> tracker (wrld a) e \<and>
        get_networked (wrld a) e = Some n \<and> unat n < bound (allocator a)) \<and>
     (\<forall>n c. owners a n = Some c \<longrightarrow> (\<exists>e. (n, e) \<in> set (bimap a) \<and> get_owner (wrld a) e = Some c)) \<and>
     (\<forall>ix n S. WorkspaceIdx (wrld a) = Some ix \<longrightarrow> memberships ix n = Some S \<longrightarrow>
        S \<subseteq> snd ` set (bimap a)) \<and>
     (\<forall>(k, r) \<in> set (replicators a). replicator_safe r) \<and>
     (\<forall>hook w. post_simulate_hook a = Some hook \<longrightarrow> soft w (hook w)) \<and>
     WorkspaceIdx (wrld a) \<noteq> None"

lemma adapter_okD:
  assumes "adapter_ok bound a"
  shows "distinct (map fst (bimap a))" "distinct (map snd (bimap a))" "world_ok (wrld a)"
    "(n, e) \<in> set (bimap a) \<Longrightarrow> alive (wrld a) e"
    "(n, e) \<in> set (bimap a) \<Longrightarrow> \<not> tracker (wrld a) e"
    "(n, e) \<in> set (bimap a) \<Longrightarrow> get_networked (wrld a) e = Some n"
    "(n, e) \<in> set (bimap a) \<Longrightarrow> unat n < bound (allocator a)"
    "owners a n = Some c \<Longrightarrow> \<exists>e. (n, e) \<in> set (bimap a) \<and> get_owner (wrld a) e = Some c"
    "WorkspaceIdx (wrld a) = Some ix \<Longrightarrow> memberships ix n = Some S \<Longrightarrow> S \<subseteq> snd ` set (bimap a)"
    "(k, r) \<in> set (replicators a) \<Longrightarrow> replicator_safe r"
    "post_simulate_hook a = Some hook \<Longrightarrow> soft w (hook w)"
    "WorkspaceIdx (wrld a) \<noteq> None"
  using assms unfolding adapter_ok_def by fast+

lemma by_left_iff: "adapter_ok bound a \<Longrightarrow> get_by_left (bimap a) n = Some e \<longleftrightarrow> (n, e) \<in> set (bimap a)"
  by (simp add: get_by_left_def adapter_okD(1) map_of_eq_Some_iff)

lemma by_right_iff: "adapter_ok bound a \<Longrightarrow> get_by_right (bimap a) e = Some n \<longleftrightarrow> (n, e) \<in> set (bimap a)"
proof -
  assume "adapter_ok bound a"
  then have "distinct (map fst (map prod.swap (bimap a)))"
    using adapter_okD(2) by (simp add: comp_def)
  then show ?thesis by (force simp: get_by_right_def map_of_eq_Some_iff)
qed

text \<open>Another world behind the same maps.\<close>

lemma ok_world:
  assumes "adapter_ok bound a" and "world_ok w"
    and "\<And>n e. (n, e) \<in> set (bimap a) \<Longrightarrow> alive w e \<and> \<not> tracker w e \<and>
           get_networked w e = get_networked (wrld a) e \<and> get_owner w e = get_owner (wrld a) e"
    and "\<And>ix n S. WorkspaceIdx w = Some ix \<Longrightarrow> memberships ix n = Some S \<Longrightarrow> S \<subseteq> snd ` set (bimap a)"
    and "WorkspaceIdx w \<noteq> None"
  shows "adapter_ok bound (a\<lparr>wrld := w\<rparr>)"
proof -
  have "\<exists>e. (n, e) \<in> set (bimap a) \<and> get_owner w e = Some c" if "owners a n = Some c" for n c
    using adapter_okD(8) [OF assms(1) that] assms(3) by metis
  moreover have "\<forall>(n, e) \<in> set (bimap a). alive w e \<and> \<not> tracker w e \<and>
        get_networked w e = Some n \<and> unat n < bound (allocator a)"
    using assms(3) adapter_okD(6,7) [OF assms(1)] by fastforce
  ultimately show ?thesis
    using assms(2,4,5) adapter_okD(1,2,10,11) [OF assms(1)] by (auto simp: adapter_ok_def)
qed

lemma ok_soft:
  assumes "adapter_ok bound a" and "soft (wrld a) w"
  shows "adapter_ok bound (a\<lparr>wrld := w\<rparr>)"
proof (rule ok_world [OF assms(1)])
  show "world_ok w" using adapter_okD(3) [OF assms(1)] assms(2) by (simp add: soft_def)
next
  fix n e
  assume ne: "(n, e) \<in> set (bimap a)"
  note s = softD [OF assms(2) adapter_okD(4,5) [OF assms(1) ne]]
  then have "get_networked w e = get_networked (wrld a) e" "get_owner w e = get_owner (wrld a) e"
    by (auto simp: get_networked_def get_owner_def)
  with s show "alive w e \<and> \<not> tracker w e \<and> get_networked w e = get_networked (wrld a) e \<and>
      get_owner w e = get_owner (wrld a) e" by simp
next
  show "S \<subseteq> snd ` set (bimap a)" if "WorkspaceIdx w = Some ix" "memberships ix n = Some S" for ix n S
    using adapter_okD(9) [OF assms(1) _ that(2)] that(1) soft_index [OF assms(2)] by simp
qed (use adapter_okD(12) [OF assms(1)] soft_index [OF assms(2)] in simp)

subsection \<open>Spawning\<close>

text \<open>An identifier that was issued and is not in use.\<close>

definition reserved :: "(nat \<Rightarrow> nat) \<Rightarrow> NetworkId \<Rightarrow> adapter \<Rightarrow> bool" where
  "reserved bound n a \<longleftrightarrow> n \<notin> fst ` set (bimap a) \<and> unat n < bound (allocator a)"

lemma ok_allocate:
  assumes "adapter_ok bound a" "alloc_ok env bound" "allocate env (allocator a) = Some (n, al)"
  shows "adapter_ok bound (a\<lparr>allocator := al\<rparr>)" "reserved bound n (a\<lparr>allocator := al\<rparr>)"
    "reserved bound n' a \<Longrightarrow> n' \<noteq> n \<and> reserved bound n' (a\<lparr>allocator := al\<rparr>)"
proof -
  from assms(2,3) have b: "bound (allocator a) \<le> unat n" "unat n < bound al"
    unfolding alloc_ok_def by blast+
  have "unat n' < bound al" if "(n', e) \<in> set (bimap a)" for n' e
    using adapter_okD(7) [OF assms(1) that] b by simp
  then show "adapter_ok bound (a\<lparr>allocator := al\<rparr>)" using assms(1) by (auto simp: adapter_ok_def)
  have "n \<notin> fst ` set (bimap a)" using adapter_okD(7) [OF assms(1)] b(1) by fastforce
  then show "reserved bound n (a\<lparr>allocator := al\<rparr>)" using b by (simp add: reserved_def)
  show "reserved bound n' a \<Longrightarrow> n' \<noteq> n \<and> reserved bound n' (a\<lparr>allocator := al\<rparr>)"
    using b by (auto simp: reserved_def)
qed

definition networked_bundle :: "NetworkId \<Rightarrow> comp list \<Rightarrow> bool" where
  "networked_bundle n cs \<longleftrightarrow> bundle_get cs KNetworked = Some (CNetworked n) \<and>
     bundle_get cs KResourceRespawn = None \<and> bundle_get cs KRespawnTimer = None"

lemma bimap_insert_fresh:
  assumes "n \<notin> fst ` set b" "e \<notin> snd ` set b"
  shows "bimap_insert n e b = (n, e) # b"
  using assms by (force simp: bimap_insert_def intro: filter_True)

lemma ok_spawn:
  assumes "adapter_ok bound a" "ecs_ok env" "reserved bound n a"
    and "spawn_entity env cs (wrld a) = (e, w)" and "networked_bundle n cs"
  shows "bimap_insert n e (bimap a) = (n, e) # bimap a"
    "adapter_ok bound (a\<lparr>wrld := w, bimap := (n, e) # bimap a\<rparr>)"
proof -
  note sp = spawn_entity_facts [OF assms(4)]
  have fresh: "\<not> alive (wrld a) e"
    using ecs_ok_fresh [OF assms(2), of "wrld a"] sp(1) by (simp add: alive_def)
  then have e: "e \<notin> snd ` set (bimap a)" using adapter_okD(4) [OF assms(1)] by force
  have n: "n \<notin> fst ` set (bimap a)" using assms(3) by (simp add: reserved_def)
  show "bimap_insert n e (bimap a) = (n, e) # bimap a" using n e by (rule bimap_insert_fresh)
  have w: "get_comp w e' k = (if e' = e then bundle_get cs k else get_comp (wrld a) e' k)" for e' k
    by (rule get_comp_spawn_entity [OF assms(4)])
  have ok: "adapter_ok bound (a\<lparr>wrld := w\<rparr>)"
    using ok_soft [OF assms(1) soft_spawn [OF assms(2,4)]] .
  have "alive w e \<and> \<not> tracker w e \<and> get_networked w e = Some n \<and> unat n < bound (allocator a)"
    using assms(3,5) sp(8) [of e]
    by (simp add: tracker_def has_comp_def w networked_bundle_def get_networked_def reserved_def)
  moreover have "\<forall>ix n' S. WorkspaceIdx w = Some ix \<longrightarrow> memberships ix n' = Some S \<longrightarrow>
      S \<subseteq> insert e (snd ` set (bimap a))"
    using adapter_okD(9) [OF ok] by fastforce
  ultimately show "adapter_ok bound (a\<lparr>wrld := w, bimap := (n, e) # bimap a\<rparr>)"
    using ok n e by (simp add: adapter_ok_def) blast
qed

lemma ok_owner:
  assumes "adapter_ok bound a" and "(n, e) \<in> set (bimap a)"
  shows "adapter_ok bound (a\<lparr>wrld := put_comp (CNetworkOwner c) e (wrld a), owners := (owners a)(n \<mapsto> c)\<rparr>)"
proof -
  let ?w = "put_comp (CNetworkOwner c) e (wrld a)"
  have al: "alive (wrld a) e" using adapter_okD(4) [OF assms] .
  have o: "get_owner ?w e' = (if e' = e then Some c else get_owner (wrld a) e')" for e'
    using al by simp
  have "\<exists>e'. (n', e') \<in> set (bimap a) \<and> get_owner ?w e' = Some c'"
    if "((owners a)(n \<mapsto> c)) n' = Some c'" for n' c'
  proof (cases "n' = n")
    case True
    with that assms(2) o show ?thesis by auto
  next
    case False
    with that adapter_okD(8) [OF assms(1)] obtain e' where
      e': "(n', e') \<in> set (bimap a)" "get_owner (wrld a) e' = Some c'" by fastforce
    have "e' \<noteq> e" using False adapter_okD(6) [OF assms] adapter_okD(6) [OF assms(1) e'(1)] by auto
    with e' o show ?thesis by auto
  qed
  moreover have "tracker ?w = tracker (wrld a)"
    by (intro ext) (simp add: tracker_def has_comp_def get_comp_put_comp)
  ultimately show ?thesis using assms(1) unfolding adapter_ok_def by (simp del: get_owner_put)
qed

text \<open>Nothing that exists is touched while entities are added.\<close>

definition grows :: "adapter \<Rightarrow> adapter \<Rightarrow> bool" where
  "grows a a' \<longleftrightarrow>
     set (bimap a) \<subseteq> set (bimap a') \<and> owners a' = owners a \<and> replicators a' = replicators a \<and>
     (\<forall>e. alive (wrld a) e \<longrightarrow> alive (wrld a') e \<and> (\<forall>k. get_comp (wrld a') e k = get_comp (wrld a) e k))"

lemma grows_refl [simp]: "grows a a"
  by (simp add: grows_def)

lemma grows_trans: "grows a b \<Longrightarrow> grows b c \<Longrightarrow> grows a c"
  unfolding grows_def by simp (blast intro: subset_trans)

lemma grows_allocator [simp]: "grows a (b\<lparr>allocator := al\<rparr>) = grows a b" "grows (a\<lparr>allocator := al\<rparr>) b = grows a b"
  by (simp_all add: grows_def)

lemma grows_spawn:
  assumes "ecs_ok env" "spawn_entity env cs (wrld a) = (e, w)"
  shows "grows a (a\<lparr>wrld := w, bimap := (n, e) # bimap a\<rparr>)"
  using spawn_entity_facts(1,8) [OF assms(2)] ecs_ok_fresh [OF assms(1), of "wrld a"]
  by (auto simp: grows_def get_comp_spawn_entity [OF assms(2)] alive_def)

lemma ok_spawn_networked:
  assumes "adapter_ok bound a" "ecs_ok env" "alloc_ok env bound"
    and "spawn_networked env a = Some (n, a')"
  obtains e where "adapter_ok bound a'" "(n, e) \<in> set (bimap a')" "\<not> alive (wrld a) e" "grows a a'"
    "\<And>m. reserved bound m a \<Longrightarrow> m \<noteq> n \<and> reserved bound m a'"
proof -
  obtain al where al: "allocate env (allocator a) = Some (n, al)"
    using assms(4) by (auto simp: spawn_networked_def Let_def bind_eq_Some_conv case_prod_unfold)
  let ?a = "a\<lparr>allocator := al\<rparr>"
  note A = ok_allocate [OF assms(1,3) al]
  obtain e w where sp: "spawn_entity env [CNetworked n] (wrld a) = (e, w)" by fastforce
  have nb: "networked_bundle n [CNetworked n]" by (simp add: networked_bundle_def bundle_get_def)
  have "spawn_entity env [CNetworked n] (wrld ?a) = (e, w)" using sp by simp
  note S = ok_spawn [OF A(1) assms(2) A(2) this nb]
  have a': "a' = ?a\<lparr>wrld := w, bimap := (n, e) # bimap a\<rparr>"
    using assms(4) S(1) by (simp add: spawn_networked_def al sp)
  show thesis
  proof (rule that)
    show "adapter_ok bound a'" using S(2) by (simp add: a')
    show "(n, e) \<in> set (bimap a')" by (simp add: a')
    show "\<not> alive (wrld a) e"
      using spawn_entity_facts(1) [OF sp] ecs_ok_fresh [OF assms(2), of "wrld a"] by (simp add: alive_def)
    have "grows a (a\<lparr>wrld := w, bimap := (n, e) # bimap a\<rparr>)" using grows_spawn [OF assms(2) sp] .
    then show "grows a a'" by (simp add: a' grows_def)
    show "m \<noteq> n \<and> reserved bound m a'" if "reserved bound m a" for m
      using A(3) [OF that] by (auto simp: a' reserved_def)
  qed
qed

lemma kind_bundle_server: "\<forall>c \<in> set (kind_bundle env kind x y). kind_of c \<notin> server_kinds"
proof -
  have "\<forall>c \<in> set (agent_bundle env kind). kind_of c \<notin> server_kinds"
    "\<forall>c \<in> set (training_target_bundle env kind). kind_of c \<notin> server_kinds"
    "\<forall>c \<in> set (heavy_bundle env kind). kind_of c \<notin> server_kinds"
    "\<forall>c \<in> set (carrier_bundle env kind). kind_of c \<notin> server_kinds"
    by (simp_all add: agent_bundle_def training_target_bundle_def heavy_bundle_def carrier_bundle_def
        case_prod_unfold Let_def)
  moreover have "\<forall>c \<in> set (beam_bundle x y). kind_of c \<notin> server_kinds"
    "\<forall>c \<in> set data_drop_bundle. kind_of c \<notin> server_kinds"
    "\<forall>c \<in> set resource_bundle. kind_of c \<notin> server_kinds"
    by (simp_all add: beam_bundle_def data_drop_bundle_def resource_bundle_def)
  ultimately show ?thesis
    unfolding kind_bundle_def Let_def by (simp del: soft_kinds split: if_split)
qed

lemma ok_index_add:
  assumes "adapter_ok bound a" "(n, e) \<in> set (bimap a)"
  shows "adapter_ok bound (a\<lparr>wrld := (wrld a)\<lparr>WorkspaceIdx := map_option (index_add ws e) (WorkspaceIdx (wrld a))\<rparr>\<rparr>)"
proof (rule ok_world [OF assms(1)])
  let ?w = "(wrld a)\<lparr>WorkspaceIdx := map_option (index_add ws e) (WorkspaceIdx (wrld a))\<rparr>"
  have g: "get_comp ?w = get_comp (wrld a)" by (rule get_comp_cong) simp_all
  show "world_ok ?w" using adapter_okD(3) [OF assms(1)] by simp
  show "alive ?w e' \<and> \<not> tracker ?w e' \<and> get_networked ?w e' = get_networked (wrld a) e' \<and>
      get_owner ?w e' = get_owner (wrld a) e'" if "(n', e') \<in> set (bimap a)" for n' e'
    using adapter_okD(4,5) [OF assms(1) that]
    by (simp add: alive_def tracker_def has_comp_def get_networked_def get_owner_def g)
  show "S \<subseteq> snd ` set (bimap a)" if "WorkspaceIdx ?w = Some ix" "memberships ix m = Some S" for ix m S
  proof -
    from that(1) obtain ix0 where ix0: "WorkspaceIdx (wrld a) = Some ix0" "ix = index_add ws e ix0" by auto
    have "e \<in> snd ` set (bimap a)" using assms(2) by force
    with that(2) adapter_okD(9) [OF assms(1) ix0(1)] show ?thesis
      by (auto simp: ix0(2) index_add_def split: if_splits option.splits)
  qed
qed (use adapter_okD(12) [OF assms(1)] in simp)

lemma spawn_in_workspace_facts:
  assumes "adapter_ok bound a" "ecs_ok env" "reserved bound n a"
    and "a' = spawn_in_workspace env n ws kind x y rot a"
  obtains e where "adapter_ok bound a'" "bimap a' = (n, e) # bimap a" "\<not> alive (wrld a) e"
    "get_ws_membership (wrld a') e = Some ws" "grows a a'" "allocator a' = allocator a"
    "WorkspaceIdx (wrld a') = map_option (index_add ws e) (WorkspaceIdx (wrld a))"
proof -
  let ?t = "\<lparr>tr_x = x, tr_y = y, tr_z = fzero, tr_rotation = rot, tr_entity_type = kind\<rparr>"
  let ?cs = "[CNetworked n, CTransform ?t, CVelocity zero_velocity]"
  obtain e w where sp: "spawn_entity env ?cs (wrld a) = (e, w)" by fastforce
  define w2 where "w2 = insert_bundle [CWorkspaceMembership ws] e (insert_bundle (kind_bundle env kind x y) e w)"
  define a2 where "a2 = a\<lparr>wrld := w, bimap := (n, e) # bimap a\<rparr>\<lparr>wrld := w2\<rparr>"
  have nb: "networked_bundle n ?cs" by (simp add: networked_bundle_def bundle_get_def)
  note S = ok_spawn [OF assms(1-3) sp nb]
  have sw: "soft w w2"
    unfolding w2_def by (rule soft_trans; rule soft_insert_bundle) (rule kind_bundle_server, simp)
  have ok2: "adapter_ok bound a2" unfolding a2_def by (rule ok_soft [OF S(2)]) (simp add: sw)
  have idx: "WorkspaceIdx w2 = WorkspaceIdx (wrld a)"
    using soft_index [OF sw] spawn_entity_facts(7) [OF sp] by simp
  have a': "a' = a2\<lparr>wrld := (wrld a2)\<lparr>WorkspaceIdx := map_option (index_add ws e) (WorkspaceIdx (wrld a2))\<rparr>\<rparr>"
    by (simp add: assms(4) spawn_in_workspace_def Let_def sp S(1) a2_def w2_def)
  have gc: "get_comp (wrld a') e' k = get_comp w2 e' k" for e' k
    by (simp add: a' a2_def)
  have al: "alive w e" using spawn_entity_facts(8) [OF sp] by simp
  have fresh: "\<not> alive (wrld a) e"
    using spawn_entity_facts(1) [OF sp] ecs_ok_fresh [OF assms(2), of "wrld a"] by (simp add: alive_def)
  have w2: "get_comp w2 e' k = get_comp (wrld a) e' k" "alive w2 e'" if "alive (wrld a) e'" for e' k
    using that fresh spawn_entity_facts(8) [OF sp]
    by (auto simp: w2_def get_comp_insert_bundle get_comp_spawn_entity [OF sp])
  from w2 have "grows a a'" by (auto simp: grows_def a' a2_def)
  moreover have "get_ws_membership (wrld a') e = Some ws"
    using al by (simp add: get_ws_membership_def gc) (simp add: w2_def get_comp_insert_bundle bundle_get_def)
  moreover have "adapter_ok bound a'"
    unfolding a' by (rule ok_index_add [OF ok2, of n]) (simp add: a2_def)
  ultimately show thesis
    using fresh idx by (intro that) (simp_all add: a' a2_def)
qed

lemma find_master_allocator [simp]: "find_master env (a\<lparr>allocator := al\<rparr>) = find_master env a"
  by (simp add: find_master_def cong: option.case_cong if_cong)

lemma spawn_kind_known:
  assumes "allocate env (allocator a) = Some (n, al)" and "find_master env a = Some m"
  shows "spawn_kind env kind x y rot a =
    Some (n, spawn_in_workspace env n m kind x y rot (a\<lparr>allocator := al\<rparr>))"
  using assms by (subst spawn_kind.simps) simp

lemma spawn_kind_exhausted: "allocate env (allocator a) = None \<Longrightarrow> spawn_kind env kind x y rot a = None"
  by (subst spawn_kind.simps) simp

text \<open>Once the master workspace exists the search finds a workspace.\<close>

lemma find_master_exists:
  assumes "adapter_ok bound a" "ecs_ok env" "(n, e) \<in> set (bimap a)"
    and "get_ws_definition (wrld a) e = Some d" "wd_name d = master_name"
  shows "find_master env a \<noteq> None"
proof -
  let ?f = "\<lambda>e. case get_ws_definition (wrld a) e of
      Some d \<Rightarrow> if wd_name d = master_name then get_by_right (bimap a) e else None | None \<Rightarrow> None"
  have "has_comp (wrld a) KWorkspaceDefinition e"
    using assms(4) by (auto simp: has_comp_def get_ws_definition_def split: option.splits)
  then have "e \<in> set (query env (wrld a) [KWorkspaceDefinition])"
    using adapter_okD(4) [OF assms(1,3)] by (simp add: in_query [OF assms(2)])
  moreover have "?f e = Some n" using assms(4,5) by_right_iff [OF assms(1)] assms(3) by simp
  ultimately have "n \<in> set (List.map_filter ?f (query env (wrld a) [KWorkspaceDefinition]))"
    by (force simp: List.map_filter_def)
  then show ?thesis by (auto simp: find_master_def split: list.splits)
qed

lemma entity_insert_master:
  assumes "adapter_ok bound a" "(n, e) \<in> set (bimap a)"
  defines "a' \<equiv> a\<lparr>wrld := insert_bundle (master_bundle n) e (wrld a)\<rparr>"
  shows "entity_insert e (master_bundle n) a = Some a'" "adapter_ok bound a'"
    "ecs_ok env \<Longrightarrow> find_master env a' \<noteq> None"
proof -
  have al: "alive (wrld a) e" using adapter_okD(4) [OF assms(1,2)] .
  then show "entity_insert e (master_bundle n) a = Some a'" by (simp add: entity_insert_def a'_def)
  have "soft (wrld a) (insert_bundle (master_bundle n) e (wrld a))"
    by (rule soft_insert_bundle) (simp add: master_bundle_def)
  with assms(1) show ok: "adapter_ok bound a'" unfolding a'_def by (rule ok_soft)
  show "find_master env a' \<noteq> None" if "ecs_ok env"
    by (rule find_master_exists [OF ok that, of n e])
      (use assms(2) al in \<open>auto simp: a'_def get_ws_definition_def get_comp_insert_bundle
        bundle_get_def master_bundle_def\<close>)
qed

text \<open>The first spawn creates the master workspace and a resource; the recursion ends there,
  since the inner call finds the workspace.\<close>

lemma spawn_kind_new:
  assumes "adapter_ok bound a" "ecs_ok env" "alloc_ok env bound" "find_master env a = None"
    and "allocate env (allocator a) = Some (n, al)"
    and "spawn_networked env (a\<lparr>allocator := al\<rparr>) = Some (ws, a1)"
  obtains e a2 m where
    "(ws, e) \<in> set (bimap a1)" "a2 = a1\<lparr>wrld := insert_bundle (master_bundle ws) e (wrld a1)\<rparr>"
    "adapter_ok bound a2" "reserved bound n a2" "grows a a2" "find_master env a2 = Some m"
    "spawn_kind env kind x y rot a =
       do { (r, al2) \<leftarrow> allocate env (allocator a1);
            Some (n, spawn_in_workspace env n ws kind x y rot
              (spawn_in_workspace env r m (ENTITY_TYPE_RESOURCE (types env)) (f32_lit 30) fzero fzero
                (a2\<lparr>allocator := al2\<rparr>))) }"
proof -
  note A = ok_allocate [OF assms(1,3,5)]
  obtain e where E: "adapter_ok bound a1" "(ws, e) \<in> set (bimap a1)" "\<not> alive (wrld a) e"
    "grows a a1" "\<And>m. reserved bound m (a\<lparr>allocator := al\<rparr>) \<Longrightarrow> m \<noteq> ws \<and> reserved bound m a1"
    using ok_spawn_networked [OF A(1) assms(2,3,6)] by auto
  define a2 where "a2 = a1\<lparr>wrld := insert_bundle (master_bundle ws) e (wrld a1)\<rparr>"
  note I = entity_insert_master [OF E(1,2), folded a2_def]
  obtain m where m: "find_master env a2 = Some m" using I(3) [OF assms(2)] by auto
  have "grows a a2" using E(3,4)
    by (auto simp: grows_def a2_def get_comp_insert_bundle)
  moreover have "reserved bound n a2" using E(5) [OF A(2)] by (simp add: a2_def reserved_def)
  moreover have "spawn_kind env kind x y rot a =
       do { (r, al2) \<leftarrow> allocate env (allocator a1);
            Some (n, spawn_in_workspace env n ws kind x y rot
              (spawn_in_workspace env r m (ENTITY_TYPE_RESOURCE (types env)) (f32_lit 30) fzero fzero
                (a2\<lparr>allocator := al2\<rparr>))) }"
  proof -
    have "allocator a2 = allocator a1" by (simp add: a2_def)
    then have "spawn_kind env k x y rot a2 =
        do { (r, al2) \<leftarrow> allocate env (allocator a1);
             Some (r, spawn_in_workspace env r m k x y rot (a2\<lparr>allocator := al2\<rparr>)) }" for k x y rot
      by (cases "allocate env (allocator a1)")
        (simp_all add: case_prod_unfold spawn_kind_known [OF _ m] spawn_kind_exhausted)
    moreover have "get_by_left (bimap a1) ws = Some e" using by_left_iff [OF E(1)] E(2) by simp
    ultimately show ?thesis
      using I(1) assms(4,5,6)
      by (subst spawn_kind.simps, cases "allocate env (allocator a1)") (simp_all add: case_prod_unfold)
  qed
  ultimately show thesis using E(2) I(2) m a2_def by (intro that)
qed

lemma spawn_kind_facts:
  assumes "adapter_ok bound a" "ecs_ok env" "alloc_ok env bound"
    and "spawn_kind env kind x y rot a = Some (n, a')"
  obtains e ws where "adapter_ok bound a'" "(n, e) \<in> set (bimap a')" "\<not> alive (wrld a) e"
    "get_ws_membership (wrld a') e = Some ws" "grows a a'"
proof -
  obtain n0 al where al: "allocate env (allocator a) = Some (n0, al)"
    using assms(4) spawn_kind_exhausted [of env a] by fastforce
  note A = ok_allocate [OF assms(1,3) al]
  show thesis
  proof (cases "find_master env a")
    case (Some m)
    from assms(4) spawn_kind_known [OF al Some]
    have a': "n = n0" "a' = spawn_in_workspace env n m kind x y rot (a\<lparr>allocator := al\<rparr>)" by auto
    from spawn_in_workspace_facts [OF A(1) assms(2) A(2) a'(2) [unfolded a'(1)]]
    obtain e where "adapter_ok bound a'" "bimap a' = (n0, e) # bimap (a\<lparr>allocator := al\<rparr>)"
      "\<not> alive (wrld (a\<lparr>allocator := al\<rparr>)) e" "get_ws_membership (wrld a') e = Some m"
      "grows (a\<lparr>allocator := al\<rparr>) a'" by blast
    then show thesis by (intro that) (simp_all add: a'(1))
  next
    case None
    obtain ws a1 where sn: "spawn_networked env (a\<lparr>allocator := al\<rparr>) = Some (ws, a1)"
      using assms(4) None al by (subst (asm) spawn_kind.simps) (auto simp: bind_eq_Some_conv)
    obtain e2 a2 m where a2: "a2 = a1\<lparr>wrld := insert_bundle (master_bundle ws) e2 (wrld a1)\<rparr>"
      "adapter_ok bound a2" "reserved bound n0 a2" "grows a a2"
      "spawn_kind env kind x y rot a =
       do { (r, al2) \<leftarrow> allocate env (allocator a1);
            Some (n0, spawn_in_workspace env n0 ws kind x y rot
              (spawn_in_workspace env r m (ENTITY_TYPE_RESOURCE (types env)) (f32_lit 30) fzero fzero
                (a2\<lparr>allocator := al2\<rparr>))) }" "allocator a2 = allocator a1"
      by (rule spawn_kind_new [OF assms(1-3) None al sn, of kind x y rot]) simp
    from assms(4) obtain r al2 where r: "allocate env (allocator a2) = Some (r, al2)" "n = n0"
      "a' = spawn_in_workspace env n ws kind x y rot
         (spawn_in_workspace env r m (ENTITY_TYPE_RESOURCE (types env)) (f32_lit 30) fzero fzero
           (a2\<lparr>allocator := al2\<rparr>))"
      unfolding a2(5,6) by (auto simp only: bind_eq_Some_conv option.inject prod.inject prod.case split_paired_All)
    note B = ok_allocate [OF a2(2) assms(3) r(1)]
    define a3 where "a3 = spawn_in_workspace env r m (ENTITY_TYPE_RESOURCE (types env)) (f32_lit 30)
        fzero fzero (a2\<lparr>allocator := al2\<rparr>)"
    obtain e3 where a3: "adapter_ok bound a3" "bimap a3 = (r, e3) # bimap (a2\<lparr>allocator := al2\<rparr>)"
      "grows (a2\<lparr>allocator := al2\<rparr>) a3" "allocator a3 = allocator (a2\<lparr>allocator := al2\<rparr>)"
      by (rule spawn_in_workspace_facts [OF B(1) assms(2) B(2) a3_def])
    have "reserved bound n a3" using B(3) [OF a2(3)] a3(2,4) r(2) by (auto simp: reserved_def)
    moreover have "a' = spawn_in_workspace env n ws kind x y rot a3" using r(3) by (simp add: a3_def)
    ultimately obtain e where e: "adapter_ok bound a'" "bimap a' = (n, e) # bimap a3" "\<not> alive (wrld a3) e"
      "get_ws_membership (wrld a') e = Some ws" "grows a3 a'"
      by (rule spawn_in_workspace_facts [OF a3(1) assms(2)])
    have g: "grows a a3" by (rule grows_trans [OF a2(4)]) (use a3(3) in simp)
    then have "\<not> alive (wrld a) e" using e(3) by (auto simp: grows_def)
    with e grows_trans [OF g e(5)] show thesis by (intro that) simp_all
  qed
qed

subsection \<open>Despawning and the other operations\<close>

lemma despawn_unknown: "get_by_left (bimap a) n = None \<Longrightarrow> snd (despawn_networked n a) = a"
  by (simp add: despawn_networked_def)

lemma despawn_known:
  assumes "adapter_ok bound a" "(n, e) \<in> set (bimap a)"
  shows "fst (despawn_networked n a) = Inr ()"
    and "bimap (snd (despawn_networked n a)) = remove_by_left n (bimap a)"
    and "owners (snd (despawn_networked n a)) = (owners a)(n := None)"
    and "alive (wrld (snd (despawn_networked n a))) e' \<longleftrightarrow> alive (wrld a) e' \<and> e' \<noteq> e"
    and "get_comp (wrld (snd (despawn_networked n a))) e' k = (if e' = e then None else get_comp (wrld a) e' k)"
    and "WorkspaceIdx (wrld (snd (despawn_networked n a))) =
      map_option (index_remove e (if has_comp (wrld a) KSessionAgent e then get_owner (wrld a) e else None))
        (WorkspaceIdx (wrld a))"
    and "world_ok (wrld (snd (despawn_networked n a)))"
    and "allocator (snd (despawn_networked n a)) = allocator a"
    and "replicators (snd (despawn_networked n a)) = replicators a"
    and "post_simulate_hook (snd (despawn_networked n a)) = post_simulate_hook a"
  using by_left_iff [OF assms(1), THEN iffD2, OF assms(2)] adapter_okD(4) [OF assms] adapter_okD(3) [OF assms(1)]
  by (simp_all add: despawn_networked_def Let_def get_comp_despawn)

lemma remove_by_left_set: "(m, e) \<in> set (remove_by_left n b) \<longleftrightarrow> (m, e) \<in> set b \<and> m \<noteq> n"
  by (auto simp: remove_by_left_def)

lemma ok_despawn_known:
  assumes "adapter_ok bound a" "(n, e) \<in> set (bimap a)"
  shows "adapter_ok bound (snd (despawn_networked n a))"
proof -
  let ?a = "snd (despawn_networked n a)"
  note D = despawn_known [OF assms]
  have other: "e' \<noteq> e \<and> (m, e') \<in> set (bimap a)" if "(m, e') \<in> set (bimap ?a)" for m e'
    using that adapter_okD(6) [OF assms] adapter_okD(6) [OF assms(1), of m e']
    by (auto simp: D(2) remove_by_left_set)
  have "distinct (map fst (bimap ?a))" "distinct (map snd (bimap ?a))"
    using adapter_okD(1,2) [OF assms(1)] by (simp_all add: D(2) remove_by_left_def distinct_map_filter)
  moreover have "world_ok (wrld ?a)"
    by (rule D(7))
  moreover have "alive (wrld ?a) e' \<and> \<not> tracker (wrld ?a) e' \<and> get_networked (wrld ?a) e' = Some m \<and>
      unat m < bound (allocator ?a)" if "(m, e') \<in> set (bimap ?a)" for m e'
    using other [OF that] adapter_okD(4-7) [OF assms(1), of m e']
    by (simp add: D(4,5,8) tracker_def has_comp_def get_networked_def)
  moreover have "\<exists>e'. (m, e') \<in> set (bimap ?a) \<and> get_owner (wrld ?a) e' = Some c"
    if "owners ?a m = Some c" for m c
  proof -
    from that have m: "m \<noteq> n" "owners a m = Some c" by (auto simp: D(3) split: if_splits)
    from adapter_okD(8) [OF assms(1) m(2)] obtain e' where
      e': "(m, e') \<in> set (bimap a)" "get_owner (wrld a) e' = Some c" by auto
    with m(1) have "(m, e') \<in> set (bimap ?a)" by (simp add: D(2) remove_by_left_set)
    with e' other [OF this] show ?thesis by (auto simp: get_owner_def D(5))
  qed
  moreover have "S \<subseteq> snd ` set (bimap ?a)"
    if "WorkspaceIdx (wrld ?a) = Some ix" "memberships ix m = Some S" for ix m S
  proof
    fix e' assume "e' \<in> S"
    from that(1) obtain ix0 c where ix0: "WorkspaceIdx (wrld a) = Some ix0" "ix = index_remove e c ix0"
      by (auto simp: D(6))
    with that(2) obtain S0 where "memberships ix0 m = Some S0" "S = S0 - {e}" by (auto simp: index_remove_def)
    with adapter_okD(9) [OF assms(1) ix0(1)] \<open>e' \<in> S\<close> obtain m' where
      "(m', e') \<in> set (bimap a)" "e' \<noteq> e" by fastforce
    moreover from this have "m' \<noteq> n" using distinct_map_fst_unique [OF adapter_okD(1) [OF assms(1)]] assms(2) by metis
    ultimately have "(m', e') \<in> set (bimap ?a)" by (simp add: D(2) remove_by_left_set)
    then show "e' \<in> snd ` set (bimap ?a)" by force
  qed
  moreover have "WorkspaceIdx (wrld ?a) \<noteq> None" using adapter_okD(12) [OF assms(1)] by (simp add: D(6))
  ultimately show ?thesis
    using adapter_okD(10,11) [OF assms(1)] unfolding adapter_ok_def D(9,10) by blast
qed

lemma ok_despawn:
  assumes "adapter_ok bound a"
  shows "adapter_ok bound (snd (despawn_networked n a))"
proof (cases "get_by_left (bimap a) n")
  case None
  then show ?thesis using assms by (simp add: despawn_unknown)
next
  case (Some e)
  then show ?thesis using ok_despawn_known [OF assms] by_left_iff [OF assms] by simp
qed

subsection \<open>Client updates\<close>

lemma soft_apply_update:
  assumes "ecs_ok env" "replicator_safe r"
  shows "soft w (apply_update env r e u w)"
proof (cases r)
  case (DefaultReplicator ck k)
  show ?thesis
  proof (cases "deserialize env ck (cu_payload u)")
    case (Some c)
    from ecs_ok_decode [OF assms(1) Some] assms(2) have "kind_of c \<notin> server_kinds"
      by (simp add: DefaultReplicator replicator_safe_def)
    then show ?thesis using soft_put [of c w e]
      by (simp add: DefaultReplicator default_apply_def Some)
  qed (simp add: DefaultReplicator default_apply_def)
next
  case InputCommandReplicator
  then show ?thesis
    by (auto simp: input_apply_def apply_command_update_def Let_def split: option.split)
qed

lemma ok_cache_owner:
  assumes "adapter_ok bound a" "(n, e) \<in> set (bimap a)" "get_owner (wrld a) e = Some c"
  shows "adapter_ok bound (a\<lparr>owners := (owners a)(n \<mapsto> c)\<rparr>)"
  using assms unfolding adapter_ok_def by (simp; metis)

lemma authorize_spec:
  assumes "adapter_ok bound a" "(n, e) \<in> set (bimap a)" "authorize c n e a = (b, a')"
  shows "b \<longleftrightarrow> get_owner (wrld a) e = Some c" "adapter_ok bound a'" "wrld a' = wrld a"
    "bimap a' = bimap a" "replicators a' = replicators a"
proof -
  have "get_owner (wrld a) e = Some c'" if o: "owners a n = Some c'" for c'
    using adapter_okD(8) [OF assms(1) o] distinct_map_fst_unique [OF adapter_okD(1) [OF assms(1)] assms(2)] by metis
  then show "b \<longleftrightarrow> get_owner (wrld a) e = Some c" "adapter_ok bound a'" "wrld a' = wrld a"
    "bimap a' = bimap a" "replicators a' = replicators a"
    using assms(1,3) ok_cache_owner [OF assms(1,2)] by (auto simp: authorize_def split: option.splits)
qed

text \<open>What an update does, without the two caches of the loop.\<close>

definition apply_plain ::
  "ecs_env \<Rightarrow> (ComponentKind \<times> Replicator) list \<Rightarrow> bimap \<Rightarrow> ClientId \<times> ComponentUpdate \<Rightarrow> world \<Rightarrow> world" where
  "apply_plain env reps bm x w =
     (case x of (client_id, update) \<Rightarrow>
        (case get_by_left bm (cu_network_id update) of
           None \<Rightarrow> w
         | Some e \<Rightarrow>
             if get_owner w e = Some client_id
             then (case map_of reps (cu_component_kind update) of
                     Some r \<Rightarrow> apply_update env r e update w | None \<Rightarrow> w)
             else w))"

definition update_inv :: "(nat \<Rightarrow> nat) \<Rightarrow> adapter \<Rightarrow> world \<Rightarrow> update_state \<Rightarrow> bool" where
  "update_inv bound a w s \<longleftrightarrow>
     adapter_ok bound (us_adapter s) \<and> wrld (us_adapter s) = w \<and>
     bimap (us_adapter s) = bimap a \<and> replicators (us_adapter s) = replicators a \<and>
     (\<forall>k. last_kind s = Some k \<longrightarrow> last_replicator s = map_of (replicators a) k)"

lemma apply_one_plain:
  assumes "ecs_ok env" "update_inv bound a w s"
  shows "update_inv bound a (apply_plain env (replicators a) (bimap a) x w) (apply_one env x s)"
proof -
  obtain c u where x: "x = (c, u)" by (cases x)
  let ?n = "cu_network_id u" and ?k = "cu_component_kind u"
  note I = assms(2) [unfolded update_inv_def]
  then have ok: "adapter_ok bound (us_adapter s)" by simp
  show ?thesis
  proof (cases "get_by_left (bimap a) ?n")
    case None
    then show ?thesis using I by (simp add: x apply_plain_def apply_one_def update_inv_def)
  next
    case (Some e)
    obtain b a' where au: "authorize c ?n e (us_adapter s) = (b, a')" by fastforce
    have ne: "(?n, e) \<in> set (bimap (us_adapter s))" using by_left_iff [OF ok] Some I by auto
    note S = authorize_spec [OF ok ne au]
    have sf: "adapter_ok bound (a'\<lparr>wrld := apply_update env r e u w\<rparr>)" if "map_of (replicators a) ?k = Some r" for r
    proof (rule ok_soft [OF S(2)])
      have "replicator_safe r" using adapter_okD(10) [OF ok] map_of_SomeD [OF that] I by auto
      with soft_apply_update [OF assms(1)] show "soft (wrld a') (apply_update env r e u w)" using S(3) I by simp
    qed
    show ?thesis
    proof (cases b)
      case True
      then have "apply_plain env (replicators a) (bimap a) x w =
          (case map_of (replicators a) ?k of Some r \<Rightarrow> apply_update env r e u w | None \<Rightarrow> w)"
        using S(1) I Some by (simp add: x apply_plain_def)
      then show ?thesis using I S(2-5) sf True Some au
        by (auto simp: x apply_one_def update_inv_def Let_def split: option.splits)
    next
      case False
      then have "apply_plain env (replicators a) (bimap a) x w = w"
        using S(1) I Some by (simp add: x apply_plain_def)
      then show ?thesis using I S(2-5) False Some au by (simp add: x apply_one_def update_inv_def)
    qed
  qed
qed

lemma apply_updates_plain:
  assumes "ecs_ok env" "adapter_ok bound a"
  shows "wrld (apply_updates env us a) = fold (apply_plain env (replicators a) (bimap a)) us (wrld a)"
    "adapter_ok bound (apply_updates env us a)" "bimap (apply_updates env us a) = bimap a"
    "replicators (apply_updates env us a) = replicators a"
proof -
  have "update_inv bound a (fold (apply_plain env (replicators a) (bimap a)) us w) (fold (apply_one env) us s)"
    if "update_inv bound a w s" for w s
    using that by (induction us arbitrary: w s) (auto intro: apply_one_plain [OF assms(1)])
  moreover have "update_inv bound a (wrld a) \<lparr>us_adapter = a, last_kind = None, last_replicator = None,
      applied_count = 0, unauthorized_count = 0\<rparr>" using assms(2) by (simp add: update_inv_def)
  ultimately show "wrld (apply_updates env us a) = fold (apply_plain env (replicators a) (bimap a)) us (wrld a)"
    "adapter_ok bound (apply_updates env us a)" "bimap (apply_updates env us a) = bimap a"
    "replicators (apply_updates env us a) = replicators a"
    unfolding apply_updates_def update_inv_def by blast+
qed

end
