(* ===== verification/Adapter_Runs.thy ===== *)
theory Adapter_Runs
  imports Adapter_Inv Samples
begin

text \<open>
  Runs of the adapter: every method of \<^verbatim>\<open>WorldState\<close> that changes the adapter as one step, and the
  invariant of theory \<open>Adapter_Inv\<close> over all sequences of steps from a new adapter.
\<close>

subsection \<open>The simulation keeps the invariant\<close>

definition env_ok :: "ecs_env \<Rightarrow> (nat \<Rightarrow> nat) \<Rightarrow> bool" where
  "env_ok env bound \<longleftrightarrow> ecs_ok env \<and> alloc_ok env bound"

lemma env_okD: "env_ok env bound \<Longrightarrow> ecs_ok env" "env_ok env bound \<Longrightarrow> alloc_ok env bound"
  by (simp_all add: env_ok_def)

lemma ok_spawn_kind:
  assumes "env_ok env bound" "adapter_ok bound a" "spawn_kind env kind x y rot a = Some (n, a')"
  shows "adapter_ok bound a'" "\<exists>e. (n, e) \<in> set (bimap a')"
  by (rule spawn_kind_facts [OF assms(2) env_okD [OF assms(1)] assms(3)]; blast)+

lemma ok_put:
  assumes "adapter_ok bound a" "kind_of c \<notin> server_kinds"
  shows "adapter_ok bound (a\<lparr>wrld := put_comp c e (wrld a)\<rparr>)"
  using assms(1) soft_put [OF assms(2)] by (rule ok_soft)

lemma ok_despawn_with: "adapter_ok bound (snd s) \<Longrightarrow> adapter_ok bound (snd (despawn_with ev e s))"
  by (auto simp: despawn_with_def ok_despawn split: prod.split option.split)

lemma ok_drop_payload:
  assumes "env_ok env bound" "adapter_ok bound a" "drop_payload env e a = Some a'"
  shows "adapter_ok bound a'"
  using assms(2,3) ok_spawn_kind [OF assms(1,2)]
  by (auto simp: drop_payload_def Let_def bind_eq_Some_conv case_prod_unfold ok_put
      split: option.splits if_splits)

lemma ok_terminate:
  assumes "env_ok env bound" "adapter_ok bound (snd s)" "terminate env e s = Some s'"
  shows "adapter_ok bound (snd s')"
proof (cases "get_by_right (bimap (snd s)) e")
  case None
  then show ?thesis using assms(2,3) by (auto simp: terminate_def split: prod.splits)
next
  case (Some n)
  obtain evs a where s: "s = (evs, a)" by (cases s)
  from assms(3) Some obtain a1 where a1: "drop_payload env e a = Some a1"
    by (auto simp: terminate_def s bind_eq_Some_conv)
  have ok1: "adapter_ok bound a1" using ok_drop_payload [OF assms(1) _ a1] assms(2) by (simp add: s)
  have "soft (wrld a1) (snd (spawn_entity env cs (wrld a1)))" for cs
    using soft_spawn [OF env_okD(1) [OF assms(1)], of cs "wrld a1"] by (metis prod.collapse)
  from ok_soft [OF ok1 this] ok1 show ?thesis
    using assms(3) Some by (auto simp: terminate_def s a1 Let_def ok_despawn)
qed

lemma ok_despawn_beam:
  assumes "adapter_ok bound (snd s)"
  shows "adapter_ok bound (snd (despawn_beam e s))"
proof -
  obtain evs a where s: "s = (evs, a)" by (cases s)
  have "adapter_ok bound (a\<lparr>wrld := despawn e (wrld a)\<rparr>)" if "get_by_right (bimap a) e = None"
  proof (rule ok_world)
    show ok: "adapter_ok bound a" using assms by (simp add: s)
    show "world_ok (despawn e (wrld a))" using adapter_okD(3) [OF ok] by simp
    show "alive (despawn e (wrld a)) e' \<and> \<not> tracker (despawn e (wrld a)) e' \<and>
        get_networked (despawn e (wrld a)) e' = get_networked (wrld a) e' \<and>
        get_owner (despawn e (wrld a)) e' = get_owner (wrld a) e'" if "(n, e') \<in> set (bimap a)" for n e'
    proof -
      have "e' \<noteq> e" using that \<open>get_by_right (bimap a) e = None\<close> by_right_iff [OF ok, of e n] by auto
      with adapter_okD(4,5) [OF ok that] show ?thesis
        by (simp add: tracker_def has_comp_def get_networked_def get_owner_def get_comp_despawn)
    qed
    show "S \<subseteq> snd ` set (bimap a)"
      if "WorkspaceIdx (despawn e (wrld a)) = Some ix" "memberships ix n = Some S" for ix n S
      using adapter_okD(9) [OF ok] that by simp
    show "WorkspaceIdx (despawn e (wrld a)) \<noteq> None" using adapter_okD(12) [OF ok] by simp
  qed
  with assms show ?thesis by (auto simp: despawn_beam_def s ok_despawn split: option.split)
qed

lemma ok_spawn_beam:
  assumes "env_ok env bound" "adapter_ok bound a" "spawn_beam env b a = Some a'"
  shows "adapter_ok bound a'"
proof -
  obtain n a1 where a1: "spawn_kind env (ENTITY_TYPE_BEAM (types env)) (fst (bs_pos b)) (snd (bs_pos b))
      (atan2f env (snd (bs_vel b)) (fst (bs_vel b))) a = Some (n, a1)"
    using assms(3) by (auto simp: spawn_beam_def Let_def case_prod_unfold bind_eq_Some_conv)
  have ok: "adapter_ok bound a1" using ok_spawn_kind [OF assms(1,2) a1] by simp
  have "adapter_ok bound (a1\<lparr>wrld := w\<rparr>)" if "soft (wrld a1) w" for w using ok_soft [OF ok that] .
  then show ?thesis using assms(3) ok
    by (auto simp: spawn_beam_def Let_def case_prod_unfold a1 split: option.splits)
qed

lemma ok_respawn_target:
  assumes "env_ok env bound" "adapter_ok bound a" "respawn_target env p a = Some a'"
  shows "adapter_ok bound a'"
  using ok_spawn_kind(1) [OF assms(1,2)] assms(3) by (auto simp: respawn_target_def bind_eq_Some_conv)

lemma ok_respawn_resource:
  assumes "env_ok env bound" "adapter_ok bound a" "respawn_resource env q a = Some a'"
  shows "adapter_ok bound a'"
proof -
  obtain n b where b: "spawn_kind env (ENTITY_TYPE_RESOURCE (types env)) (fst q) (fst (snd q)) fzero a = Some (n, b)"
    using assms(3) by (auto simp: respawn_resource_def case_prod_unfold bind_eq_Some_conv)
  have ok: "adapter_ok bound b" using ok_spawn_kind(1) [OF assms(1,2) b] .
  then show ?thesis using assms(3)
    by (cases "get_by_left (bimap b) n"; cases "get_resource (wrld b) (the (get_by_left (bimap b) n))")
      (auto simp: respawn_resource_def case_prod_unfold b ok_put)
qed

lemma ok_foldM:
  assumes "foldM f xs a = Some a'" "adapter_ok bound a"
    and "\<And>x b b'. adapter_ok bound b \<Longrightarrow> f x b = Some b' \<Longrightarrow> adapter_ok bound b'"
  shows "adapter_ok bound a'"
  by (rule foldM_invariant [OF assms(1), where P = "adapter_ok bound"]) (use assms in auto)

lemma ok_spawn_beams:
  assumes "env_ok env bound" "adapter_ok bound a" "spawn_beams env a = Some a'"
  shows "adapter_ok bound a'"
proof (cases "BeamSpawnRequests (wrld a)")
  case None
  then show ?thesis using assms by (simp add: spawn_beams_def)
next
  case (Some bs)
  have "adapter_ok bound (a\<lparr>wrld := (wrld a)\<lparr>BeamSpawnRequests := Some []\<rparr>\<rparr>)"
    by (rule ok_soft [OF assms(2)], rule soft_same) simp_all
  moreover have "foldM (spawn_beam env) bs (a\<lparr>wrld := (wrld a)\<lparr>BeamSpawnRequests := Some []\<rparr>\<rparr>) = Some a'"
    using assms(3) Some by (simp add: spawn_beams_def)
  ultimately show ?thesis using ok_spawn_beam [OF assms(1)] by (metis ok_foldM)
qed

lemma ok_gameplay_stage:
  assumes "env_ok env bound" "adapter_ok bound a" "gameplay_stage env a = Some a'"
  shows "adapter_ok bound a'"
proof -
  note ecs = env_okD(1) [OF assms(1)]
  have W: "adapter_ok bound (b\<lparr>wrld := w\<rparr>)" if "adapter_ok bound b" "soft (wrld b) w" for b w
    using ok_soft [OF that] .
  have fw: "adapter_ok bound (snd (fold (despawn_with ev) es s))" if "adapter_ok bound (snd s)" for ev es s
    by (rule fold_invariant_set [where P = "\<lambda>s. adapter_ok bound (snd s)"]) (use that ok_despawn_with in auto)
  have fb: "adapter_ok bound (snd (fold despawn_beam es s))" if "adapter_ok bound (snd s)" for es s
    by (rule fold_invariant_set [where P = "\<lambda>s. adapter_ok bound (snd s)"]) (use that ok_despawn_beam in auto)
  from assms(3) obtain ex w1 evs1 a1 w2 cs w3 evs2 a2 ds ts w4 s3 evs4 a4 a5 xs w6 a6 ys w7 where
    1: "process_extraction env (bimap a) (wrld a) = Some (ex, w1)"
      "fold (despawn_with ResourceExhaustedEvent) ex ([], a\<lparr>wrld := w1\<rparr>) = (evs1, a1)"
    and 2: "process_interaction env (bimap a1) (wrld a1) = Some w2"
      "process_payload_collection env (bimap a1) w2 = (cs, w3)"
      "fold (despawn_with (\<lambda>nid. PayloadCollected nid 0)) cs (evs1, a1\<lparr>wrld := w3\<rparr>) = (evs2, a2)"
    and 3: "process_beams env (bimap a2) (wrld a2) = (ds, ts, w4)"
      "foldM (terminate env) ts (evs2, a2\<lparr>wrld := w4\<rparr>) = Some s3"
      "fold despawn_beam ds s3 = (evs4, a4)"
    and 4: "spawn_beams env (a4\<lparr>wrld := push_reliable evs4 (wrld a4)\<rparr>) = Some a5"
      "process_target_reinitialization env (process_regen env (wrld a5)) = (xs, w6)"
      "foldM (respawn_target env) xs (a5\<lparr>wrld := w6\<rparr>) = Some a6"
      "process_respawn env (wrld a6) = (ys, w7)"
      "foldM (respawn_resource env) ys (a6\<lparr>wrld := w7\<rparr>) = Some a'"
    by (auto simp: gameplay_stage_def Let_def bind_eq_Some_conv case_prod_unfold prod_eq_iff)
  have "adapter_ok bound (a\<lparr>wrld := w1\<rparr>)" using W [OF assms(2) soft_process_extraction [OF ecs 1(1)]] .
  then have a1: "adapter_ok bound a1" using fw [of "([], a\<lparr>wrld := w1\<rparr>)"] 1(2) by (metis snd_conv)
  have "soft (wrld a1) w3"
    using soft_trans [OF soft_process_interaction [OF 2(1)] soft_collection [of w2 env "bimap a1"]] 2(2) by simp
  then have "adapter_ok bound a2" using fw [of "(evs1, a1\<lparr>wrld := w3\<rparr>)"] W [OF a1] 2(3) by (metis snd_conv)
  then have "adapter_ok bound (snd s3)"
    using foldM_invariant [OF 3(2), where P = "\<lambda>s. adapter_ok bound (snd s)"] ok_terminate [OF assms(1)]
      W soft_process_beams [OF 3(1)] by (metis snd_conv)
  then have "adapter_ok bound a4" using fb [of s3 ds] 3(3) by simp
  then have a5: "adapter_ok bound a5"
    using ok_spawn_beams [OF assms(1) W 4(1)] by simp
  have "soft (wrld a5) w6"
    using soft_trans [OF soft_process_regen soft_process_reinit [OF ecs 4(2)]] .
  then have "adapter_ok bound a6" using ok_foldM [OF 4(3)] W [OF a5] ok_respawn_target [OF assms(1)] by blast
  then show ?thesis
    using ok_foldM [OF 4(5)] W soft_process_respawn [OF ecs 4(4)] ok_respawn_resource [OF assms(1)] by blast
qed

lemma ok_simulate:
  assumes "env_ok env bound" "adapter_ok bound a" "simulate env a = Some a'"
  shows "adapter_ok bound a'"
proof -
  obtain w b where w: "physics_stage env (tick_rate a) (wrld a) = Some w"
    "gameplay_stage env (a\<lparr>wrld := toggle_stage env (bounds_stage env (bimap a) w)\<rparr>) = Some b"
    "a' = b\<lparr>wrld := (case post_simulate_hook b of Some hook \<Rightarrow> hook (z_stage env (wrld b))
                       | None \<Rightarrow> z_stage env (wrld b))\<rparr>"
    using assms(3) by (auto simp: simulate_def Let_def bind_eq_Some_conv)
  have "soft (wrld a) (toggle_stage env (bounds_stage env (bimap a) w))"
    by (rule soft_trans [OF soft_physics_stage [OF w(1)] soft_trans [OF soft_stages(1) soft_stages(2)]])
  from ok_gameplay_stage [OF assms(1) ok_soft [OF assms(2) this] w(2)] have b: "adapter_ok bound b" .
  have "soft (wrld b) (case post_simulate_hook b of Some hook \<Rightarrow> hook (z_stage env (wrld b))
      | None \<Rightarrow> z_stage env (wrld b))"
    using soft_trans [OF soft_stages(3) adapter_okD(11) [OF b]] soft_stages(3) by (simp split: option.split)
  from ok_soft [OF b this] show ?thesis by (simp add: w(3))
qed

subsection \<open>Owned entities\<close>

lemma entity_insert_owner:
  assumes "(n, e) \<in> set (bimap a)" "adapter_ok bound a"
  shows "entity_insert e [CNetworkOwner c] a = Some (a\<lparr>wrld := put_comp (CNetworkOwner c) e (wrld a)\<rparr>)"
  using adapter_okD(4) [OF assms(2,1)] by (simp add: entity_insert_def insert_bundle_def)

lemma ok_spawn_networked_for:
  assumes "env_ok env bound" "adapter_ok bound a" "spawn_networked_for env c a = Some (n, a')"
  shows "adapter_ok bound a'"
proof -
  let ?t = "\<lparr>tr_x = fzero, tr_y = fzero, tr_z = fzero, tr_rotation = fzero, tr_entity_type = 0\<rparr>"
  obtain a1 where a1: "spawn_networked env a = Some (n, a1)"
    using assms(3) by (auto simp: spawn_networked_for_def bind_eq_Some_conv)
  obtain e where ok: "adapter_ok bound a1" "(n, e) \<in> set (bimap a1)"
    using ok_spawn_networked [OF assms(2) env_okD [OF assms(1)] a1] by blast
  have "get_by_left (bimap a1) n = Some e" using by_left_iff [OF ok(1)] ok(2) by simp
  then have a': "a' = a1\<lparr>wrld := put_comp (CNetworkOwner c) e (wrld a1), owners := (owners a1)(n \<mapsto> c)\<rparr>
      \<lparr>wrld := put_comp (CVelocity zero_velocity) e (put_comp (CTransform ?t) e (put_comp (CNetworkOwner c) e (wrld a1)))\<rparr>"
    using assms(3) adapter_okD(4) [OF ok] a1
    by (auto simp: spawn_networked_for_def entity_insert_def insert_bundle_def)
  show ?thesis unfolding a' by (rule ok_soft [OF ok_owner [OF ok]]) simp
qed

lemma spawn_kind_for_facts:
  assumes "env_ok env bound" "adapter_ok bound a" "spawn_kind_for env kind x y rot c a = Some (n, a')"
  obtains e ws where "adapter_ok bound a'" "(n, e) \<in> set (bimap a')" "\<not> alive (wrld a) e"
    "get_owner (wrld a') e = Some c" "get_ws_membership (wrld a') e = Some ws" "owners a' n = Some c"
proof -
  obtain a1 where a1: "spawn_kind env kind x y rot a = Some (n, a1)"
    using assms(3) by (auto simp: spawn_kind_for_def bind_eq_Some_conv split: option.splits)
  obtain e ws where e: "adapter_ok bound a1" "(n, e) \<in> set (bimap a1)" "\<not> alive (wrld a) e"
    "get_ws_membership (wrld a1) e = Some ws"
    using spawn_kind_facts [OF assms(2) env_okD [OF assms(1)] a1] by blast
  have "get_by_left (bimap a1) n = Some e" using by_left_iff [OF e(1)] e(2) by simp
  then have a': "a' = a1\<lparr>wrld := put_comp (CNetworkOwner c) e (wrld a1), owners := (owners a1)(n \<mapsto> c)\<rparr>"
    using assms(3) by (simp add: spawn_kind_for_def a1 entity_insert_owner [OF e(2,1)])
  show thesis
    using ok_owner [OF e(1,2), of c] e(2-4) adapter_okD(4) [OF e(1,2)]
    by (intro that [of e ws]) (simp_all add: a')
qed

lemma spawn_session_agent_facts:
  assumes "env_ok env bound" "adapter_ok bound a"
    and "spawn_session_agent env kind x y rot c a = Some (n, a')"
  obtains e ws where "adapter_ok bound a'" "(n, e) \<in> set (bimap a')" "\<not> alive (wrld a) e"
    "get_owner (wrld a') e = Some c" "get_ws_membership (wrld a') e = Some ws" "owners a' n = Some c"
    "has_comp (wrld a') KSessionAgent e"
    "Option.bind (WorkspaceIdx (wrld a')) (\<lambda>ix. client_workspaces ix c) = Some ws"
proof -
  obtain a1 where a1: "spawn_kind_for env kind x y rot c a = Some (n, a1)"
    using assms(3) by (auto simp: spawn_session_agent_def bind_eq_Some_conv split: option.splits)
  obtain e ws where e: "adapter_ok bound a1" "(n, e) \<in> set (bimap a1)" "\<not> alive (wrld a) e"
    "get_owner (wrld a1) e = Some c" "get_ws_membership (wrld a1) e = Some ws" "owners a1 n = Some c"
    using spawn_kind_for_facts [OF assms(1,2) a1] by blast
  let ?w = "(put_comp CSessionAgent e (wrld a1))\<lparr>WorkspaceIdx :=
      map_option (\<lambda>ix. ix\<lparr>client_workspaces := (client_workspaces ix)(c \<mapsto> ws)\<rparr>) (WorkspaceIdx (wrld a1))\<rparr>"
  have al: "alive (wrld a1) e" using adapter_okD(4) [OF e(1,2)] .
  have "get_by_left (bimap a1) n = Some e" using by_left_iff [OF e(1)] e(2) by simp
  then have a': "a' = a1\<lparr>wrld := ?w\<rparr>"
    using assms(3) al e(5)
    by (simp add: spawn_session_agent_def a1 entity_insert_def insert_bundle_def get_entity_workspace_def)
  have gc: "get_comp ?w e' k = (if e' = e \<and> k = KSessionAgent then Some CSessionAgent else get_comp (wrld a1) e' k)"
    for e' k using al by (simp add: get_comp_put_comp)
  have "adapter_ok bound (a1\<lparr>wrld := ?w\<rparr>)"
  proof (rule ok_world [OF e(1)])
    show "alive ?w e' \<and> \<not> tracker ?w e' \<and> get_networked ?w e' = get_networked (wrld a1) e' \<and>
        get_owner ?w e' = get_owner (wrld a1) e'" if "(n', e') \<in> set (bimap a1)" for n' e'
      using adapter_okD(4,5) [OF e(1) that]
      by (simp add: tracker_def has_comp_def get_networked_def get_owner_def gc del: resource_frame(1))
    show "S \<subseteq> snd ` set (bimap a1)" if "WorkspaceIdx ?w = Some ix" "memberships ix m = Some S" for ix m S
    proof -
      from that obtain ix0 where "WorkspaceIdx (wrld a1) = Some ix0" "memberships ix0 m = Some S" by auto
      then show ?thesis by (rule adapter_okD(9) [OF e(1)])
    qed
  qed (use adapter_okD(3,12) [OF e(1)] in simp_all)
  moreover obtain ix where "WorkspaceIdx (wrld a1) = Some ix" using adapter_okD(12) [OF e(1)] by auto
  ultimately show thesis using e al
    by (intro that [of e ws])
      (auto simp: a' get_owner_def get_ws_membership_def has_comp_def get_comp_put_comp)
qed

subsection \<open>Clearing the world\<close>

lemma despawn_bimap:
  assumes "adapter_ok bound a"
  shows "bimap (snd (despawn_networked n a)) = remove_by_left n (bimap a)"
proof (cases "get_by_left (bimap a) n")
  case None
  then have "\<forall>(n', e') \<in> set (bimap a). n' \<noteq> n" by (force simp: get_by_left_def map_of_eq_None_iff)
  then have "remove_by_left n (bimap a) = bimap a"
    by (auto simp: remove_by_left_def intro!: filter_True)
  with None show ?thesis by (simp add: despawn_unknown)
next
  case (Some e)
  then show ?thesis using despawn_known(2) [OF assms] by_left_iff [OF assms] by simp
qed

lemma despawn_all:
  assumes "adapter_ok bound a"
  shows "adapter_ok bound (fold (\<lambda>id a. snd (despawn_networked id a)) ids a)"
    "bimap (fold (\<lambda>id a. snd (despawn_networked id a)) ids a) = filter (\<lambda>(n, e). n \<notin> set ids) (bimap a)"
  using assms
proof (induction ids arbitrary: a)
  case Nil
  { case 1 then show ?case by simp }
  { case 2 show ?case by (simp add: case_prod_unfold) }
next
  case (Cons n ids)
  { case 1 then show ?case using Cons.IH(1) [OF ok_despawn] by simp }
  { case 2 then show ?case using Cons.IH(2) [OF ok_despawn [OF 2, of n]] despawn_bimap [OF 2, of n]
      by (simp add: remove_by_left_def case_prod_unfold conj_commute) }
qed

lemma clear_world_bimap:
  assumes "ecs_ok env" "adapter_ok bound a"
  shows "bimap (clear_world env a) = []"
proof -
  have "set (map fst (bimap_order env (bimap a))) = fst ` set (bimap a)"
    using ecs_ok_bimap [OF assms(1), of "bimap a"] by (metis set_map set_mset_mset)
  then show ?thesis
    by (force simp: clear_world_def Let_def despawn_all [OF assms(2)] filter_empty_conv)
qed

lemma ok_clear_world:
  assumes "env_ok env bound" "adapter_ok bound a"
  shows "adapter_ok bound (clear_world env a)"
proof -
  note ecs = env_okD(1) [OF assms(1)]
  define b where "b = fold (\<lambda>id a. snd (despawn_networked id a)) (map fst (bimap_order env (bimap a))) a"
  define w where "w = fold despawn (query env (wrld b) [KResourceRespawn]) (wrld b)"
  have b: "adapter_ok bound b" unfolding b_def by (rule despawn_all(1) [OF assms(2)])
  have c: "clear_world env a = b\<lparr>wrld := w\<lparr>WorkspaceIdx := map_option (\<lambda>_. empty_index) (WorkspaceIdx w)\<rparr>,
      allocator := alloc_reset env (allocator b), last_extraction_tick := None\<rparr>"
    by (simp add: clear_world_def Let_def b_def w_def)
  have empty: "bimap b = []" using clear_world_bimap [OF ecs assms(2)] by (simp add: c)
  then have own: "owners b n = None" for n using adapter_okD(8) [OF b, of n] by (cases "owners b n") auto
  have "soft (wrld b) w"
    unfolding w_def by (rule soft_despawn_trackers) (auto dest: tracker_in_query(1) [OF ecs])
  then have "world_ok w" "WorkspaceIdx w \<noteq> None" using adapter_okD(3,12) [OF b] by (simp_all add: soft_def)
  with empty own adapter_okD(10,11) [OF b] show ?thesis
    by (auto simp: c adapter_ok_def empty_index_def)
qed

subsection \<open>Runs\<close>

text \<open>The methods that change the adapter, as one step; \<open>None\<close> is a panic or a loop without end.\<close>

datatype world_op =
    ApplyUpdates "(ClientId \<times> ComponentUpdate) list"
  | AdvanceTick
  | Simulate
  | ExtractDeltas
  | ExtractReliableEvents
  | PostExtract
  | SpawnNetworked
  | SpawnNetworkedFor ClientId
  | DespawnNetworked NetworkId
  | SpawnKind u16 f32 f32 f32
  | SpawnKindFor u16 f32 f32 f32 ClientId
  | SpawnSessionAgent u16 f32 f32 f32 ClientId
  | RunStressTest u16 bool
  | QueueReliableEvent "ClientId option" PlatformEvent
  | DoClearWorld
  | RegisterReplicator Replicator
  | SetPostSimulateHook "world \<Rightarrow> world"

fun world_step :: "ecs_env \<Rightarrow> world_op \<Rightarrow> adapter \<Rightarrow> adapter option" where
  "world_step env (ApplyUpdates us) a = Some (apply_updates env us a)"
| "world_step env AdvanceTick a = Some (advance_tick a)"
| "world_step env Simulate a = simulate env a"
| "world_step env ExtractDeltas a = Some (snd (extract_deltas env a))"
| "world_step env ExtractReliableEvents a = Some (snd (extract_reliable_events a))"
| "world_step env PostExtract a = Some (post_extract a)"
| "world_step env SpawnNetworked a = map_option snd (spawn_networked env a)"
| "world_step env (SpawnNetworkedFor c) a = map_option snd (spawn_networked_for env c a)"
| "world_step env (DespawnNetworked n) a = Some (snd (despawn_networked n a))"
| "world_step env (SpawnKind k x y r) a = map_option snd (spawn_kind env k x y r a)"
| "world_step env (SpawnKindFor k x y r c) a = map_option snd (spawn_kind_for env k x y r c a)"
| "world_step env (SpawnSessionAgent k x y r c) a = map_option snd (spawn_session_agent env k x y r c a)"
| "world_step env (RunStressTest n rot) a = stress_test env n rot a"
| "world_step env (QueueReliableEvent c ev) a = Some (queue_reliable_event c ev a)"
| "world_step env DoClearWorld a = Some (clear_world env a)"
| "world_step env (RegisterReplicator r) a = Some (register_replicator env r a)"
| "world_step env (SetPostSimulateHook h) a = Some (set_post_simulate_hook h a)"

text \<open>The host registers no replicator for a server-only component and no hook that spoils them.\<close>

definition op_safe :: "world_op \<Rightarrow> bool" where
  "op_safe op = (case op of RegisterReplicator r \<Rightarrow> replicator_safe r
                 | SetPostSimulateHook h \<Rightarrow> (\<forall>w. soft w (h w)) | _ \<Rightarrow> True)"

text \<open>The states of an adapter created over an empty world.\<close>

inductive reachable :: "ecs_env \<Rightarrow> adapter \<Rightarrow> bool" for env where
  created: "live w = [] \<Longrightarrow> new_adapter env w rate = Some a \<Longrightarrow> reachable env a"
| step: "reachable env a \<Longrightarrow> op_safe op \<Longrightarrow> world_step env op a = Some a' \<Longrightarrow> reachable env a'"

lemma ok_stress_test:
  assumes "env_ok env bound" "adapter_ok bound a" "stress_test env n rot a = Some a'"
  shows "adapter_ok bound a'"
proof -
  have "adapter_ok bound c" if b: "adapter_ok bound b" and c: "stress_entity env rot i b = Some c" for i b c
  proof -
    have "adapter_ok bound (b\<lparr>rng := r\<rparr>)" for r using b by (simp add: adapter_ok_def)
    moreover obtain k x y t r nid where "spawn_kind env k x y t (b\<lparr>rng := r\<rparr>) = Some (nid, c)"
      using c by (auto simp: stress_entity_def Let_def bind_eq_Some_conv case_prod_unfold)
    ultimately show ?thesis by (rule ok_spawn_kind(1) [OF assms(1)])
  qed
  from ok_foldM [OF assms(3) [unfolded stress_test_def] assms(2) this] show ?thesis .
qed

lemma btree_insert_set: "(k', r') \<in> set (btree_insert k r xs) \<Longrightarrow> (k', r') = (k, r) \<or> (k', r') \<in> set xs"
  by (induction k r xs rule: btree_insert.induct) (auto split: if_splits)

lemma ok_resources:
  assumes "adapter_ok bound a"
  shows "adapter_ok bound (advance_tick a)" "adapter_ok bound (snd (extract_deltas env a))"
    "adapter_ok bound (snd (extract_reliable_events a))" "adapter_ok bound (post_extract a)"
    "adapter_ok bound (queue_reliable_event c ev a)"
proof -
  have W: "adapter_ok bound (a\<lparr>wrld := w\<rparr>)"
    if "live w = live (wrld a)" "store w = store (wrld a)" "WorkspaceIdx w = WorkspaceIdx (wrld a)"
      "change_tick (wrld a) \<le> change_tick w" for w
    by (rule ok_soft [OF assms soft_same [OF that]])
  show "adapter_ok bound (advance_tick a)" "adapter_ok bound (post_extract a)"
    "adapter_ok bound (queue_reliable_event c ev a)"
    by (simp_all add: advance_tick_def post_extract_def queue_reliable_event_def Let_def W)
  show "adapter_ok bound (snd (extract_reliable_events a))"
    using assms by (auto simp: extract_reliable_events_def W split: option.split)
  show "adapter_ok bound (snd (extract_deltas env a))"
    using assms by (simp add: extract_deltas_def Let_def adapter_ok_def)
qed

lemma world_step_ok:
  assumes "env_ok env bound" "adapter_ok bound a" "op_safe op" "world_step env op a = Some a'"
  shows "adapter_ok bound a'"
proof (cases op)
  case (SpawnNetworked)
  then obtain n where "spawn_networked env a = Some (n, a')" using assms(4) by auto
  from ok_spawn_networked [OF assms(2) env_okD [OF assms(1)] this] show ?thesis by blast
next
  case (SpawnKindFor k x y r c)
  then obtain n where "spawn_kind_for env k x y r c a = Some (n, a')" using assms(4) by auto
  from spawn_kind_for_facts [OF assms(1,2) this] show ?thesis by blast
next
  case (SpawnSessionAgent k x y r c)
  then obtain n where "spawn_session_agent env k x y r c a = Some (n, a')" using assms(4) by auto
  from spawn_session_agent_facts [OF assms(1,2) this] show ?thesis by blast
next
  case (RegisterReplicator r)
  have "\<forall>(k', r') \<in> set (btree_insert (replicator_kind env r) r (replicators a)). replicator_safe r'"
    using assms(3) adapter_okD(10) [OF assms(2)] by (auto simp: op_safe_def RegisterReplicator dest!: btree_insert_set)
  moreover have "a' = register_replicator env r a" using assms(4) by (simp add: RegisterReplicator)
  ultimately show ?thesis using assms(2) by (simp add: register_replicator_def adapter_ok_def)
next
  case (SetPostSimulateHook h)
  then have "a' = set_post_simulate_hook h a" "\<forall>w. soft w (h w)" using assms(3,4) by (simp_all add: op_safe_def)
  then show ?thesis using assms(2) by (simp add: set_post_simulate_hook_def adapter_ok_def)
qed (use assms ok_resources [OF assms(2)] apply_updates_plain(2) [OF env_okD(1) [OF assms(1)] assms(2)]
    ok_simulate [OF assms(1,2)] ok_spawn_networked_for [OF assms(1,2)] ok_despawn [OF assms(2)]
    ok_spawn_kind(1) [OF assms(1,2)] ok_stress_test [OF assms(1,2)] ok_clear_world [OF assms(1,2)] in auto)

lemma reachable_ok:
  assumes "env_ok env bound" "reachable env a"
  shows "adapter_ok bound a"
  using assms(2)
proof induction
  case (created w rate a)
  then show ?case
    by (auto simp: new_adapter_def adapter_ok_def empty_index_def world_ok_def get_cell_def alive_def
        split: if_splits)
next
  case (step a op a')
  then show ?case using world_step_ok [OF assms(1)] by blast
qed

end
