(* ===== verification/Adapter_Props.thy ===== *)
theory Adapter_Props
  imports Adapter_Runs
begin

text \<open>
  Properties of the adapter over all its runs: identifiers, authorised updates, spawning and
  despawning, clearing, the state hash and delta extraction.
\<close>

subsection \<open>A concrete adapter\<close>

definition sample_adapter :: adapter where
  "sample_adapter = the (new_adapter sample_env empty_world 60)"

lemma sample_env_ok: "env_ok sample_env (\<lambda>al. al)"
  by (simp add: env_ok_def sample_ecs_ok sample_alloc_ok)

lemma sample_adapter_new: "new_adapter sample_env empty_world 60 = Some sample_adapter"
  by (simp add: sample_adapter_def new_adapter_def)

lemma sample_reachable: "reachable sample_env sample_adapter"
  by (rule reachable.created [OF _ sample_adapter_new]) (simp add: empty_world_def)

lemmas sample_ok = reachable_ok [OF sample_env_ok sample_reachable]

definition sample_spawned :: adapter where
  "sample_spawned = snd (the (spawn_networked_for sample_env 7 sample_adapter))"

lemma sample_spawned_new: "spawn_networked_for sample_env 7 sample_adapter = Some (1, sample_spawned)"
  by (simp add: sample_spawned_def sample_adapter_def new_adapter_def spawn_networked_for_def
      spawn_networked_def sample_env_def empty_world_def spawn_entity_def Let_def bimap_insert_def
      get_by_left_def entity_insert_def alive_def)

lemma sample_spawned_reachable: "reachable sample_env sample_spawned"
  by (rule reachable.step [OF sample_reachable, of "SpawnNetworkedFor 7"])
    (simp_all add: op_safe_def sample_spawned_new)

lemma sample_spawned_maps:
  "bimap sample_spawned = [(1, 2)]" "owners sample_spawned 1 = Some 7"
  "get_owner (wrld sample_spawned) 2 = Some 7"
  by (simp_all add: sample_spawned_def sample_adapter_def new_adapter_def spawn_networked_for_def
      spawn_networked_def sample_env_def empty_world_def spawn_entity_def Let_def bimap_insert_def
      get_by_left_def entity_insert_def alive_def insert_bundle_def)

subsection \<open>Identifiers\<close>

text \<open>
  C34. Identifiers never dangle: in every state the adapter can reach, whatever sequence of calls
  led there, network ids and entities are in bijection, an id leads to a live entity that carries
  this id, and an owner in the cache is the owner the world records.
\<close>

theorem adapter_ids_consistent:
  assumes "env_ok env bound" and "reachable env a"
  shows "(get_local_id a n = Some e \<longleftrightarrow> get_network_id a e = Some n) \<and>
    (get_local_id a n = Some e \<longrightarrow> alive (wrld a) e \<and> get_networked (wrld a) e = Some n) \<and>
    (owners a n = Some c \<longrightarrow> Option.bind (get_local_id a n) (get_owner (wrld a)) = Some c)"
proof -
  note ok = reachable_ok [OF assms]
  have "Option.bind (get_local_id a n) (get_owner (wrld a)) = Some c" if "owners a n = Some c"
    using adapter_okD(8) [OF ok that] by_left_iff [OF ok] by (auto simp: get_local_id_def bind_eq_Some_conv)
  then show ?thesis
    using by_left_iff [OF ok] by_right_iff [OF ok] adapter_okD(4,6) [OF ok]
    by (simp add: get_local_id_def get_network_id_def)
qed

theorem adapter_ids_consistent_witness:
  "get_local_id sample_spawned 1 = Some 2 \<and> get_network_id sample_spawned 2 = Some 1 \<and>
   alive (wrld sample_spawned) 2 \<and> get_owner (wrld sample_spawned) 2 = Some 7"
  using adapter_ids_consistent [OF sample_env_ok sample_spawned_reachable, of 1 2 7]
  by (simp add: get_local_id_def get_by_left_def sample_spawned_maps)

subsection \<open>Client updates\<close>

text \<open>
  C36. The batch loop with its owner cache and its memo of the last replicator does exactly what
  looking up the owner in the world and the replicator in the table would do, update by update.
\<close>

theorem apply_updates_refines:
  assumes "env_ok env bound" and "reachable env a"
  shows "wrld (apply_updates env us a) = fold (apply_plain env (replicators a) (bimap a)) us (wrld a)"
  using apply_updates_plain(1) [OF env_okD(1) [OF assms(1)] reachable_ok [OF assms]] .

definition sample_update :: "u8 \<Rightarrow> ComponentUpdate" where
  "sample_update b = \<lparr>cu_network_id = 1, cu_component_kind = 7, cu_payload = [b], cu_tick = 0\<rparr>"

definition sample_tagged :: adapter where
  "sample_tagged = register_replicator sample_env (DefaultReplicator KFactionTag 7) sample_spawned"

lemma sample_tagged_reachable: "reachable sample_env sample_tagged"
  by (rule reachable.step [OF sample_spawned_reachable, of "RegisterReplicator (DefaultReplicator KFactionTag 7)"])
    (simp_all add: op_safe_def replicator_safe_def sample_tagged_def)

lemma sample_tagged_maps:
  "wrld sample_tagged = wrld sample_spawned" "bimap sample_tagged = [(1, 2)]"
  "replicators sample_tagged = [(7, DefaultReplicator KFactionTag 7)]"
  by (simp_all add: sample_tagged_def register_replicator_def sample_spawned_maps)
    (simp add: sample_spawned_def sample_adapter_def new_adapter_def spawn_networked_for_def
      spawn_networked_def sample_env_def empty_world_def spawn_entity_def Let_def bimap_insert_def
      get_by_left_def entity_insert_def alive_def)

lemma sample_tagged_alive: "alive (wrld sample_spawned) 2"
  using adapter_okD(4) [OF reachable_ok [OF sample_env_ok sample_spawned_reachable]]
  by (simp add: sample_spawned_maps)

theorem apply_updates_refines_witness:
  "get_comp (wrld (apply_updates sample_env [(7, sample_update 3), (8, sample_update 4)] sample_tagged)) 2
     KFactionTag = Some (CFactionTag 3)"
  using apply_updates_refines [OF sample_env_ok sample_tagged_reachable,
      of "[(7, sample_update 3), (8, sample_update 4)]"] sample_tagged_alive
  by (simp add: apply_plain_def sample_tagged_maps get_by_left_def sample_update_def
      sample_spawned_maps default_apply_def sample_env_def sample_deserialize_def get_comp_put_comp)

text \<open>Ownership, session marks and trackers are out of reach of updates.\<close>

lemma apply_plain_soft:
  assumes "ecs_ok env" "\<forall>(k, r) \<in> set reps. replicator_safe r"
  shows "soft w (apply_plain env reps bm x w)"
proof -
  have "soft w (apply_update env r e u w)" if "map_of reps k = Some r" for k r e u
    using soft_apply_update [OF assms(1)] assms(2) map_of_SomeD [OF that] by auto
  then show ?thesis by (auto simp: apply_plain_def split: prod.split option.split)
qed

lemma apply_update_frame: "e' \<noteq> e \<Longrightarrow> get_comp (apply_update env r e u w) e' k = get_comp w e' k"
  by (cases r) (auto simp: default_apply_def input_apply_def apply_command_update_def Let_def
      get_comp_put_comp split: option.split)

lemma apply_plain_foreign:
  assumes "adapter_ok bound a" "(n, e) \<in> set (bimap a)"
    and "cu_network_id u = n \<longrightarrow> get_owner w e \<noteq> Some c"
  shows "get_comp (apply_plain env reps (bimap a) (c, u) w) e k = get_comp w e k"
proof (cases "get_by_left (bimap a) (cu_network_id u)")
  case (Some e')
  have "e' = e \<Longrightarrow> cu_network_id u = n"
    using Some assms(2) adapter_okD(6) [OF assms(1)] by_left_iff [OF assms(1)] by (metis option.inject)
  with Some assms(3) show ?thesis
    by (cases "e' = e") (auto simp: apply_plain_def apply_update_frame split: option.split)
qed (simp add: apply_plain_def)

text \<open>
  C37. Clients cannot touch what they do not own: if no update of a batch that addresses an entity
  comes from its owner, then no component of the entity changes, whatever the other updates of the
  batch do.
\<close>

theorem foreign_updates_ignored:
  assumes "env_ok env bound" and "reachable env a" and "get_local_id a n = Some e"
    and "\<forall>(c, u) \<in> set us. cu_network_id u = n \<longrightarrow> get_owner (wrld a) e \<noteq> Some c"
  shows "get_comp (wrld (apply_updates env us a)) e k = get_comp (wrld a) e k"
proof -
  note ok = reachable_ok [OF assms(1,2)] and ecs = env_okD(1) [OF assms(1)]
  have ne: "(n, e) \<in> set (bimap a)" using assms(3) by_left_iff [OF ok] by (simp add: get_local_id_def)
  let ?f = "apply_plain env (replicators a) (bimap a)"
  have "\<forall>k. get_comp (fold ?f us (wrld a)) e k = get_comp (wrld a) e k"
  proof (rule fold_invariant_set [where P = "\<lambda>w. \<forall>k. get_comp w e k = get_comp (wrld a) e k"])
    fix x w
    assume x: "x \<in> set us" and w: "\<forall>k. get_comp w e k = get_comp (wrld a) e k"
    then have "get_owner w e = get_owner (wrld a) e" by (simp add: get_owner_def)
    with assms(4) x apply_plain_foreign [OF ok ne] w
    show "\<forall>k. get_comp (?f x w) e k = get_comp (wrld a) e k" by (cases x) fastforce
  qed simp
  then show ?thesis by (simp add: apply_updates_plain(1) [OF ecs ok])
qed

theorem foreign_updates_ignored_witness:
  "get_comp (wrld (apply_updates sample_env [(8, sample_update 4), (9, sample_update 5)] sample_tagged)) 2 KFactionTag =
     get_comp (wrld sample_tagged) 2 KFactionTag"
  by (rule foreign_updates_ignored [OF sample_env_ok sample_tagged_reachable, of 1])
    (simp_all add: get_local_id_def get_by_left_def sample_tagged_maps sample_spawned_maps)

subsection \<open>Spawning\<close>

text \<open>The allocator can still issue \<open>k\<close> identifiers.\<close>

fun ids_left :: "ecs_env \<Rightarrow> nat \<Rightarrow> nat \<Rightarrow> bool" where
  "ids_left env al 0 = True"
| "ids_left env al (Suc k) = (case allocate env al of Some (n, al') \<Rightarrow> ids_left env al' k | None \<Rightarrow> False)"

lemma ids_left_3:
  assumes "ids_left env al 3"
  obtains n1 al1 n2 al2 n3 al3 where "allocate env al = Some (n1, al1)"
    "allocate env al1 = Some (n2, al2)" "allocate env al2 = Some (n3, al3)"
proof -
  have "ids_left env al (Suc k) \<longleftrightarrow> (\<exists>n al'. allocate env al = Some (n, al') \<and> ids_left env al' k)" for al k
    by (auto split: option.split)
  then show thesis using assms that unfolding numeral_3_eq_3 by metis
qed

lemma spawn_kind_returns:
  assumes "env_ok env bound" "adapter_ok bound a" "ids_left env (allocator a) 3"
  shows "\<exists>n a'. spawn_kind env kind x y rot a = Some (n, a')"
proof -
  obtain n1 al1 n2 al2 n3 al3 where al: "allocate env (allocator a) = Some (n1, al1)"
    "allocate env al1 = Some (n2, al2)" "allocate env al2 = Some (n3, al3)"
    using assms(3) by (rule ids_left_3)
  show ?thesis
  proof (cases "find_master env a")
    case (Some m)
    then show ?thesis using spawn_kind_known [OF al(1)] by blast
  next
    case None
    have "\<exists>a1. spawn_networked env (a\<lparr>allocator := al1\<rparr>) = Some (n2, a1) \<and> allocator a1 = al2"
      by (simp add: spawn_networked_def al(2) case_prod_unfold Let_def)
    then obtain a1 where sn: "spawn_networked env (a\<lparr>allocator := al1\<rparr>) = Some (n2, a1)" "allocator a1 = al2"
      by blast
    from spawn_kind_new [OF assms(2) env_okD [OF assms(1)] None al(1) sn(1), of kind x y rot]
    show ?thesis by (simp add: sn(2) al(3)) blast
  qed
qed

text \<open>
  Spawning ends: with three identifiers left, which the lazily created master workspace, its
  first resource and the entity itself may take, the recursive \<^verbatim>\<open>spawn_kind\<close> neither recurses for
  ever nor panics, and the new id resolves to a live entity in a workspace.
\<close>

lemma spawn_kind_total:
  assumes "env_ok env bound" and "reachable env a" and "ids_left env (allocator a) 3"
  shows "\<exists>n a' e. spawn_kind env kind x y rot a = Some (n, a') \<and> get_local_id a' n = Some e \<and>
    alive (wrld a') e \<and> get_entity_workspace a' n \<noteq> None"
proof -
  note ok = reachable_ok [OF assms(1,2)]
  obtain n a' where s: "spawn_kind env kind x y rot a = Some (n, a')"
    using spawn_kind_returns [OF assms(1) ok assms(3)] by blast
  obtain e ws where e: "adapter_ok bound a'" "(n, e) \<in> set (bimap a')"
    "get_ws_membership (wrld a') e = Some ws"
    using spawn_kind_facts [OF ok env_okD [OF assms(1)] s] by blast
  then have "get_by_left (bimap a') n = Some e" using by_left_iff [OF e(1)] by simp
  with s e(3) adapter_okD(4) [OF e(1,2)] show ?thesis
    by (auto simp: get_local_id_def get_entity_workspace_def)
qed

lemma sample_ids_left: "ids_left sample_env (allocator sample_adapter) 3"
  by (simp add: sample_adapter_def new_adapter_def sample_env_def numeral_3_eq_3)

lemma spawn_session_agent_returns:
  assumes "env_ok env bound" "adapter_ok bound a" "ids_left env (allocator a) 3"
  shows "\<exists>n a'. spawn_session_agent env kind x y rot c a = Some (n, a')"
proof -
  obtain n a1 where a1: "spawn_kind env kind x y rot a = Some (n, a1)"
    using spawn_kind_returns [OF assms] by blast
  obtain e where e: "adapter_ok bound a1" "(n, e) \<in> set (bimap a1)"
    using spawn_kind_facts [OF assms(2) env_okD [OF assms(1)] a1] by blast
  then have "get_by_left (bimap a1) n = Some e" using by_left_iff [OF e(1)] by simp
  then obtain a2 where a2: "spawn_kind_for env kind x y rot c a = Some (n, a2)"
    by (simp add: spawn_kind_for_def a1 entity_insert_owner [OF e(2,1)])
  obtain e2 ws where e2: "adapter_ok bound a2" "(n, e2) \<in> set (bimap a2)" "get_ws_membership (wrld a2) e2 = Some ws"
    using spawn_kind_for_facts [OF assms(1,2) a2] by blast
  have "get_by_left (bimap a2) n = Some e2" using by_left_iff [OF e2(1)] e2(2) by simp
  with e2(3) adapter_okD(4) [OF e2(1,2)] show ?thesis
    by (simp add: spawn_session_agent_def a2 entity_insert_def insert_bundle_def get_entity_workspace_def)
qed

text \<open>
  A session agent is usable at once: spawning it succeeds, its id resolves, its owner is the
  client, the workspace registered for the client is the workspace of the agent, and the gate of
  the input replicator lets the agent's input through.
\<close>

lemma session_agent_ready:
  assumes "env_ok env bound" and "reachable env a" and "ids_left env (allocator a) 3"
  shows "\<exists>n a' e ws. spawn_session_agent env kind x y rot c a = Some (n, a') \<and>
    get_local_id a' n = Some e \<and> get_owner (wrld a') e = Some c \<and>
    get_entity_workspace a' n = Some ws \<and> get_client_workspace env a' c = Some ws \<and>
    validate_access_gate (wrld a') e"
proof -
  note ok = reachable_ok [OF assms(1,2)]
  obtain n a' where s: "spawn_session_agent env kind x y rot c a = Some (n, a')"
    using spawn_session_agent_returns [OF assms(1) ok assms(3)] by blast
  obtain e ws where e: "adapter_ok bound a'" "(n, e) \<in> set (bimap a')" "get_owner (wrld a') e = Some c"
    "get_ws_membership (wrld a') e = Some ws" "has_comp (wrld a') KSessionAgent e"
    "Option.bind (WorkspaceIdx (wrld a')) (\<lambda>ix. client_workspaces ix c) = Some ws"
    using spawn_session_agent_facts [OF assms(1) ok s] by metis
  then have n: "get_by_left (bimap a') n = Some e" using by_left_iff [OF e(1)] by simp
  have "has_comp (wrld a') KNetworkOwner e"
    using e(3) by (auto simp: has_comp_def get_owner_def split: option.splits)
  with s n e show ?thesis
    by (auto simp: get_local_id_def get_entity_workspace_def get_client_workspace_def
        validate_access_gate_def)
qed

subsection \<open>Despawning and clearing\<close>

text \<open>
  Despawning: a known id is removed with its entity, its owner and its index entries, one
  despawn event is queued for everybody, and no other entity changes; a second attempt, like one
  for an unknown id, reports \<^verbatim>\<open>EntityNotFound\<close> and changes nothing.
\<close>

lemma despawn_networked_spec:
  assumes "env_ok env bound" and "reachable env a" and "get_local_id a n = Some e"
  shows "\<exists>a'. despawn_networked n a = (Inr (), a') \<and> get_local_id a' n = None \<and>
      owners a' n = None \<and> \<not> alive (wrld a') e \<and>
      (\<forall>e' k. e' \<noteq> e \<longrightarrow> get_comp (wrld a') e' k = get_comp (wrld a) e' k) \<and>
      ReliableEvents (wrld a') = map_option (\<lambda>q. q @ [(None, EntityDespawnedWire n)]) (ReliableEvents (wrld a)) \<and>
      despawn_networked n a' = (Inl (EntityNotFound n), a')"
proof -
  note ok = reachable_ok [OF assms(1,2)]
  have ne: "(n, e) \<in> set (bimap a)" using assms(3) by_left_iff [OF ok] by (simp add: get_local_id_def)
  note D = despawn_known [OF ok ne]
  let ?a = "snd (despawn_networked n a)"
  have n: "get_by_left (bimap ?a) n = None"
    by (simp add: D(2) get_by_left_def remove_by_left_def map_of_eq_None_iff image_iff case_prod_unfold)
  have "ReliableEvents (wrld ?a) = map_option (\<lambda>q. q @ [(None, EntityDespawnedWire n)]) (ReliableEvents (wrld a))"
    using assms(3) adapter_okD(4) [OF ok ne]
    by (simp add: despawn_networked_def get_local_id_def Let_def push_reliable_def)
  moreover have "despawn_networked n ?a = (Inl (EntityNotFound n), ?a)"
    by (simp add: despawn_networked_def [of n ?a] n)
  ultimately show ?thesis
    using n by (intro exI [of _ ?a]) (auto simp: D(3-5) get_local_id_def prod_eq_iff D(1))
qed

lemma despawn_comp:
  assumes "adapter_ok bound a"
  shows "get_comp (wrld (snd (despawn_networked n a))) e k =
    (if (n, e) \<in> set (bimap a) then None else get_comp (wrld a) e k)"
proof (cases "get_by_left (bimap a) n")
  case None
  then have "(n, e) \<notin> set (bimap a)" using by_left_iff [OF assms, of n e] by simp
  with None show ?thesis by (simp add: despawn_unknown)
next
  case (Some e')
  then have ne: "(n, e') \<in> set (bimap a)" using by_left_iff [OF assms] by simp
  have "(n, e) \<in> set (bimap a) \<longleftrightarrow> e = e'"
    using ne distinct_map_fst_unique [OF adapter_okD(1) [OF assms] ne] by metis
  then show ?thesis by (simp add: despawn_known(5) [OF assms ne])
qed

lemma despawn_all_comp:
  assumes "adapter_ok bound a"
  shows "get_comp (wrld (fold (\<lambda>id a. snd (despawn_networked id a)) ids a)) e k =
    (if \<exists>n \<in> set ids. (n, e) \<in> set (bimap a) then None else get_comp (wrld a) e k)"
  using assms
proof (induction ids arbitrary: a)
  case (Cons n ids)
  from Cons.IH [OF ok_despawn [OF Cons.prems, of n]] show ?case
    by (auto simp: despawn_comp [OF Cons.prems] despawn_bimap [OF Cons.prems] remove_by_left_set)
qed simp

lemma get_comp_despawns: "get_comp (fold despawn es w) e k = (if e \<in> set es then None else get_comp w e k)"
  by (induction es arbitrary: w) (auto simp: get_comp_despawn)

lemma clear_world_comp:
  assumes "ecs_ok env" "adapter_ok bound a"
  shows "get_comp (wrld (clear_world env a)) e k =
    (if get_network_id a e \<noteq> None \<or> has_comp (wrld a) KResourceRespawn e then None
     else get_comp (wrld a) e k)"
proof -
  have ids: "set (map fst (bimap_order env (bimap a))) = fst ` set (bimap a)"
    using ecs_ok_bimap [OF assms(1), of "bimap a"] by (metis set_map set_mset_mset)
  have net: "(\<exists>n \<in> fst ` set (bimap a). (n, e) \<in> set (bimap a)) \<longleftrightarrow> get_network_id a e \<noteq> None"
    using by_right_iff [OF assms(2), of e] by (force simp: get_network_id_def)
  define b where "b = fold (\<lambda>id a. snd (despawn_networked id a)) (map fst (bimap_order env (bimap a))) a"
  have b: "get_comp (wrld b) e k = (if get_network_id a e \<noteq> None then None else get_comp (wrld a) e k)" for k
    unfolding b_def despawn_all_comp [OF assms(2)] ids net ..
  have "e \<in> set (query env (wrld b) [KResourceRespawn]) \<longleftrightarrow> has_comp (wrld b) KResourceRespawn e"
    by (auto simp: in_query [OF assms(1)] dest: has_comp_alive)
  moreover have "get_comp (wrld (clear_world env a)) e k =
      get_comp (fold despawn (query env (wrld b) [KResourceRespawn]) (wrld b)) e k"
    by (simp add: clear_world_def Let_def b_def)
  ultimately show ?thesis by (simp add: get_comp_despawns has_comp_def b)
qed

text \<open>
  Clearing the world: no network id resolves any more, every networked entity and every pending
  resource respawn is gone, no client has a workspace, and the next extraction is a full one.
\<close>

lemma clear_world_spec:
  assumes "env_ok env bound" and "reachable env a"
  defines "a' \<equiv> clear_world env a"
  shows "get_local_id a' n = None \<and> owners a' n = None \<and>
    (get_local_id a n = Some e \<longrightarrow> get_comp (wrld a') e k = None) \<and>
    get_resource_respawn (wrld a') e = None \<and> get_client_workspace env a' c = None \<and>
    last_extraction_tick a' = None"
proof -
  note ok = reachable_ok [OF assms(1,2)] and ecs = env_okD(1) [OF assms(1)]
  have bm: "bimap a' = []" unfolding a'_def by (rule clear_world_bimap [OF ecs ok])
  have "adapter_ok bound a'" unfolding a'_def by (rule ok_clear_world [OF assms(1) ok])
  with bm have "owners a' n = None" using adapter_okD(8) [of bound a' n] by (cases "owners a' n") auto
  moreover have "get_comp (wrld a') e k = None" if "get_local_id a n = Some e"
    using that by_left_iff [OF ok, of n e] by_right_iff [OF ok, of e n]
    by (simp add: a'_def clear_world_comp [OF ecs ok] get_local_id_def get_network_id_def)
  moreover have "get_resource_respawn (wrld a') e = None"
    by (auto simp: a'_def get_resource_respawn_def clear_world_comp [OF ecs ok] has_comp_def split: option.split)
  moreover have "get_client_workspace env a' c = None"
  proof -
    have "bimap_order env (bimap a') = []" using ecs_ok_bimap [OF ecs, of "bimap a'"] bm by simp
    moreover have "Option.bind (map_option (\<lambda>_. empty_index) x) (\<lambda>ix. client_workspaces ix c) = None"
      for x :: "WorkspaceIndex option" by (cases x) (simp_all add: empty_index_def)
    then have "Option.bind (WorkspaceIdx (wrld a')) (\<lambda>ix. client_workspaces ix c) = None"
      unfolding a'_def clear_world_def Let_def by simp
    ultimately show ?thesis by (simp add: get_client_workspace_def)
  qed
  moreover have "last_extraction_tick a' = None" by (simp add: a'_def clear_world_def Let_def)
  ultimately show ?thesis by (simp add: get_local_id_def get_by_left_def bm)
qed

text \<open>
  The trackers of training targets survive a clear: only resource trackers are removed, so a
  training target that was terminated before the clear reappears after it.
\<close>

lemma clear_world_keeps_target_trackers:
  assumes "ecs_ok env" and "adapter_ok bound a" and "get_network_id a e = None"
    and "get_respawn_timer (wrld a) e = Some t" and "\<not> has_comp (wrld a) KResourceRespawn e"
  shows "get_respawn_timer (wrld (clear_world env a)) e = Some t"
  using assms(3-5) by (simp add: get_respawn_timer_def clear_world_comp [OF assms(1,2)])

subsection \<open>The state hash\<close>

lemma sort_bimap_order:
  assumes "ecs_ok env" "ecs_ok env'"
  shows "sort (map fst (bimap_order env b)) = sort (map fst (bimap_order env' b))"
proof (rule properties_for_sort)
  show "mset (sort (map fst (bimap_order env' b))) = mset (map fst (bimap_order env b))"
    using ecs_ok_bimap [OF assms(1), of b] ecs_ok_bimap [OF assms(2), of b] by simp
qed simp

text \<open>
  The state hash is deterministic: it does not depend on the iteration order of the hash map,
  so two hosts with the same state and the same hash function agree.
\<close>

lemma state_hash_deterministic:
  assumes "ecs_ok env" and "ecs_ok env'" and "default_hasher env' = default_hasher env"
  shows "state_hash env' a = state_hash env a"
  by (simp add: state_hash_def assms(3) sort_bimap_order [OF assms(1,2)])

subsection \<open>Delta extraction\<close>

text \<open>A component has changed since tick \<open>l\<close> if its change tick is later, as Bevy documents for
  ticks that have not wrapped.\<close>

definition ticks_compare :: "ecs_env \<Rightarrow> bool" where
  "ticks_compare env \<longleftrightarrow> (\<forall>c l now. is_changed env c l now \<longleftrightarrow> l < c)"

lemma set_map_filter: "set (List.map_filter f xs) = {y. \<exists>x \<in> set xs. f x = Some y}"
  by (force simp: List.map_filter_def)

lemma extract_deltas_set:
  assumes "ecs_ok env"
  shows "set (fst (extract_deltas env a)) =
    {ev. \<exists>(n, e) \<in> set (bimap a). \<exists>(k, r) \<in> set (replicators a).
       replicator_extract env r (wrld a) e n (server_tick (wrld a)) (last_extraction_tick a) = Some ev}"
proof -
  have "set (bimap_order env (bimap a)) = set (bimap a)"
    using ecs_ok_bimap [OF assms, of "bimap a"] by (rule mset_eq_setD)
  then show ?thesis
    by (auto simp: extract_deltas_def Let_def set_map_filter case_prod_unfold)
qed

lemma default_extract_put:
  fixes c :: comp
  assumes "ticks_compare env" "world_ok w" "alive w e"
  defines "w' \<equiv> put_comp c e (w\<lparr>change_tick := Suc (change_tick w)\<rparr>)"
  shows "default_extract env ck k w' e' n t (Some (change_tick w)) =
    (if e' = e \<and> ck = kind_of c
     then map_option (\<lambda>p. \<lparr>re_network_id = n, re_component_kind = k, re_payload = p, re_tick = t\<rparr>) (serialize env c)
     else None)"
proof -
  have "get_cell (w\<lparr>change_tick := Suc (change_tick w)\<rparr>) = get_cell w"
    by (intro ext) (simp add: get_cell_def alive_def)
  then have g: "get_cell w' e' ck = (if e' = e \<and> ck = kind_of c then Some (c, Suc (change_tick w)) else get_cell w e' ck)"
    using assms(3) by (simp add: w'_def get_cell_put_comp)
  have "t' \<le> change_tick w" if "get_cell w e' ck = Some (d, t')" for d t'
    using assms(2) that by (auto simp: world_ok_def)
  then show ?thesis
    using assms(1) unfolding default_extract_def g
    by (cases "serialize env c"; cases "get_cell w e' ck")
      (auto simp: ticks_compare_def not_less split: if_splits)
qed



end
