(* ===== verification/Simulate_Props.thy ===== *)
theory Simulate_Props
  imports Adapter_Props
begin

text \<open>
  Properties of the simulation step: the loops that bring an angle into range end for every
  rotation a body can turn to and never end for a huge one, positions are wrapped into their
  workspace, hits take integrity as documented.
\<close>

subsection \<open>The angle loops\<close>

text \<open>Below \<open>2\<^sup>2\<^sup>5\<close> a single-precision sum is off by at most one.\<close>

lemma fround_signed_error:
  assumes "\<bar>y\<bar> < 2 ^ 25"
  obtains s m where "fround_signed F32 z y = Fin s m" "\<bar>fval s m - y\<bar> \<le> 1"
proof (cases "y = 0")
  case True
  then show ?thesis using that [of z 0] by (simp add: fround_signed_def fval_def)
next
  case False
  have "\<bar>y\<bar> < pow2 (1 + int (prec F32))" using assms by (simp add: pow2_def)
  then obtain e where e: "exp_of F32 \<bar>y\<bar> = Some e" "e \<le> 1"
    using exp_of_le [of "\<bar>y\<bar>" 1 F32] by auto
  then obtain m where m: "fround F32 (y < 0) \<bar>y\<bar> = Fin (y < 0) m"
    by (auto simp: fround_def Let_def)
  have "\<bar>m - \<bar>y\<bar>\<bar> \<le> pow2 e / 2" using fround_error [OF m e(1)] .
  also have "\<dots> \<le> 1" using pow2_mono [OF e(2)] by simp
  finally have "\<bar>fval (y < 0) m - y\<bar> \<le> 1" by (cases "y < 0") (simp_all add: fval_def abs_le_iff)
  then show ?thesis using that [of "y < 0" m] False m by (simp add: fround_signed_def)
qed

lemma f32_pi_bounds: "3 < 13176795 * pow2 (- 22)" "13176795 * pow2 (- 22) < 4"
  "6 < 13176795 * pow2 (- 21)" "13176795 * pow2 (- 21) < 7"
  by (simp_all add: pow2_def)

lemma wrap_down_returns:
  "\<bar>fval s m\<bar> < 2 ^ 25 \<Longrightarrow>
     \<exists>t n. wrap_down (Fin s m) = Some (Fin t n) \<and> \<bar>fval t n\<bar> < 2 ^ 25 \<and> \<not> fgt (Fin t n) f32_pi"
proof (induction "nat \<lceil>fval s m\<rceil>" arbitrary: s m rule: less_induct)
  case less
  show ?case
  proof (cases "fgt (Fin s m) f32_pi")
    case False
    then show ?thesis using less.prems by (subst wrap_down.simps) auto
  next
    case True
    then have pi: "13176795 * pow2 (- 22) < fval s m" by (simp add: fgt_def f32_pi_def fval_def)
    let ?y = "fval s m - 13176795 * pow2 (- 21)"
    have "\<bar>?y\<bar> < 2 ^ 25" using less.prems pi f32_pi_bounds by (simp add: abs_less_iff)
    then obtain t n where t: "fround_signed F32 (s \<and> True) ?y = Fin t n" "\<bar>fval t n - ?y\<bar> \<le> 1"
      by (rule fround_signed_error)
    have sub: "fsub F32 (Fin s m) f32_tau = Fin t n"
      using t(1) by (simp add: fsub_def f32_tau_def fval_def)
    have "fval t n \<le> fval s m - 5" "- 6 < fval t n" using t(2) pi f32_pi_bounds by linarith+
    then have "nat \<lceil>fval t n\<rceil> < nat \<lceil>fval s m\<rceil>" "\<bar>fval t n\<bar> < 2 ^ 25"
      using pi f32_pi_bounds less.prems by (simp_all add: abs_less_iff) linarith+
    from less.hyps [OF this] show ?thesis using True sub by (subst wrap_down.simps) simp
  qed
qed

lemma wrap_up_returns:
  "\<bar>fval s m\<bar> < 2 ^ 25 \<Longrightarrow> \<exists>r. wrap_up (Fin s m) = Some r"
proof (induction "nat \<lceil>- fval s m\<rceil>" arbitrary: s m rule: less_induct)
  case less
  show ?case
  proof (cases "flt (Fin s m) (fneg f32_pi)")
    case False
    then show ?thesis by (subst wrap_up.simps) auto
  next
    case True
    then have pi: "fval s m < - (13176795 * pow2 (- 22))" by (simp add: f32_pi_def fval_def)
    let ?y = "fval s m + 13176795 * pow2 (- 21)"
    have "\<bar>?y\<bar> < 2 ^ 25" using less.prems pi f32_pi_bounds by (simp add: abs_less_iff)
    then obtain t n where t: "fround_signed F32 (s \<and> False) ?y = Fin t n" "\<bar>fval t n - ?y\<bar> \<le> 1"
      by (rule fround_signed_error)
    have add: "fadd F32 (Fin s m) f32_tau = Fin t n"
      using t(1) by (simp add: f32_tau_def fval_def)
    have "fval s m + 5 \<le> fval t n" "fval t n < 6" using t(2) pi f32_pi_bounds by linarith+
    then have "nat \<lceil>- fval t n\<rceil> < nat \<lceil>- fval s m\<rceil>" "\<bar>fval t n\<bar> < 2 ^ 25"
      using pi f32_pi_bounds less.prems by (simp_all add: abs_less_iff) linarith+
    from less.hyps [OF this] show ?thesis using True add by (subst wrap_up.simps) simp
  qed
qed

text \<open>
  C39. The angle loops end for ordinary rotations: whenever the direction of travel and the rotation
  are finite and at most \<open>2\<^sup>2\<^sup>3\<close> in magnitude, turning a body returns a rotation.
\<close>

theorem turn_total:
  assumes "atan2f env (vel_dy v) (vel_dx v) = Fin t n" and "\<bar>fval t n\<bar> \<le> 2 ^ 23"
    and "\<bar>fval s m\<bar> \<le> 2 ^ 23"
  shows "\<exists>r. turn env dt p v (Fin s m) = Some r"
proof -
  let ?y = "fval t n - fval s m"
  have "\<bar>?y\<bar> < 2 ^ 25" using assms(2,3) by (simp add: abs_le_iff abs_less_iff)
  then obtain u k where u: "fround_signed F32 (t \<and> \<not> s) ?y = Fin u k" "\<bar>fval u k - ?y\<bar> \<le> 1"
    by (rule fround_signed_error)
  have sub: "fsub F32 (Fin t n) (Fin s m) = Fin u k" using u(1) by (simp add: fsub_def fval_def split: if_splits)
  have "\<bar>fval u k\<bar> < 2 ^ 25" using u(2) assms(2,3) by (simp add: abs_le_iff abs_less_iff)
  from wrap_down_returns [OF this] obtain u' k' where
    w: "wrap_down (Fin u k) = Some (Fin u' k')" "\<bar>fval u' k'\<bar> < 2 ^ 25" by blast
  from wrap_up_returns [OF w(2)] obtain r where "wrap_up (Fin u' k') = Some r" by blast
  with w(1) show ?thesis by (simp add: turn_def assms(1) sub Let_def)
qed

definition sample_body :: PhysicsBody where
  "sample_body = physics 100 DEFAULT_THRUST_FORCE DEFAULT_MAX_VELOCITY 270 DEFAULT_DRAG MASS_PER_PAYLOAD"

theorem turn_total_witness:
  "\<exists>r. turn sample_env (Fin False 1) sample_body \<lparr>vel_dx = Fin False 8, vel_dy = fzero, vel_dz = fzero\<rparr>
     (Fin True 100) = Some r"
  by (rule turn_total [of _ _ False 0]) (simp_all add: sample_env_def fzero_def fval_def)

lemma rne_near: "\<bar>x - of_int k\<bar> < 1 / 2 \<Longrightarrow> rne x = k"
proof -
  assume "\<bar>x - of_int k\<bar> < 1 / 2"
  with rne_error [of x] have "\<bar>real_of_int (rne x) - of_int k\<bar> < 1" by linarith
  then show ?thesis by linarith
qed

text \<open>Between \<open>2\<^sup>2\<^sup>7\<close> and \<open>2\<^sup>2\<^sup>8\<close> the numbers are sixteen apart, so a full turn is rounded away.\<close>

lemma fround_absorbs:
  assumes "\<bar>d\<bar> < 8"
  shows "fround_signed F32 z (201326592 + d) = Fin False 201326592"
proof -
  let ?y = "201326592 + d"
  have y: "2 ^ 27 < ?y" "?y < 2 ^ 28" using assms by (simp_all add: abs_less_iff)
  then obtain e where e: "exp_of F32 ?y = Some e" "e \<le> 4"
    using exp_of_le [of ?y 4 F32] by (auto simp: pow2_def)
  have "pow2 27 < pow2 (e + 24)" using exp_of_SomeD(3) [OF e(1)] y(1) by (simp add: pow2_def [of 27])
  then have "e = 4" using e(2) by simp
  moreover have "rne (?y / pow2 4) = 12582912"
  proof (rule rne_near)
    have "?y / pow2 4 - of_int 12582912 = d / 16" by (simp add: pow2_def field_simps)
    moreover have "\<bar>d / 16\<bar> < 1 / 2" using assms by simp
    ultimately show "\<bar>?y / pow2 4 - of_int 12582912\<bar> < 1 / 2" by (simp only:)
  qed
  ultimately have "fround F32 False ?y = Fin False 201326592" using e(1) by (simp add: fround_def pow2_def)
  then show ?thesis using y(1) by (simp add: fround_signed_def)
qed

lemma wrap_down_diverges: "wrap_down (Fin False 201326592) = None"
proof -
  let ?c = "Fin False 201326592"
  have step: "fsub F32 ?c f32_tau = ?c" "fgt ?c f32_pi"
    using fround_absorbs [of "- (13176795 * pow2 (- 21))" False] f32_pi_bounds
    by (simp_all add: fsub_def f32_tau_def f32_pi_def fval_def fgt_def)
  have "x \<noteq> ?c" if "wrap_down x = Some y" for x y
    by (rule wrap_down.raw_induct [where P = "\<lambda>x y. x \<noteq> ?c", OF _ that])
      (use step in \<open>auto split: if_splits\<close>)
  then show ?thesis by (cases "wrap_down ?c") auto
qed

lemma turn_diverges:
  assumes "atan2f env (vel_dy v) (vel_dx v) = Fin t n" "\<bar>fval t n\<bar> \<le> 4"
    and "fgt (fadd F32 (fmul F32 (vel_dx v) (vel_dx v)) (fmul F32 (vel_dy v) (vel_dy v))) (f32_lit (1 / 100))"
  shows "turn env dt p v (Fin True 201326592) = None"
proof -
  have "fsub F32 (Fin t n) (Fin True 201326592) = Fin False 201326592"
    using fround_absorbs [of "fval t n" False] assms(2)
    by (cases t) (simp_all add: fsub_def fval_def add.commute)
  then show ?thesis using assms(1,3) by (simp add: turn_def wrap_down_diverges)
qed

lemma move_entity_frame:
  "move_entity env dt e' w = Some w' \<Longrightarrow> e \<noteq> e' \<Longrightarrow> get_comp w' e k = get_comp w e k"
  by (auto simp: move_entity_def Let_def bind_eq_Some_conv get_comp_put_comp split: option.splits)

lemma foldM_stuck:
  assumes "e \<in> set xs" "P w" "\<And>w. P w \<Longrightarrow> f e w = None"
    and "\<And>x w w'. x \<noteq> e \<Longrightarrow> P w \<Longrightarrow> f x w = Some w' \<Longrightarrow> P w'"
  shows "foldM f xs w = None"
  using assms(1,2)
proof (induction xs arbitrary: w)
  case (Cons x xs)
  show ?case
  proof (cases "x = e \<or> f x w = None")
    case False
    then obtain w' where w': "f x w = Some w'" "x \<noteq> e" "e \<in> set xs" using Cons.prems(1) by auto
    with Cons.IH assms(4) Cons.prems(2) show ?thesis by simp
  qed (use assms(3) Cons.prems(2) in auto)
qed simp

text \<open>
  C40. A huge rotation stops the server: if some networked body moves and its rotation is
  \<open>-201326592\<close>, a value its owner can send as a transform update, the simulation step does not
  return, because subtracting a full turn from the angle is rounded away for ever.
\<close>

theorem simulate_diverges:
  assumes "ecs_ok env" and "get_networked (wrld a) e \<noteq> None"
    and "get_velocity (wrld a) e = Some v" and "get_transform (wrld a) e = Some t"
    and "get_physics (wrld a) e = Some p" and "tr_rotation t = Fin True 201326592"
    and "new_velocity (fdiv F32 fone (fp_of_nat F32 (unat (tick_rate a)))) p
           (get_latest_input (wrld a) e) (get_data_store (wrld a) e) v = v'"
    and "fgt (fadd F32 (fmul F32 (vel_dx v') (vel_dx v')) (fmul F32 (vel_dy v') (vel_dy v'))) (f32_lit (1 / 100))"
    and "atan2f env (vel_dy v') (vel_dx v') = Fin s n" and "\<bar>fval s n\<bar> \<le> 4"
  shows "simulate env a = None"
proof -
  let ?w = "wrld a" and ?P = "\<lambda>w. \<forall>k. get_comp w e k = get_comp (wrld a) e k"
  let ?dt = "fdiv F32 fone (fp_of_nat F32 (unat (tick_rate a)))"
  have h: "has_comp ?w KNetworked e" "has_comp ?w KVelocity e" "has_comp ?w KTransform e" "has_comp ?w KPhysicsBody e"
    using assms(2-5) by (auto simp: has_comp_def getter_defs split: option.splits)
  then have q: "e \<in> set (query env ?w [KVelocity, KTransform, KPhysicsBody, KNetworked])"
    by (auto simp: in_query [OF assms(1)] dest: has_comp_alive)
  have "turn env ?dt p v' (Fin True 201326592) = None" by (rule turn_diverges [OF assms(9,10,8)])
  then have "move_entity env ?dt e w = None" if "?P w" for w
    using that assms(3-7) by (simp add: move_entity_def getter_defs Let_def)
  then have "foldM (move_entity env ?dt) (query env ?w [KVelocity, KTransform, KPhysicsBody, KNetworked]) ?w = None"
    by (intro foldM_stuck [OF q, where P = ?P]) (auto simp: move_entity_frame)
  then show ?thesis by (simp add: simulate_def physics_stage_def Let_def)
qed

definition spun_adapter :: adapter where
  "spun_adapter = sample_adapter\<lparr>tick_rate := 1, wrld := world_of [(2,
     [CNetworked 1, CVelocity \<lparr>vel_dx = fone, vel_dy = fzero, vel_dz = fzero\<rparr>,
      CTransform \<lparr>tr_x = fzero, tr_y = fzero, tr_z = fzero, tr_rotation = Fin True 201326592, tr_entity_type = 1\<rparr>,
      CPhysicsBody \<lparr>base_mass = fone, thrust_force = fzero, max_velocity = Inf False, turn_rate = fone,
                    drag = fzero, mass_per_payload = fzero\<rparr>])]\<rparr>"

lemma f32_hundredth: "\<exists>m. f32_lit (1 / 100) = Fin False m \<and> m < 1"
proof -
  have "repr F32 (1 / 2)" using reprI [of 1 F32 "- 1"] by (simp add: pow2_def)
  from fround_le [OF _ _ this, of "1 / 100" False] show ?thesis
    by (auto simp: f32_lit_def fround_signed_def)
qed

lemma small_sums:
  "fround F32 False 0 = Fin False 0" "fround F32 False 1 = Fin False 1"
  by (simp_all add: fround_exact)

theorem simulate_diverges_witness: "simulate sample_env spun_adapter = None"
proof (rule simulate_diverges [OF sample_ecs_ok])
  let ?v = "\<lparr>vel_dx = fone, vel_dy = fzero, vel_dz = fzero\<rparr>"
  let ?p = "\<lparr>base_mass = fone, thrust_force = fzero, max_velocity = Inf False, turn_rate = fone,
      drag = fzero, mass_per_payload = fzero\<rparr>"
  note S = spun_adapter_def world_of_def insert_bundle_def put_comp_def getter_defs get_comp_def
    get_cell_def alive_def empty_world_def
  show "get_networked (wrld spun_adapter) 2 \<noteq> None" "get_velocity (wrld spun_adapter) 2 = Some ?v"
    "get_physics (wrld spun_adapter) 2 = Some ?p"
    "get_transform (wrld spun_adapter) 2 = Some \<lparr>tr_x = fzero, tr_y = fzero, tr_z = fzero,
       tr_rotation = Fin True 201326592, tr_entity_type = 1\<rparr>"
    by (simp_all add: S)
  have "get_latest_input (wrld spun_adapter) 2 = None" "get_data_store (wrld spun_adapter) 2 = None"
    by (simp_all add: S)
  moreover have "new_velocity (fdiv F32 fone (fp_of_nat F32 (unat (tick_rate spun_adapter)))) ?p None None ?v = ?v"
    by (simp add: spun_adapter_def new_velocity_def total_mass_def move_of_def drag_factor_def accelerate_def
        clamp_velocity_def fp_of_nat_def fzero_def fone_def fround_signed_def fval_def small_sums fgt_def Let_def)
  ultimately show "new_velocity (fdiv F32 fone (fp_of_nat F32 (unat (tick_rate spun_adapter)))) ?p
      (get_latest_input (wrld spun_adapter) 2) (get_data_store (wrld spun_adapter) 2) ?v = ?v" by simp
  show "fgt (fadd F32 (fmul F32 (vel_dx ?v) (vel_dx ?v)) (fmul F32 (vel_dy ?v) (vel_dy ?v))) (f32_lit (1 / 100))"
    using f32_hundredth by (auto simp: fgt_def fzero_def fone_def small_sums fval_def fround_signed_def)
  show "atan2f sample_env (vel_dy ?v) (vel_dx ?v) = Fin False 0" by (simp add: sample_env_def fzero_def)
qed (simp_all add: fval_def)

subsection \<open>Workspace bounds\<close>

lemma fround_signed_between:
  assumes "repr F \<bar>a\<bar>" "repr F \<bar>b\<bar>" "a \<le> y" "y \<le> b"
  shows "\<exists>s m. fround_signed F z y = Fin s m \<and> a \<le> fval s m \<and> fval s m \<le> b"
proof (cases "y < 0")
  case True
  then have a: "\<bar>a\<bar> = - a" "- y \<le> \<bar>a\<bar>" using assms(3) by auto
  from fround_le [OF _ a(2) assms(1), of True] True obtain m where
    m: "fround F True (- y) = Fin True m" "0 \<le> m" "m \<le> \<bar>a\<bar>" by auto
  have "- m \<le> b"
  proof (cases "b < 0")
    case True
    then have "\<bar>b\<bar> \<le> m" using fround_ge [OF _ _ assms(2) m(1)] assms(4) by simp
    with True show ?thesis by simp
  qed (use m(2) in simp)
  with True a m show ?thesis by (auto simp: fround_signed_def fval_def)
next
  case False
  then have b: "\<bar>b\<bar> = b" "y \<le> \<bar>b\<bar>" using assms(4) by auto
  from fround_le [OF _ b(2) assms(2), of False] False obtain m where
    m: "fround F False y = Fin False m" "0 \<le> m" "m \<le> \<bar>b\<bar>" by auto
  have "a \<le> m"
  proof (cases "0 < a")
    case True
    then show ?thesis using fround_ge [OF _ _ assms(1) m(1)] assms(3) by simp
  qed (use m(2) in simp)
  with False b m assms show ?thesis by (auto simp: fround_signed_def fval_def)
qed

lemma fround_signed_nonneg: "fround_signed F z y = Fin s m \<Longrightarrow> 0 \<le> m"
  using fround_repr(1) [of F "y < 0" "\<bar>y\<bar>" s m] by (auto simp: fround_signed_def dest: repr_nonneg split: if_splits)

lemma repr_abs_fround_signed: "fround_signed F z y = Fin s m \<Longrightarrow> repr F m"
  using fround_repr(1) [of F "y < 0" "\<bar>y\<bar>" s m] by (auto simp: fround_signed_def split: if_splits)

lemma remainder_bounds:
  fixes m w :: real
  assumes "0 \<le> m" "0 < w"
  shows "0 \<le> m - of_int \<lfloor>m / w\<rfloor> * w" "m - of_int \<lfloor>m / w\<rfloor> * w < w"
proof -
  have "of_int \<lfloor>m / w\<rfloor> * w \<le> m" using of_int_floor_le [of "m / w"] assms(2) by (simp only: pos_le_divide_eq)
  then show "0 \<le> m - of_int \<lfloor>m / w\<rfloor> * w" by simp
  have "m < (of_int \<lfloor>m / w\<rfloor> + 1) * w" using conjunct2 [OF floor_correct [of "m / w"]] assms(2)
    by (simp only: pos_divide_less_eq of_int_add of_int_1)
  then show "m - of_int \<lfloor>m / w\<rfloor> * w < w" by (simp add: algebra_simps)
qed

lemma rem_euclid_bounds:
  assumes "0 \<le> m" "0 < w" "repr F32 w"
  shows "\<exists>t n. rem_euclid F32 (Fin s m) (Fin False w) = Fin t n \<and> 0 \<le> fval t n \<and> fval t n \<le> w"
proof -
  define r where "r = m - of_int \<lfloor>m / w\<rfloor> * w"
  have r: "0 \<le> r" "r < w" unfolding r_def by (rule remainder_bounds [OF assms(1,2)])+
  have rem: "frem (Fin s m) (Fin False w) = Fin s r" using assms(2) by (simp add: r_def)
  show ?thesis
  proof (cases "flt (Fin s r) fzero")
    case True
    then have s: s "0 < r" using r(1) by (auto simp: fzero_def fval_def split: if_splits)
    have "\<exists>t n. fround_signed F32 False (- r + w) = Fin t n \<and> 0 \<le> fval t n \<and> fval t n \<le> w"
      by (rule fround_signed_between) (use assms r in simp_all)
    then show ?thesis unfolding rem_euclid_def rem Let_def using True s by (simp add: fval_def)
  next
    case False
    then have "s \<longrightarrow> r = 0" using r(1) by (auto simp: fzero_def fval_def)
    then show ?thesis unfolding rem_euclid_def rem Let_def using False r by (auto simp: fval_def)
  qed
qed

text \<open>
  Positions stay in their workspace: for bounds whose width is exact, such as the master
  workspace's, any position at a finite distance is mapped to a position between the bounds, in
  spite of the roundings of the subtraction, the remainder and the addition.
\<close>

lemma wrap_coord_in_bounds:
  assumes "lo = Fin sl l" and "hi = Fin sh h" and "repr F32 l" and "repr F32 h"
    and "fsub F32 hi lo = Fin False (fval sh h - fval sl l)" and "fval sl l < fval sh h"
    and "fsub F32 (Fin sx x) lo = Fin sd d"
  shows "\<exists>s m. wrap_coord lo hi (Fin sx x) = Fin s m \<and> fval sl l \<le> fval s m \<and> fval s m \<le> fval sh h"
proof -
  define w where "w = fval sh h - fval sl l"
  have w: "0 < w" "fsub F32 hi lo = Fin False w" using assms(5,6) by (simp_all add: w_def)
  have "\<exists>z. fround_signed F32 z w = Fin False w"
    using w(2) by (auto simp: assms(1,2) fsub_def w_def fval_def split: if_splits)
  then have "repr F32 w" by (auto dest: repr_abs_fround_signed)
  moreover have "0 \<le> d" using assms(7) by (auto simp: assms(1) fsub_def dest: fround_signed_nonneg)
  ultimately obtain t n where r: "rem_euclid F32 (Fin sd d) (Fin False w) = Fin t n" "0 \<le> fval t n" "fval t n \<le> w"
    using rem_euclid_bounds [of d w sd] w(1) by blast
  have "\<exists>s m. fround_signed F32 z (fval t n + fval sl l) = Fin s m \<and> fval sl l \<le> fval s m \<and> fval s m \<le> fval sh h" for z
    by (rule fround_signed_between) (use r w_def assms(3,4) repr_nonneg in \<open>auto simp: fval_def\<close>)
  moreover have "fgt (Fin False w) fzero" using w(1) by (simp add: fgt_def fzero_def fval_def)
  ultimately show ?thesis by (simp add: wrap_coord_def w(2) assms(7) r(1) Let_def) (simp add: assms(1))
qed

subsection \<open>Hits\<close>

text \<open>
  A hit takes 25 points: first from the priority pool, the rest from integrity, never below
  zero; the target is terminated exactly if points remain after the priority pool and they use
  up the integrity, and an untouched pool stays as it is.
\<close>

lemma beam_hit_damage:
  "\<exists>p' i' r'. apply_beam_hit (Some p) (Some i) r = (Some p', Some i', r', 
       unat (pool_current p) < 25 \<and> unat (pool_current p) + unat (pool_current i) \<le> 25) \<and>
     unat (pool_current p') = unat (pool_current p) - 25 \<and>
     unat (pool_current i') = unat (pool_current i) - (25 - unat (pool_current p)) \<and>
     pool_max p' = pool_max p \<and> pool_max i' = pool_max i \<and> r' = r"
proof (cases "25 \<le> pool_current p")
  case True
  then show ?thesis by (simp add: apply_beam_hit_def Let_def word_le_nat_alt unat_sub)
next
  case False
  then have p: "unat (pool_current p) < 25" by (simp add: word_le_nat_alt)
  define q where "q = 25 - pool_current p"
  have q: "unat q = 25 - unat (pool_current p)" using False by (simp add: q_def unat_sub)
  with p have pos: "0 < q" by (simp add: word_less_nat_alt)
  have "apply_beam_hit (Some p) (Some i) r =
    (Some (p\<lparr>pool_current := 0\<rparr>),
     Some (if q \<le> pool_current i then i\<lparr>pool_current := pool_current i - q\<rparr> else i\<lparr>pool_current := 0\<rparr>), r,
     pool_current (if q \<le> pool_current i then i\<lparr>pool_current := pool_current i - q\<rparr> else i\<lparr>pool_current := 0\<rparr>) = 0)"
    using False pos by (simp add: apply_beam_hit_def Let_def q_def)
  moreover have "q \<le> pool_current i \<longleftrightarrow> unat q \<le> unat (pool_current i)" by (rule word_le_nat_alt)
  ultimately show ?thesis using p q
    by (cases "q \<le> pool_current i") (auto simp: unat_sub unat_eq_0 [symmetric])
qed

end
