(* ===== verification/Tick.thy ===== *)
theory Tick
  imports Components Auth "HOL-Library.List_Lexorder" "HOL-Library.Char_ord"
begin

text \<open>
  \<^verbatim>\<open>crates/aetheris-server/src/tick.rs\<close>: the \<^verbatim>\<open>TickScheduler\<close> and the six stages of one tick.
  The trait objects the scheduler calls are records of functions: \<open>WorldState\<close> over a world state
  \<open>'w\<close>, \<open>AuthSessionVerifier\<close> over the state \<open>'a\<close> of the authentication service, \<open>protocol\<close> for
  the encoder, the reassembler (state \<open>'r\<close>) and the constants of the protocol crate. What a tick
  reads from outside (the polled events with the clock reading taken while each is handled, the
  worker buffers, the outcome of the file write) is a record \<open>tick_input\<close>; what it does outside is
  a list of \<open>action\<close>s. \<open>None\<close> is a panic. The client table is a hash map that the code iterates: an
  association list, iterated in an order the host chooses. Metrics and log output are dropped.
\<close>

subsection \<open>Interfaces\<close>

record 'w WorldState =
  vt_advance_tick :: "'w \<Rightarrow> 'w"
  vt_stress_test :: "u16 \<Rightarrow> bool \<Rightarrow> 'w \<Rightarrow> 'w option"
  vt_despawn_networked :: "NetworkId \<Rightarrow> 'w \<Rightarrow> 'w"
  vt_spawn_kind_for :: "u16 \<Rightarrow> f32 \<Rightarrow> f32 \<Rightarrow> f32 \<Rightarrow> ClientId \<Rightarrow> 'w \<Rightarrow> (NetworkId \<times> 'w) option"
  vt_spawn_session_agent :: "u16 \<Rightarrow> f32 \<Rightarrow> f32 \<Rightarrow> f32 \<Rightarrow> ClientId \<Rightarrow> 'w \<Rightarrow> (NetworkId \<times> 'w) option"
  vt_queue_reliable_event :: "ClientId option \<Rightarrow> PlatformEvent \<Rightarrow> 'w \<Rightarrow> 'w"
  vt_clear_world :: "'w \<Rightarrow> 'w"
  vt_apply_updates :: "(ClientId \<times> ComponentUpdate) list \<Rightarrow> 'w \<Rightarrow> 'w"
  vt_simulate :: "'w \<Rightarrow> 'w option"
  vt_extract_deltas :: "'w \<Rightarrow> ReplicationEvent list \<times> 'w"
  vt_state_hash :: "'w \<Rightarrow> u64"
  vt_extract_reliable_events :: "'w \<Rightarrow> (ClientId option \<times> WireEvent) list \<times> 'w"
  vt_post_extract :: "'w \<Rightarrow> 'w"
  vt_get_entity_workspace :: "'w \<Rightarrow> NetworkId \<Rightarrow> NetworkId option"
  vt_get_client_workspace :: "'w \<Rightarrow> ClientId \<Rightarrow> NetworkId option"

record 'a AuthSessionVerifier =
  vt_verify_session :: "string \<Rightarrow> u64 option \<Rightarrow> 'a \<Rightarrow> (AuthError + VerifiedSession) \<times> 'a"
  vt_is_session_authorized :: "string \<Rightarrow> u64 option \<Rightarrow> 'a \<Rightarrow> bool \<times> 'a"

record FragmentedEvent =
  message_id :: u32
  fragment_index :: u16
  total_fragments :: u16
  payload :: bytes

text \<open>The events of the protocol crate, with the fields the engine reads.\<close>

datatype NetworkEvent =
    Fragment ClientId FragmentedEvent
  | UnreliableMessage ClientId bytes
  | ReliableMessage ClientId bytes
  | ClientConnected ClientId
  | ClientDisconnected ClientId
  | Disconnected ClientId
  | SessionClosed ClientId
  | StreamReset ClientId
  | Ping ClientId u64
  | Pong u64
  | AuthEvent string
  | ClearWorld ClientId
  | StartSession ClientId
  | RequestWorkspaceManifest ClientId
  | PlatformNetworkEvent ClientId PlatformEvent
  | StressTest ClientId u16 bool
  | ReplicationBatch ClientId "ReplicationEvent list"
  | EntitySpawned ClientId
  | EntityDespawned ClientId NetworkId
  | Spawn ClientId u16 f32 f32 f32

datatype EncodeError = BufferOverflow | IoError string | OtherEncodeError nat

record 'r protocol =
  encode_event :: "NetworkEvent \<Rightarrow> EncodeError + bytes"
  encode_event_into :: "NetworkEvent \<Rightarrow> bytes \<Rightarrow> (EncodeError + nat) \<times> bytes"
  decode_event :: "bytes \<Rightarrow> NetworkEvent option"
  decode_update :: "bytes \<Rightarrow> ComponentUpdate option"
  max_encoded_size :: nat
  into_network_event :: "WireEvent \<Rightarrow> ClientId \<Rightarrow> NetworkEvent"
  ingest :: "ClientId \<Rightarrow> FragmentedEvent \<Rightarrow> 'r \<Rightarrow> bytes option \<times> 'r"
  prune :: "'r \<Rightarrow> 'r"
  new_reassembler :: 'r
  MAX_SAFE_PAYLOAD_SIZE :: nat
  MAX_FRAGMENT_PAYLOAD_SIZE :: nat
  PROTOCOL_VERSION :: string

record ('w, 'a, 'r) host =
  world_vt :: "'w WorldState"
  auth_vt :: "'a AuthSessionVerifier"
  proto :: "'r protocol"
  env_var :: "string \<rightharpoonup> string"
  parse_u64 :: "string \<Rightarrow> u64 option"
  pkg_version :: string
  clients_iter :: "ClientId list \<Rightarrow> ClientId list"
  batches_iter :: "ClientId list \<Rightarrow> ClientId list"

subsection \<open>The scheduler\<close>

datatype OutboundMessage =
    Unreliable ClientId bytes
  | Reliable ClientId bytes
  | BroadcastUnreliable bytes

datatype DeltaTargets = Broadcast | Recipients "ClientId list" | NoRecipients

type_synonym clients = "(ClientId \<times> VerifiedSession \<times> NetworkId option) list"

text \<open>\<open>outbound_tx\<close> tells whether the outbound channel is set.\<close>

record 'r TickScheduler =
  sched_tick_rate :: u64
  current_tick :: u64
  authenticated_clients :: clients
  auth_timestamps :: "ClientId \<rightharpoonup> instant"
  reassembler :: 'r
  next_message_id :: u32
  outbound_tx :: bool
  recording_ticks :: "u64 option"
  golden_hashes :: "u64 list"
  spawn_at_zero :: bool

definition new_scheduler :: "('w, 'a, 'r) host \<Rightarrow> u64 \<Rightarrow> 'r TickScheduler" where
  "new_scheduler H rate =
     \<lparr>sched_tick_rate = rate, current_tick = 0, authenticated_clients = [], auth_timestamps = Map.empty,
      reassembler = new_reassembler (proto H), next_message_id = 1, outbound_tx = False,
      recording_ticks = Option.bind (env_var H ''AETHERIS_RECORD_GOLDEN'') (parse_u64 H),
      golden_hashes = [],
      spawn_at_zero = (env_var H ''AETHERIS_RECORD_GOLDEN'' \<noteq> None)\<rparr>"

definition with_spawn_at_zero :: "bool \<Rightarrow> 'r TickScheduler \<Rightarrow> 'r TickScheduler" where
  "with_spawn_at_zero v s = s\<lparr>spawn_at_zero := v\<rparr>"

definition set_outbound_tx :: "'r TickScheduler \<Rightarrow> 'r TickScheduler" where
  "set_outbound_tx s = s\<lparr>outbound_tx := True\<rparr>"

text \<open>What a tick does to the transport, the outbound channel and the file system.\<close>

datatype action =
    SendReliable ClientId bytes
  | SendUnreliable ClientId bytes
  | Enqueue OutboundMessage
  | Disconnect ClientId
  | WriteGolden bytes

text \<open>The locals of \<^verbatim>\<open>tick_step\<close>: the scheduler, the world, the authentication service and the
  vectors the stages fill.\<close>

record ('w, 'a, 'r) tick_state =
  sched :: "'r TickScheduler"
  wld :: 'w
  auth :: 'a
  updates :: "(ClientId \<times> ComponentUpdate) list"
  pong_responses :: "(ClientId \<times> u64 \<times> instant) list"
  clear_ack_targets :: "ClientId list"
  to_disconnect :: "ClientId list"

record tick_input =
  polled :: "(instant \<times> NetworkEvent) list option"
  scratch :: "ClientId \<Rightarrow> bytes"
  write_ok :: bool

subsection \<open>Sessions and clients\<close>

abbreviation clients_of :: "('w, 'a, 'r) tick_state \<Rightarrow> clients" where
  "clients_of st \<equiv> authenticated_clients (sched st)"

text \<open>\<^verbatim>\<open>if let Some((_, Some(nid))) = authenticated_clients.remove(&id)\<close> with the despawn it guards,
  and the removal of the timestamp.\<close>

definition drop_client ::
  "('w, 'a, 'r) host \<Rightarrow> ClientId \<Rightarrow> ('w, 'a, 'r) tick_state \<Rightarrow> ('w, 'a, 'r) tick_state" where
  "drop_client H c st =
     st\<lparr>wld := (case map_of (clients_of st) c of
                  Some (_, Some nid) \<Rightarrow> vt_despawn_networked (world_vt H) nid (wld st)
                | _ \<Rightarrow> wld st),
        sched := (sched st)\<lparr>authenticated_clients := AList.delete c (clients_of st),
                            auth_timestamps := (auth_timestamps (sched st))(c := None)\<rparr>\<rparr>"

definition kick ::
  "('w, 'a, 'r) host \<Rightarrow> ClientId \<Rightarrow> ('w, 'a, 'r) tick_state \<Rightarrow> ('w, 'a, 'r) tick_state" where
  "kick H c st = (drop_client H c st)\<lparr>to_disconnect := to_disconnect st @ [c]\<rparr>"

text \<open>The periodic validation: ask the verifier about every client, then remove the refused ones.\<close>

definition revalidate ::
  "('w, 'a, 'r) host \<Rightarrow> u64 \<Rightarrow> clients \<Rightarrow> ClientId \<Rightarrow> 'a \<times> ClientId list \<Rightarrow> 'a \<times> ClientId list" where
  "revalidate H tick cs c s =
     (case (s, map_of cs c) of
        ((a, to_remove), Some (session, _)) \<Rightarrow>
          (case vt_is_session_authorized (auth_vt H) (vs_jti session) (Some tick) a of
             (ok, a') \<Rightarrow> (a', if ok then to_remove else to_remove @ [c]))
      | ((a, to_remove), None) \<Rightarrow> (a, to_remove))"

definition validate_sessions ::
  "('w, 'a, 'r) host \<Rightarrow> u64 \<Rightarrow> ('w, 'a, 'r) tick_state \<Rightarrow> ('w, 'a, 'r) tick_state" where
  "validate_sessions H tick st =
     (if tick mod 60 = 0
      then case fold (revalidate H tick (clients_of st)) (clients_iter H (map fst (clients_of st)))
                  (auth st, []) of
             (a, to_remove) \<Rightarrow> fold (kick H) to_remove (st\<lparr>auth := a\<rparr>)
      else st)"

text \<open>Stage 2.1: an event is either dealt with here or yields a message of a client.\<close>

definition reassemble ::
  "('w, 'a, 'r) host \<Rightarrow> ClientId \<Rightarrow> FragmentedEvent \<Rightarrow> ('w, 'a, 'r) tick_state \<Rightarrow>
     (ClientId \<times> bytes) option \<times> ('w, 'a, 'r) tick_state" where
  "reassemble H c fragment st =
     (case ingest (proto H) c fragment (reassembler (sched st)) of
        (r, ra) \<Rightarrow> (map_option (Pair c) r, st\<lparr>sched := (sched st)\<lparr>reassembler := ra\<rparr>\<rparr>))"

definition receive_message ::
  "('w, 'a, 'r) host \<Rightarrow> ClientId \<Rightarrow> bytes \<Rightarrow> ('w, 'a, 'r) tick_state \<Rightarrow>
     (ClientId \<times> bytes) option \<times> ('w, 'a, 'r) tick_state" where
  "receive_message H c data st =
     (case decode_event (proto H) data of
        Some (Fragment _ fragment) \<Rightarrow> reassemble H c fragment st
      | _ \<Rightarrow> (Some (c, data), st))"

definition push_pong ::
  "ClientId \<Rightarrow> u64 \<Rightarrow> instant \<Rightarrow> ('w, 'a, 'r) tick_state \<Rightarrow> ('w, 'a, 'r) tick_state" where
  "push_pong c tick now st = st\<lparr>pong_responses := pong_responses st @ [(c, tick, now)]\<rparr>"

definition normalize ::
  "('w, 'a, 'r) host \<Rightarrow> instant \<Rightarrow> NetworkEvent \<Rightarrow> ('w, 'a, 'r) tick_state \<Rightarrow>
     (ClientId \<times> bytes) option \<times> ('w, 'a, 'r) tick_state" where
  "normalize H now event st =
     (case event of
        Fragment c fragment \<Rightarrow> reassemble H c fragment st
      | UnreliableMessage c data \<Rightarrow> receive_message H c data st
      | ReliableMessage c data \<Rightarrow> receive_message H c data st
      | ClientDisconnected c \<Rightarrow> (None, drop_client H c st)
      | Disconnected c \<Rightarrow> (None, drop_client H c st)
      | SessionClosed c \<Rightarrow> (None, drop_client H c st)
      | StreamReset c \<Rightarrow> (None, drop_client H c st)
      | Ping c tick \<Rightarrow>
          (None, if map_of (clients_of st) c = None then st else push_pong c tick now st)
      | _ \<Rightarrow> (None, st))"

text \<open>Stage 2.2 for a client without a session: only a valid \<^verbatim>\<open>Auth\<close> message has an effect. Other
  clients of the same player are removed and disconnected.\<close>

definition ghosts :: "('w, 'a, 'r) host \<Rightarrow> clients \<Rightarrow> ClientId \<Rightarrow> VerifiedSession \<Rightarrow> ClientId list" where
  "ghosts H cs c session =
     filter (\<lambda>id. (case map_of cs id of
                     Some (s, _) \<Rightarrow> vs_player_id s = vs_player_id session | None \<Rightarrow> False) \<and> id \<noteq> c)
       (clients_iter H (map fst cs))"

definition admit ::
  "('w, 'a, 'r) host \<Rightarrow> instant \<Rightarrow> ClientId \<Rightarrow> VerifiedSession \<Rightarrow> ('w, 'a, 'r) tick_state \<Rightarrow>
     ('w, 'a, 'r) tick_state" where
  "admit H now c session st =
     (let st = fold (kick H) (ghosts H (clients_of st) c session) st
      in st\<lparr>sched := (sched st)\<lparr>authenticated_clients := AList.update c (session, None) (clients_of st),
                                auth_timestamps := (auth_timestamps (sched st))(c \<mapsto> now)\<rparr>\<rparr>)"

definition authenticate ::
  "('w, 'a, 'r) host \<Rightarrow> u64 \<Rightarrow> instant \<Rightarrow> ClientId \<Rightarrow> bytes \<Rightarrow> ('w, 'a, 'r) tick_state \<Rightarrow>
     ('w, 'a, 'r) tick_state" where
  "authenticate H tick now c data st =
     (case decode_event (proto H) data of
        Some (AuthEvent session_token) \<Rightarrow>
          (case vt_verify_session (auth_vt H) session_token (Some tick) (auth st) of
             (Inr session, a) \<Rightarrow> admit H now c session (st\<lparr>auth := a\<rparr>)
           | (Inl e, a) \<Rightarrow> st\<lparr>auth := a\<rparr>)
      | _ \<Rightarrow> st)"

subsection \<open>Commands of authenticated clients\<close>

definition can_run_playground_command :: "('w, 'a, 'r) host \<Rightarrow> string \<Rightarrow> bool" where
  "can_run_playground_command H jti \<longleftrightarrow>
     jti = ''admin'' \<or> env_var H ''AETHERIS_ENV'' = Some ''dev''"

definition get_filtered_manifest ::
  "('w, 'a, 'r) host \<Rightarrow> 'r TickScheduler \<Rightarrow> string \<Rightarrow> (string \<times> string) list" where
  "get_filtered_manifest H s jti =
     (let manifest = btree_insert ''version_protocol'' (PROTOCOL_VERSION (proto H))
                       (btree_insert ''version_server'' (pkg_version H) [])
      in if can_run_playground_command H jti
         then btree_insert ''clients_active'' (show_nat (length (authenticated_clients s)))
                (btree_insert ''tick_rate'' (show_nat (unat (sched_tick_rate s))) manifest)
         else manifest)"

definition MAX_STRESS :: u16 where "MAX_STRESS = 1000"

definition run_stress_test ::
  "('w, 'a, 'r) host \<Rightarrow> string \<Rightarrow> u16 \<Rightarrow> bool \<Rightarrow> ('w, 'a, 'r) tick_state \<Rightarrow>
     ('w, 'a, 'r) tick_state option" where
  "run_stress_test H jti cnt do_rot st =
     (if can_run_playground_command H jti
      then do { w \<leftarrow> vt_stress_test (world_vt H) (min cnt MAX_STRESS) do_rot (wld st);
                Some (st\<lparr>wld := w\<rparr>) }
      else Some st)"

definition run_spawn ::
  "('w, 'a, 'r) host \<Rightarrow> ClientId \<Rightarrow> string \<Rightarrow> u16 \<Rightarrow> f32 \<Rightarrow> f32 \<Rightarrow> f32 \<Rightarrow> ('w, 'a, 'r) tick_state \<Rightarrow>
     ('w, 'a, 'r) tick_state option" where
  "run_spawn H c jti entity_type x y rot st =
     (if can_run_playground_command H jti
      then do { (_, w) \<leftarrow> vt_spawn_kind_for (world_vt H) entity_type x y rot c (wld st);
                Some (st\<lparr>wld := w\<rparr>) }
      else Some st)"

definition set_agent :: "ClientId \<Rightarrow> NetworkId option \<Rightarrow> ('w, 'a, 'r) tick_state \<Rightarrow> ('w, 'a, 'r) tick_state" where
  "set_agent c agent st =
     (case map_of (clients_of st) c of
        Some (session, _) \<Rightarrow>
          st\<lparr>sched := (sched st)\<lparr>authenticated_clients := AList.update c (session, agent) (clients_of st)\<rparr>\<rparr>
      | None \<Rightarrow> st)"

definition start_session ::
  "('w, 'a, 'r) host \<Rightarrow> ClientId \<Rightarrow> ('w, 'a, 'r) tick_state \<Rightarrow> ('w, 'a, 'r) tick_state option" where
  "start_session H c st =
     (case map_of (clients_of st) c of
        None \<Rightarrow> Some st
      | Some (_, agent_id) \<Rightarrow>
          do { (network_id, st) \<leftarrow>
                 (case agent_id of
                    Some nid \<Rightarrow> Some (nid, st)
                  | None \<Rightarrow>
                      do { (nid, w) \<leftarrow> vt_spawn_session_agent (world_vt H) 1 fzero fzero fzero c (wld st);
                           Some (nid, set_agent c (Some nid) (st\<lparr>wld := w\<rparr>)) });
               Some (st\<lparr>wld := vt_queue_reliable_event (world_vt H) (Some c) (Possession network_id) (wld st),
                        sched := (sched st)\<lparr>auth_timestamps := (auth_timestamps (sched st))(c := None)\<rparr>\<rparr>) })"

definition run_clear_world ::
  "('w, 'a, 'r) host \<Rightarrow> ClientId \<Rightarrow> string \<Rightarrow> ('w, 'a, 'r) tick_state \<Rightarrow> ('w, 'a, 'r) tick_state" where
  "run_clear_world H c jti st =
     (if can_run_playground_command H jti
      then let st = set_agent c None (st\<lparr>wld := vt_clear_world (world_vt H) (wld st)\<rparr>)
           in st\<lparr>clear_ack_targets := clear_ack_targets st @ [c]\<rparr>
      else st)"

definition request_manifest ::
  "('w, 'a, 'r) host \<Rightarrow> ClientId \<Rightarrow> ('w, 'a, 'r) tick_state \<Rightarrow> ('w, 'a, 'r) tick_state" where
  "request_manifest H c st =
     (let jti = (case map_of (clients_of st) c of Some (session, _) \<Rightarrow> vs_jti session | None \<Rightarrow> '''')
      in st\<lparr>wld := vt_queue_reliable_event (world_vt H) (Some c)
                     (WorkspaceManifest (get_filtered_manifest H (sched st) jti)) (wld st)\<rparr>)"

definition update_of :: "ReplicationEvent \<Rightarrow> ComponentUpdate" where
  "update_of e = \<lparr>cu_network_id = re_network_id e, cu_component_kind = re_component_kind e,
                  cu_payload = re_payload e, cu_tick = re_tick e\<rparr>"

definition push_updates ::
  "ClientId \<Rightarrow> ComponentUpdate list \<Rightarrow> ('w, 'a, 'r) tick_state \<Rightarrow> ('w, 'a, 'r) tick_state" where
  "push_updates c us st = st\<lparr>updates := updates st @ map (Pair c) us\<rparr>"

definition protocol_event ::
  "('w, 'a, 'r) host \<Rightarrow> instant \<Rightarrow> ClientId \<Rightarrow> string \<Rightarrow> NetworkEvent \<Rightarrow> ('w, 'a, 'r) tick_state \<Rightarrow>
     ('w, 'a, 'r) tick_state option" where
  "protocol_event H now c jti event st =
     (case event of
        Ping _ p_tick \<Rightarrow> Some (push_pong c p_tick now st)
      | StressTest _ cnt do_rot \<Rightarrow> run_stress_test H jti cnt do_rot st
      | Spawn _ entity_type x y rot \<Rightarrow> run_spawn H c jti entity_type x y rot st
      | StartSession _ \<Rightarrow> start_session H c st
      | ClearWorld _ \<Rightarrow> Some (run_clear_world H c jti st)
      | RequestWorkspaceManifest _ \<Rightarrow> Some (request_manifest H c st)
      | ReplicationBatch _ events \<Rightarrow> Some (push_updates c (map update_of events) st)
      | _ \<Rightarrow> Some st)"

text \<open>Stage 2.2 for a message: the session is checked again, then the message is a protocol event,
  a component update or dropped.\<close>

definition dispatch ::
  "('w, 'a, 'r) host \<Rightarrow> instant \<Rightarrow> ClientId \<Rightarrow> string \<Rightarrow> bytes \<Rightarrow> ('w, 'a, 'r) tick_state \<Rightarrow>
     ('w, 'a, 'r) tick_state option" where
  "dispatch H now c jti data st =
     (case decode_event (proto H) data of
        Some event \<Rightarrow> protocol_event H now c jti event st
      | None \<Rightarrow>
          (case decode_update (proto H) data of
             Some update \<Rightarrow> Some (push_updates c [update] st)
           | None \<Rightarrow> Some st))"

definition handle_message ::
  "('w, 'a, 'r) host \<Rightarrow> u64 \<Rightarrow> instant \<Rightarrow> ClientId \<Rightarrow> bytes \<Rightarrow> ('w, 'a, 'r) tick_state \<Rightarrow>
     ('w, 'a, 'r) tick_state option" where
  "handle_message H tick now c data st =
     (case map_of (clients_of st) c of
        None \<Rightarrow> Some (authenticate H tick now c data st)
      | Some (session, _) \<Rightarrow>
          (case vt_is_session_authorized (auth_vt H) (vs_jti session) (Some tick) (auth st) of
             (False, a) \<Rightarrow> Some (drop_client H c (st\<lparr>auth := a\<rparr>))
           | (True, a) \<Rightarrow> dispatch H now c (vs_jti session) data (st\<lparr>auth := a\<rparr>)))"

definition handle_event ::
  "('w, 'a, 'r) host \<Rightarrow> u64 \<Rightarrow> instant \<times> NetworkEvent \<Rightarrow> ('w, 'a, 'r) tick_state \<Rightarrow>
     ('w, 'a, 'r) tick_state option" where
  "handle_event H tick x st =
     (case x of (now, event) \<Rightarrow>
        (case normalize H now event st of
           (None, st) \<Rightarrow> Some st
         | (Some (c, data), st) \<Rightarrow> handle_message H tick now c data st))"

definition apply_stage ::
  "('w, 'a, 'r) host \<Rightarrow> u64 \<Rightarrow> (instant \<times> NetworkEvent) list \<Rightarrow> ('w, 'a, 'r) tick_state \<Rightarrow>
     ('w, 'a, 'r) tick_state option" where
  "apply_stage H tick events st =
     (if events = [] then Some st
      else do { st \<leftarrow> foldM (handle_event H tick) events st;
                Some (st\<lparr>wld := vt_apply_updates (world_vt H) (updates st) (wld st),
                         sched := (sched st)\<lparr>reassembler := prune (proto H) (reassembler (sched st))\<rparr>\<rparr>) })"

subsection \<open>Replies and extraction\<close>

definition ack_actions :: "('w, 'a, 'r) host \<Rightarrow> ClientId list \<Rightarrow> action list" where
  "ack_actions H targets =
     List.map_filter (\<lambda>c. case encode_event (proto H) (ClearWorld c) of
                            Inr data \<Rightarrow> Some (SendReliable c data) | Inl _ \<Rightarrow> None) targets"

definition pong_actions :: "('w, 'a, 'r) host \<Rightarrow> (ClientId \<times> u64 \<times> instant) list \<Rightarrow> action list" where
  "pong_actions H pongs =
     List.map_filter (\<lambda>(c, p_tick, received_at).
        case encode_event (proto H) (Pong p_tick) of
          Inr data \<Rightarrow> Some (SendUnreliable c data) | Inl _ \<Rightarrow> None) pongs"

definition to_le_bytes :: "u64 \<Rightarrow> bytes" where
  "to_le_bytes h = map (\<lambda>i. ucast (drop_bit (8 * i) h)) [0..<8]"

text \<open>The golden recording: the hash of the tick is kept, the last one writes the file and, when
  the write succeeds, ends the process (the first component of the result).\<close>

definition record_golden ::
  "('w, 'a, 'r) host \<Rightarrow> u64 \<Rightarrow> bool \<Rightarrow> 'w \<Rightarrow> 'r TickScheduler \<Rightarrow> bool \<times> action list \<times> 'r TickScheduler" where
  "record_golden H tick ok w s =
     (case recording_ticks s of
        Some limit \<Rightarrow>
          if tick < limit
          then let s = s\<lparr>golden_hashes := golden_hashes s @ [vt_state_hash (world_vt H) w]\<rparr>
               in if tick + 1 = limit
                  then (ok, [WriteGolden (concat (map to_le_bytes (golden_hashes s)))], s)
                  else (False, [], s)
          else (False, [], s)
      | None \<Rightarrow> (False, [], s))"

subsection \<open>Sending\<close>

definition reliable_targets :: "('w, 'a, 'r) host \<Rightarrow> clients \<Rightarrow> ClientId option \<Rightarrow> ClientId list" where
  "reliable_targets H cs target =
     (case target of Some c \<Rightarrow> [c] | None \<Rightarrow> clients_iter H (map fst cs))"

definition send_reliable_events ::
  "('w, 'a, 'r) host \<Rightarrow> 'r TickScheduler \<Rightarrow> (ClientId option \<times> WireEvent) list \<Rightarrow> action list" where
  "send_reliable_events H s events =
     concat (map (\<lambda>(target, wire_event).
       List.map_filter (\<lambda>c.
         case encode_event (proto H) (into_network_event (proto H) wire_event c) of
           Inr data \<Rightarrow> if outbound_tx s then Some (Enqueue (Reliable c data)) else None
         | Inl _ \<Rightarrow> None) (reliable_targets H (authenticated_clients s) target)) events)"

definition get_delta_targets ::
  "('w, 'a, 'r) host \<Rightarrow> 'w \<Rightarrow> clients \<Rightarrow> NetworkId \<Rightarrow> DeltaTargets" where
  "get_delta_targets H w cs entity_id =
     (case vt_get_entity_workspace (world_vt H) w entity_id of
        Some workspace_id \<Rightarrow>
          (let recipients = filter (\<lambda>c. vt_get_client_workspace (world_vt H) w c = Some workspace_id)
                              (clients_iter H (map fst cs))
           in if recipients = [] then NoRecipients else Recipients recipients)
      | None \<Rightarrow> Broadcast)"

text \<open>\<^verbatim>\<open>client_batches.entry(c).or_default().push(delta)\<close>.\<close>

type_synonym batches = "(ClientId \<times> ReplicationEvent list) list"

definition push_delta :: "ReplicationEvent \<Rightarrow> ClientId \<Rightarrow> batches \<Rightarrow> batches" where
  "push_delta delta c bs =
     AList.update c ((case map_of bs c of Some ds \<Rightarrow> ds | None \<Rightarrow> []) @ [delta]) bs"

definition batch_delta ::
  "('w, 'a, 'r) host \<Rightarrow> 'w \<Rightarrow> clients \<Rightarrow> ReplicationEvent \<Rightarrow> batches \<Rightarrow> batches" where
  "batch_delta H w cs delta bs =
     (case get_delta_targets H w cs (re_network_id delta) of
        Broadcast \<Rightarrow> fold (push_delta delta) (clients_iter H (map fst cs)) bs
      | Recipients recipients \<Rightarrow> fold (push_delta delta) recipients bs
      | NoRecipients \<Rightarrow> bs)"

definition client_batches ::
  "('w, 'a, 'r) host \<Rightarrow> 'w \<Rightarrow> clients \<Rightarrow> ReplicationEvent list \<Rightarrow> batches" where
  "client_batches H w cs deltas = fold (batch_delta H w cs) deltas []"

text \<open>One batch is encoded into the buffer of a worker thread, which still holds whatever its last
  use left there; \<^verbatim>\<open>b[..size]\<close> panics when the size exceeds the buffer.\<close>

definition encode_batch ::
  "('w, 'a, 'r) host \<Rightarrow> bytes \<Rightarrow> ClientId \<Rightarrow> ReplicationEvent list \<Rightarrow> (EncodeError + bytes) option" where
  "encode_batch H buf c events =
     (let batch_event = ReplicationBatch c events;
          b = (if length buf < max_encoded_size (proto H)
               then buf @ replicate (max_encoded_size (proto H) - length buf) 0 else buf)
      in case encode_event_into (proto H) batch_event b of
           (Inr n, b') \<Rightarrow> if n \<le> length b' then Some (Inr (take n b')) else None
         | (Inl BufferOverflow, b') \<Rightarrow> Some (encode_event (proto H) batch_event)
         | (Inl e, b') \<Rightarrow> Some (Inl e))"

text \<open>\<^verbatim>\<open>slice::chunks\<close>, which panics on a chunk size of zero.\<close>

function chunks :: "nat \<Rightarrow> 'b list \<Rightarrow> 'b list list" where
  "chunks n xs = (if xs = [] \<or> n = 0 then [] else take n xs # chunks n (drop n xs))"
  by pat_completeness auto
termination
  by (relation "measure (\<lambda>(n, xs). length xs)") auto

declare chunks.simps [simp del]

definition send_fragment :: "DeltaTargets \<Rightarrow> bytes \<Rightarrow> action list" where
  "send_fragment targets data =
     (case targets of
        Broadcast \<Rightarrow> [Enqueue (BroadcastUnreliable data)]
      | Recipients recipients \<Rightarrow> map (\<lambda>c. Enqueue (Unreliable c data)) recipients
      | NoRecipients \<Rightarrow> [])"

fun send_chunks ::
  "('w, 'a, 'r) host \<Rightarrow> DeltaTargets \<Rightarrow> u32 \<Rightarrow> u16 \<Rightarrow> nat \<Rightarrow> bytes list \<Rightarrow> action list" where
  "send_chunks H targets msg_id n_frags i [] = []"
| "send_chunks H targets msg_id n_frags i (chunk # rest) =
     (if i \<le> 65535
      then (case encode_event (proto H)
                   (Fragment 0 \<lparr>message_id = msg_id, fragment_index = of_nat i, total_fragments = n_frags,
                                payload = chunk\<rparr>) of
              Inr data \<Rightarrow> send_fragment targets data
            | Inl _ \<Rightarrow> []) @ send_chunks H targets msg_id n_frags (i + 1) rest
      else [])"

text \<open>The result is the number of messages sent, the messages and the scheduler.\<close>

definition fragment_and_send ::
  "('w, 'a, 'r) host \<Rightarrow> bytes \<Rightarrow> nat \<Rightarrow> DeltaTargets \<Rightarrow> 'r TickScheduler \<Rightarrow>
     ((EncodeError + u64) \<times> action list \<times> 'r TickScheduler) option" where
  "fragment_and_send H data len targets s =
     (if \<not> outbound_tx s then Some (Inr 0, [], s)
      else if length data < len \<or> MAX_FRAGMENT_PAYLOAD_SIZE (proto H) = 0 then None
      else let msg_id = next_message_id s;
               s = s\<lparr>next_message_id := msg_id + 1\<rparr>;
               cs = chunks (MAX_FRAGMENT_PAYLOAD_SIZE (proto H)) (take len data)
           in if length cs \<le> 65535
              then let sent = send_chunks H targets msg_id (of_nat (length cs)) 0 cs
                   in Some (Inr (of_nat (length sent)), sent, s)
              else Some (Inl (IoError ''Too many fragments''), [], s))"

definition send_batch ::
  "('w, 'a, 'r) host \<Rightarrow> ClientId \<times> (EncodeError + bytes) \<Rightarrow> action list \<times> 'r TickScheduler \<Rightarrow>
     (action list \<times> 'r TickScheduler) option" where
  "send_batch H x st =
     (case (x, st) of
        ((c, Inl e), _) \<Rightarrow> Some st
      | ((c, Inr data), (acts, s)) \<Rightarrow>
          if length data > MAX_SAFE_PAYLOAD_SIZE (proto H)
          then do { (_, sent, s) \<leftarrow> fragment_and_send H data (length data) (Recipients [c]) s;
                    Some (acts @ sent, s) }
          else if outbound_tx s then Some (acts @ [Enqueue (Unreliable c data)], s)
          else Some (acts, s))"

fun collect_options :: "('b \<Rightarrow> 'c option) \<Rightarrow> 'b list \<Rightarrow> 'c list option" where
  "collect_options f [] = Some []"
| "collect_options f (x # xs) = do { y \<leftarrow> f x; ys \<leftarrow> collect_options f xs; Some (y # ys) }"

definition send_deltas ::
  "('w, 'a, 'r) host \<Rightarrow> tick_input \<Rightarrow> 'w \<Rightarrow> ReplicationEvent list \<Rightarrow> 'r TickScheduler \<Rightarrow>
     (action list \<times> 'r TickScheduler) option" where
  "send_deltas H inp w deltas s =
     (if deltas = [] then Some ([], s)
      else let bs = client_batches H w (authenticated_clients s) deltas;
               order = batches_iter H (map fst bs)
           in do { encoded \<leftarrow> collect_options (\<lambda>c.
                     case map_of bs c of
                       Some events \<Rightarrow> map_option (Pair c) (encode_batch H (scratch inp c) c events)
                     | None \<Rightarrow> None) order;
                   foldM (send_batch H) encoded ([], s) })"

subsection \<open>The tick\<close>

text \<open>The state after a tick, whether the process ended, and the actions in order.\<close>

record ('w, 'a, 'r) server =
  srv_sched :: "'r TickScheduler"
  srv_world :: 'w
  srv_auth :: 'a

definition tick_locals :: "('w, 'a, 'r) server \<Rightarrow> ('w, 'a, 'r) tick_state" where
  "tick_locals sv =
     \<lparr>sched = srv_sched sv, wld = srv_world sv, auth = srv_auth sv, updates = [], pong_responses = [],
      clear_ack_targets = [], to_disconnect = []\<rparr>"

definition server_of :: "('w, 'a, 'r) tick_state \<Rightarrow> ('w, 'a, 'r) server" where
  "server_of st = \<lparr>srv_sched = sched st, srv_world = wld st, srv_auth = auth st\<rparr>"

text \<open>The pre-stage: the counter, the change tick of the world, the entities of a recording.\<close>

definition begin_tick ::
  "('w, 'a, 'r) host \<Rightarrow> ('w, 'a, 'r) server \<Rightarrow> ('w, 'a, 'r) tick_state option" where
  "begin_tick H sv =
     (let tick = current_tick (srv_sched sv);
          w = vt_advance_tick (world_vt H) (srv_world sv);
          st = (tick_locals sv)\<lparr>sched := (srv_sched sv)\<lparr>current_tick := tick + 1\<rparr>, wld := w\<rparr>
      in if tick = 0 \<and> spawn_at_zero (srv_sched sv)
         then do { w \<leftarrow> vt_stress_test (world_vt H) 100 True w; Some (st\<lparr>wld := w\<rparr>) }
         else Some st)"

text \<open>Stages 3 to 5, with the actions they add; the first component tells that the process ended.\<close>

definition finish_tick ::
  "('w, 'a, 'r) host \<Rightarrow> tick_input \<Rightarrow> u64 \<Rightarrow> ('w, 'a, 'r) tick_state \<Rightarrow>
     (bool \<times> action list \<times> ('w, 'a, 'r) tick_state) option" where
  "finish_tick H inp tick st =
     do { w \<leftarrow> vt_simulate (world_vt H) (wld st);
          let (deltas, w) = vt_extract_deltas (world_vt H) w;
          let (ended, golden, s) = record_golden H tick (write_ok inp) w (sched st);
          if ended then Some (True, golden, st\<lparr>wld := w, sched := s\<rparr>)
          else do {
            let (events, w) = vt_extract_reliable_events (world_vt H) w;
            let w = vt_post_extract (world_vt H) w;
            (sent, s') \<leftarrow> send_deltas H inp w deltas s;
            Some (False, golden @ send_reliable_events H s events @ sent, st\<lparr>wld := w, sched := s'\<rparr>) } }"

definition tick_step ::
  "('w, 'a, 'r) host \<Rightarrow> tick_input \<Rightarrow> ('w, 'a, 'r) server \<Rightarrow>
     (bool \<times> action list \<times> ('w, 'a, 'r) server) option" where
  "tick_step H inp sv =
     (let tick = current_tick (srv_sched sv)
      in do { st \<leftarrow> begin_tick H sv;
              case polled inp of
                None \<Rightarrow> Some (False, [], server_of st)
              | Some events \<Rightarrow>
                  do { st \<leftarrow> apply_stage H tick events (validate_sessions H tick st);
                       (ended, sent, st') \<leftarrow> finish_tick H inp tick st;
                       let replies = ack_actions H (clear_ack_targets st) @ pong_actions H (pong_responses st);
                       Some (ended, replies @ sent @ (if ended then [] else map Disconnect (to_disconnect st)),
                             server_of st') } })"

text \<open>\<^verbatim>\<open>run\<close>: the channel is set and ticks follow one another until the process ends.\<close>

fun run_ticks ::
  "('w, 'a, 'r) host \<Rightarrow> tick_input list \<Rightarrow> ('w, 'a, 'r) server \<Rightarrow>
     (action list \<times> ('w, 'a, 'r) server) option" where
  "run_ticks H [] sv = Some ([], sv)"
| "run_ticks H (inp # inps) sv =
     do { (ended, acts, sv) \<leftarrow> tick_step H inp sv;
          if ended then Some (acts, sv)
          else do { (acts', sv) \<leftarrow> run_ticks H inps sv; Some (acts @ acts', sv) } }"

definition run_scheduler ::
  "('w, 'a, 'r) host \<Rightarrow> tick_input list \<Rightarrow> ('w, 'a, 'r) server \<Rightarrow>
     (action list \<times> ('w, 'a, 'r) server) option" where
  "run_scheduler H inps sv = run_ticks H inps (sv\<lparr>srv_sched := set_outbound_tx (srv_sched sv)\<rparr>)"

end
