(* ===== verification/Tick_Inv.thy ===== *)
theory Tick_Inv
  imports Tick
begin

text \<open>
  The event loop of a tick as a sequence of permitted effects, and what holds of every tick: the
  inductive relation \<open>effect\<close> lists what one polled event can do, \<open>handle_event_effects\<close> shows that
  the code does nothing else, and the invariants of the later theories are proved effect by effect.
  The locale \<open>tick_invariant\<close> turns an invariant of the effects into one of \<open>tick_step\<close>.
\<close>

subsection \<open>Effects\<close>

definition authorized_as ::
  "('w, 'a, 'r) host \<Rightarrow> u64 \<Rightarrow> ClientId \<Rightarrow> VerifiedSession \<Rightarrow> ('w, 'a, 'r) tick_state \<Rightarrow> bool \<times> 'a \<Rightarrow> bool" where
  "authorized_as H tick c session st r \<longleftrightarrow>
     (\<exists>agent. map_of (clients_of st) c = Some (session, agent)) \<and>
     vt_is_session_authorized (auth_vt H) (vs_jti session) (Some tick) (auth st) = r"

inductive effect ::
  "('w, 'a, 'r) host \<Rightarrow> u64 \<Rightarrow> ('w, 'a, 'r) tick_state \<Rightarrow> ('w, 'a, 'r) tick_state \<Rightarrow> bool" for H tick where
  fragment: "effect H tick st (st\<lparr>sched := (sched st)\<lparr>reassembler := r\<rparr>\<rparr>)"
| leave: "effect H tick st (drop_client H c st)"
| ping: "map_of (clients_of st) c \<noteq> None \<Longrightarrow> effect H tick st (push_pong c t now st)"
| reject: "vt_verify_session (auth_vt H) tok (Some tick) (auth st) = (Inl e, a) \<Longrightarrow>
            effect H tick st (st\<lparr>auth := a\<rparr>)"
| join: "map_of (clients_of st) c = None \<Longrightarrow>
          vt_verify_session (auth_vt H) tok (Some tick) (auth st) = (Inr session, a) \<Longrightarrow>
          effect H tick st (admit H now c session (st\<lparr>auth := a\<rparr>))"
| revoke: "authorized_as H tick c session st (False, a) \<Longrightarrow>
            effect H tick st (drop_client H c (st\<lparr>auth := a\<rparr>))"
| command: "authorized_as H tick c session st (True, a) \<Longrightarrow>
             dispatch H now c (vs_jti session) data (st\<lparr>auth := a\<rparr>) = Some st' \<Longrightarrow> effect H tick st st'"

text \<open>What an authorised message can be.\<close>

lemma dispatch_cases:
  assumes "dispatch H now c jti data st = Some st'"
  obtains (idle) "st' = st" | (pong) t where "st' = push_pong c t now st"
  | (update) us where "st' = push_updates c us st"
  | (stress) n r where "run_stress_test H jti n r st = Some st'"
  | (spawn) k x y r where "run_spawn H c jti k x y r st = Some st'"
  | (start) "start_session H c st = Some st'"
  | (clear) "st' = run_clear_world H c jti st"
  | (manifest) "st' = request_manifest H c st"
proof (cases "decode_event (proto H) data")
  case None
  with assms have "st' = st \<or> (\<exists>us. st' = push_updates c us st)"
    by (auto simp: dispatch_def split: option.splits)
  then show ?thesis using idle update by blast
next
  case (Some ev)
  with assms have "protocol_event H now c jti ev st = Some st'" by (simp add: dispatch_def)
  then consider "st' = st" | t where "st' = push_pong c t now st" | us where "st' = push_updates c us st"
    | n r where "run_stress_test H jti n r st = Some st'"
    | k x y r where "run_spawn H c jti k x y r st = Some st'"
    | "start_session H c st = Some st'" | "st' = run_clear_world H c jti st"
    | "st' = request_manifest H c st"
    by (cases ev) (simp_all add: protocol_event_def, blast+)
  then show ?thesis using idle pong update stress spawn start clear manifest by cases blast+
qed

lemma receive_effect:
  assumes "reassemble H c f st = (r, st') \<or> receive_message H c data st = (r, st')"
  shows "(effect H tick)\<^sup>*\<^sup>* st st'"
proof -
  have "reassemble H c f st = (r, st') \<Longrightarrow> (effect H tick)\<^sup>*\<^sup>* st st'" for f
    by (auto simp: reassemble_def intro: effect.fragment split: prod.splits)
  with assms show ?thesis by (auto simp: receive_message_def split: option.splits NetworkEvent.splits)
qed

lemma normalize_effect: "normalize H now ev st = (r, st') \<Longrightarrow> (effect H tick)\<^sup>*\<^sup>* st st'"
  by (cases ev)
    (auto simp: normalize_def intro: receive_effect effect.leave effect.ping split: if_splits)

lemma handle_message_effect:
  assumes "handle_message H tick now c data st = Some st'"
  shows "(effect H tick)\<^sup>*\<^sup>* st st'"
proof (cases "map_of (clients_of st) c")
  case None
  have "effect H tick st st' \<or> st' = st"
    using assms None
    by (auto simp: handle_message_def authenticate_def intro: effect.join effect.reject
        split: option.splits NetworkEvent.splits prod.splits sum.splits)
  then show ?thesis by auto
next
  case (Some x)
  obtain session agent where x: "x = (session, agent)" by (cases x)
  obtain ok a where ok: "vt_is_session_authorized (auth_vt H) (vs_jti session) (Some tick) (auth st) = (ok, a)"
    by (cases "vt_is_session_authorized (auth_vt H) (vs_jti session) (Some tick) (auth st)")
  then have r: "authorized_as H tick c session st (ok, a)" by (simp add: authorized_as_def Some x)
  have "effect H tick st st'"
  proof (cases ok)
    case True
    with assms Some ok r effect.command show ?thesis by (simp add: handle_message_def x)
  next
    case False
    with assms Some ok r effect.revoke show ?thesis by (fastforce simp: handle_message_def x)
  qed
  then show ?thesis by simp
qed

lemma handle_event_effects:
  assumes "handle_event H tick x st = Some st'"
  shows "(effect H tick)\<^sup>*\<^sup>* st st'"
proof -
  obtain now ev r st1 where x: "x = (now, ev)" and n: "normalize H now ev st = (r, st1)"
    by (metis surj_pair)
  from n have "(effect H tick)\<^sup>*\<^sup>* st st1" by (rule normalize_effect)
  moreover have "(effect H tick)\<^sup>*\<^sup>* st1 st'"
    using assms n by (cases r) (auto simp: handle_event_def x intro: handle_message_effect)
  ultimately show ?thesis by simp
qed

lemma handle_events_effects:
  "foldM (handle_event H tick) events st = Some st' \<Longrightarrow> (effect H tick)\<^sup>*\<^sup>* st st'"
  by (induction events arbitrary: st)
    (auto simp: bind_eq_Some_conv dest!: handle_event_effects intro: rtranclp_trans)

subsection \<open>The stages of a tick\<close>

lemma tick_stepE:
  assumes "tick_step H inp sv = Some (ended, acts, sv')"
  obtains (skipped) st where "polled inp = None" "begin_tick H sv = Some st" "acts = []" "sv' = server_of st"
    "\<not> ended"
  | (ran) events st st1 sent st2 where "polled inp = Some events" "begin_tick H sv = Some st"
    "apply_stage H (current_tick (srv_sched sv)) events
       (validate_sessions H (current_tick (srv_sched sv)) st) = Some st1"
    "finish_tick H inp (current_tick (srv_sched sv)) st1 = Some (ended, sent, st2)"
    "sv' = server_of st2"
    "acts = ack_actions H (clear_ack_targets st1) @ pong_actions H (pong_responses st1) @ sent @
       (if ended then [] else map Disconnect (to_disconnect st1))"
proof (cases "polled inp")
  case None
  then show ?thesis using assms skipped by (auto simp: tick_step_def Let_def bind_eq_Some_conv)
next
  case (Some events)
  then show ?thesis using assms ran by (fastforce simp: tick_step_def Let_def bind_eq_Some_conv)
qed

lemma revalidate_auth:
  assumes "P a" "\<And>j a ok a'. P a \<Longrightarrow> vt_is_session_authorized (auth_vt H) j (Some tick) a = (ok, a') \<Longrightarrow> P a'"
  shows "P (fst (fold (revalidate H tick cs) ids (a, rm)))"
  using assms(1)
proof (induction ids arbitrary: a rm)
  case (Cons c ids)
  have "P (fst (revalidate H tick cs c (a, rm)))"
    using assms(2) Cons.prems by (auto simp: revalidate_def split: option.split prod.split)
  then show ?case using Cons.IH by (cases "revalidate H tick cs c (a, rm)") simp
qed simp

text \<open>An invariant of the tick's locals: closed under the effects of the event loop and under the
  other places where a tick changes its locals.\<close>

locale tick_invariant =
  fixes H :: "('w, 'a, 'r) host" and P :: "('w, 'a, 'r) tick_state \<Rightarrow> bool"
  assumes P_effect: "P st \<Longrightarrow> effect H tick st st' \<Longrightarrow> P st'"
    and P_asked: "P st \<Longrightarrow> vt_is_session_authorized (auth_vt H) j (Some tick) (auth st) = (ok, a) \<Longrightarrow>
      P (st\<lparr>auth := a\<rparr>)"
    and P_kick: "P st \<Longrightarrow> P (kick H c st)"
    and P_begin: "P (tick_locals sv) \<Longrightarrow> begin_tick H sv = Some st \<Longrightarrow> P st"
    and P_apply: "P st \<Longrightarrow> P (st\<lparr>wld := vt_apply_updates (world_vt H) (updates st) (wld st),
      sched := (sched st)\<lparr>reassembler := r\<rparr>\<rparr>)"
    and P_finish: "P st \<Longrightarrow> finish_tick H inp tick st = Some (ended, sent, st') \<Longrightarrow> P st'"
    and P_locals: "P st \<Longrightarrow> P (tick_locals (server_of st))"
begin

lemma P_effects: "(effect H tick)\<^sup>*\<^sup>* st st' \<Longrightarrow> P st \<Longrightarrow> P st'"
  by (induction rule: rtranclp_induct) (auto intro: P_effect)

lemma P_validate: "P st \<Longrightarrow> P (validate_sessions H tick st)"
proof -
  assume P: "P st"
  obtain a rm where fold: "fold (revalidate H tick (clients_of st)) (clients_iter H (map fst (clients_of st)))
      (auth st, []) = (a, rm)" by fastforce
  have "P (st\<lparr>auth := a\<rparr>)"
    using revalidate_auth [where P = "\<lambda>a. P (st\<lparr>auth := a\<rparr>)" and H = H and tick = tick and
        cs = "clients_of st" and ids = "clients_iter H (map fst (clients_of st))" and a = "auth st" and rm = "[]"]
      P P_asked [of "st\<lparr>auth := _\<rparr>"] fold by simp
  then have "P (fold (kick H) rm (st\<lparr>auth := a\<rparr>))" by (rule fold_invariant_set) (rule P_kick)
  then show ?thesis using P by (simp add: validate_sessions_def fold)
qed

lemma P_apply_stage:
  assumes "P st" "apply_stage H tick events st = Some st'"
  shows "P st'"
proof (cases "events = []")
  case False
  then obtain st1 where "foldM (handle_event H tick) events st = Some st1"
    "st' = st1\<lparr>wld := vt_apply_updates (world_vt H) (updates st1) (wld st1),
               sched := (sched st1)\<lparr>reassembler := prune (proto H) (reassembler (sched st1))\<rparr>\<rparr>"
    using assms(2) by (auto simp: apply_stage_def bind_eq_Some_conv)
  with P_apply [OF P_effects [OF handle_events_effects assms(1)]] show ?thesis by simp
qed (use assms in \<open>simp add: apply_stage_def\<close>)

lemma P_tick:
  assumes "P (tick_locals sv)" "tick_step H inp sv = Some (ended, acts, sv')"
  shows "P (tick_locals sv')"
  using assms(2)
proof (cases rule: tick_stepE)
  case (skipped st)
  then show ?thesis using P_begin [OF assms(1)] P_locals by simp
next
  case (ran events st st1 sent st2)
  then show ?thesis
    using P_locals [OF P_finish [OF P_apply_stage [OF P_validate [OF P_begin [OF assms(1)]]]]] by simp
qed

lemma P_run:
  assumes "P (tick_locals sv)" "run_ticks H inps sv = Some (acts, sv')"
  shows "P (tick_locals sv')"
  using assms
proof (induction inps arbitrary: sv acts)
  case (Cons inp inps)
  then obtain ended acts1 sv1 where t: "tick_step H inp sv = Some (ended, acts1, sv1)"
    and rest: "if ended then sv' = sv1 else \<exists>acts2. run_ticks H inps sv1 = Some (acts2, sv')"
    by (auto simp: bind_eq_Some_conv split: if_splits)
  from P_tick [OF Cons.prems(1) t] rest Cons.IH show ?case by (auto split: if_splits)
qed simp

end

subsection \<open>What the stages leave alone\<close>

lemma drop_client_simps [simp]:
  "clients_of (drop_client H c st) = AList.delete c (clients_of st)"
  "auth_timestamps (sched (drop_client H c st)) = (auth_timestamps (sched st))(c := None)"
  "auth (drop_client H c st) = auth st" "updates (drop_client H c st) = updates st"
  "to_disconnect (drop_client H c st) = to_disconnect st"
  "pong_responses (drop_client H c st) = pong_responses st"
  "clear_ack_targets (drop_client H c st) = clear_ack_targets st"
  by (simp_all add: drop_client_def)

lemma kick_simps [simp]:
  "clients_of (kick H c st) = AList.delete c (clients_of st)"
  "auth_timestamps (sched (kick H c st)) = (auth_timestamps (sched st))(c := None)"
  "auth (kick H c st) = auth st" "updates (kick H c st) = updates st"
  "to_disconnect (kick H c st) = to_disconnect st @ [c]"
  "wld (kick H c st) = wld (drop_client H c st)"
  by (simp_all add: kick_def)

lemma kicks_simps:
  "clients_of (fold (kick H) ids st) = fold AList.delete ids (clients_of st)"
  "auth (fold (kick H) ids st) = auth st"
  "updates (fold (kick H) ids st) = updates st"
  "to_disconnect (fold (kick H) ids st) = to_disconnect st @ ids"
  by (induction ids arbitrary: st) simp_all

lemma set_agent_simps [simp]:
  "auth_timestamps (sched (set_agent c n st)) = auth_timestamps (sched st)"
  "auth (set_agent c n st) = auth st" "updates (set_agent c n st) = updates st"
  "wld (set_agent c n st) = wld st" "to_disconnect (set_agent c n st) = to_disconnect st"
  by (simp_all add: set_agent_def split: option.split)

lemma set_agent_wld [simp]: "clients_of (set_agent c n (st\<lparr>wld := w\<rparr>)) = clients_of (set_agent c n st)"
  by (simp add: set_agent_def split: option.split)

lemma start_session_frame:
  assumes "start_session H c st = Some st'"
  shows "clients_of st' = clients_of st \<or> (\<exists>n. clients_of st' = clients_of (set_agent c (Some n) st))"
    and "auth st' = auth st" "updates st' = updates st" "to_disconnect st' = to_disconnect st"
  using assms by (auto simp: start_session_def bind_eq_Some_conv split: option.splits) metis

lemma push_simps [simp]:
  "sched (push_pong c t now st) = sched st" "wld (push_pong c t now st) = wld st"
  "auth (push_pong c t now st) = auth st" "updates (push_pong c t now st) = updates st"
  "sched (push_updates c us st) = sched st" "wld (push_updates c us st) = wld st"
  "auth (push_updates c us st) = auth st" "updates (push_updates c us st) = updates st @ map (Pair c) us"
  by (simp_all add: push_pong_def push_updates_def)

lemma delete_filter: "fold AList.delete ids cs = filter (\<lambda>x. fst x \<notin> set ids) cs"
  by (induction ids arbitrary: cs)
    (auto simp: AList.delete_eq intro!: filter_cong)

lemma fragment_sched:
  assumes "fragment_and_send H data len targets s = Some (r, sent, s')"
  shows "\<exists>k. s' = s\<lparr>next_message_id := k\<rparr>"
proof -
  have "s' = s \<or> s' = s\<lparr>next_message_id := next_message_id s + 1\<rparr>"
    using assms by (auto simp: fragment_and_send_def Let_def split: if_splits)
  moreover have "s = s\<lparr>next_message_id := next_message_id s\<rparr>" by simp
  ultimately show ?thesis by metis
qed

lemma send_batch_sched:
  assumes "send_batch H x (acts, s) = Some (acts', s')"
  shows "\<exists>k. s' = s\<lparr>next_message_id := k\<rparr>"
proof -
  have same: "\<exists>k. s = s\<lparr>next_message_id := k\<rparr>" by (rule exI [of _ "next_message_id s"]) simp
  show ?thesis
    using assms same
    by (auto simp: send_batch_def bind_eq_Some_conv dest!: fragment_sched
        split: prod.splits sum.splits if_splits)
qed

lemma send_deltas_sched:
  assumes "send_deltas H inp w deltas s = Some (sent, s')"
  shows "\<exists>k. s' = s\<lparr>next_message_id := k\<rparr>"
proof -
  have same: "\<exists>k. s = s\<lparr>next_message_id := k\<rparr>" by (rule exI [of _ "next_message_id s"]) simp
  have "\<exists>k. s' = s\<lparr>next_message_id := k\<rparr>" if "foldM (send_batch H) bs ([], s) = Some (sent, s')" for bs
    using foldM_invariant [where P = "\<lambda>r. \<exists>k. snd r = s\<lparr>next_message_id := k\<rparr>", OF that] same
    by (fastforce dest!: send_batch_sched)
  then show ?thesis
    using assms same by (auto simp: send_deltas_def Let_def bind_eq_Some_conv split: if_splits)
qed

text \<open>What stages 3 to 5 do to the scheduler and to the locals.\<close>

lemma record_golden_sched:
  "record_golden H tick ok w s = (ended, acts, s') \<Longrightarrow> \<exists>gs. s' = s\<lparr>golden_hashes := gs\<rparr>"
proof -
  have same: "\<exists>gs. s = s\<lparr>golden_hashes := gs\<rparr>" by (rule exI [of _ "golden_hashes s"]) simp
  assume "record_golden H tick ok w s = (ended, acts, s')"
  then show ?thesis using same
    by (auto simp: record_golden_def Let_def split: option.splits if_splits)
qed

lemma finish_tickE:
  assumes "finish_tick H inp tick st = Some (ended, sent, st')"
  obtains w deltas w1 golden s where "vt_simulate (world_vt H) (wld st) = Some w"
    "vt_extract_deltas (world_vt H) w = (deltas, w1)"
    "record_golden H tick (write_ok inp) w1 (sched st) = (ended, golden, s)"
    "ended \<Longrightarrow> st' = st\<lparr>wld := w1, sched := s\<rparr>" "ended \<Longrightarrow> sent = golden"
    "\<not> ended \<Longrightarrow> \<exists>events w2 sent' s'. vt_extract_reliable_events (world_vt H) w1 = (events, w2) \<and>
       send_deltas H inp (vt_post_extract (world_vt H) w2) deltas s = Some (sent', s') \<and>
       sent = golden @ send_reliable_events H s events @ sent' \<and>
       st' = st\<lparr>wld := vt_post_extract (world_vt H) w2, sched := s'\<rparr>"
proof -
  from assms obtain w where w: "vt_simulate (world_vt H) (wld st) = Some w"
    by (auto simp: finish_tick_def bind_eq_Some_conv)
  obtain deltas w1 where d: "vt_extract_deltas (world_vt H) w = (deltas, w1)" by fastforce
  obtain e golden s where g: "record_golden H tick (write_ok inp) w1 (sched st) = (e, golden, s)"
    by (metis prod_cases3)
  obtain events w2 where r: "vt_extract_reliable_events (world_vt H) w1 = (events, w2)" by fastforce
  have e: "e = ended"
    using assms by (auto simp: finish_tick_def w d g r Let_def bind_eq_Some_conv split: if_splits)
  show ?thesis
    by (rule that [OF w d g [unfolded e]])
      (use assms in \<open>auto simp: finish_tick_def w d g r e Let_def bind_eq_Some_conv\<close>)
qed

lemma finish_tick_frame:
  assumes "finish_tick H inp tick st = Some (ended, sent, st')"
  shows "\<exists>gs k. sched st' = (sched st)\<lparr>golden_hashes := gs, next_message_id := k\<rparr>"
    and "auth st' = auth st" "updates st' = updates st"
  using assms
proof (atomize (full), cases rule: finish_tickE)
  case (1 w deltas w1 golden s)
  obtain gs where gs: "s = (sched st)\<lparr>golden_hashes := gs\<rparr>" using record_golden_sched [OF 1(3)] by blast
  show "(\<exists>gs k. sched st' = (sched st)\<lparr>golden_hashes := gs, next_message_id := k\<rparr>) \<and>
      auth st' = auth st \<and> updates st' = updates st"
  proof (cases ended)
    case True
    then show ?thesis using 1(4) gs by (auto intro!: exI [of _ gs] exI [of _ "next_message_id (sched st)"])
  next
    case False
    then show ?thesis using 1(6) gs by (auto dest!: send_deltas_sched) blast
  qed
qed

lemma begin_tick_frame:
  assumes "begin_tick H sv = Some st"
  shows "sched st = (srv_sched sv)\<lparr>current_tick := current_tick (srv_sched sv) + 1\<rparr>"
    "auth st = srv_auth sv" "updates st = []"
  using assms by (auto simp: begin_tick_def tick_locals_def Let_def bind_eq_Some_conv split: if_splits)

lemma tick_locals_simps [simp]:
  "sched (tick_locals sv) = srv_sched sv" "wld (tick_locals sv) = srv_world sv"
  "auth (tick_locals sv) = srv_auth sv" "updates (tick_locals sv) = []"
  "srv_sched (server_of st) = sched st" "srv_world (server_of st) = wld st" "srv_auth (server_of st) = auth st"
  by (simp_all add: tick_locals_def server_of_def)

lemma effect_disconnects:
  assumes "effect H tick st st'"
  shows "set (to_disconnect st) \<subseteq> set (to_disconnect st')"
  using assms
proof cases
  case (join c tok session a now)
  then show ?thesis by (simp add: admit_def Let_def kicks_simps)
next
  case (command c session a now data)
  from command(2) show ?thesis
  proof (cases rule: dispatch_cases)
    case start
    from start_session_frame(4) [OF this] show ?thesis by simp
  qed (auto simp: run_stress_test_def run_spawn_def run_clear_world_def request_manifest_def push_pong_def
      push_updates_def bind_eq_Some_conv Let_def split: if_splits)
qed (auto simp: push_pong_def)

text \<open>A client marked for disconnection stays marked.\<close>

lemma apply_stage_disconnects:
  assumes "apply_stage H tick events st = Some st'"
  shows "set (to_disconnect st) \<subseteq> set (to_disconnect st')"
proof -
  have "set (to_disconnect st) \<subseteq> set (to_disconnect st1)" if "(effect H tick)\<^sup>*\<^sup>* st st1" for st1
    using that by (induction rule: rtranclp_induct) (use effect_disconnects in blast)+
  moreover have "st' = st \<or> (\<exists>st1. (effect H tick)\<^sup>*\<^sup>* st st1 \<and> to_disconnect st' = to_disconnect st1)"
    using assms by (auto simp: apply_stage_def bind_eq_Some_conv dest: handle_events_effects split: if_splits)
  ultimately show ?thesis by (metis order_refl)
qed

end
