(* ===== verification/Tick_Clients.thy ===== *)
theory Tick_Clients
  imports Tick_Inv
begin

text \<open>
  The client table over all ticks: one entry per client, one client per player, a timestamp only
  for a client in the table; and the contract of a session verifier, under which a revoked session
  is gone from the table after the next periodic validation and no message of it is obeyed.
\<close>

subsection \<open>The client table\<close>

text \<open>Iterating a hash map visits every entry once, in some order.\<close>

definition iter_ok :: "(ClientId list \<Rightarrow> ClientId list) \<Rightarrow> bool" where
  "iter_ok f \<longleftrightarrow> (\<forall>ids. set (f ids) = set ids \<and> (distinct ids \<longrightarrow> distinct (f ids)))"

definition player_of :: "ClientId \<times> VerifiedSession \<times> NetworkId option \<Rightarrow> string" where
  "player_of x = vs_player_id (fst (snd x))"

definition clients_ok :: "'r TickScheduler \<Rightarrow> bool" where
  "clients_ok s \<longleftrightarrow> distinct (map fst (authenticated_clients s)) \<and>
     distinct (map player_of (authenticated_clients s)) \<and>
     dom (auth_timestamps s) \<subseteq> fst ` set (authenticated_clients s)"

lemma update_same_session:
  assumes "map_of cs c = Some (session, agent)" "distinct (map fst cs)"
  shows "map fst (AList.update c (session, agent') cs) = map fst cs"
    "map player_of (AList.update c (session, agent') cs) = map player_of cs"
  using assms by (induction cs) (auto simp: player_of_def split: if_splits)

lemma update_new: "c \<notin> fst ` set cs \<Longrightarrow> AList.update c v cs = cs @ [(c, v)]"
  by (induction cs) auto

lemma clients_ok_drop: "clients_ok (sched st) \<Longrightarrow> clients_ok (sched (drop_client H c st))"
  by (auto simp: clients_ok_def AList.delete_eq distinct_map_filter image_iff subset_iff split: if_splits)
    force

lemma clients_ok_kick: "clients_ok (sched st) \<Longrightarrow> clients_ok (sched (kick H c st))"
  using clients_ok_drop [of st H c] by (simp add: kick_def)

lemma clients_ok_agent: "clients_ok (sched st) \<Longrightarrow> clients_ok (sched (set_agent c n st))"
  using update_same_session [of "clients_of st" c]
  by (auto simp: clients_ok_def set_agent_def simp flip: set_map split: option.split)

lemma clients_ok_timestamp:
  "clients_ok s \<Longrightarrow> auth_timestamps s = t \<Longrightarrow> clients_ok (s\<lparr>auth_timestamps := t(c := None)\<rparr>)"
  by (auto simp: clients_ok_def)

lemma clients_ok_start:
  assumes "clients_ok (sched st)" "start_session H c st = Some st'"
  shows "clients_ok (sched st')"
  using assms clients_ok_agent [of "st\<lparr>wld := _\<rparr>" c]
  by (auto simp: start_session_def bind_eq_Some_conv intro!: clients_ok_timestamp split: option.splits)

lemma clients_ok_dispatch:
  assumes "dispatch H now c jti data st = Some st'" "clients_ok (sched st)"
  shows "clients_ok (sched st')"
  using assms(1)
proof (cases rule: dispatch_cases)
  case start
  then show ?thesis using assms(2) clients_ok_start by blast
next
  case clear
  then show ?thesis
    using assms(2) clients_ok_agent [of "st\<lparr>wld := _\<rparr>" c None] by (simp add: run_clear_world_def Let_def)
qed (use assms(2) in \<open>auto simp: run_stress_test_def run_spawn_def request_manifest_def bind_eq_Some_conv
    split: if_splits\<close>)

lemma set_ghosts:
  assumes "iter_ok (clients_iter H)" "distinct (map fst cs)" "(c', s, agent) \<in> set cs" "c' \<noteq> c"
    "vs_player_id s = vs_player_id session"
  shows "c' \<in> set (ghosts H cs c session)"
proof -
  have "map_of cs c' = Some (s, agent)" using assms(2,3) by simp
  moreover have "c' \<in> set (clients_iter H (map fst cs))"
    using assms(1,3) by (force simp: iter_ok_def)
  ultimately show ?thesis using assms(4,5) by (simp add: ghosts_def)
qed

lemma clients_ok_admit:
  assumes "iter_ok (clients_iter H)" "clients_ok (sched st)" "map_of (clients_of st) c = None"
  shows "clients_ok (sched (admit H now c session st))"
proof -
  define rest where "rest = fold (kick H) (ghosts H (clients_of st) c session) st"
  have ok: "clients_ok (sched rest)"
    unfolding rest_def using assms(2) by (rule fold_invariant_set) (rule clients_ok_kick)
  have rest: "clients_of rest = filter (\<lambda>x. fst x \<notin> set (ghosts H (clients_of st) c session)) (clients_of st)"
    by (simp add: rest_def kicks_simps delete_filter)
  have "c \<notin> fst ` set (clients_of rest)" using assms(3) by (auto simp: rest map_of_eq_None_iff)
  moreover have "player_of x \<noteq> vs_player_id session" if "x \<in> set (clients_of rest)" for x
  proof
    obtain c' s agent where x: "x = (c', s, agent)" by (cases x)
    assume "player_of x = vs_player_id session"
    moreover have "(c', s, agent) \<in> set (clients_of st)" "c' \<notin> set (ghosts H (clients_of st) c session)"
      using that by (simp_all add: rest x)
    moreover have "c' \<noteq> c" using calculation(2) assms(3) by (force simp: map_of_eq_None_iff)
    ultimately show False
      using set_ghosts [OF assms(1)] assms(2) by (simp add: x player_of_def clients_ok_def)
  qed
  ultimately show ?thesis
    using ok by (auto simp: admit_def Let_def clients_ok_def player_of_def update_new simp flip: rest_def)
      (metis)
qed

lemma clients_ok_frame:
  "authenticated_clients s' = authenticated_clients s \<Longrightarrow> auth_timestamps s' = auth_timestamps s \<Longrightarrow>
     clients_ok s \<Longrightarrow> clients_ok s'"
  by (simp add: clients_ok_def)

lemma clients_ok_effect:
  assumes "effect H tick st st'" "iter_ok (clients_iter H)" "clients_ok (sched st)"
  shows "clients_ok (sched st')"
  using assms(1)
proof cases
  case (join c tok session a now)
  then show ?thesis using clients_ok_admit [OF assms(2), of "st\<lparr>auth := a\<rparr>" c] assms(3) by simp
next
  case (revoke c session a)
  then show ?thesis using clients_ok_drop [of "st\<lparr>auth := a\<rparr>"] assms(3) by simp
next
  case (command c session a now data)
  then show ?thesis using clients_ok_dispatch assms(3) by fastforce
qed (use assms(3) in \<open>auto intro: clients_ok_drop clients_ok_frame\<close>)

interpretation client_table: tick_invariant H "\<lambda>st. iter_ok (clients_iter H) \<and> clients_ok (sched st)" for H
  by unfold_locales
    (auto intro: clients_ok_effect clients_ok_kick clients_ok_frame dest!: begin_tick_frame(1) finish_tick_frame(1))

subsection \<open>The contract of a session verifier\<close>

definition jtis :: "clients \<Rightarrow> string set" where
  "jtis cs = (\<lambda>x. vs_jti (fst (snd x))) ` set cs"

lemma jtis_delete: "jtis (AList.delete c cs) \<subseteq> jtis cs"
  by (auto simp: jtis_def AList.delete_eq)

lemma jtis_filter: "jtis (filter Q cs) \<subseteq> jtis cs"
  by (auto simp: jtis_def)

lemma jtis_update: "jtis (AList.update c (session, agent) cs) \<subseteq> insert (vs_jti session) (jtis cs)"
  by (induction cs) (auto simp: jtis_def)

lemma jtis_map_of: "map_of cs c = Some (session, agent) \<Longrightarrow> vs_jti session \<in> jtis cs"
  by (force simp: jtis_def dest: map_of_SomeD)

lemma jtis_agent: "jtis (clients_of (set_agent c n st)) \<subseteq> jtis (clients_of st)"
proof (cases "map_of (clients_of st) c")
  case (Some x)
  obtain session agent where x: "x = (session, agent)" by (cases x)
  have "insert (vs_jti session) (jtis (clients_of st)) = jtis (clients_of st)"
    using jtis_map_of [OF Some [unfolded x]] by (rule insert_absorb)
  with jtis_update [of c session n "clients_of st"] show ?thesis by (simp add: set_agent_def Some x)
qed (simp add: set_agent_def)

lemma jtis_dispatch:
  assumes "dispatch H now c jti data st = Some st'"
  shows "jtis (clients_of st') \<subseteq> jtis (clients_of st) \<and> auth st' = auth st"
  using assms
proof (cases rule: dispatch_cases)
  case start
  from start_session_frame(1,2) [OF this] jtis_agent [of c _ st] show ?thesis by (elim disjE exE) simp_all
next
  case clear
  then show ?thesis using jtis_agent [of c None st] by (auto simp: run_clear_world_def Let_def)
qed (auto simp: run_stress_test_def run_spawn_def request_manifest_def bind_eq_Some_conv split: if_splits)

lemma jtis_admit:
  "jtis (clients_of (admit H now c session st)) \<subseteq> insert (vs_jti session) (jtis (clients_of st)) \<and>
     auth (admit H now c session st) = auth st"
  using jtis_update [of c session None] jtis_filter [of _ "clients_of st"]
  by (fastforce simp: admit_def Let_def kicks_simps delete_filter)

locale verifier_contract =
  fixes V :: "'a AuthSessionVerifier" and revoked :: "'a \<Rightarrow> string \<Rightarrow> bool"
  assumes refuses: "revoked a j \<Longrightarrow> vt_is_session_authorized V j t a = (ok, a') \<Longrightarrow> \<not> ok"
    and ask_keeps: "revoked a j \<Longrightarrow> vt_is_session_authorized V j' t a = (ok, a') \<Longrightarrow> revoked a' j"
    and verify_keeps: "revoked a j \<Longrightarrow> vt_verify_session V tok t a = (r, a') \<Longrightarrow> revoked a' j"
    and verify_refuses: "revoked a (vs_jti session) \<Longrightarrow> vt_verify_session V tok t a \<noteq> (Inr session, a')"
begin

definition gone :: "('w, 'a, 'r) host \<Rightarrow> string \<Rightarrow> ('w, 'a, 'r) tick_state \<Rightarrow> bool" where
  "gone H j st \<longleftrightarrow> auth_vt H = V \<and> revoked (auth st) j \<and> j \<notin> jtis (clients_of st)"

lemma gone_frame:
  "gone H j st \<Longrightarrow> auth st' = auth st \<Longrightarrow> jtis (clients_of st') \<subseteq> jtis (clients_of st) \<Longrightarrow> gone H j st'"
  by (auto simp: gone_def)

lemma gone_drop: "gone H j st \<Longrightarrow> gone H j (drop_client H c st)"
  by (erule gone_frame) (simp_all add: jtis_delete)

lemma gone_auth:
  "gone H j st \<Longrightarrow> vt_is_session_authorized (auth_vt H) j' t (auth st) = (ok, a) \<Longrightarrow> gone H j (st\<lparr>auth := a\<rparr>)"
  using ask_keeps by (auto simp: gone_def)

lemma gone_effect:
  assumes "effect H tick st st'" "gone H j st"
  shows "gone H j st'"
  using assms(1)
proof cases
  case (reject tok e a)
  then show ?thesis using assms(2) verify_keeps by (auto simp: gone_def)
next
  case (join c tok session a now)
  have "gone H j (st\<lparr>auth := a\<rparr>)" using join assms(2) verify_keeps by (auto simp: gone_def)
  moreover have "vs_jti session \<noteq> j" using join assms(2) verify_refuses by (auto simp: gone_def)
  ultimately show ?thesis using jtis_admit [of H now c session "st\<lparr>auth := a\<rparr>"] unfolding join(1) by (auto simp: gone_def)
next
  case (revoke c session a)
  then have "gone H j (st\<lparr>auth := a\<rparr>)" using gone_auth [OF assms(2)] unfolding authorized_as_def by blast
  then show ?thesis unfolding revoke(1) by (rule gone_drop)
next
  case (command c session a now data)
  then have "gone H j (st\<lparr>auth := a\<rparr>)" using gone_auth [OF assms(2)] unfolding authorized_as_def by blast
  then show ?thesis by (rule gone_frame) (use jtis_dispatch [OF command(2)] in simp_all)
qed (use assms(2) gone_drop in \<open>auto intro: gone_frame\<close>)

lemma gone_kick: "gone H j st \<Longrightarrow> gone H j (kick H c st)"
  by (erule gone_frame) (simp_all add: jtis_delete)

lemma gone_finish:
  assumes "gone H j st" "finish_tick H inp tick st = Some (ended, sent, st')"
  shows "gone H j st'"
  using assms(1) by (rule gone_frame) (use finish_tick_frame(1,2) [OF assms(2)] in auto)

sublocale gone_after: tick_invariant H "gone H j" for H :: "('w, 'a, 'r) host" and j
  by unfold_locales
    (auto intro: gone_effect gone_auth gone_frame gone_kick gone_finish simp: begin_tick_frame)

lemma revalidate_finds:
  assumes "auth_vt H = V" "revoked a j" "c \<in> set ids \<or> c \<in> set rm" "map_of cs c = Some (session, agent)"
    "vs_jti session = j"
  shows "c \<in> set (snd (fold (revalidate H tick cs) ids (a, rm)))"
  using assms(2,3)
proof (induction ids arbitrary: a rm)
  case (Cons d ids)
  obtain a' rm' where r: "revalidate H tick cs d (a, rm) = (a', rm')" by fastforce
  have "revoked a' j"
    using r Cons.prems(1) assms(1) ask_keeps by (auto simp: revalidate_def split: option.splits prod.splits)
  moreover have "c \<in> set ids \<or> c \<in> set rm'"
    using r Cons.prems assms(1,4,5)
    by (auto simp: revalidate_def dest: refuses split: option.splits prod.splits if_splits)
  ultimately show ?case using Cons.IH r by simp
qed simp

text \<open>The periodic validation removes and disconnects every client of a revoked session.\<close>

lemma validate_removes:
  assumes "auth_vt H = V" "iter_ok (clients_iter H)" "distinct (map fst (clients_of st))" "tick mod 60 = 0"
    "revoked (auth st) j"
  shows "gone H j (validate_sessions H tick st)"
    and "(c, session, agent) \<in> set (clients_of st) \<Longrightarrow> vs_jti session = j \<Longrightarrow>
      c \<in> set (to_disconnect (validate_sessions H tick st))"
proof -
  define ids where "ids = clients_iter H (map fst (clients_of st))"
  obtain a rm where f: "fold (revalidate H tick (clients_of st)) ids (auth st, []) = (a, rm)" by fastforce
  have v: "validate_sessions H tick st = fold (kick H) rm (st\<lparr>auth := a\<rparr>)"
    using assms(4) f by (simp add: validate_sessions_def ids_def)
  have rm: "c \<in> set rm" if "(c, session, agent) \<in> set (clients_of st)" "vs_jti session = j" for c session agent
  proof -
    have "c \<in> set ids" using that(1) assms(2) by (force simp: ids_def iter_ok_def)
    moreover have "map_of (clients_of st) c = Some (session, agent)" using that(1) assms(3) by simp
    ultimately show ?thesis using revalidate_finds [OF assms(1,5) disjI1 _ that(2)] f by (metis snd_conv)
  qed
  have "revoked a j"
    using revalidate_auth [where P = "\<lambda>a. revoked a j" and H = H, OF assms(5), of tick "clients_of st" ids "[]"]
      ask_keeps assms(1) f by simp
  with rm show "gone H j (validate_sessions H tick st)"
    by (force simp: gone_def v kicks_simps delete_filter assms(1) jtis_def)
  show "(c, session, agent) \<in> set (clients_of st) \<Longrightarrow> vs_jti session = j \<Longrightarrow>
      c \<in> set (to_disconnect (validate_sessions H tick st))"
    using rm by (auto simp: v kicks_simps)
qed

end

end
