(* ===== verification/Tick_Send.thy ===== *)
theory Tick_Send
  imports Tick_Clients
begin

text \<open>
  Stage 5 of a tick: the batches are the deltas each client may see, encoding through a worker
  buffer equals the plain encoder, fragments put together give the data back, and the outbound
  messages of a tick are exactly the encoded batches of the clients.
\<close>

subsection \<open>Batches\<close>

definition visible :: "('w, 'a, 'r) host \<Rightarrow> 'w \<Rightarrow> ClientId \<Rightarrow> ReplicationEvent \<Rightarrow> bool" where
  "visible H w c delta \<longleftrightarrow>
     (case vt_get_entity_workspace (world_vt H) w (re_network_id delta) of
        None \<Rightarrow> True
      | Some ws \<Rightarrow> vt_get_client_workspace (world_vt H) w c = Some ws)"

definition batch :: "batches \<Rightarrow> ClientId \<Rightarrow> ReplicationEvent list" where
  "batch bs c = (case map_of bs c of Some ds \<Rightarrow> ds | None \<Rightarrow> [])"

lemma map_of_push_delta:
  "map_of (push_delta d c bs) = (map_of bs)(c \<mapsto> batch bs c @ [d])"
  by (simp add: push_delta_def batch_def update_conv')

lemma batch_push_deltas:
  "distinct ids \<Longrightarrow> batch (fold (push_delta d) ids bs) c = batch bs c @ (if c \<in> set ids then [d] else [])"
  by (induction ids arbitrary: bs) (auto simp: batch_def map_of_push_delta split: option.split)

lemma batch_delta_batch:
  assumes "iter_ok (clients_iter H)" "distinct (map fst cs)"
  shows "batch (batch_delta H w cs d bs) c =
    batch bs c @ (if c \<in> fst ` set cs \<and> visible H w c d then [d] else [])"
proof -
  have iter: "set (clients_iter H (map fst cs)) = fst ` set cs" "distinct (clients_iter H (map fst cs))"
    using assms by (simp_all add: iter_ok_def)
  have "batch (fold (push_delta d) (filter Q (clients_iter H (map fst cs))) bs) c =
      batch bs c @ (if c \<in> fst ` set cs \<and> Q c then [d] else [])" for Q
    by (simp add: batch_push_deltas iter)
  from this [of "\<lambda>_. True"] this show ?thesis
    by (auto simp: batch_delta_def get_delta_targets_def visible_def Let_def filter_empty_conv iter
        split: option.split)
qed

lemma batch_client_batches:
  assumes "iter_ok (clients_iter H)" "distinct (map fst cs)"
  shows "batch (client_batches H w cs deltas) c = (if c \<in> fst ` set cs then filter (visible H w c) deltas else [])"
proof -
  have "batch (fold (batch_delta H w cs) deltas bs) c =
      batch bs c @ (if c \<in> fst ` set cs then filter (visible H w c) deltas else [])" for bs
    by (induction deltas arbitrary: bs) (simp_all add: batch_delta_batch [OF assms])
  then show ?thesis by (simp add: client_batches_def batch_def)
qed

text \<open>No batch is empty, and a client has one batch.\<close>

lemma client_batches_entries:
  "distinct (map fst (client_batches H w cs deltas)) \<and>
     (\<forall>(c, ds) \<in> set (client_batches H w cs deltas). ds \<noteq> [])"
proof -
  define Q :: "batches \<Rightarrow> bool" where "Q bs \<longleftrightarrow> distinct (map fst bs) \<and> (\<forall>(c, ds) \<in> set bs. ds \<noteq> [])" for bs
  have sub: "set (AList.update c v bs) \<subseteq> insert (c, v) (set bs)" for c v and bs :: batches
    by (induction bs) auto
  have push: "Q bs \<Longrightarrow> Q (push_delta d c bs)" for d c bs
    using sub [of c _ bs] by (fastforce simp: Q_def push_delta_def distinct_update)
  have "Q bs \<Longrightarrow> Q (batch_delta H w cs d bs)" for d bs
    by (auto simp: batch_delta_def intro!: fold_invariant_set [of Q] push split: DeltaTargets.split)
  then have "Q (client_batches H w cs deltas)"
    unfolding client_batches_def by (intro fold_invariant_set [of Q]) (auto simp: Q_def)
  then show ?thesis by (simp add: Q_def)
qed

lemma map_of_client_batches:
  assumes "iter_ok (clients_iter H)" "distinct (map fst cs)"
  shows "map_of (client_batches H w cs deltas) c =
    (if c \<in> fst ` set cs \<and> filter (visible H w c) deltas \<noteq> [] then Some (filter (visible H w c) deltas) else None)"
  using batch_client_batches [OF assms, of w deltas c] client_batches_entries [of H w cs deltas]
  by (auto simp: batch_def split: option.splits if_splits dest!: map_of_SomeD)

subsection \<open>Encoding\<close>

text \<open>The documented behaviour of the encoder: writing into a buffer gives the bytes of the
  allocating call, an overflow, or the same error; it does not change the length of the buffer.\<close>

definition encoder_ok :: "'r protocol \<Rightarrow> bool" where
  "encoder_ok p \<longleftrightarrow> (\<forall>e b. case encode_event_into p e b of
     (Inr n, b') \<Rightarrow> length b' = length b \<and> n \<le> length b \<and> encode_event p e = Inr (take n b')
   | (Inl BufferOverflow, b') \<Rightarrow> True
   | (Inl err, b') \<Rightarrow> encode_event p e = Inl err)"

lemma encode_batch_plain:
  assumes "encoder_ok (proto H)"
  shows "encode_batch H buf c events = Some (encode_event (proto H) (ReplicationBatch c events))"
proof -
  define b where "b = (if length buf < max_encoded_size (proto H)
               then buf @ replicate (max_encoded_size (proto H) - length buf) 0 else buf)"
  obtain r b' where r: "encode_event_into (proto H) (ReplicationBatch c events) b = (r, b')" by fastforce
  show ?thesis
    using assms [unfolded encoder_ok_def, rule_format, of "ReplicationBatch c events" b]
    by (simp add: encode_batch_def Let_def r flip: b_def split: sum.splits EncodeError.splits)
qed

subsection \<open>Fragments\<close>

definition fragments :: "nat \<Rightarrow> u32 \<Rightarrow> bytes \<Rightarrow> FragmentedEvent list" where
  "fragments n msg_id data =
     (let cs = chunks n data
      in map (\<lambda>(i, chunk). \<lparr>message_id = msg_id, fragment_index = of_nat i,
                            total_fragments = of_nat (length cs), payload = chunk\<rparr>) (enumerate 0 cs))"

lemma concat_chunks: "0 < n \<Longrightarrow> concat (chunks n xs) = xs"
proof (induction n xs rule: chunks.induct)
  case (1 n xs)
  then show ?case by (subst chunks.simps) auto
qed

lemma chunks_bounds: "chunk \<in> set (chunks n xs) \<Longrightarrow> length chunk \<le> n \<and> chunk \<noteq> []"
proof (induction n xs rule: chunks.induct)
  case (1 n xs)
  then show ?case by (subst (asm) chunks.simps) (auto split: if_splits)
qed

lemma chunks_Nil [simp]: "chunks n [] = []"
  by (simp add: chunks.simps)

lemma chunks_step: "xs \<noteq> [] \<Longrightarrow> 0 < n \<Longrightarrow> length (chunks n xs) = Suc (length (chunks n (drop n xs)))"
  by (subst chunks.simps) simp

lemma length_chunks_le: "0 < n \<Longrightarrow> length (chunks n xs) \<le> k \<longleftrightarrow> length xs \<le> k * n"
proof (induction n xs arbitrary: k rule: chunks.induct)
  case (1 n xs)
  show ?case
  proof (cases "xs = [] \<or> k = 0")
    case False
    then obtain j where j: "k = Suc j" by (cases k) auto
    have "length (chunks n (drop n xs)) \<le> j \<longleftrightarrow> length (drop n xs) \<le> j * n" using 1 False by simp
    then show ?thesis using False 1(2) by (auto simp: chunks_step j)
  qed (use 1(2) chunks_step [of xs n] in \<open>cases "xs = []"; auto\<close>)
qed

text \<open>What \<open>fragment_and_send\<close> puts on the channel, fragment by fragment.\<close>

definition fragment_messages :: "('w, 'a, 'r) host \<Rightarrow> u32 \<Rightarrow> bytes \<Rightarrow> bytes list" where
  "fragment_messages H msg_id data =
     List.map_filter (\<lambda>f. case encode_event (proto H) (Fragment 0 f) of Inr d \<Rightarrow> Some d | Inl _ \<Rightarrow> None)
       (fragments (MAX_FRAGMENT_PAYLOAD_SIZE (proto H)) msg_id data)"

lemma send_chunks_messages:
  "i + length cs \<le> 65536 \<Longrightarrow>
   send_chunks H (Recipients [c]) msg_id n_frags i cs =
     map (\<lambda>d. Enqueue (Unreliable c d))
       (List.map_filter (\<lambda>f. case encode_event (proto H) (Fragment 0 f) of Inr d \<Rightarrow> Some d | Inl _ \<Rightarrow> None)
         (map (\<lambda>(i, chunk). \<lparr>message_id = msg_id, fragment_index = of_nat i, total_fragments = n_frags,
                              payload = chunk\<rparr>) (enumerate i cs)))"
  by (induction cs arbitrary: i)
    (auto simp: List.map_filter_simps send_fragment_def split: sum.split)

lemma fragment_and_send_messages:
  assumes "outbound_tx s" "0 < MAX_FRAGMENT_PAYLOAD_SIZE (proto H)"
  shows "fragment_and_send H data (length data) (Recipients [c]) s =
    (if length data \<le> 65535 * MAX_FRAGMENT_PAYLOAD_SIZE (proto H)
     then Some (Inr (of_nat (length (fragment_messages H (next_message_id s) data))),
                map (\<lambda>d. Enqueue (Unreliable c d)) (fragment_messages H (next_message_id s) data),
                s\<lparr>next_message_id := next_message_id s + 1\<rparr>)
     else Some (Inl (IoError ''Too many fragments''), [], s\<lparr>next_message_id := next_message_id s + 1\<rparr>))"
  using assms
  by (auto simp: fragment_and_send_def Let_def length_chunks_le fragment_messages_def fragments_def
      send_chunks_messages)

subsection \<open>The messages of a tick\<close>

text \<open>How the bytes of one batch travel: as they are, or in fragments under a message identifier.\<close>

definition wire_messages :: "('w, 'a, 'r) host \<Rightarrow> u32 \<Rightarrow> bytes \<Rightarrow> bytes list" where
  "wire_messages H msg_id data =
     (if length data \<le> MAX_SAFE_PAYLOAD_SIZE (proto H) then [data]
      else if length data \<le> 65535 * MAX_FRAGMENT_PAYLOAD_SIZE (proto H) then fragment_messages H msg_id data
      else [])"

definition sent_to :: "ClientId \<Rightarrow> action list \<Rightarrow> bytes list" where
  "sent_to c acts =
     List.map_filter (\<lambda>a. case a of Enqueue (Unreliable c' d) \<Rightarrow> if c' = c then Some d else None | _ \<Rightarrow> None) acts"

lemma sent_to_Nil [simp]: "sent_to c [] = []"
  by (simp add: sent_to_def List.map_filter_simps)

lemma sent_to_append [simp]: "sent_to c (acts @ acts') = sent_to c acts @ sent_to c acts'"
  by (simp add: sent_to_def List.map_filter_def)

lemma sent_to_unreliable: "sent_to c (map (\<lambda>d. Enqueue (Unreliable c' d)) ds) = (if c' = c then ds else [])"
  by (induction ds) (auto simp: sent_to_def List.map_filter_simps)

lemma send_batch_messages:
  assumes "outbound_tx s" "0 < MAX_FRAGMENT_PAYLOAD_SIZE (proto H)"
  shows "\<exists>s'. outbound_tx s' \<and> send_batch H (c, r) (acts, s) =
    Some (acts @ (case r of Inr data \<Rightarrow> map (\<lambda>d. Enqueue (Unreliable c d)) (wire_messages H (next_message_id s) data)
                  | Inl _ \<Rightarrow> []), s')"
  using assms
  by (cases r) (auto simp: send_batch_def fragment_and_send_messages wire_messages_def)

lemma send_batches_messages:
  assumes "outbound_tx s" "0 < MAX_FRAGMENT_PAYLOAD_SIZE (proto H)" "distinct (map fst xs)"
  shows "\<exists>acts' s'. foldM (send_batch H) xs (acts, s) = Some (acts @ acts', s') \<and>
    (\<forall>c. \<exists>msg_id. sent_to c acts' =
       (case map_of xs c of Some (Inr data) \<Rightarrow> wire_messages H msg_id data | _ \<Rightarrow> []))"
  using assms(1,3)
proof (induction xs arbitrary: acts s)
  case Nil
  then show ?case by auto
next
  case (Cons x xs)
  obtain c r where x: "x = (c, r)" by (cases x)
  define out where "out = (case r of Inr data \<Rightarrow> map (\<lambda>d. Enqueue (Unreliable c d))
    (wire_messages H (next_message_id s) data) | Inl _ \<Rightarrow> [])"
  obtain s1 where s1: "outbound_tx s1" "send_batch H x (acts, s) = Some (acts @ out, s1)"
    using send_batch_messages [OF Cons.prems(1) assms(2), of c r acts] by (auto simp: x out_def)
  obtain acts' s' where rest: "foldM (send_batch H) xs (acts @ out, s1) = Some ((acts @ out) @ acts', s')"
    and msgs: "\<And>c. \<exists>msg_id. sent_to c acts' =
       (case map_of xs c of Some (Inr data) \<Rightarrow> wire_messages H msg_id data | _ \<Rightarrow> [])"
    using Cons.IH [OF s1(1), of "acts @ out"] Cons.prems(2) by auto
  have "\<exists>msg_id. sent_to d (out @ acts') =
       (case map_of (x # xs) d of Some (Inr data) \<Rightarrow> wire_messages H msg_id data | _ \<Rightarrow> [])" for d
  proof (cases "d = c")
    case True
    then have "map_of xs d = None" using Cons.prems(2) by (simp add: x map_of_eq_None_iff)
    then have "sent_to d acts' = []" using msgs [of d] by simp
    then show ?thesis by (auto simp: x True out_def sent_to_unreliable split: sum.split)
  next
    case False
    then have "sent_to d out = []"
      by (auto simp: out_def sent_to_unreliable split: sum.split)
    with msgs [of d] False show ?thesis by (simp add: x)
  qed
  then show ?case using s1(2) rest by auto
qed

lemma collect_options_total:
  "(\<And>x. x \<in> set xs \<Longrightarrow> f x = Some (g x)) \<Longrightarrow> collect_options f xs = Some (map g xs)"
  by (induction xs) auto

text \<open>Stage 5.2 never panics, and what it sends to each client is the batch of the deltas the client
  may see.\<close>

lemma send_deltas_messages:
  assumes "iter_ok (clients_iter H)" "iter_ok (batches_iter H)" "encoder_ok (proto H)"
    "0 < MAX_FRAGMENT_PAYLOAD_SIZE (proto H)" "outbound_tx s" "distinct (map fst (authenticated_clients s))"
  shows "\<exists>acts s'. send_deltas H inp w deltas s = Some (acts, s') \<and>
    (\<forall>c. \<exists>msg_id. sent_to c acts =
       (if c \<in> fst ` set (authenticated_clients s) \<and> filter (visible H w c) deltas \<noteq> []
        then case encode_event (proto H) (ReplicationBatch c (filter (visible H w c) deltas)) of
               Inr data \<Rightarrow> wire_messages H msg_id data | Inl _ \<Rightarrow> []
        else []))"
proof (cases "deltas = []")
  case False
  define bs where "bs = client_batches H w (authenticated_clients s) deltas"
  note map_bs = map_of_client_batches [OF assms(1,6), of w deltas, folded bs_def]
  define enc where "enc c = (c, encode_event (proto H) (ReplicationBatch c (batch bs c)))" for c
  define order where "order = batches_iter H (map fst bs)"
  have set_order: "set order = fst ` set bs" and "distinct order"
    using client_batches_entries [of H w "authenticated_clients s" deltas] assms(2)
    by (simp_all add: order_def iter_ok_def bs_def)
  have "(case map_of bs c of Some events \<Rightarrow> map_option (Pair c) (encode_batch H (scratch inp c) c events)
      | None \<Rightarrow> None) = Some (enc c)" if "c \<in> set order" for c
    using that set_order
    by (auto simp: enc_def batch_def encode_batch_plain [OF assms(3)] map_of_eq_None_iff split: option.split)
  then have enc: "collect_options (\<lambda>c. case map_of bs c of
        Some events \<Rightarrow> map_option (Pair c) (encode_batch H (scratch inp c) c events) | None \<Rightarrow> None) order =
      Some (map enc order)" by (rule collect_options_total)
  have "distinct (map fst (map enc order))" using \<open>distinct order\<close> by (simp add: enc_def comp_def)
  from send_batches_messages [OF assms(5,4) this, of "[]"] obtain acts s' where
    run: "foldM (send_batch H) (map enc order) ([], s) = Some (acts, s')" and
    msgs: "\<And>c. \<exists>msg_id. sent_to c acts =
       (case map_of (map enc order) c of Some (Inr data) \<Rightarrow> wire_messages H msg_id data | _ \<Rightarrow> [])" by auto
  have "map_of (map enc order) c = (if c \<in> set order then Some (snd (enc c)) else None)" for c
    by (induction order) (auto simp: enc_def)
  moreover have "c \<in> set order \<longleftrightarrow>
      c \<in> fst ` set (authenticated_clients s) \<and> filter (visible H w c) deltas \<noteq> []" for c
    using map_bs [of c] by (auto simp: set_order map_of_eq_None_iff split: if_splits)
      (metis map_of_eq_None_iff option.distinct(1))
  moreover have "snd (enc c) = encode_event (proto H) (ReplicationBatch c (filter (visible H w c) deltas))"
    if "c \<in> set order" for c
    using that calculation(2) [of c] map_bs [of c] by (simp add: enc_def batch_def)
  ultimately have "\<exists>msg_id. sent_to c acts =
       (if c \<in> fst ` set (authenticated_clients s) \<and> filter (visible H w c) deltas \<noteq> []
        then case encode_event (proto H) (ReplicationBatch c (filter (visible H w c) deltas)) of
               Inr data \<Rightarrow> wire_messages H msg_id data | Inl _ \<Rightarrow> []
        else [])" for c
    using msgs [of c] by (auto split: sum.splits if_splits)
  then show ?thesis using False enc run by (simp add: send_deltas_def Let_def flip: bs_def order_def)
qed (simp add: send_deltas_def)

end
