(* ===== verification/Tick_Samples.thy ===== *)
theory Tick_Samples
  imports Tick_Send
begin

text \<open>
  Small hosts on which the witnesses of the scheduler's properties run: a codec with the round trips
  the properties ask for, a world without entities, a verifier that accepts every token.
\<close>

subsection \<open>Sample hosts\<close>

text \<open>A codec: fragments as unary headers before the payload, everything else as an empty message;
  the bytes 2 to 5 are the messages of a client.\<close>

definition unary :: "nat \<Rightarrow> bytes" where
  "unary n = replicate n 0 @ [1]"

definition take_unary :: "bytes \<Rightarrow> nat \<times> bytes" where
  "take_unary bs = (length (takeWhile (\<lambda>b. b = 0) bs), drop 1 (dropWhile (\<lambda>b. b = 0) bs))"

lemma take_unary [simp]: "take_unary (unary n @ rest) = (n, rest)"
  by (simp add: take_unary_def unary_def takeWhile_append dropWhile_append)

definition sample_encode :: "NetworkEvent \<Rightarrow> bytes" where
  "sample_encode e = (case e of
     Fragment _ f \<Rightarrow> unary (unat (message_id f)) @ unary (unat (fragment_index f)) @
       unary (unat (total_fragments f)) @ payload f
   | _ \<Rightarrow> [])"

definition sample_decode :: "bytes \<Rightarrow> NetworkEvent option" where
  "sample_decode bs =
     (if bs = [2] then Some (AuthEvent ''a'')
      else if bs = [3] then Some (StartSession 0)
      else if bs = [4] then Some (ClearWorld 0)
      else if bs = [5] then None
      else case take_unary bs of (m, bs) \<Rightarrow> (case take_unary bs of (i, bs) \<Rightarrow> (case take_unary bs of (n, bs) \<Rightarrow>
        Some (Fragment 0 \<lparr>message_id = of_nat m, fragment_index = of_nat i, total_fragments = of_nat n,
                          payload = bs\<rparr>))))"

lemma sample_decode_fragment: "sample_decode (sample_encode (Fragment 0 f)) = Some (Fragment 0 f)"
proof -
  have hd: "hd (unary n @ rest) \<in> {0, 1}" for n rest
    by (cases n) (simp_all add: unary_def)
  have "sample_encode (Fragment 0 f) \<noteq> [b]" if "b \<noteq> 0" "b \<noteq> 1" for b
    using hd [of "unat (message_id f)"] that by (auto simp: sample_encode_def) (metis list.sel(1))+
  then show ?thesis by (simp add: sample_decode_def) (simp add: sample_encode_def)
qed

definition sample_proto :: "unit protocol" where
  "sample_proto =
     \<lparr>encode_event = (\<lambda>e. Inr (sample_encode e)),
      encode_event_into = (\<lambda>e b. let d = sample_encode e in
        if length d \<le> length b then (Inr (length d), d @ drop (length d) b) else (Inl BufferOverflow, b)),
      decode_event = sample_decode,
      decode_update = (\<lambda>d. Some \<lparr>cu_network_id = 1, cu_component_kind = 1, cu_payload = d, cu_tick = 0\<rparr>),
      max_encoded_size = 8, into_network_event = (\<lambda>e c. EntityDespawned c 0),
      ingest = (\<lambda>c f r. (Some (payload f), r)), prune = id, new_reassembler = (),
      MAX_SAFE_PAYLOAD_SIZE = 1200, MAX_FRAGMENT_PAYLOAD_SIZE = 2, PROTOCOL_VERSION = ''1''\<rparr>"

lemma sample_encoder_ok: "encoder_ok sample_proto"
  by (simp add: encoder_ok_def sample_proto_def Let_def)

text \<open>A world without entities and a verifier that takes the token as the player's name.\<close>

definition still_world :: "unit WorldState" where
  "still_world =
     \<lparr>vt_advance_tick = id, vt_stress_test = (\<lambda>_ _. Some), vt_despawn_networked = (\<lambda>_. id),
      vt_spawn_kind_for = (\<lambda>_ _ _ _ _ w. Some (1, w)), vt_spawn_session_agent = (\<lambda>_ _ _ _ _ w. Some (1, w)),
      vt_queue_reliable_event = (\<lambda>_ _. id), vt_clear_world = id, vt_apply_updates = (\<lambda>_. id),
      vt_simulate = Some, vt_extract_deltas = Pair [], vt_state_hash = (\<lambda>_. 0),
      vt_extract_reliable_events = Pair [], vt_post_extract = id,
      vt_get_entity_workspace = (\<lambda>_ _. None), vt_get_client_workspace = (\<lambda>_ _. None)\<rparr>"

definition open_verifier :: "unit AuthSessionVerifier" where
  "open_verifier =
     \<lparr>vt_verify_session = (\<lambda>token tick a. (Inr \<lparr>vs_player_id = token, vs_jti = token\<rparr>, a)),
      vt_is_session_authorized = (\<lambda>jti tick a. (True, a))\<rparr>"

definition host_of :: "'w WorldState \<Rightarrow> 'a AuthSessionVerifier \<Rightarrow> ('w, 'a, unit) host" where
  "host_of V A =
     \<lparr>world_vt = V, auth_vt = A, proto = sample_proto, env_var = Map.empty, parse_u64 = (\<lambda>_. None),
      pkg_version = ''1'', clients_iter = id, batches_iter = id\<rparr>"

definition server_with :: "clients \<Rightarrow> 'w \<Rightarrow> 'a \<Rightarrow> ('w, 'a, unit) server" where
  "server_with cs w a =
     \<lparr>srv_sched = (new_scheduler (host_of still_world open_verifier) 60)\<lparr>authenticated_clients := cs, outbound_tx := True\<rparr>,
      srv_world = w, srv_auth = a\<rparr>"

definition quiet :: "(instant \<times> NetworkEvent) list option \<Rightarrow> tick_input" where
  "quiet evs = \<lparr>polled = evs, scratch = (\<lambda>_. []), write_ok = True\<rparr>"

lemma host_of_simps [simp]:
  "world_vt (host_of V A) = V" "auth_vt (host_of V A) = A" "proto (host_of V A) = sample_proto"
  "env_var (host_of V A) = Map.empty" "iter_ok id"
  "clients_iter (host_of V A) = id" "batches_iter (host_of V A) = id"
  by (simp_all add: host_of_def iter_ok_def)

end
