(* ===== verification/Tick_Props.thy ===== *)
theory Tick_Props
  imports Tick_Samples
begin

text \<open>
  Properties of the tick scheduler over any world, verifier and codec: what a client without a
  session, with a session and without the playground privilege can do, the client table over whole
  runs, and what stage 5 sends to whom.
\<close>

subsection \<open>Who can do what\<close>

fun sender :: "NetworkEvent \<Rightarrow> ClientId option" where
  "sender (Fragment c _) = Some c"
| "sender (UnreliableMessage c _) = Some c"
| "sender (ReliableMessage c _) = Some c"
| "sender (ClientConnected c) = Some c"
| "sender (ClientDisconnected c) = Some c"
| "sender (Disconnected c) = Some c"
| "sender (SessionClosed c) = Some c"
| "sender (StreamReset c) = Some c"
| "sender (Ping c _) = Some c"
| "sender (Pong _) = None"
| "sender (AuthEvent _) = None"
| "sender (ClearWorld c) = Some c"
| "sender (StartSession c) = Some c"
| "sender (RequestWorkspaceManifest c) = Some c"
| "sender (PlatformNetworkEvent c _) = Some c"
| "sender (StressTest c _ _) = Some c"
| "sender (ReplicationBatch c _) = Some c"
| "sender (EntitySpawned c) = Some c"
| "sender (EntityDespawned c _) = Some c"
| "sender (Spawn c _ _ _ _) = Some c"

text \<open>Locals that differ at most in the reassembler, the timestamps and the verifier.\<close>

definition same_effects :: "('w, 'a, 'r) tick_state \<Rightarrow> ('w, 'a, 'r) tick_state \<Rightarrow> bool" where
  "same_effects st st' \<longleftrightarrow> wld st' = wld st \<and> clients_of st' = clients_of st \<and> updates st' = updates st \<and>
     pong_responses st' = pong_responses st \<and> clear_ack_targets st' = clear_ack_targets st \<and>
     to_disconnect st' = to_disconnect st"

lemma drop_stranger:
  assumes "map_of (clients_of st) c = None"
  shows "same_effects st (drop_client H c st)"
proof -
  have "AList.delete c (clients_of st) = clients_of st"
    using assms by (simp add: delete_idem map_of_eq_None_iff)
  then show ?thesis using assms by (simp add: same_effects_def drop_client_def)
qed

lemma normalize_stranger:
  assumes "map_of (clients_of st) c = None" "sender ev = Some c" "normalize H now ev st = (r, st')"
  shows "same_effects st st' \<and> auth st' = auth st \<and> (\<forall>d data. r = Some (d, data) \<longrightarrow> d = c)"
proof -
  have r: "same_effects st st' \<and> auth st' = auth st \<and> (\<forall>d data. r = Some (d, data) \<longrightarrow> d = c)"
    if "reassemble H c f st = (r, st')" for f
    using that by (auto simp: reassemble_def same_effects_def split: prod.splits)
  have m: "same_effects st st' \<and> auth st' = auth st \<and> (\<forall>d data. r = Some (d, data) \<longrightarrow> d = c)"
    if "receive_message H c data st = (r, st')" for data
    using that r
    by (auto simp: receive_message_def same_effects_def split: option.splits NetworkEvent.splits)
  show ?thesis
    using assms drop_stranger [OF assms(1), of H]
    by (cases ev) (auto simp: normalize_def same_effects_def dest!: r m)
qed


definition closed_verifier :: "unit AuthSessionVerifier" where
  "closed_verifier = open_verifier\<lparr>vt_verify_session := (\<lambda>token tick a. (Inl InvalidToken, a))\<rparr>"


lemma effect_updates:
  assumes "effect H tick st st'" "x \<in> set (updates st')" "x \<notin> set (updates st)"
  shows "\<exists>session a. authorized_as H tick (fst x) session st (True, a)"
  using assms(1)
proof cases
  case (join c tok session a now)
  then show ?thesis using assms(2,3) by (simp add: admit_def Let_def kicks_simps)
next
  case (command c session a now data)
  have "fst x = c" using command(2)
  proof (cases rule: dispatch_cases)
    case start
    from start_session_frame(3) [OF this] assms(2,3) show ?thesis by simp
  qed (use assms(2,3) in \<open>auto simp: run_stress_test_def run_spawn_def run_clear_world_def request_manifest_def
      bind_eq_Some_conv Let_def split: if_splits\<close>)
  with command(1) show ?thesis by blast
qed (use assms(2,3) in auto)


definition ann :: "ClientId \<times> VerifiedSession \<times> NetworkId option" where
  "ann = (7, \<lparr>vs_player_id = ''a'', vs_jti = ''a''\<rparr>, None)"


text \<open>
  C13. Over any run of the scheduler, whatever the transports deliver: a client has one entry in the
  client table, a player is connected through one client, and only clients of the table have a
  timestamp. A second login of a player evicts the first.
\<close>

theorem one_client_per_player:
  assumes "iter_ok (clients_iter H)"
    and "run_scheduler H inps \<lparr>srv_sched = new_scheduler H rate, srv_world = w, srv_auth = a\<rparr> = Some (acts, sv)"
  shows "clients_ok (srv_sched sv)"
proof -
  have "clients_ok (set_outbound_tx (new_scheduler H rate))"
    by (simp add: clients_ok_def set_outbound_tx_def new_scheduler_def)
  then show ?thesis
    using client_table.P_run [of H _ inps acts sv, OF _ assms(2) [unfolded run_scheduler_def]] assms(1) by simp
qed

theorem one_client_per_player_witness:
  "\<exists>acts sv. run_scheduler (host_of still_world open_verifier)
      [quiet (Some [(0, ReliableMessage 7 [2])]), quiet (Some [(0, ReliableMessage 8 [2])])]
      \<lparr>srv_sched = new_scheduler (host_of still_world open_verifier) 60, srv_world = (), srv_auth = ()\<rparr> =
        Some (acts, sv) \<and>
    map fst (authenticated_clients (srv_sched sv)) = [8] \<and> acts = [Disconnect 7] \<and> clients_ok (srv_sched sv)"
proof -
  let ?H = "host_of still_world open_verifier"
  let ?run = "run_scheduler ?H
    [quiet (Some [(0, ReliableMessage 7 [2])]), quiet (Some [(0, ReliableMessage 8 [2])])]
    \<lparr>srv_sched = new_scheduler ?H 60, srv_world = (), srv_auth = ()\<rparr>"
  have "map_option (\<lambda>(acts, sv). (map fst (authenticated_clients (srv_sched sv)), acts)) ?run =
      Some ([8], [Disconnect 7])" by code_simp
  then obtain acts sv where "?run = Some (acts, sv)" "map fst (authenticated_clients (srv_sched sv)) = [8]"
    "acts = [Disconnect 7]" by auto
  moreover from one_client_per_player [OF _ this(1)] have "clients_ok (srv_sched sv)" by simp
  ultimately show ?thesis by (intro exI [of _ acts] exI [of _ sv] conjI)
qed

subsection \<open>Playground commands\<close>

text \<open>A host whose playground operations are replaced by others.\<close>

definition with_playground ::
  "(u16 \<Rightarrow> bool \<Rightarrow> 'w \<Rightarrow> 'w option) \<Rightarrow>
   (u16 \<Rightarrow> f32 \<Rightarrow> f32 \<Rightarrow> f32 \<Rightarrow> ClientId \<Rightarrow> 'w \<Rightarrow> (NetworkId \<times> 'w) option) \<Rightarrow>
   ('w \<Rightarrow> 'w) \<Rightarrow> ('w, 'a, 'r) host \<Rightarrow> ('w, 'a, 'r) host" where
  "with_playground stress spawn clear H =
     H\<lparr>world_vt := (world_vt H)\<lparr>vt_stress_test := stress, vt_spawn_kind_for := spawn, vt_clear_world := clear\<rparr>\<rparr>"

lemma with_playground_simps [simp]:
  "auth_vt (with_playground f g h H) = auth_vt H" "proto (with_playground f g h H) = proto H"
  "env_var (with_playground f g h H) = env_var H" "pkg_version (with_playground f g h H) = pkg_version H"
  "clients_iter (with_playground f g h H) = clients_iter H"
  "batches_iter (with_playground f g h H) = batches_iter H"
  "vt_advance_tick (world_vt (with_playground f g h H)) = vt_advance_tick (world_vt H)"
  "vt_despawn_networked (world_vt (with_playground f g h H)) = vt_despawn_networked (world_vt H)"
  "vt_spawn_session_agent (world_vt (with_playground f g h H)) = vt_spawn_session_agent (world_vt H)"
  "vt_queue_reliable_event (world_vt (with_playground f g h H)) = vt_queue_reliable_event (world_vt H)"
  "vt_apply_updates (world_vt (with_playground f g h H)) = vt_apply_updates (world_vt H)"
  "vt_simulate (world_vt (with_playground f g h H)) = vt_simulate (world_vt H)"
  "vt_extract_deltas (world_vt (with_playground f g h H)) = vt_extract_deltas (world_vt H)"
  "vt_state_hash (world_vt (with_playground f g h H)) = vt_state_hash (world_vt H)"
  "vt_extract_reliable_events (world_vt (with_playground f g h H)) = vt_extract_reliable_events (world_vt H)"
  "vt_post_extract (world_vt (with_playground f g h H)) = vt_post_extract (world_vt H)"
  "vt_get_entity_workspace (world_vt (with_playground f g h H)) = vt_get_entity_workspace (world_vt H)"
  "vt_get_client_workspace (world_vt (with_playground f g h H)) = vt_get_client_workspace (world_vt H)"
  by (simp_all add: with_playground_def)

text \<open>Everything but the three commands is the same operation on both hosts.\<close>

lemma playground_free:
  "drop_client (with_playground f g h H) = drop_client H"
  "kick (with_playground f g h H) = kick H"
  "revalidate (with_playground f g h H) = revalidate H"
  "ghosts (with_playground f g h H) = ghosts H"
  "reassemble (with_playground f g h H) = reassemble H"
  "start_session (with_playground f g h H) = start_session H"
  "can_run_playground_command (with_playground f g h H) = can_run_playground_command H"
  by (intro ext, simp add: drop_client_def kick_def revalidate_def ghosts_def reassemble_def start_session_def
      can_run_playground_command_def cong: option.case_cong)+

lemma playground_free_chunks:
  "send_chunks (with_playground f g h H) targets msg_id n_frags i cs = send_chunks H targets msg_id n_frags i cs"
  by (induction H targets msg_id n_frags i cs rule: send_chunks.induct) simp_all

lemma playground_free_stages:
  "receive_message (with_playground f g h H) = receive_message H"
  "admit (with_playground f g h H) = admit H"
  "validate_sessions (with_playground f g h H) = validate_sessions H"
  "record_golden (with_playground f g h H) = record_golden H"
  "send_reliable_events (with_playground f g h H) = send_reliable_events H"
  "client_batches (with_playground f g h H) = client_batches H"
  "encode_batch (with_playground f g h H) = encode_batch H"
  "fragment_and_send (with_playground f g h H) = fragment_and_send H"
  unfolding fun_eq_iff receive_message_def admit_def validate_sessions_def record_golden_def
    send_reliable_events_def reliable_targets_def client_batches_def batch_delta_def get_delta_targets_def
    encode_batch_def fragment_and_send_def with_playground_simps playground_free playground_free_chunks
  by simp_all

lemma playground_free_authenticate: "authenticate (with_playground f g h H) = authenticate H"
  unfolding fun_eq_iff authenticate_def with_playground_simps playground_free_stages by simp

lemma playground_free_send: "send_deltas (with_playground f g h H) = send_deltas H"
  unfolding fun_eq_iff send_deltas_def send_batch_def with_playground_simps playground_free_stages by simp

lemma gated_dispatch:
  assumes "\<not> can_run_playground_command H jti"
  shows "dispatch (with_playground f g h H) now c jti data st = dispatch H now c jti data st"
proof -
  have "protocol_event (with_playground f g h H) now c jti ev st = protocol_event H now c jti ev st" for ev
    using assms
    by (cases ev) (simp_all add: protocol_event_def run_stress_test_def run_spawn_def run_clear_world_def
        request_manifest_def get_filtered_manifest_def playground_free)
  then show ?thesis by (simp add: dispatch_def split: option.split)
qed

lemma gated_handle_event:
  assumes "env_var H ''AETHERIS_ENV'' \<noteq> Some ''dev''" "''admin'' \<notin> jtis (clients_of st)"
  shows "handle_event (with_playground f g h H) tick x st = handle_event H tick x st"
proof -
  have norm: "normalize (with_playground f g h H) now ev st = normalize H now ev st" for now ev
    by (cases ev) (simp_all add: normalize_def playground_free playground_free_stages)
  have "handle_message (with_playground f g h H) tick now c data st1 = handle_message H tick now c data st1"
    if "''admin'' \<notin> jtis (clients_of st1)" for now c data st1
  proof (cases "map_of (clients_of st1) c")
    case None
    then show ?thesis by (simp add: handle_message_def playground_free_authenticate)
  next
    case (Some y)
    then have "\<not> can_run_playground_command H (vs_jti (fst y))"
      using that assms(1) jtis_map_of [of "clients_of st1" c "fst y" "snd y"]
      by (auto simp: can_run_playground_command_def)
    then show ?thesis using Some
      by (cases y) (simp add: handle_message_def gated_dispatch playground_free split: prod.split bool.split)
  qed
  moreover have "''admin'' \<notin> jtis (clients_of st1)" if "normalize H now ev st = (r, st1)" for now ev r st1
    using that assms(2)
    by (cases ev) (auto simp: normalize_def receive_message_def reassemble_def push_pong_def
        dest: subsetD [OF jtis_delete] split: prod.splits if_splits option.splits NetworkEvent.splits)
  ultimately show ?thesis
    by (simp add: handle_event_def norm split: prod.split option.split)
qed

lemma no_admin_effect:
  assumes "effect H tick st st'" "''admin'' \<notin> jtis (clients_of st)"
    "\<forall>tok t a session a'. vt_verify_session (auth_vt H) tok t a = (Inr session, a') \<longrightarrow> vs_jti session \<noteq> ''admin''"
  shows "''admin'' \<notin> jtis (clients_of st')"
  using assms(1)
proof cases
  case (join c tok session a now)
  then have "vs_jti session \<noteq> ''admin''" using assms(3) by blast
  then show ?thesis using assms(2) jtis_admit [of H now c session "st\<lparr>auth := a\<rparr>"] by (auto simp: join(1))
next
  case (command c session a now data)
  then show ?thesis using assms(2) jtis_dispatch [OF command(2)] by auto
qed (use assms(2) in \<open>auto dest: subsetD [OF jtis_delete]\<close>)

lemma no_admin_event:
  assumes "handle_event H tick x st = Some st'" "''admin'' \<notin> jtis (clients_of st)"
    "\<forall>tok t a session a'. vt_verify_session (auth_vt H) tok t a = (Inr session, a') \<longrightarrow> vs_jti session \<noteq> ''admin''"
  shows "''admin'' \<notin> jtis (clients_of st')"
  using handle_event_effects [OF assms(1)] assms(2)
  by (induction rule: rtranclp_induct) (auto dest: no_admin_effect [OF _ _ assms(3)])



subsection \<open>What is sent\<close>

text \<open>
  C15. Replication is exact: stage 5 does not panic, and each client of the table is sent precisely
  the deltas of this tick it may see, in order, as one encoded batch (split into fragments under one
  message identifier when it is too large): every entity outside a workspace, and the entities of
  the client's own workspace. Nobody else is sent anything, and neither the batching, the worker
  buffers nor the iteration orders of the hash maps make a difference.
\<close>

theorem replication_exact:
  assumes "iter_ok (clients_iter H)" "iter_ok (batches_iter H)" "encoder_ok (proto H)"
    and "0 < MAX_FRAGMENT_PAYLOAD_SIZE (proto H)" "outbound_tx s"
    and "distinct (map fst (authenticated_clients s))"
  shows "\<exists>acts s'. send_deltas H inp w deltas s = Some (acts, s') \<and>
    (\<forall>c. \<exists>msg_id. sent_to c acts =
       (if c \<in> fst ` set (authenticated_clients s) \<and> filter (visible H w c) deltas \<noteq> []
        then case encode_event (proto H) (ReplicationBatch c (filter (visible H w c) deltas)) of
               Inr data \<Rightarrow> wire_messages H msg_id data | Inl _ \<Rightarrow> []
        else []))"
  by (rule send_deltas_messages [OF assms])

definition sample_delta :: ReplicationEvent where
  "sample_delta = \<lparr>re_network_id = 1, re_component_kind = 1, re_payload = [9], re_tick = 0\<rparr>"

theorem replication_exact_witness:
  "\<exists>acts s'. send_deltas (host_of still_world open_verifier) (quiet None) () [sample_delta]
      (srv_sched (server_with [ann] () ())) = Some (acts, s') \<and> sent_to 7 acts = [[]] \<and> sent_to 8 acts = []"
proof -
  let ?H = "host_of still_world open_verifier" and ?s = "srv_sched (server_with [ann] () ())"
  obtain acts s' where run: "send_deltas ?H (quiet None) () [sample_delta] ?s = Some (acts, s')"
    and msgs: "\<forall>c. \<exists>msg_id. sent_to c acts =
       (if c \<in> fst ` set (authenticated_clients ?s) \<and> filter (visible ?H () c) [sample_delta] \<noteq> []
        then case encode_event (proto ?H) (ReplicationBatch c (filter (visible ?H () c) [sample_delta])) of
               Inr data \<Rightarrow> wire_messages ?H msg_id data | Inl _ \<Rightarrow> []
        else [])"
    using replication_exact [of ?H ?s "quiet None" "()" "[sample_delta]"] sample_encoder_ok
    by (auto simp: server_with_def new_scheduler_def ann_def sample_proto_def)
  note eval = server_with_def new_scheduler_def ann_def sample_proto_def visible_def still_world_def
    sample_encode_def wire_messages_def
  have "sent_to 7 acts = [[]]" using spec [OF msgs, of 7] by (auto simp: eval)
  moreover have "sent_to 8 acts = []" using spec [OF msgs, of 8] by (auto simp: eval)
  ultimately show ?thesis using run by blast
qed

text \<open>The fragments a receiver decodes from the messages of a client.\<close>

definition received :: "('w, 'a, 'r) host \<Rightarrow> ClientId \<Rightarrow> action list \<Rightarrow> FragmentedEvent list" where
  "received H c acts =
     List.map_filter (\<lambda>d. case decode_event (proto H) d of Some (Fragment _ f) \<Rightarrow> Some f | _ \<Rightarrow> None) (sent_to c acts)"

lemma received_fragments:
  assumes "\<forall>f. \<exists>d. encode_event (proto H) (Fragment 0 f) = Inr d \<and> decode_event (proto H) d = Some (Fragment 0 f)"
  shows "received H c (map (\<lambda>d. Enqueue (Unreliable c d)) (fragment_messages H msg_id data)) =
    fragments (MAX_FRAGMENT_PAYLOAD_SIZE (proto H)) msg_id data"
proof -
  have "List.map_filter (\<lambda>d. case decode_event (proto H) d of Some (Fragment _ f) \<Rightarrow> Some f | _ \<Rightarrow> None)
      (List.map_filter (\<lambda>f. case encode_event (proto H) (Fragment 0 f) of Inr d \<Rightarrow> Some d | Inl _ \<Rightarrow> None) fs) = fs" for fs
  proof (induction fs)
    case (Cons f fs)
    obtain d where "encode_event (proto H) (Fragment 0 f) = Inr d" "decode_event (proto H) d = Some (Fragment 0 f)"
      using assms by blast
    then show ?case using Cons by (simp add: List.map_filter_simps)
  qed (simp add: List.map_filter_simps)
  then show ?thesis by (simp add: received_def sent_to_unreliable fragment_messages_def)
qed

lemma fragments_facts:
  assumes "0 < n"
  shows "concat (map payload (fragments n msg_id data)) = data"
    "map fragment_index (fragments n msg_id data) = map of_nat [0..<length (fragments n msg_id data)]"
    "f \<in> set (fragments n msg_id data) \<Longrightarrow> message_id f = msg_id \<and> length (payload f) \<le> n \<and>
       total_fragments f = of_nat (length (fragments n msg_id data))"
proof -
  have "map payload (fragments n msg_id data) = chunks n data"
    by (simp add: fragments_def Let_def comp_def case_prod_unfold)
  then show "concat (map payload (fragments n msg_id data)) = data" using concat_chunks [OF assms] by simp
  have "map fragment_index (fragments n msg_id data) = map of_nat (map fst (enumerate 0 (chunks n data)))"
    unfolding fragments_def Let_def map_map by (intro map_cong refl) auto
  then show "map fragment_index (fragments n msg_id data) = map of_nat [0..<length (fragments n msg_id data)]"
    unfolding map_fst_enumerate by (simp add: fragments_def Let_def)
  show "f \<in> set (fragments n msg_id data) \<Longrightarrow> message_id f = msg_id \<and> length (payload f) \<le> n \<and>
       total_fragments f = of_nat (length (fragments n msg_id data))"
    using chunks_bounds [of _ n data] by (auto simp: fragments_def Let_def in_set_enumerate_eq)
qed

text \<open>
  C16. Fragmentation round trip: a batch that needs at most 65535 fragments is sent completely, and
  the fragments a receiver decodes carry the message identifier, consecutive indices, the right
  total and at most the maximal payload each, and together give the batch back. A larger batch is
  refused as a whole with an error, nothing is sent, and only its identifier is used up.
\<close>

theorem fragmentation_roundtrip:
  assumes "\<forall>f. \<exists>d. encode_event (proto H) (Fragment 0 f) = Inr d \<and> decode_event (proto H) d = Some (Fragment 0 f)"
    and "0 < MAX_FRAGMENT_PAYLOAD_SIZE (proto H)" "outbound_tx s"
  shows "case fragment_and_send H data (length data) (Recipients [c]) s of
      Some (Inr n, acts, s') \<Rightarrow>
        length data \<le> 65535 * MAX_FRAGMENT_PAYLOAD_SIZE (proto H) \<and>
        s' = s\<lparr>next_message_id := next_message_id s + 1\<rparr> \<and>
        concat (map payload (received H c acts)) = data \<and>
        map fragment_index (received H c acts) = map of_nat [0..<length (received H c acts)] \<and>
        (\<forall>f \<in> set (received H c acts). message_id f = next_message_id s \<and>
           length (payload f) \<le> MAX_FRAGMENT_PAYLOAD_SIZE (proto H) \<and>
           total_fragments f = of_nat (length (received H c acts)))
    | Some (Inl e, acts, s') \<Rightarrow>
        length data > 65535 * MAX_FRAGMENT_PAYLOAD_SIZE (proto H) \<and> e = IoError ''Too many fragments'' \<and>
        acts = [] \<and> s' = s\<lparr>next_message_id := next_message_id s + 1\<rparr>
    | None \<Rightarrow> False"
  by (simp add: fragment_and_send_messages [OF assms(3,2)] received_fragments [OF assms(1)]
      fragments_facts [OF assms(2)])

theorem fragmentation_roundtrip_witness:
  "\<exists>n acts s'. fragment_and_send (host_of still_world open_verifier) [9, 8, 7] (length ([9, 8, 7] :: bytes)) (Recipients [7])
      (srv_sched (server_with [ann] () ())) = Some (Inr n, acts, s') \<and>
    concat (map payload (received (host_of still_world open_verifier) 7 acts)) = [9, 8, 7]"
proof -
  let ?H = "host_of still_world open_verifier" and ?s = "srv_sched (server_with [ann] () ())"
  have s: "outbound_tx ?s" by (simp add: server_with_def)
  have codec: "\<forall>f. \<exists>d. encode_event (proto ?H) (Fragment 0 f) = Inr d \<and> decode_event (proto ?H) d = Some (Fragment 0 f)"
    using sample_decode_fragment by (simp add: sample_proto_def)
  have pos: "0 < MAX_FRAGMENT_PAYLOAD_SIZE (proto ?H)" by (simp add: sample_proto_def)
  obtain n acts s' where r: "fragment_and_send ?H [9, 8, 7] (length ([9, 8, 7] :: bytes)) (Recipients [7]) ?s =
      Some (Inr n, acts, s')"
    using fragment_and_send_messages [OF s pos, of "[9, 8, 7]" 7] by (auto simp: sample_proto_def)
  from fragmentation_roundtrip [OF codec pos s, of "[9, 8, 7]" 7] r show ?thesis by (simp only: r) auto
qed

end
