(* ===== verification/Tick_World.thy ===== *)
theory Tick_World
  imports Tick_Inv Adapter_Runs
begin

text \<open>
  The contract between the scheduler and the world it drives, and the adapter as its provider: the
  locale \<open>world_contract\<close> states what the scheduler relies on, its lemmas say what a tick, a
  disconnect and \<^verbatim>\<open>ClearWorld\<close> do to any such world, and \<open>adapter_world\<close> interprets it on the methods
  of \<^verbatim>\<open>BevyWorldAdapter\<close>.
\<close>

subsection \<open>The contract\<close>

locale world_contract =
  fixes V :: "'w WorldState" and inv :: "'w \<Rightarrow> bool" and known :: "'w \<Rightarrow> NetworkId set"
  assumes inv_advance: "inv w \<Longrightarrow> inv (vt_advance_tick V w)"
    and inv_stress: "inv w \<Longrightarrow> vt_stress_test V n rot w = Some w' \<Longrightarrow> inv w'"
    and inv_despawn: "inv w \<Longrightarrow> inv (vt_despawn_networked V nid w)"
    and inv_spawn: "inv w \<Longrightarrow> vt_spawn_kind_for V k x y r c w = Some (nid, w') \<Longrightarrow> inv w'"
    and inv_agent: "inv w \<Longrightarrow> vt_spawn_session_agent V k x y r c w = Some (nid, w') \<Longrightarrow> inv w'"
    and inv_queue: "inv w \<Longrightarrow> inv (vt_queue_reliable_event V t ev w)"
    and inv_clear: "inv w \<Longrightarrow> inv (vt_clear_world V w)"
    and inv_apply: "inv w \<Longrightarrow> inv (vt_apply_updates V us w)"
    and inv_simulate: "inv w \<Longrightarrow> vt_simulate V w = Some w' \<Longrightarrow> inv w'"
    and inv_extract: "inv w \<Longrightarrow> inv (snd (vt_extract_deltas V w))"
    and inv_events: "inv w \<Longrightarrow> inv (snd (vt_extract_reliable_events V w))"
    and inv_post: "inv w \<Longrightarrow> inv (vt_post_extract V w)"
    and known_agent: "inv w \<Longrightarrow> vt_spawn_session_agent V k x y r c w = Some (nid, w') \<Longrightarrow> nid \<in> known w'"
    and known_despawn: "inv w \<Longrightarrow> known (vt_despawn_networked V nid w) = known w - {nid}"
    and known_clear: "inv w \<Longrightarrow> known (vt_clear_world V w) = {}"
    and known_queue: "known (vt_queue_reliable_event V t ev w) = known w"
begin

definition sound :: "('w, 'a, 'r) host \<Rightarrow> ('w, 'a, 'r) tick_state \<Rightarrow> bool" where
  "sound H st \<longleftrightarrow> world_vt H = V \<and> inv (wld st)"

lemma soundD: "sound H st \<Longrightarrow> world_vt H = V" "sound H st \<Longrightarrow> inv (wld st)"
  by (simp_all add: sound_def)

lemma sound_iff: "world_vt H = V \<Longrightarrow> sound H st \<longleftrightarrow> inv (wld st)"
  by (simp add: sound_def)

lemma sound_drop:
  assumes "sound H st"
  shows "sound H (drop_client H c st)"
  using soundD(2) [OF assms]
  by (simp add: soundD(1) [OF assms] sound_iff drop_client_def inv_despawn split: option.split)

lemma sound_wld: "sound H st \<Longrightarrow> wld st' = wld st \<Longrightarrow> sound H st'"
  by (simp add: sound_def)

lemma sound_start:
  assumes "sound H st" "start_session H c st = Some st'"
  shows "sound H st'"
  using assms(2) soundD(2) [OF assms(1)]
  by (auto simp: start_session_def soundD(1) [OF assms(1)] sound_iff bind_eq_Some_conv intro!: inv_queue split: option.splits)
    (erule (1) inv_agent)

lemma sound_dispatch:
  assumes "dispatch H now c jti data st = Some st'" "sound H st"
  shows "sound H st'"
  using assms(1)
proof (cases rule: dispatch_cases)
  case start
  with assms(2) show ?thesis by (rule sound_start)
next
  case (stress n r)
  then show ?thesis using soundD(2) [OF assms(2)]
    by (auto simp: soundD(1) [OF assms(2)] run_stress_test_def sound_iff bind_eq_Some_conv dest: inv_stress split: if_splits)
next
  case (spawn k x y r)
  then show ?thesis using soundD(2) [OF assms(2)]
    by (auto simp: soundD(1) [OF assms(2)] run_spawn_def sound_iff bind_eq_Some_conv dest: inv_spawn split: if_splits)
qed (use soundD(2) [OF assms(2)] in \<open>auto simp: soundD(1) [OF assms(2)] sound_iff run_clear_world_def request_manifest_def Let_def inv_clear inv_queue\<close>)

lemma sound_kicks: "sound H st \<Longrightarrow> sound H (fold (kick H) ids st)"
  by (erule fold_invariant_set) (metis kick_simps(6) sound_drop sound_wld)

lemma sound_effect:
  assumes "effect H tick st st'" "sound H st"
  shows "sound H st'"
  using assms(1)
proof cases
  case (join c tok session a now)
  have "sound H (st\<lparr>auth := a\<rparr>)" using assms(2) by (simp add: sound_def)
  from sound_kicks [OF this] show ?thesis by (simp add: join admit_def Let_def sound_def)
next
  case (revoke c session a)
  have "sound H (st\<lparr>auth := a\<rparr>)" using assms(2) by (simp add: sound_def)
  then show ?thesis unfolding revoke(1) by (rule sound_drop)
next
  case (command c session a now data)
  have "sound H (st\<lparr>auth := a\<rparr>)" using assms(2) by (simp add: sound_def)
  with command(2) show ?thesis by (rule sound_dispatch)
qed (use assms(2) sound_drop in \<open>auto intro: sound_wld\<close>)

lemma sound_finish:
  assumes "sound H st" "finish_tick H inp tick st = Some (ended, sent, st')"
  shows "sound H st'"
  using assms(2)
proof (cases rule: finish_tickE)
  case (1 w deltas w1 golden s)
  note V [simp] = soundD(1) [OF assms(1)]
  have w1: "inv w1"
    using 1(1,2) V soundD(2) [OF assms(1)] inv_extract [of w] inv_simulate by (metis snd_conv)
  show ?thesis
  proof (cases ended)
    case True
    then show ?thesis using 1(4) w1 by (simp add: sound_iff)
  next
    case False
    then show ?thesis using 1(6) w1 inv_events [of w1] by (auto simp: sound_iff intro!: inv_post)
  qed
qed

lemma sound_begin:
  assumes "sound H (tick_locals sv)" "begin_tick H sv = Some st"
  shows "sound H st"
  using assms(2) soundD(2) [OF assms(1)]
  by (auto simp: soundD(1) [OF assms(1)] begin_tick_def sound_iff Let_def bind_eq_Some_conv intro: inv_advance inv_stress [OF inv_advance] split: if_splits)

sublocale drive: tick_invariant H "sound H" for H :: "('w, 'a, 'r) host"
proof unfold_locales
  show "sound H st \<Longrightarrow> sound H (kick H c st)" for st and c
    using sound_kicks [of H st "[c]"] by simp
  show "sound H st \<Longrightarrow> sound H (st\<lparr>wld := vt_apply_updates (world_vt H) (updates st) (wld st),
      sched := (sched st)\<lparr>reassembler := r\<rparr>\<rparr>)" for st r
    by (simp add: sound_def inv_apply)
qed (auto intro: sound_effect sound_wld sound_finish sound_begin)

text \<open>A client that leaves is forgotten, and so is its agent.\<close>

lemma leaver_forgotten:
  assumes "sound H st" "map_of (clients_of st) c = Some (session, Some nid)"
  shows "nid \<notin> known (wld (drop_client H c st))"
    "known (wld (drop_client H c st)) = known (wld st) - {nid}"
    "map_of (clients_of (drop_client H c st)) c = None"
  using assms(2) soundD(2) [OF assms(1)]
  by (auto simp: soundD(1) [OF assms(1)] known_despawn drop_client_def delete_conv')

text \<open>After \<^verbatim>\<open>ClearWorld\<close> by one client, the \<^verbatim>\<open>StartSession\<close> of another one that had an agent spawns
  nothing and announces the possession of an identifier that names no entity.\<close>

lemma clear_strands:
  assumes "sound H st" "map_of (clients_of st) c = Some (session, Some nid)" "c \<noteq> d"
    "can_run_playground_command H jti"
  shows "\<exists>st'. start_session H c (run_clear_world H d jti st) = Some st' \<and> known (wld st') = {} \<and>
    wld st' = vt_queue_reliable_event V (Some c) (Possession nid) (vt_clear_world V (wld st)) \<and>
    map_of (clients_of st') c = Some (session, Some nid)"
proof -
  have "map_of (clients_of (set_agent d n st)) c = Some (session, Some nid)" for n
    using assms(2,3) by (simp add: set_agent_def update_conv' split: option.split)
  then show ?thesis
    using assms(4) soundD(2) [OF assms(1)]
    by (auto simp: soundD(1) [OF assms(1)] known_clear start_session_def run_clear_world_def Let_def known_queue)
qed

end

subsection \<open>The adapter\<close>

definition adapter_vt :: "ecs_env \<Rightarrow> adapter WorldState" where
  "adapter_vt env =
     \<lparr>vt_advance_tick = advance_tick,
      vt_stress_test = stress_test env,
      vt_despawn_networked = (\<lambda>nid a. snd (despawn_networked nid a)),
      vt_spawn_kind_for = spawn_kind_for env,
      vt_spawn_session_agent = spawn_session_agent env,
      vt_queue_reliable_event = queue_reliable_event,
      vt_clear_world = clear_world env,
      vt_apply_updates = apply_updates env,
      vt_simulate = simulate env,
      vt_extract_deltas = extract_deltas env,
      vt_state_hash = state_hash env,
      vt_extract_reliable_events = extract_reliable_events,
      vt_post_extract = post_extract,
      vt_get_entity_workspace = get_entity_workspace,
      vt_get_client_workspace = get_client_workspace env\<rparr>"

definition known_ids :: "adapter \<Rightarrow> NetworkId set" where
  "known_ids a = fst ` set (bimap a)"

lemma known_ids_despawn:
  assumes "adapter_ok bound a"
  shows "known_ids (snd (despawn_networked nid a)) = known_ids a - {nid}"
proof (cases "nid \<in> known_ids a")
  case True
  then obtain e where "(nid, e) \<in> set (bimap a)" by (auto simp: known_ids_def)
  from despawn_known(2) [OF assms this] show ?thesis by (force simp: known_ids_def remove_by_left_def)
next
  case False
  then have "get_by_left (bimap a) nid = None"
    by (auto simp: known_ids_def get_by_left_def map_of_eq_None_iff)
  with False show ?thesis by (simp add: despawn_networked_def)
qed

lemma ok_spawns:
  assumes "env_ok env bound" "adapter_ok bound a"
  shows "spawn_kind_for env k x y r c a = Some (n, a') \<Longrightarrow> adapter_ok bound a'"
    "spawn_session_agent env k x y r c a = Some (n, a') \<Longrightarrow> adapter_ok bound a' \<and> n \<in> known_ids a'"
  using spawn_kind_for_facts [OF assms] spawn_session_agent_facts [OF assms]
  by (metis known_ids_def fst_conv imageI)+

lemma known_ids_simps:
  "env_ok env bound \<Longrightarrow> adapter_ok bound a \<Longrightarrow> known_ids (clear_world env a) = {}"
  "known_ids (queue_reliable_event t ev a) = known_ids a"
  using clear_world_bimap [OF env_okD(1)] by (simp_all add: known_ids_def queue_reliable_event_def)

interpretation adapter_world:
  world_contract "adapter_vt env" "\<lambda>a. env_ok env bound \<and> adapter_ok bound a" known_ids for env bound
  by unfold_locales
    (auto simp: adapter_vt_def ok_resources ok_despawn ok_clear_world apply_updates_plain(2) env_okD(1)
      known_ids_despawn known_ids_simps dest: ok_stress_test ok_simulate ok_spawns)

end
