(* ===== verification/Tick_Auth.thy ===== *)
theory Tick_Auth
  imports Tick_Clients Auth_Props
begin

text \<open>
  The authentication service as the scheduler's session verifier: \<^verbatim>\<open>impl AuthSessionVerifier for
  AuthServiceImpl\<close> with the wall clock it reads, and the interpretation of the verifier contract for
  logged-out sessions.
\<close>

text \<open>The service with its clock: the \<open>n\<close>-th reading is \<open>clock_at n\<close>.\<close>

record clocked_auth =
  svc :: AuthServiceImpl
  clock_at :: "nat \<Rightarrow> datetime"
  clock_reads :: nat

definition auth_verifier :: "auth_lib \<Rightarrow> clocked_auth AuthSessionVerifier" where
  "auth_verifier L =
     \<lparr>vt_verify_session = (\<lambda>token tick a.
        case verify_session L (svc a) token tick (clock_at a (clock_reads a)) (clock_at a (clock_reads a + 1)) of
          (r, st) \<Rightarrow> (r, a\<lparr>svc := st, clock_reads := clock_reads a + 2\<rparr>)),
      vt_is_session_authorized = (\<lambda>jti tick a.
        case is_session_authorized_with_tick (svc a) jti tick (clock_at a (clock_reads a)) of
          (ok, st) \<Rightarrow> (ok, a\<lparr>svc := st, clock_reads := clock_reads a + 1\<rparr>))\<rparr>"

lemma session_dead_refused:
  "session_dead j st \<Longrightarrow> is_session_authorized_with_tick st j tick now = (False, st)"
  by (simp add: session_dead_def is_session_authorized_with_tick_def)

lemma verify_session_dead:
  assumes "session_dead j st" "verify_session L st token tick now now' = (r, st')"
  shows "session_dead j st'" "\<And>session. r = Inr session \<Longrightarrow> vs_jti session \<noteq> j"
proof -
  have keep: "session_dead j st'" if "is_session_authorized_with_tick st k tick now' = (ok, st')" for k ok st'
    using session_dead_authorize [OF assms(1), of k tick now'] that by simp
  show "session_dead j st'"
    using assms by (auto simp: verify_session_def dest: keep split: option.splits prod.splits bool.splits)
  show "vs_jti session \<noteq> j" if "r = Inr session" for session
    using assms that session_dead_refused [OF assms(1)]
    by (auto simp: verify_session_def split: option.splits prod.splits bool.splits)
qed

interpretation auth_service:
  verifier_contract "auth_verifier L" "\<lambda>a j. session_dead j (svc a)" for L
proof unfold_locales
  show "session_dead j (svc a) \<Longrightarrow> vt_is_session_authorized (auth_verifier L) j t a = (ok, a') \<Longrightarrow> \<not> ok" for a j t ok a'
    by (auto simp: auth_verifier_def session_dead_refused)
  show "session_dead j (svc a) \<Longrightarrow> vt_is_session_authorized (auth_verifier L) k t a = (ok, a') \<Longrightarrow>
      session_dead j (svc a')" for a j k t ok a'
    using session_dead_authorize [of j "svc a" k t "clock_at a (clock_reads a)"]
    by (auto simp: auth_verifier_def split: prod.splits)
  show "session_dead j (svc a) \<Longrightarrow> vt_verify_session (auth_verifier L) tok t a = (r, a') \<Longrightarrow>
      session_dead j (svc a')" for a j tok t r a'
    by (auto simp: auth_verifier_def dest: verify_session_dead(1) split: prod.splits)
  show "session_dead (vs_jti session) (svc a) \<Longrightarrow> vt_verify_session (auth_verifier L) tok t a \<noteq> (Inr session, a')"
    for a session tok t a'
    by (auto simp: auth_verifier_def dest: verify_session_dead(2) split: prod.splits)
qed

end
