(* ===== verification/Outbound.thy ===== *)
theory Outbound
  imports Tick
begin

text \<open>
  The outbound task of \<^verbatim>\<open>TickScheduler::run\<close> and its bounded channel, interleaved with the sends of
  one tick. \<^verbatim>\<open>tick_step\<close> holds the write lock of the transport from its first line until
  \<^verbatim>\<open>drop(transport)\<close>, and \<^verbatim>\<open>tx.send(..).await\<close> waits while the channel is full; the task takes a
  message from the channel and then waits for the read lock before it hands the message to the
  transport. The shutdown signal and failing sends of the transport are left out.
\<close>

subsection \<open>The channel and its two ends\<close>

definition CHANNEL_CAPACITY :: nat where "CHANNEL_CAPACITY = 2048"

record pipe =
  to_send :: "OutboundMessage list"
  chan :: "OutboundMessage list"
  in_hand :: "OutboundMessage option"
  write_locked :: bool
  delivered :: "OutboundMessage list"

inductive pipe_step :: "pipe \<Rightarrow> pipe \<Rightarrow> bool" where
  send: "to_send p = m # ms \<Longrightarrow> write_locked p \<Longrightarrow> length (chan p) < CHANNEL_CAPACITY \<Longrightarrow>
           pipe_step p (p\<lparr>to_send := ms, chan := chan p @ [m]\<rparr>)"
| recv: "in_hand p = None \<Longrightarrow> chan p = m # ms \<Longrightarrow> pipe_step p (p\<lparr>in_hand := Some m, chan := ms\<rparr>)"
| deliver: "in_hand p = Some m \<Longrightarrow> \<not> write_locked p \<Longrightarrow>
           pipe_step p (p\<lparr>in_hand := None, delivered := delivered p @ [m]\<rparr>)"
| release: "to_send p = [] \<Longrightarrow> write_locked p \<Longrightarrow> pipe_step p (p\<lparr>write_locked := False\<rparr>)"

inductive_cases pipe_stepE: "pipe_step p q"

fun enqueued :: "action list \<Rightarrow> OutboundMessage list" where
  "enqueued [] = []"
| "enqueued (Enqueue m # acts) = m # enqueued acts"
| "enqueued (_ # acts) = enqueued acts"

text \<open>The pipe when a tick starts, with what earlier ticks left in it.\<close>

definition tick_pipe :: "OutboundMessage list \<Rightarrow> OutboundMessage option \<Rightarrow> action list \<Rightarrow> pipe" where
  "tick_pipe backlog hand acts =
     \<lparr>to_send = enqueued acts, chan = backlog, in_hand = hand, write_locked = True, delivered = []\<rparr>"

subsection \<open>What every step keeps\<close>

abbreviation pipe_steps :: "pipe \<Rightarrow> pipe \<Rightarrow> bool" where
  "pipe_steps \<equiv> pipe_step\<^sup>*\<^sup>*"

definition held :: "pipe \<Rightarrow> OutboundMessage list" where
  "held p = (case in_hand p of Some m \<Rightarrow> [m] | None \<Rightarrow> []) @ chan p @ to_send p"

definition pipe_done :: "pipe \<Rightarrow> bool" where
  "pipe_done p \<longleftrightarrow> held p = [] \<and> \<not> write_locked p"

definition pipe_ok :: "pipe \<Rightarrow> bool" where
  "pipe_ok p \<longleftrightarrow> length (chan p) \<le> CHANNEL_CAPACITY \<and> (\<not> write_locked p \<longrightarrow> to_send p = [])"

lemma pipe_order: "pipe_step p q \<Longrightarrow> delivered q @ held q = delivered p @ held p"
  by (auto elim!: pipe_stepE simp: held_def)

lemma pipe_ok_step: "pipe_step p q \<Longrightarrow> pipe_ok p \<Longrightarrow> pipe_ok q"
  by (auto elim!: pipe_stepE simp: pipe_ok_def)

lemma pipe_steps_invariant:
  assumes "pipe_steps p q" "pipe_ok p"
  shows "pipe_ok q \<and> delivered q @ held q = delivered p @ held p"
  using assms by induction (auto dest: pipe_order pipe_ok_step)

text \<open>Steps left: a message waits to be sent, received and delivered.\<close>

definition pipe_work :: "pipe \<Rightarrow> nat" where
  "pipe_work p = 3 * length (to_send p) + 2 * length (chan p) + (if in_hand p = None then 0 else 1)
                 + (if write_locked p then 1 else 0)"

lemma pipe_work_less: "pipe_step p q \<Longrightarrow> pipe_work q < pipe_work p"
  by (auto elim!: pipe_stepE simp: pipe_work_def)

lemma pipe_progress:
  assumes "pipe_ok p" "length (held p) \<le> CHANNEL_CAPACITY + 1" "\<not> pipe_done p"
  shows "\<exists>q. pipe_step p q"
proof (cases "in_hand p = None \<and> chan p \<noteq> [] \<or> write_locked p \<and> to_send p = []")
  case True
  then show ?thesis by (metis list.exhaust pipe_step.recv pipe_step.release)
next
  case False
  show ?thesis
  proof (cases "write_locked p")
    case True
    then obtain m ms where m: "to_send p = m # ms" using False by (cases "to_send p") auto
    then have "length (chan p) < CHANNEL_CAPACITY"
      using assms(2) False by (auto simp: held_def CHANNEL_CAPACITY_def split: option.splits)
    with m True show ?thesis by (blast intro: pipe_step.send)
  next
    case unlocked: False
    then obtain m where "in_hand p = Some m"
      using assms(1,3) False by (auto simp: pipe_ok_def pipe_done_def held_def split: option.splits)
    with unlocked show ?thesis by (blast intro: pipe_step.deliver)
  qed
qed

lemma held_step_le: "pipe_step p q \<Longrightarrow> length (held q) \<le> length (held p)"
  by (auto elim!: pipe_stepE simp: held_def)

lemma pipe_completes:
  assumes "pipe_ok p" "length (held p) \<le> CHANNEL_CAPACITY + 1"
  shows "\<exists>q. pipe_steps p q \<and> pipe_done q"
  using assms
proof (induction "pipe_work p" arbitrary: p rule: less_induct)
  case less
  show ?case
  proof (cases "pipe_done p")
    case False
    then obtain q where q: "pipe_step p q" using pipe_progress less.prems by blast
    have "length (held q) \<le> CHANNEL_CAPACITY + 1" using held_step_le [OF q] less.prems(2) by simp
    then obtain r where "pipe_steps q r" "pipe_done r"
      using less.hyps [OF pipe_work_less [OF q] pipe_ok_step [OF q less.prems(1)]] by blast
    with q show ?thesis by (meson converse_rtranclp_into_rtranclp)
  qed auto
qed

lemma locked_held:
  assumes "pipe_step p q" "write_locked p" "pipe_ok p" "length (held p) > CHANNEL_CAPACITY + 1"
  shows "write_locked q \<and> length (held q) = length (held p)"
  using assms by (auto elim!: pipe_stepE simp: held_def pipe_ok_def split: option.splits)

lemma pipe_stuck:
  assumes "pipe_steps p q" "write_locked p" "pipe_ok p" "length (held p) > CHANNEL_CAPACITY + 1"
  shows "write_locked q \<and> length (held q) = length (held p)"
  using assms
proof (induction rule: rtranclp_induct)
  case (step q r)
  then show ?case using locked_held [of q r] pipe_steps_invariant [of p q] by simp
qed simp

lemma tick_pipe_simps [simp]:
  "write_locked (tick_pipe b h acts)" "delivered (tick_pipe b h acts) = []"
  "held (tick_pipe b h acts) = (case h of Some m \<Rightarrow> [m] | None \<Rightarrow> []) @ b @ enqueued acts"
  "pipe_ok (tick_pipe b h acts) \<longleftrightarrow> length b \<le> CHANNEL_CAPACITY"
  by (simp_all add: tick_pipe_def held_def pipe_ok_def)

end
