(* ===== verification/Tick_Server.thy ===== *)
theory Tick_Server
  imports Tick_Props Tick_World Tick_Auth Outbound Adapter_Props
begin

text \<open>
  The scheduler together with its neighbours: the authentication service as verifier, the adapter as
  world, and the outbound task behind the bounded channel.
\<close>

subsection \<open>With the authentication service\<close>

text \<open>
  C12. A revoked session does not survive the periodic validation: when a session has been logged out
  or rotated away before a tick whose number is a multiple of 60, then after that tick no client
  holds it, even if clients try to authenticate with its token during the tick, and every client
  that held it is disconnected.
\<close>

theorem revoked_session_dropped:
  assumes "auth_vt H = auth_verifier L" "iter_ok (clients_iter H)" "clients_ok (srv_sched sv)"
    and "session_dead j (svc (srv_auth sv))" "current_tick (srv_sched sv) mod 60 = 0"
    and "polled inp \<noteq> None" "tick_step H inp sv = Some (ended, acts, sv')"
  shows "j \<notin> jtis (authenticated_clients (srv_sched sv')) \<and>
    (\<forall>(c, session, agent) \<in> set (authenticated_clients (srv_sched sv)).
       vs_jti session = j \<longrightarrow> ended \<or> Disconnect c \<in> set acts)"
  using assms(7)
proof (cases rule: tick_stepE)
  case skipped
  with assms(6) show ?thesis by simp
next
  case (ran events st st1 sent st2)
  let ?tick = "current_tick (srv_sched sv)"
  note B = begin_tick_frame [OF ran(2)]
  have st: "distinct (map fst (clients_of st))" "session_dead j (svc (auth st))"
    using assms(3,4) B by (simp_all add: clients_ok_def)
  note V = auth_service.validate_removes [OF assms(1,2) st(1) assms(5) st(2)]
  have "auth_service.gone L H j st2"
    using auth_service.gone_after.P_finish [OF auth_service.gone_after.P_apply_stage [OF V(1) ran(3)] ran(4)] .
  then have "j \<notin> jtis (authenticated_clients (srv_sched sv'))" by (simp add: auth_service.gone_def ran(5))
  moreover have "set (to_disconnect (validate_sessions H ?tick st)) \<subseteq> set (to_disconnect st1)"
    by (rule apply_stage_disconnects [OF ran(3)])
  then have "ended \<or> Disconnect c \<in> set acts"
    if "(c, session, agent) \<in> set (authenticated_clients (srv_sched sv))" "vs_jti session = j" for c session agent
    using V(2) [of c session agent] that B(1) by (auto simp: ran(6))
  ultimately show ?thesis by blast
qed

text \<open>A tick of the world without entities.\<close>

lemma still_simps [simp]:
  "vt_advance_tick still_world = id" "vt_simulate still_world = Some" "vt_extract_deltas still_world = Pair []"
  "vt_extract_reliable_events still_world = Pair []" "vt_post_extract still_world = id"
  by (simp_all add: still_world_def)

lemma recording_kicks:
  "recording_ticks (sched (fold (kick H) ids st)) = recording_ticks (sched st)"
  by (induction ids arbitrary: st) (simp_all add: kick_def drop_client_def)

lemma still_tick_returns:
  "\<exists>acts sv'. tick_step (host_of still_world A) (quiet (Some [])) (server_with cs () a) = Some (False, acts, sv')"
proof -
  let ?H = "host_of still_world A" and ?sv = "server_with cs () a"
  define st where "st = validate_sessions ?H 0
    ((tick_locals ?sv)\<lparr>sched := (srv_sched ?sv)\<lparr>current_tick := 1\<rparr>, wld := ()\<rparr>)"
  have "recording_ticks (sched st) = None"
    by (simp add: st_def validate_sessions_def recording_kicks server_with_def new_scheduler_def split: prod.split)
  then have "finish_tick ?H (quiet (Some [])) 0 st = Some (False, [], st)"
    by (simp add: finish_tick_def record_golden_def send_deltas_def send_reliable_events_def)
  moreover have "current_tick (srv_sched ?sv) = 0" "\<not> spawn_at_zero (srv_sched ?sv)" "srv_world ?sv = ()"
    by (simp_all add: server_with_def new_scheduler_def)
  ultimately show ?thesis
    by (simp add: tick_step_def begin_tick_def quiet_def apply_stage_def Let_def flip: st_def)
qed

theorem revoked_session_dropped_witness:
  "\<exists>acts sv'. tick_step (host_of still_world (auth_verifier sample_lib)) (quiet (Some []))
      (server_with [ann] () \<lparr>svc = sample_auth, clock_at = (\<lambda>_. 0), clock_reads = 0\<rparr>) = Some (False, acts, sv') \<and>
    ''a'' \<notin> jtis (authenticated_clients (srv_sched sv')) \<and> Disconnect 7 \<in> set acts"
proof -
  let ?sv = "server_with [ann] () \<lparr>svc = sample_auth, clock_at = (\<lambda>_. 0), clock_reads = 0\<rparr>"
  obtain acts sv' where t: "tick_step (host_of still_world (auth_verifier sample_lib)) (quiet (Some [])) ?sv =
      Some (False, acts, sv')" using still_tick_returns by metis
  have "''a'' \<notin> jtis (authenticated_clients (srv_sched sv')) \<and>
    (\<forall>(c, session, agent) \<in> set (authenticated_clients (srv_sched ?sv)).
       vs_jti session = ''a'' \<longrightarrow> False \<or> Disconnect c \<in> set acts)"
    by (rule revoked_session_dropped [OF _ _ _ _ _ _ t])
      (simp_all add: server_with_def new_scheduler_def clients_ok_def ann_def session_dead_def sample_auth_def quiet_def)
  then show ?thesis using t by (simp add: server_with_def ann_def)
qed

subsection \<open>With the adapter\<close>

text \<open>
  C14. The composition keeps the adapter consistent: whatever the transports deliver and whichever
  clients connect, a tick over the adapter preserves its whole invariant (identifier maps, owners,
  workspace index, change ticks, allocator).
\<close>

theorem tick_keeps_adapter:
  assumes "world_vt H = adapter_vt env" "env_ok env bound" "adapter_ok bound (srv_world sv)"
    and "tick_step H inp sv = Some (ended, acts, sv')"
  shows "adapter_ok bound (srv_world sv')"
  using adapter_world.drive.P_tick [where env = env and bound = bound, OF _ assms(4)] assms(1-3)
  unfolding adapter_world.sound_def tick_locals_simps by blast

theorem tick_keeps_adapter_witness:
  "\<exists>acts sv'. tick_step (host_of (adapter_vt sample_env) open_verifier) (quiet None)
      (server_with [ann] sample_spawned ()) = Some (False, acts, sv') \<and>
    adapter_ok (\<lambda>al. al) (srv_world sv')"
proof -
  let ?H = "host_of (adapter_vt sample_env) open_verifier" and ?sv = "server_with [ann] sample_spawned ()"
  obtain acts sv' where "tick_step ?H (quiet None) ?sv = Some (False, acts, sv')"
    by (simp add: tick_step_def begin_tick_def quiet_def server_with_def new_scheduler_def Let_def)
  moreover from tick_keeps_adapter [OF _ sample_env_ok _ this]
    reachable_ok [OF sample_env_ok sample_spawned_reachable] have "adapter_ok (\<lambda>al. al) (srv_world sv')"
    by (simp add: server_with_def)
  ultimately show ?thesis by blast
qed

text \<open>
  A client that disconnects leaves nothing behind: its entry is gone, its session agent is no
  longer an entity of the adapter, and every other entity stays.
\<close>

lemma disconnect_removes_agent:
  assumes "world_vt H = adapter_vt env" "env_ok env bound" "adapter_ok bound (wld st)"
    and "map_of (clients_of st) c = Some (session, Some nid)"
    and "ev \<in> {ClientDisconnected c, Disconnected c, SessionClosed c, StreamReset c}"
  shows "\<exists>st'. handle_event H tick (now, ev) st = Some st' \<and> map_of (clients_of st') c = None \<and>
    known_ids (wld st') = known_ids (wld st) - {nid}"
proof -
  have "adapter_world.sound env bound H st" using assms(1-3) unfolding adapter_world.sound_def by blast
  from adapter_world.leaver_forgotten [OF this assms(4)] assms(5) show ?thesis
    by (auto simp: handle_event_def normalize_def)
qed

definition agent_state :: "(adapter, unit, unit) tick_state" where
  "agent_state = tick_locals (server_with [(7, \<lparr>vs_player_id = ''a'', vs_jti = ''a''\<rparr>, Some 1)] sample_spawned ())"

text \<open>
  A world cleared by one client strands the others: when an administrator's \<^verbatim>\<open>ClearWorld\<close> has
  emptied the world, another client that already had an agent and starts its session again gets no
  new agent; it is told to possess its old identifier, which no longer names an entity, and this
  stays so for every further \<^verbatim>\<open>StartSession\<close>, since the entry still carries the old identifier.
\<close>

lemma clear_world_strands_others:
  assumes "world_vt H = adapter_vt env" "env_ok env bound" "adapter_ok bound (wld st)"
    and "map_of (clients_of st) c = Some (session, Some nid)" "c \<noteq> d"
    and "can_run_playground_command H jti"
  shows "\<exists>st'. start_session H c (run_clear_world H d jti st) = Some st' \<and> known_ids (wld st') = {} \<and>
    wld st' = queue_reliable_event (Some c) (Possession nid) (clear_world env (wld st)) \<and>
    map_of (clients_of st') c = Some (session, Some nid)"
proof -
  have "adapter_world.sound env bound H st" using assms(1-3) unfolding adapter_world.sound_def by blast
  from adapter_world.clear_strands [OF this assms(4-6)] show ?thesis by (simp add: adapter_vt_def)
qed

subsection \<open>With the outbound task\<close>

text \<open>
  C17. The outbound channel delivers: when what earlier ticks left in the channel and what a tick
  enqueues fit into the channel and the hand of the sender task, then however the tick and the task
  are interleaved, they do not deadlock, they stop after finitely many steps, and when they stop
  every message has been handed to the transport, in order.
\<close>

theorem outbound_delivers:
  assumes "length backlog \<le> CHANNEL_CAPACITY"
    and "length (held (tick_pipe backlog hand acts)) \<le> CHANNEL_CAPACITY + 1"
    and "pipe_steps (tick_pipe backlog hand acts) p"
  shows "(\<exists>q. pipe_steps p q \<and> pipe_done q) \<and> (\<forall>q. pipe_step p q \<longrightarrow> pipe_work q < pipe_work p) \<and>
    ((\<nexists>q. pipe_step p q) \<longrightarrow>
       \<not> write_locked p \<and> delivered p = (case hand of Some m \<Rightarrow> [m] | None \<Rightarrow> []) @ backlog @ enqueued acts)"
proof -
  have ok: "pipe_ok p" and order: "delivered p @ held p = held (tick_pipe backlog hand acts)"
    using pipe_steps_invariant [OF assms(3)] assms(1) by simp_all
  have len: "length (held p) \<le> CHANNEL_CAPACITY + 1"
    using arg_cong [OF order, of length] assms(2) by simp
  have "\<not> write_locked p \<and> delivered p = held (tick_pipe backlog hand acts)" if "\<nexists>q. pipe_step p q"
  proof -
    have "pipe_done p" using pipe_progress [OF ok len] that by blast
    then show ?thesis using order by (simp add: pipe_done_def)
  qed
  then show ?thesis using pipe_completes [OF ok len] pipe_work_less by auto
qed

theorem outbound_delivers_witness:
  "\<exists>q. pipe_steps (tick_pipe [] None [Enqueue (Unreliable 7 [1]), Enqueue (Reliable 8 [2])]) q \<and> pipe_done q"
  using outbound_delivers [of "[]" None "[Enqueue (Unreliable 7 [1]), Enqueue (Reliable 8 [2])]"]
  by (simp add: CHANNEL_CAPACITY_def)

text \<open>
  C18. A tick that enqueues more can deadlock the server: when the backlog and the messages of one
  tick exceed the channel by more than the one message in the task's hand, no interleaving lets the
  tick release the transport lock. The tick waits for room in the channel, the task waits for the
  read lock, and at least two messages are never delivered.
\<close>

theorem outbound_deadlocks:
  assumes "length backlog \<le> CHANNEL_CAPACITY"
    and "length (held (tick_pipe backlog hand acts)) > CHANNEL_CAPACITY + 1"
    and "pipe_steps (tick_pipe backlog hand acts) p"
  shows "write_locked p \<and> delivered p = [] \<and> (\<exists>q. pipe_steps p q \<and> (\<nexists>r. pipe_step q r) \<and> write_locked q)"
proof -
  have stuck: "write_locked q \<and> length (held q) = length (held (tick_pipe backlog hand acts))"
    if "pipe_steps (tick_pipe backlog hand acts) q" for q
    using pipe_stuck [OF that _ _ assms(2)] assms(1) by simp
  have "\<exists>q. pipe_steps p q \<and> (\<nexists>r. pipe_step q r)"
  proof (induction "pipe_work p" arbitrary: p rule: less_induct)
    case less
    show ?case
    proof (cases "\<exists>q. pipe_step p q")
      case True
      then obtain q where q: "pipe_step p q" by blast
      from less [OF pipe_work_less [OF q]] q show ?thesis by (meson converse_rtranclp_into_rtranclp)
    qed blast
  qed
  moreover have "delivered p = []"
    using arg_cong [OF conjunct2 [OF pipe_steps_invariant [OF assms(3)]], of length] stuck [OF assms(3)] assms(1) by simp
  ultimately show ?thesis using stuck assms(3) by (meson rtranclp_trans)
qed

theorem outbound_deadlocks_witness:
  "\<exists>q. pipe_steps (tick_pipe [] None (replicate 2050 (Enqueue (Unreliable 7 [1])))) q \<and>
     (\<nexists>r. pipe_step q r) \<and> write_locked q"
proof -
  have "enqueued (replicate n (Enqueue m)) = replicate n m" for n m by (induction n) simp_all
  then show ?thesis
    using outbound_deadlocks [of "[]" None "replicate 2050 (Enqueue (Unreliable 7 [1]))"]
    by (simp add: CHANNEL_CAPACITY_def)
qed

end
