(* ===== verification/Telemetry.thy ===== *)
theory Telemetry
  imports Auth Ieee Limiter "HOL-Library.DAList"
begin

text \<open>
  \<^verbatim>\<open>crates/aetheris-server/src/telemetry.rs\<close>: the telemetry service, its per-IP limiter and the two
  handlers. A \<^verbatim>\<open>str\<close> of a client is the list of its Unicode scalar values; header values are ASCII
  strings. The metrics and log records the handlers emit are values. \<^verbatim>\<open>DashMap\<close> is an association
  list with unique keys; seconds since the epoch are natural numbers, since the code only
  compares them and subtracts with saturation; clock readings are arguments.
\<close>

subsection \<open>Text\<close>

type_synonym ustr = "nat list"

definition len_utf8 :: "nat \<Rightarrow> nat" where
  "len_utf8 c = (if c < 0x80 then 1 else if c < 0x800 then 2 else if c < 0x10000 then 3 else 4)"

definition byte_len :: "ustr \<Rightarrow> nat" where
  "byte_len s = sum_list (map len_utf8 s)"

definition is_control :: "nat \<Rightarrow> bool" where
  "is_control c \<longleftrightarrow> c < 0x20 \<or> 0x7F \<le> c \<and> c < 0xA0"

fun char_indices :: "nat \<Rightarrow> ustr \<Rightarrow> (nat \<times> nat) list" where
  "char_indices i [] = []"
| "char_indices i (c # cs) = (i, c) # char_indices (i + len_utf8 c) cs"

text \<open>\<^verbatim>\<open>&s[..n]\<close>, which panics when \<open>n\<close> is not a character boundary.\<close>

fun slice_to :: "nat \<Rightarrow> ustr \<Rightarrow> ustr option" where
  "slice_to n [] = (if n = 0 then Some [] else None)"
| "slice_to n (c # cs) =
     (if n = 0 then Some [] else if n < len_utf8 c then None
      else map_option (Cons c) (slice_to (n - len_utf8 c) cs))"

definition sanitize :: "ustr \<Rightarrow> nat \<Rightarrow> ustr option" where
  "sanitize s max_len =
     (let clean = filter (\<lambda>c. \<not> is_control c) s
      in if byte_len clean \<le> max_len then Some clean
         else let fitting = takeWhile (\<lambda>(i, c). i + len_utf8 c \<le> max_len) (char_indices 0 clean)
              in if fitting = [] then Some []
                 else case last fitting of (i, c) \<Rightarrow> slice_to (i + len_utf8 c) clean)"

text \<open>\<^verbatim>\<open>split\<close> at a character; \<^verbatim>\<open>strip_prefix\<close>; \<^verbatim>\<open>trim_matches\<close> of a character.\<close>

fun split_at :: "'c \<Rightarrow> 'c list \<Rightarrow> 'c list list" where
  "split_at d [] = [[]]"
| "split_at d (c # cs) =
     (if c = d then [] # split_at d cs
      else case split_at d cs of [] \<Rightarrow> [[c]] | w # ws \<Rightarrow> (c # w) # ws)"

definition strip_prefix :: "string \<Rightarrow> string \<Rightarrow> string option" where
  "strip_prefix p s = (if starts_with p s then Some (drop (length p) s) else None)"

definition trim_matches :: "char \<Rightarrow> string \<Rightarrow> string" where
  "trim_matches d s = rev (dropWhile (\<lambda>c. c = d) (rev (dropWhile (\<lambda>c. c = d) s)))"

subsection \<open>Addresses\<close>

definition digit_of :: "nat \<Rightarrow> nat option" where
  "digit_of n = (if 48 \<le> n \<and> n \<le> 57 then Some (n - 48) else None)"

definition hex_digit :: "char \<Rightarrow> nat option" where
  "hex_digit c =
     (let n = of_char c
      in if 48 \<le> n \<and> n \<le> 57 then Some (n - 48) else if 97 \<le> n \<and> n \<le> 102 then Some (n - 87)
         else if 65 \<le> n \<and> n \<le> 70 then Some (n - 55) else None)"

fun digits_value :: "('c \<Rightarrow> nat option) \<Rightarrow> nat \<Rightarrow> nat \<Rightarrow> 'c list \<Rightarrow> nat option" where
  "digits_value d b acc [] = Some acc"
| "digits_value d b acc (c # cs) = Option.bind (d c) (\<lambda>n. digits_value d b (acc * b + n) cs)"

definition parse_octet :: "string \<Rightarrow> nat option" where
  "parse_octet s =
     (if s = [] \<or> length s > 3 \<or> (length s > 1 \<and> hd s = CHR ''0'') then None
      else case digits_value (\<lambda>c. digit_of (of_char c)) 10 0 s of Some n \<Rightarrow> if n \<le> 255 then Some n else None | None \<Rightarrow> None)"

definition parse_group :: "string \<Rightarrow> nat option" where
  "parse_group s = (if s = [] \<or> length s > 4 then None else digits_value hex_digit 16 0 s)"

fun all_some :: "'b option list \<Rightarrow> 'b list option" where
  "all_some [] = Some []"
| "all_some (None # xs) = None"
| "all_some (Some x # xs) = map_option (Cons x) (all_some xs)"

definition parse_v4 :: "string \<Rightarrow> nat list option" where
  "parse_v4 s =
     (case all_some (map parse_octet (split_at (CHR ''.'') s)) of
        Some os \<Rightarrow> if length os = 4 then Some os else None | None \<Rightarrow> None)"

text \<open>Groups separated by colons, the last of which may be an IPv4 address worth two groups.\<close>

definition parse_groups :: "bool \<Rightarrow> string \<Rightarrow> nat list option" where
  "parse_groups v4_ok s =
     (if s = [] then Some []
      else let ps = split_at (CHR '':'') s
           in case (if v4_ok then parse_v4 (last ps) else None) of
                Some [a, b, c, d] \<Rightarrow>
                  map_option (\<lambda>gs. gs @ [a * 256 + b, c * 256 + d]) (all_some (map parse_group (butlast ps)))
              | _ \<Rightarrow> all_some (map parse_group ps))"

fun split_double_colon :: "string \<Rightarrow> (string \<times> string) option" where
  "split_double_colon (c # d # cs) =
     (if c = CHR '':'' \<and> d = CHR '':'' then Some ([], cs)
      else map_option (\<lambda>(a, b). (c # a, b)) (split_double_colon (d # cs)))"
| "split_double_colon _ = None"

definition parse_v6 :: "string \<Rightarrow> nat list option" where
  "parse_v6 s =
     (case split_double_colon s of
        None \<Rightarrow> (case parse_groups True s of Some gs \<Rightarrow> if length gs = 8 then Some gs else None | None \<Rightarrow> None)
      | Some (a, b) \<Rightarrow>
          (case (parse_groups False a, parse_groups True b) of
             (Some gs, Some hs) \<Rightarrow>
               if length gs + length hs \<le> 7
               then Some (gs @ replicate (8 - length gs - length hs) 0 @ hs) else None
           | _ \<Rightarrow> None))"

definition parse_ip :: "string \<Rightarrow> IpAddr option" where
  "parse_ip s = (case parse_v4 s of Some os \<Rightarrow> Some (V4 os) | None \<Rightarrow> map_option V6 (parse_v6 s))"

text \<open>The headers of a request that the server reads, and the peer address.\<close>

record request_meta =
  forwarded :: "string option"
  x_forwarded_for :: "string option"
  remote_ip :: "IpAddr option"

text \<open>The loop over the parts of a \<^verbatim>\<open>Forwarded\<close> header.\<close>

fun forwarded_ip :: "string list \<Rightarrow> IpAddr option" where
  "forwarded_ip [] = None"
| "forwarded_ip (part # parts) =
     (case strip_prefix ''for='' (trim part) of
        Some for_val \<Rightarrow>
          (case parse_ip (hd (split_at (CHR '':'') (trim_matches (CHR 0x22) for_val))) of
             Some ip \<Rightarrow> Some ip | None \<Rightarrow> forwarded_ip parts)
      | None \<Rightarrow> forwarded_ip parts)"

definition extract_client_ip :: "request_meta \<Rightarrow> IpAddr option" where
  "extract_client_ip r =
     (case Option.bind (forwarded r) (\<lambda>f. forwarded_ip (split_at (CHR '';'') f)) of
        Some ip \<Rightarrow> Some ip
      | None \<Rightarrow>
          (case Option.bind (x_forwarded_for r) (\<lambda>x. parse_ip (trim (hd (split_at (CHR '','') x)))) of
             Some ip \<Rightarrow> Some ip
           | None \<Rightarrow> remote_ip r))"

subsection \<open>The limiter\<close>

definition RATE_LIMIT_MAX :: u32 where "RATE_LIMIT_MAX = 60"
definition RATE_LIMIT_WINDOW_SECS :: nat where "RATE_LIMIT_WINDOW_SECS = 60"
definition MAX_FIELD_LEN :: nat where "MAX_FIELD_LEN = 512"
definition MAX_BATCH_SIZE :: nat where "MAX_BATCH_SIZE = 256"
definition PRUNE_THRESHOLD :: nat where "PRUNE_THRESHOLD = 1000"

type_synonym AetherisTelemetryService = "(IpAddr, u32 \<times> nat) alist"

definition new_telemetry :: AetherisTelemetryService where
  "new_telemetry = DAList.empty"

definition prune_expired_entries :: "nat \<Rightarrow> AetherisTelemetryService \<Rightarrow> AetherisTelemetryService" where
  "prune_expired_entries now st =
     DAList.filter (\<lambda>(_, _, window_start). now - window_start < 2 * RATE_LIMIT_WINDOW_SECS) st"

text \<open>\<open>now'\<close> is the reading of the sweep, \<open>now\<close> the one of the check.\<close>

definition check_rate_limit ::
  "AetherisTelemetryService \<Rightarrow> IpAddr \<Rightarrow> nat \<Rightarrow> nat \<Rightarrow> bool \<times> AetherisTelemetryService" where
  "check_rate_limit st ip now' now =
     (let st = (if size st > PRUNE_THRESHOLD then prune_expired_entries now' st else st);
          (cnt, window_start) = (case DAList.lookup st ip of Some e \<Rightarrow> e | None \<Rightarrow> (0, now))
      in if now - window_start \<ge> RATE_LIMIT_WINDOW_SECS then (True, DAList.update ip (1, now) st)
         else if cnt < RATE_LIMIT_MAX then (True, DAList.update ip (cnt + 1, window_start) st)
         else (False, DAList.update ip (cnt, window_start) st))"

subsection \<open>Metrics\<close>

text \<open>The records a handler hands to the metrics and log back ends.\<close>

datatype TelemetryLevel = LevelUnspecified | LInfo | LWarn | LError

record ('ts, 'rtt) log_record =
  lr_level :: string
  lr_session_id :: ustr
  lr_trace_id :: ustr
  lr_span_name :: ustr
  lr_target :: ustr
  lr_timestamp_ms :: 'ts
  lr_rtt_ms :: 'rtt
  lr_message :: ustr

datatype ('ts, 'rtt) emission =
    Histogram string f64
  | Gauge string f64
  | Counter string "string option" u64
  | Span ustr ustr nat
  | Log "('ts, 'rtt) log_record"

definition utext :: "string \<Rightarrow> ustr" where
  "utext s = map of_char s"

text \<open>Unicode \<^verbatim>\<open>White_Space\<close>.\<close>

definition is_uspace :: "nat \<Rightarrow> bool" where
  "is_uspace c \<longleftrightarrow> 9 \<le> c \<and> c \<le> 13 \<or> 0x2000 \<le> c \<and> c \<le> 0x200A \<or>
     c \<in> {0x20, 0x85, 0xA0, 0x1680, 0x2028, 0x2029, 0x202F, 0x205F, 0x3000}"

fun split_whitespace_acc :: "ustr \<Rightarrow> ustr \<Rightarrow> ustr list" where
  "split_whitespace_acc w [] = (if w = [] then [] else [rev w])"
| "split_whitespace_acc w (c # cs) =
     (if is_uspace c then (if w = [] then [] else [rev w]) @ split_whitespace_acc [] cs
      else split_whitespace_acc (c # w) cs)"

definition split_whitespace :: "ustr \<Rightarrow> ustr list" where
  "split_whitespace s = split_whitespace_acc [] s"

definition split_once :: "nat \<Rightarrow> ustr \<Rightarrow> (ustr \<times> ustr) option" where
  "split_once d s =
     (if d \<in> set s then Some (takeWhile (\<lambda>c. c \<noteq> d) s, tl (dropWhile (\<lambda>c. c \<noteq> d) s)) else None)"

text \<open>\<^verbatim>\<open>trim_end_matches("ms")\<close>, on the reversed text.\<close>

fun trim_start_sm :: "ustr \<Rightarrow> ustr" where
  "trim_start_sm (c # d # cs) = (if c = 115 \<and> d = 109 then trim_start_sm cs else c # d # cs)"
| "trim_start_sm s = s"

definition trim_end_ms :: "ustr \<Rightarrow> ustr" where
  "trim_end_ms s = rev (trim_start_sm (rev s))"

text \<open>
  \<^verbatim>\<open>str::parse::<f64>\<close>: an optional sign, then a special name in any case, or digits with an
  optional fraction and exponent, at least one digit; the value is rounded to nearest.
\<close>

definition sign_of :: "ustr \<Rightarrow> bool \<times> ustr" where
  "sign_of s = (case s of c # cs \<Rightarrow> if c = 45 then (True, cs) else if c = 43 then (False, cs) else (False, s)
                | [] \<Rightarrow> (False, s))"

definition ascii_lower :: "ustr \<Rightarrow> ustr" where
  "ascii_lower s = map (\<lambda>c. if 65 \<le> c \<and> c \<le> 90 then c + 32 else c) s"

definition is_digit_cp :: "nat \<Rightarrow> bool" where
  "is_digit_cp c \<longleftrightarrow> digit_of c \<noteq> None"

definition dec_value :: "ustr \<Rightarrow> nat" where
  "dec_value s = (case digits_value digit_of 10 0 s of Some n \<Rightarrow> n | None \<Rightarrow> 0)"

definition pow10 :: "int \<Rightarrow> real" where
  "pow10 e = (if 0 \<le> e then 10 ^ nat e else 1 / 10 ^ nat (- e))"

definition parse_exponent :: "ustr \<Rightarrow> int option" where
  "parse_exponent s =
     (case s of
        [] \<Rightarrow> Some 0
      | c # cs \<Rightarrow>
          (case sign_of cs of (neg, ds) \<Rightarrow>
             if (c = 101 \<or> c = 69) \<and> ds \<noteq> [] \<and> list_all is_digit_cp ds
             then Some (if neg then - int (dec_value ds) else int (dec_value ds)) else None))"

definition parse_number :: "ustr \<Rightarrow> real option" where
  "parse_number s =
     (let ip = takeWhile is_digit_cp s; r = dropWhile is_digit_cp s;
          (fp, r) = (case r of c # cs \<Rightarrow> if c = 46 then (takeWhile is_digit_cp cs, dropWhile is_digit_cp cs)
                                          else ([], r)
                     | [] \<Rightarrow> ([], r))
      in if ip = [] \<and> fp = [] then None
         else map_option (\<lambda>e. real (dec_value (ip @ fp)) * pow10 (e - int (length fp))) (parse_exponent r))"

definition parse_f64 :: "ustr \<Rightarrow> f64 option" where
  "parse_f64 s =
     (case sign_of s of (neg, r) \<Rightarrow>
        let l = ascii_lower r
        in if l = utext ''inf'' \<or> l = utext ''infinity'' then Some (Inf neg)
           else if l = utext ''nan'' then Some NaN
           else map_option (fround F64 neg) (parse_number r))"

text \<open>\<^verbatim>\<open>x as u64\<close> saturates, NaN giving zero.\<close>

fun as_u64 :: "fp \<Rightarrow> u64" where
  "as_u64 NaN = 0"
| "as_u64 (Inf s) = (if s then 0 else - 1)"
| "as_u64 (Fin s m) = (if s then 0 else if m \<ge> 2 ^ 64 then - 1 else word_of_int \<lfloor>m\<rfloor>)"

text \<open>\<^verbatim>\<open>num.is_finite() && (0.0..=1_000_000.0).contains(&num)\<close>\<close>

fun in_metric_range :: "f64 \<Rightarrow> bool" where
  "in_metric_range (Fin s m) = (0 \<le> fval s m \<and> fval s m \<le> 1000000)"
| "in_metric_range _ = False"

definition wasm_metric :: "ustr \<Rightarrow> f64 \<Rightarrow> ('ts, 'rtt) emission list" where
  "wasm_metric key num =
     (if key = utext ''fps'' then [Histogram ''aetheris_wasm_fps'' num]
      else if key = utext ''frame_p99'' then [Histogram ''aetheris_wasm_frame_time_ms'' num]
      else if key = utext ''sim_p99'' then [Histogram ''aetheris_wasm_sim_time_ms'' num]
      else if key = utext ''rtt'' then [Histogram ''aetheris_wasm_rtt_ms'' num]
      else if key = utext ''entities'' then [Gauge ''aetheris_wasm_entity_count'' num]
      else if key = utext ''dropped''
      then [Counter ''aetheris_wasm_telemetry_dropped_total'' None (as_u64 num)]
      else [])"

definition record_wasm_metrics :: "ustr \<Rightarrow> ('ts, 'rtt) emission list" where
  "record_wasm_metrics msg =
     concat (map (\<lambda>part.
       case split_once 61 part of
         None \<Rightarrow> []
       | Some (key, v) \<Rightarrow>
           let num = (case parse_f64 (trim_end_ms v) of Some x \<Rightarrow> x | None \<Rightarrow> NaN)
           in if \<not> in_metric_range num then [] else wasm_metric key num) (split_whitespace msg))"

subsection \<open>The handlers\<close>

text \<open>An event as both wire formats carry it; the types of the numeric fields differ.\<close>

record ('lv, 'ts, 'rtt) TelemetryEvent =
  ev_timestamp_ms :: 'ts
  ev_level :: 'lv
  ev_target :: ustr
  ev_message :: ustr
  ev_rtt_ms :: 'rtt
  ev_trace_id :: ustr
  ev_span_name :: ustr

record ('lv, 'ts, 'rtt) TelemetryBatch =
  events :: "('lv, 'ts, 'rtt) TelemetryEvent list"
  session_id :: ustr

fun level_str :: "TelemetryLevel \<Rightarrow> string" where
  "level_str LError = ''error''"
| "level_str LWarn = ''warn''"
| "level_str LInfo = ''info''"
| "level_str LevelUnspecified = ''info''"

definition event_emissions ::
  "string \<Rightarrow> 'ts2 \<Rightarrow> ustr \<Rightarrow> ('lv, 'ts, 'rtt) TelemetryEvent \<Rightarrow> ('ts2, 'rtt) emission list option" where
  "event_emissions level ts sid ev =
     do {
       target \<leftarrow> sanitize (ev_target ev) MAX_FIELD_LEN;
       message \<leftarrow> sanitize (ev_message ev) MAX_FIELD_LEN;
       trace_id \<leftarrow> sanitize (ev_trace_id ev) 64;
       span_name \<leftarrow> sanitize (ev_span_name ev) 128;
       Some ((if ev_span_name ev = utext ''metrics_snapshot'' then record_wasm_metrics (ev_message ev) else [])
         @ [Counter ''aetheris_wasm_telemetry_events_total'' (Some level) 1,
            Log \<lparr>lr_level = level, lr_session_id = sid, lr_trace_id = trace_id,
                 lr_span_name = span_name, lr_target = target, lr_timestamp_ms = ts,
                 lr_rtt_ms = ev_rtt_ms ev, lr_message = message\<rparr>])
     }"

text \<open>\<open>try_from\<close> is the conversion of the generated protocol enumeration.\<close>

definition process_events_grpc ::
  "('lv \<Rightarrow> TelemetryLevel option) \<Rightarrow> ('lv, 'ts, 'rtt) TelemetryEvent list \<Rightarrow> ustr \<Rightarrow>
     ('ts, 'rtt) emission list option" where
  "process_events_grpc try_from evs sid =
     map_option (\<lambda>es. Counter ''aetheris_wasm_telemetry_batches_total'' None 1 # concat es)
       (all_some (map (\<lambda>ev.
          event_emissions
            (level_str (case try_from (ev_level ev) of Some l \<Rightarrow> l | None \<Rightarrow> LevelUnspecified))
            (ev_timestamp_ms ev) sid ev) evs))"

text \<open>
  Each handler gives the answer, the emissions and the new limiter; the result is \<open>None\<close> if it
  panics.
\<close>

definition submit_telemetry ::
  "('lv \<Rightarrow> TelemetryLevel option) \<Rightarrow> AetherisTelemetryService \<Rightarrow> request_meta \<Rightarrow>
     ('lv, 'ts, 'rtt) TelemetryBatch \<Rightarrow> nat \<Rightarrow> nat \<Rightarrow>
     ((Status + unit) \<times> ('ts, 'rtt) emission list \<times> AetherisTelemetryService) option" where
  "submit_telemetry try_from st req batch now' now =
     (case extract_client_ip req of
        None \<Rightarrow> Some (Inl (mk_status PermissionDenied
                  ''Identification protocol failed: client IP indeterminate''), [], st)
      | Some client_ip \<Rightarrow>
          (case check_rate_limit st client_ip now' now of (ok, st) \<Rightarrow>
             if \<not> ok then Some (Inl (mk_status ResourceExhausted
                     ''Telemetry rate limit exceeded. Try again in 60 seconds.''), [], st)
             else if length (events batch) > MAX_BATCH_SIZE
             then Some (Inl (mk_status InvalidArgument
                     ''Batch size policy violation: limit is 256 events''), [], st)
             else if byte_len (session_id batch) > 128
             then Some (Inl (mk_status InvalidArgument ''session_id exceeds 128 bytes''), [], st)
             else do {
               sid \<leftarrow> sanitize (session_id batch) 128;
               es \<leftarrow> process_events_grpc try_from (events batch) sid;
               Some (Inr (), es, st)
             }))"

definition json_level :: "u32 \<Rightarrow> string" where
  "json_level l = (if l = 3 then ''error'' else if l = 2 then ''warn'' else ''info'')"

definition json_telemetry_handler ::
  "AetherisTelemetryService \<Rightarrow> IpAddr \<Rightarrow> (u32, f64, f64 option) TelemetryBatch \<Rightarrow> nat \<Rightarrow> nat \<Rightarrow>
     ((nat \<times> string) \<times> (u64, f64 option) emission list \<times> AetherisTelemetryService) option" where
  "json_telemetry_handler st ip batch now' now =
     (case check_rate_limit st ip now' now of (ok, st) \<Rightarrow>
        if \<not> ok then Some ((429, ''rate limit exceeded''), [], st)
        else if length (events batch) > MAX_BATCH_SIZE then Some ((400, ''batch too large''), [], st)
        else if byte_len (session_id batch) > 128 then Some ((400, ''session_id too long''), [], st)
        else do {
          sid \<leftarrow> sanitize (session_id batch) 128;
          first_trace_id \<leftarrow> (case events batch of ev # _ \<Rightarrow> sanitize (ev_trace_id ev) 64 | [] \<Rightarrow> Some []);
          ess \<leftarrow> all_some (map (\<lambda>ev.
                   event_emissions (json_level (ev_level ev)) (as_u64 (ev_timestamp_ms ev)) sid ev)
                   (events batch));
          Some ((200, ''accepted''),
                Span sid first_trace_id (length (events batch))
                  # Counter ''aetheris_wasm_telemetry_batches_total'' None 1 # concat ess,
                st)
        })"

end
