(* ===== verification/Telemetry_Props.thy ===== *)
theory Telemetry_Props
  imports Telemetry
begin

text \<open>
  What the telemetry service promises: client text reaches the logs only sanitized, metrics only
  with values of the accepted range, and the per-IP limiter meets the window contract of theory
  \<open>Limiter\<close>, its sweep included.
\<close>

subsection \<open>Sanitizing\<close>

lemma len_utf8_pos [simp]: "0 < len_utf8 c"
  by (simp add: len_utf8_def)

lemma byte_len_simps [simp]:
  "byte_len [] = 0" "byte_len (c # cs) = len_utf8 c + byte_len cs"
  "byte_len (xs @ ys) = byte_len xs + byte_len ys"
  by (simp_all add: byte_len_def)

lemma length_char_indices [simp]: "length (char_indices i cs) = length cs"
  by (induction i cs rule: char_indices.induct) auto

lemma char_indices_nth:
  "j < length cs \<Longrightarrow> char_indices i cs ! j = (i + byte_len (take j cs), cs ! j)"
  by (induction i cs arbitrary: j rule: char_indices.induct) (auto simp: nth_Cons' take_Cons')

lemma byte_len_take_Suc: "j < length cs \<Longrightarrow> byte_len (take (Suc j) cs) = byte_len (take j cs) + len_utf8 (cs ! j)"
  by (simp add: take_Suc_conv_app_nth)

lemma slice_to_take: "slice_to (byte_len (take k cs)) cs = Some (take k cs)"
proof (induction cs arbitrary: k)
  case (Cons c cs)
  then show ?case
    using len_utf8_pos [of c] by (cases k) (simp_all del: len_utf8_pos)
qed simp

lemma sanitize_take:
  fixes s max_len
  defines "clean \<equiv> filter (\<lambda>c. \<not> is_control c) s"
  obtains k where "sanitize s max_len = Some (take k clean)" "byte_len (take k clean) \<le> max_len"
    "k = length clean \<or> k < length clean \<and> max_len < byte_len (take (Suc k) clean)"
proof (cases "byte_len clean \<le> max_len")
  case True
  then show ?thesis
    using that [of "length clean"] by (simp add: sanitize_def clean_def)
next
  case False
  define P where "P = (\<lambda>(i, c). i + len_utf8 c \<le> max_len)"
  define fitting where "fitting = takeWhile P (char_indices 0 clean)"
  define k where "k = length fitting"
  have fits: "fitting = take k (char_indices 0 clean)"
    unfolding fitting_def k_def by (rule takeWhile_eq_take)
  have kle: "k \<le> length clean"
    using length_takeWhile_le [of P "char_indices 0 clean"] by (simp add: k_def fitting_def)
  have within: "byte_len (take k clean) \<le> max_len"
  proof (cases k)
    case (Suc j)
    then have "P (char_indices 0 clean ! j)"
      using kle takeWhile_nth [of j P "char_indices 0 clean"] nth_mem [of j fitting]
        set_takeWhileD [of _ P "char_indices 0 clean"]
      by (metis fitting_def k_def lessI)
    then show ?thesis
      using Suc kle by (simp add: P_def char_indices_nth byte_len_take_Suc)
  qed simp
  have "k \<noteq> length clean"
    using within False by auto
  then have "\<not> P (char_indices 0 clean ! k)"
    using kle nth_length_takeWhile [of P "char_indices 0 clean"] by (simp add: k_def fitting_def)
  then have next_out: "k < length clean \<and> max_len < byte_len (take (Suc k) clean)"
    using kle \<open>k \<noteq> length clean\<close> by (simp add: P_def char_indices_nth byte_len_take_Suc)
  have "sanitize s max_len = Some (take k clean)"
  proof (cases k)
    case 0
    then show ?thesis
      using False by (simp add: sanitize_def clean_def [symmetric] P_def [symmetric] fitting_def [symmetric] k_def)
  next
    case (Suc j)
    then have "fitting = take j (char_indices 0 clean) @ [char_indices 0 clean ! j]"
      using kle fits by (simp add: take_Suc_conv_app_nth)
    then have "last fitting = char_indices 0 clean ! j" "fitting \<noteq> []"
      by simp_all
    then show ?thesis
      using False kle Suc slice_to_take [of k clean]
      by (simp add: sanitize_def clean_def [symmetric] P_def [symmetric] fitting_def [symmetric]
          char_indices_nth byte_len_take_Suc Let_def)
  qed
  then show ?thesis
    using that within next_out by blast
qed

text \<open>
  Sanitizing never panics on a character boundary. The result is the longest prefix of the
  text without its control characters that fits the limit in bytes.
\<close>

lemma sanitize_longest_prefix:
  "\<exists>k. sanitize s max_len = Some (take k (filter (\<lambda>c. \<not> is_control c) s)) \<and>
       byte_len (take k (filter (\<lambda>c. \<not> is_control c) s)) \<le> max_len \<and>
       (k = length (filter (\<lambda>c. \<not> is_control c) s) \<or>
        max_len < byte_len (take (Suc k) (filter (\<lambda>c. \<not> is_control c) s)))"
  by (rule sanitize_take [of s max_len]) blast

subsection \<open>What reaches the logs and the metrics\<close>

definition clean_text :: "nat \<Rightarrow> ustr \<Rightarrow> bool" where
  "clean_text n s \<longleftrightarrow> byte_len s \<le> n \<and> (\<forall>c \<in> set s. \<not> is_control c)"

lemma sanitize_clean: "\<exists>s'. sanitize s n = Some s' \<and> clean_text n s'"
proof -
  obtain k where "sanitize s n = Some (take k (filter (\<lambda>c. \<not> is_control c) s))"
      "byte_len (take k (filter (\<lambda>c. \<not> is_control c) s)) \<le> n"
    by (rule sanitize_take)
  then show ?thesis
    by (auto simp: clean_text_def dest: in_set_takeD)
qed

lemma sanitize_cleanD: "sanitize s n = Some s' \<Longrightarrow> clean_text n s'"
  using sanitize_clean [of s n] by auto

text \<open>An emission that carries client data only in bounded, printable form.\<close>

fun safe_emission :: "('ts, 'rtt) emission \<Rightarrow> bool" where
  "safe_emission (Histogram n v) = in_metric_range v"
| "safe_emission (Gauge n v) = in_metric_range v"
| "safe_emission (Counter n l v) = (unat v \<le> 1000000)"
| "safe_emission (Span sid tr n) = (clean_text 128 sid \<and> clean_text 64 tr \<and> n \<le> 256)"
| "safe_emission (Log r) =
     (clean_text 128 (lr_session_id r) \<and> clean_text 64 (lr_trace_id r) \<and>
      clean_text 128 (lr_span_name r) \<and> clean_text 512 (lr_target r) \<and> clean_text 512 (lr_message r))"

lemma as_u64_bound: "in_metric_range v \<Longrightarrow> unat (as_u64 v) \<le> 1000000"
proof (cases v)
  case (Fin s m)
  assume "in_metric_range v"
  with Fin have m: "\<not> s \<Longrightarrow> 0 \<le> \<lfloor>m\<rfloor> \<and> \<lfloor>m\<rfloor> \<le> 1000000"
    by (auto simp: fval_def floor_le_iff)
  then have "\<not> s \<Longrightarrow> unat (word_of_int \<lfloor>m\<rfloor> :: u64) \<le> 1000000"
    by (simp add: unat_eq_nat_uint uint_word_of_int take_bit_int_eq_self nat_le_iff)
  moreover have "\<not> s \<Longrightarrow> \<not> m \<ge> 2 ^ 64"
    using \<open>in_metric_range v\<close> Fin by (simp add: fval_def)
  ultimately show ?thesis
    using Fin by simp
qed auto

lemma wasm_metric_safe: "in_metric_range v \<Longrightarrow> list_all safe_emission (wasm_metric key v)"
  by (simp add: wasm_metric_def as_u64_bound)

lemma record_wasm_metrics_safe: "list_all safe_emission (record_wasm_metrics msg)"
  using wasm_metric_safe
  by (fastforce simp: record_wasm_metrics_def list_all_iff Let_def split: option.splits if_splits)

lemma event_emissions_safe:
  assumes "clean_text 128 sid"
  shows "\<exists>es. event_emissions level ts sid ev = Some es \<and> (\<forall>e \<in> set es. safe_emission e)"
proof -
  obtain a b c d where "sanitize (ev_target ev) MAX_FIELD_LEN = Some a"
      "sanitize (ev_message ev) MAX_FIELD_LEN = Some b" "sanitize (ev_trace_id ev) 64 = Some c"
      "sanitize (ev_span_name ev) 128 = Some d"
    by (meson sanitize_clean)
  moreover from this [THEN sanitize_cleanD]
  have "clean_text 512 a" "clean_text 512 b" "clean_text 64 c" "clean_text 128 d"
    by (simp_all add: MAX_FIELD_LEN_def)
  ultimately show ?thesis
    using assms record_wasm_metrics_safe [of "ev_message ev"]
    by (auto simp: event_emissions_def list_all_iff)
qed

lemma all_some_safe:
  assumes "\<And>x. x \<in> set xs \<Longrightarrow> \<exists>es. f x = Some es \<and> (\<forall>e \<in> set es. P e)"
  shows "\<exists>ess. all_some (map f xs) = Some ess \<and> (\<forall>e \<in> set (concat ess). P e)"
  using assms
proof (induction xs)
  case (Cons x xs)
  then obtain es ess where "f x = Some es" "\<forall>e \<in> set es. P e" "all_some (map f xs) = Some ess"
      "\<forall>e \<in> set (concat ess). P e"
    by (metis list.set_intros(1) list.set_intros(2))
  then show ?case
    by auto
qed simp

lemma events_safe:
  assumes "clean_text 128 sid"
  shows "\<exists>ess. all_some (map (\<lambda>ev. event_emissions (lv ev) (ts ev) sid ev) evs) = Some ess \<and>
           (\<forall>e \<in> set (concat ess). safe_emission e)"
  by (rule all_some_safe) (rule event_emissions_safe [OF assms])

lemma submit_telemetry_total:
  "\<exists>r es st'. submit_telemetry try_from st req batch now' now = Some (r, es, st') \<and>
     list_all safe_emission es"
proof -
  obtain sid where sid: "sanitize (session_id batch) 128 = Some sid" "clean_text 128 sid"
    using sanitize_clean by blast
  obtain es where "process_events_grpc try_from (events batch) sid = Some es" "list_all safe_emission es"
    using events_safe [OF sid(2)] by (force simp: process_events_grpc_def list_all_iff)
  with sid show ?thesis
    by (auto simp: submit_telemetry_def split: option.splits prod.splits)
qed

lemma json_telemetry_total:
  "\<exists>r es st'. json_telemetry_handler st ip batch now' now = Some (r, es, st') \<and>
     list_all safe_emission es"
proof -
  obtain sid where sid: "sanitize (session_id batch) 128 = Some sid" "clean_text 128 sid"
    using sanitize_clean by blast
  define first where
    "first = (case events batch of ev # _ \<Rightarrow> sanitize (ev_trace_id ev) 64 | [] \<Rightarrow> Some [])"
  have "\<exists>tr. first = Some tr \<and> clean_text 64 tr"
    by (cases "events batch") (simp_all add: first_def sanitize_clean, simp add: clean_text_def)
  then obtain tr where tr: "first = Some tr" "clean_text 64 tr"
    by blast
  obtain ess where ess: "all_some (map (\<lambda>ev. event_emissions (json_level (ev_level ev))
        (as_u64 (ev_timestamp_ms ev)) sid ev) (events batch)) = Some ess"
      "\<forall>e \<in> set (concat ess). safe_emission e"
    using events_safe [OF sid(2), of "\<lambda>ev. json_level (ev_level ev)" "\<lambda>ev. as_u64 (ev_timestamp_ms ev)"
        "events batch"] by blast
  show ?thesis
    using sid tr ess
    by (auto simp: json_telemetry_handler_def first_def [symmetric] list_all_iff MAX_BATCH_SIZE_def
        split: prod.splits)
qed

text \<open>
  C30. No batch makes a telemetry handler panic, gRPC or JSON. Whatever a client sends, what it
  gets into the logs has at most the documented number of bytes per field and no control character,
  so it cannot forge a log line, and every metric value is between zero and one million.
\<close>

theorem telemetry_emissions_safe:
  "(\<exists>r es st'. submit_telemetry try_from st req batch now' now = Some (r, es, st') \<and>
      list_all safe_emission es) \<and>
   (\<exists>r es st'. json_telemetry_handler st ip jbatch now' now = Some (r, es, st') \<and>
      list_all safe_emission es)"
  using submit_telemetry_total json_telemetry_total by blast

subsection \<open>The limiter meets the window contract\<close>

definition tl_check ::
  "AetherisTelemetryService \<Rightarrow> IpAddr \<Rightarrow> nat \<Rightarrow> bool \<times> AetherisTelemetryService" where
  "tl_check st ip now = check_rate_limit st ip now now"

definition tl_budget :: "AetherisTelemetryService \<Rightarrow> IpAddr \<Rightarrow> nat \<Rightarrow> nat" where
  "tl_budget st ip now =
     (case DAList.lookup st ip of
        None \<Rightarrow> 60
      | Some (n, ws) \<Rightarrow> if now - ws \<ge> 60 then 60 else 60 - unat n)"

definition tl_window_end :: "AetherisTelemetryService \<Rightarrow> IpAddr \<Rightarrow> nat \<Rightarrow> nat" where
  "tl_window_end st ip now =
     (case DAList.lookup st ip of
        None \<Rightarrow> now + 59
      | Some (n, ws) \<Rightarrow> if now - ws \<ge> 60 then now + 59 else ws + 59)"

lemma map_of_filter_distinct:
  "distinct (map fst xs) \<Longrightarrow>
   map_of (filter P xs) k = (case map_of xs k of Some v \<Rightarrow> if P (k, v) then Some v else None | None \<Rightarrow> None)"
  by (induction xs) (auto simp: map_of_eq_None_iff image_iff split: option.splits)

lemma lookup_alist_filter:
  "DAList.lookup (DAList.filter P m) k =
     (case DAList.lookup m k of Some v \<Rightarrow> if P (k, v) then Some v else None | None \<Rightarrow> None)"
  by transfer (simp add: map_of_filter_distinct)

text \<open>The sweep removes only windows that are over, so it is invisible to the contract.\<close>

definition swept :: "AetherisTelemetryService \<Rightarrow> nat \<Rightarrow> AetherisTelemetryService" where
  "swept st now = (if size st > PRUNE_THRESHOLD then prune_expired_entries now st else st)"

lemma lookup_swept:
  "DAList.lookup (swept st now) ip =
     (case DAList.lookup st ip of
        None \<Rightarrow> None
      | Some (n, ws) \<Rightarrow> if size st > PRUNE_THRESHOLD \<and> now - ws \<ge> 120 then None else Some (n, ws))"
  by (auto simp: swept_def prune_expired_entries_def lookup_alist_filter RATE_LIMIT_WINDOW_SECS_def
      split: option.splits)

lemma swept_invisible:
  assumes "now \<le> t"
  shows "tl_budget (swept st now) ip t = tl_budget st ip t"
    and "tl_window_end (swept st now) ip t = tl_window_end st ip t"
  using assms by (auto simp: tl_budget_def tl_window_end_def lookup_swept split: option.splits)

text \<open>The check after the sweep depends on the key's own entry alone.\<close>

definition tl_entry :: "(u32 \<times> nat) option \<Rightarrow> nat \<Rightarrow> u32 \<times> nat" where
  "tl_entry eo now =
     (case eo of
        None \<Rightarrow> (1, now)
      | Some (n, ws) \<Rightarrow> if now - ws \<ge> 60 then (1, now) else if n < 60 then (n + 1, ws) else (n, ws))"

lemma tl_check_swept:
  "tl_check st ip now =
     (0 < tl_budget (swept st now) ip now,
      DAList.update ip (tl_entry (DAList.lookup (swept st now) ip) now) (swept st now))"
  by (auto simp: tl_check_def check_rate_limit_def swept_def [symmetric] tl_budget_def tl_entry_def
      RATE_LIMIT_WINDOW_SECS_def RATE_LIMIT_MAX_def word_less_nat_alt Let_def split: option.splits)

lemma tl_check_lookup:
  "DAList.lookup (snd (tl_check st ip now)) ip' =
     (if ip = ip' then Some (tl_entry (DAList.lookup (swept st now) ip) now)
      else DAList.lookup (swept st now) ip')"
  by (simp add: tl_check_swept lookup_update)

lemma unat_Suc_60: "unat (n :: u32) < 60 \<Longrightarrow> unat (n + 1) = Suc (unat n)"
  by (rule unat_Suc_below [of _ 60]) (simp add: word_less_nat_alt)

lemma tl_own:
  assumes "t \<le> t'" and "t' \<le> tl_window_end st ip t"
    and "DAList.lookup st' ip = Some (tl_entry (DAList.lookup st ip) t)"
  shows "tl_budget st' ip t' = tl_budget st ip t - 1"
    and "tl_window_end st' ip t' = tl_window_end st ip t"
  using assms
  by (auto simp: tl_budget_def tl_window_end_def tl_entry_def word_less_nat_alt unat_Suc_60
      split: option.splits if_splits)

interpretation tl: window_limiter tl_check tl_budget tl_window_end
proof (unfold_locales, goal_cases)
  case (1 st k t)
  show ?case
    by (simp add: tl_check_swept swept_invisible)
next
  case (2 t t' st k)
  then show ?case
    using tl_own(1) [of t t' "swept st t" k "snd (tl_check st k t)"]
    by (simp add: tl_check_lookup swept_invisible)
next
  case (3 t t' st k)
  then show ?case
    using tl_own(2) [of t t' "swept st t" k "snd (tl_check st k t)"]
    by (simp add: tl_check_lookup swept_invisible)
next
  case (4 k' k t t' st)
  then show ?case
    using swept_invisible(1) [of t t' st k'] by (simp add: tl_budget_def tl_check_lookup)
next
  case (5 k' k t t' st)
  then show ?case
    using swept_invisible(2) [of t t' st k'] by (simp add: tl_window_end_def tl_check_lookup)
qed

text \<open>
  C31. The telemetry limiter: from the first request of an address without an open window, of all
  requests of the next 59 seconds, of any addresses, exactly the first sixty of the address are
  admitted, although the check sweeps old entries whenever more than a thousand addresses are known.
\<close>

theorem telemetry_limit_per_window:
  assumes "\<forall>n ws. DAList.lookup st ip = Some (n, ws) \<longrightarrow> ws + 60 \<le> t"
    and "sorted (t # map snd rs)" and "\<forall>r \<in> set rs. snd r < t + 60"
  shows "admitted tl_check st ((ip, t) # rs) ip = min (Suc (requests rs ip)) 60"
proof -
  have "tl_budget st ip t = 60" "tl_window_end st ip t = t + 59"
    using assms(1) by (auto simp: tl_budget_def tl_window_end_def split: option.splits)
  then show ?thesis
    using tl.admitted_in_window [of t rs st ip] assms(2,3) by fastforce
qed

theorem telemetry_limit_per_window_witness:
  "admitted tl_check new_telemetry ((V4 [1, 2, 3, 4], 1000) # replicate 70 (V4 [1, 2, 3, 4], 1059))
     (V4 [1, 2, 3, 4]) = 60"
  using telemetry_limit_per_window [of new_telemetry "V4 [1, 2, 3, 4]" 1000
      "replicate 70 (V4 [1, 2, 3, 4], 1059)"]
  by (simp add: new_telemetry_def requests_def)

text \<open>The gRPC handler takes the key of the limiter from headers the client writes.\<close>

lemma forwarded_example:
  "extract_client_ip \<lparr>forwarded = Some ''proto=http; for=\"1.2.3.4:99\"'', x_forwarded_for = None,
     remote_ip = Some (V4 [9, 9, 9, 9])\<rparr> = Some (V4 [1, 2, 3, 4])"
  by code_simp

lemma forwarded_ipv6_unparsed:
  "extract_client_ip \<lparr>forwarded = Some ''for=\"[2001:db8::1]\"'', x_forwarded_for = None,
     remote_ip = Some (V4 [9, 9, 9, 9])\<rparr> = Some (V4 [9, 9, 9, 9])"
  by code_simp

lemma xff_ipv6_parsed:
  "extract_client_ip \<lparr>forwarded = None, x_forwarded_for = Some ''2001:db8::1, 10.0.0.1'',
     remote_ip = None\<rparr> = Some (V6 [0x2001, 0xdb8, 0, 0, 0, 0, 0, 1])"
  by code_simp

lemma parse_number_example:
  "map parse_number [utext ''60.5'', utext ''.25e1'', utext ''7.'', utext ''.'', utext ''1e'', utext ''2ms''] =
     [Some (121 / 2), Some (5 / 2), Some 7, None, None, None]"
  by code_simp

end
