(* ===== verification/Matchmaking.thy ===== *)
theory Matchmaking
  imports Auth "HOL-Library.AList"
begin

text \<open>
  \<^verbatim>\<open>crates/aetheris-server/src/matchmaking/mod.rs\<close>: the registry of game servers, the queue of
  players and the tasks that match them. The handlers are functions on the state. A spawned task is
  an entry of the task list, and what it does between two points where other tasks can run is a step:
  sending the \<^verbatim>\<open>Queued\<close> status, one branch of the \<^verbatim>\<open>select!\<close>, and the removal of the queue entry after it. A
  \<^verbatim>\<open>oneshot\<close> sender is the index of its task; it is gone once it has sent or has been dropped, and in
  both cases the receiver is ready. The message channel holds ten updates and a task sends at
  most two, so sending never waits. Player counts are the \<^verbatim>\<open>u32\<close> fields of the generated message.
\<close>

record ServerInstance =
  instance_id :: string
  addr :: string
  players :: u32
  reserved :: u32
  max_players :: u32

record RegisteredServer =
  info :: ServerInstance
  last_heartbeat :: instant

datatype QueueUpdate =
    Queued u32 u32
  | Matched QuicConnectToken string string

text \<open>The receiving end of a task's cancel channel.\<close>

datatype cancel_rx = Pending | Signalled | SenderDropped

datatype task_stage = Selecting | Finishing | Finished

record queue_task =
  tk_token :: string
  tk_cancel :: cancel_rx
  tk_deadline :: instant
  tk_queued_sent :: bool
  tk_stage :: task_stage
  tk_stream :: "(Status + QueueUpdate) list"

record MatchmakingServiceImpl =
  servers :: "(string \<times> RegisteredServer) list"
  authorizer :: AuthServiceImpl
  active_queues :: "string \<rightharpoonup> nat"
  tasks :: "queue_task list"

text \<open>
  The libraries of the authentication service, the rendering of a status, and the order in which
  the concurrent map is iterated.
\<close>

record mm_env =
  mm_lib :: auth_lib
  show_status :: "Status \<Rightarrow> string"
  servers_iter :: "RegisteredServer list \<Rightarrow> RegisteredServer list"

definition new_matchmaking :: "AuthServiceImpl \<Rightarrow> MatchmakingServiceImpl" where
  "new_matchmaking a = \<lparr>servers = [], authorizer = a, active_queues = Map.empty, tasks = []\<rparr>"

subsection \<open>Tasks and senders\<close>

definition update_task :: "nat \<Rightarrow> (queue_task \<Rightarrow> queue_task) \<Rightarrow> MatchmakingServiceImpl \<Rightarrow> MatchmakingServiceImpl" where
  "update_task q f st =
     (if q < length (tasks st) then st\<lparr>tasks := (tasks st)[q := f (tasks st ! q)]\<rparr> else st)"

definition send_update :: "nat \<Rightarrow> Status + QueueUpdate \<Rightarrow> MatchmakingServiceImpl \<Rightarrow> MatchmakingServiceImpl" where
  "send_update q u st = update_task q (\<lambda>k. k\<lparr>tk_stream := tk_stream k @ [u]\<rparr>) st"

text \<open>The entry of a token leaves the map; what becomes of its sender is \<open>c\<close>.\<close>

definition remove_queue :: "cancel_rx \<Rightarrow> string \<Rightarrow> MatchmakingServiceImpl \<Rightarrow> MatchmakingServiceImpl" where
  "remove_queue c token st =
     (case active_queues st token of
        None \<Rightarrow> st
      | Some q \<Rightarrow> update_task q (\<lambda>k. k\<lparr>tk_cancel := c\<rparr>) (st\<lparr>active_queues := (active_queues st)(token := None)\<rparr>))"

subsection \<open>Handlers\<close>

text \<open>\<open>start\<close> is the instant the task's timer starts at. The result is the stream's task.\<close>

definition join_queue ::
  "mm_env \<Rightarrow> MatchmakingServiceImpl \<Rightarrow> string \<Rightarrow> datetime \<Rightarrow> datetime \<Rightarrow> instant \<Rightarrow>
     (Status + nat) \<times> MatchmakingServiceImpl" where
  "join_queue env st session_token now now' start =
     (case is_authorized (mm_lib env) (authorizer st) session_token now now' of (ok, a) \<Rightarrow>
        let st = st\<lparr>authorizer := a\<rparr>
        in if \<not> ok then (Inl (mk_status Unauthenticated ''Invalid session''), st)
           else let q = length (tasks st);
                    st = remove_queue SenderDropped session_token st;
                    st = st\<lparr>active_queues := (active_queues st)(session_token \<mapsto> q),
                            tasks := tasks st @ [\<lparr>tk_token = session_token, tk_cancel = Pending,
                              tk_deadline = start + from_secs 1, tk_queued_sent = False,
                              tk_stage = Selecting, tk_stream = []\<rparr>]\<rparr>
                in (Inr q, st))"

definition cancel_queue :: "MatchmakingServiceImpl \<Rightarrow> string \<Rightarrow> bool \<times> MatchmakingServiceImpl" where
  "cancel_queue st session_token =
     (active_queues st session_token \<noteq> None, remove_queue Signalled session_token st)"

definition list_servers :: "mm_env \<Rightarrow> MatchmakingServiceImpl \<Rightarrow> ServerInstance list" where
  "list_servers env st = map info (servers_iter env (map snd (servers st)))"

definition register_instance ::
  "MatchmakingServiceImpl \<Rightarrow> ServerInstance option \<Rightarrow> instant \<Rightarrow> (Status + bool) \<times> MatchmakingServiceImpl" where
  "register_instance st inst now =
     (case inst of
        None \<Rightarrow> (Inl (mk_status InvalidArgument ''Missing instance info''), st)
      | Some i \<Rightarrow>
          (Inr True,
           st\<lparr>servers := AList.update (instance_id i) \<lparr>info = i, last_heartbeat = now\<rparr> (servers st)\<rparr>))"

definition heartbeat ::
  "MatchmakingServiceImpl \<Rightarrow> string \<Rightarrow> u32 \<Rightarrow> instant \<Rightarrow> (Status + bool) \<times> MatchmakingServiceImpl" where
  "heartbeat st iid n now =
     (case map_of (servers st) iid of
        Some s \<Rightarrow>
          (Inr True,
           st\<lparr>servers := AList.update iid (s\<lparr>info := (info s)\<lparr>players := n\<rparr>, last_heartbeat := now\<rparr>) (servers st)\<rparr>)
      | None \<Rightarrow> (Inl (mk_status NotFound ''Instance not registered''), st))"

subsection \<open>The matching task\<close>

text \<open>\<^verbatim>\<open>max_by_key\<close> keeps the last of the greatest elements.\<close>

fun max_by_key :: "('a \<Rightarrow> 'k::linorder) \<Rightarrow> 'a list \<Rightarrow> 'a option" where
  "max_by_key f [] = None"
| "max_by_key f (x # xs) = Some (fold (\<lambda>y m. if f m \<le> f y then y else m) xs x)"

text \<open>\<^verbatim>\<open>elapsed().as_secs() < 30\<close>, and the free places in wrapping arithmetic.\<close>

definition is_live :: "instant \<Rightarrow> RegisteredServer \<Rightarrow> bool" where
  "is_live now s \<longleftrightarrow> (now - last_heartbeat s) div from_secs 1 < 30"

definition has_room :: "RegisteredServer \<Rightarrow> bool" where
  "has_room s \<longleftrightarrow> players (info s) + reserved (info s) < max_players (info s)"

definition free_slots :: "RegisteredServer \<Rightarrow> u32" where
  "free_slots s = max_players (info s) - (players (info s) + reserved (info s))"

definition optimal :: "mm_env \<Rightarrow> MatchmakingServiceImpl \<Rightarrow> instant \<Rightarrow> ServerInstance option" where
  "optimal env st now =
     map_option info
       (max_by_key free_slots
         (filter has_room (filter (is_live now) (servers_iter env (map snd (servers st))))))"

record connect_draw =
  cd_client_id :: u64
  cd_nonce :: bytes
  cd_seed :: "datetime \<times> nat"
  cd_now :: datetime

definition match_update :: "mm_env \<Rightarrow> MatchmakingServiceImpl \<Rightarrow> instant \<Rightarrow> connect_draw \<Rightarrow> Status + QueueUpdate" where
  "match_update env st now d =
     (case optimal env st now of
        Some server \<Rightarrow>
          (case issue_connect_token (mm_lib env) (authorizer st) (addr server) (cd_client_id d) (cd_nonce d)
                  (cd_seed d) (cd_now d) of
             Inr token \<Rightarrow> Inr (Matched token (addr server) (instance_id server))
           | Inl e \<Rightarrow> Inl (mk_status Internal (''Failed to issue connect token: '' @ show_status env e)))
      | None \<Rightarrow> Inl (mk_status ResourceExhausted ''No servers available''))"

subsection \<open>Steps of the service\<close>

datatype mm_event =
    JoinQueue string datetime datetime instant
  | CancelQueue string
  | RegisterInstance "ServerInstance option" instant
  | Heartbeat string u32 instant
  | AuthCall Op
  | SendQueued nat
  | CancelBranch nat
  | TimerBranch nat instant connect_draw
  | RemoveEntry nat

definition in_stage :: "MatchmakingServiceImpl \<Rightarrow> nat \<Rightarrow> task_stage \<Rightarrow> bool" where
  "in_stage st q s \<longleftrightarrow> q < length (tasks st) \<and> tk_stage (tasks st ! q) = s"

text \<open>\<open>None\<close>: the task is not ready for the step.\<close>

fun mm_step :: "mm_env \<Rightarrow> mm_event \<Rightarrow> MatchmakingServiceImpl \<Rightarrow> MatchmakingServiceImpl option" where
  "mm_step env (JoinQueue token now now' start) st = Some (snd (join_queue env st token now now' start))"
| "mm_step env (CancelQueue token) st = Some (snd (cancel_queue st token))"
| "mm_step env (RegisterInstance i now) st = Some (snd (register_instance st i now))"
| "mm_step env (Heartbeat iid n now) st = Some (snd (heartbeat st iid n now))"
| "mm_step env (AuthCall op) st = Some (st\<lparr>authorizer := exec_op (mm_lib env) op (authorizer st)\<rparr>)"
| "mm_step env (SendQueued q) st =
     (if q < length (tasks st) \<and> \<not> tk_queued_sent (tasks st ! q)
      then Some (update_task q (\<lambda>k. k\<lparr>tk_queued_sent := True\<rparr>) (send_update q (Inr (Queued 1 1)) st))
      else None)"
| "mm_step env (CancelBranch q) st =
     (if in_stage st q Selecting \<and> tk_cancel (tasks st ! q) \<noteq> Pending
      then Some (update_task q (\<lambda>k. k\<lparr>tk_stage := Finishing\<rparr>)
                  (send_update q (Inl (mk_status Cancelled ''Matchmaking cancelled by user'')) st))
      else None)"
| "mm_step env (TimerBranch q now d) st =
     (if in_stage st q Selecting \<and> tk_deadline (tasks st ! q) \<le> now
      then Some (update_task q (\<lambda>k. k\<lparr>tk_stage := Finishing\<rparr>)
                  (send_update q (match_update env st now d) st))
      else None)"
| "mm_step env (RemoveEntry q) st =
     (if in_stage st q Finishing
      then Some (update_task q (\<lambda>k. k\<lparr>tk_stage := Finished\<rparr>)
                  (remove_queue SenderDropped (tk_token (tasks st ! q)) st))
      else None)"

fun mm_run :: "mm_env \<Rightarrow> mm_event list \<Rightarrow> MatchmakingServiceImpl \<Rightarrow> MatchmakingServiceImpl option" where
  "mm_run env [] st = Some st"
| "mm_run env (e # es) st = Option.bind (mm_step env e st) (mm_run env es)"

inductive mm_reachable :: "mm_env \<Rightarrow> MatchmakingServiceImpl \<Rightarrow> bool" for env where
  start: "mm_reachable env (new_matchmaking a)"
| step: "mm_reachable env st \<Longrightarrow> mm_step env e st = Some st' \<Longrightarrow> mm_reachable env st'"

end
