(* ===== verification/Matchmaking_Props.thy ===== *)
theory Matchmaking_Props
  imports Matchmaking Auth_Props
begin

text \<open>
  The matchmaking service: the server chosen for a player, what a queue stream carries, which
  events can end a queue, and how a second request with the same token ends both.
\<close>

subsection \<open>The chosen server\<close>

lemma fold_max_by_key:
  fixes f :: "'a \<Rightarrow> 'k::linorder"
  defines "g \<equiv> \<lambda>y m. if f m \<le> f y then y else m"
  shows "fold g xs x \<in> insert x (set xs) \<and> f x \<le> f (fold g xs x) \<and> (\<forall>y \<in> set xs. f y \<le> f (fold g xs x))"
proof (induction xs arbitrary: x)
  case (Cons y xs)
  have "f x \<le> f (g y x)" "f y \<le> f (g y x)" "g y x \<in> {x, y}"
    by (auto simp: g_def)
  moreover note Cons.IH [of "g y x"]
  ultimately show ?case
    by (auto dest: order.trans)
qed simp

lemma max_by_key_Some:
  "max_by_key f xs = Some m \<Longrightarrow> m \<in> set xs \<and> (\<forall>y \<in> set xs. f y \<le> f m)" for f :: "'a \<Rightarrow> 'k::linorder"
  using fold_max_by_key [of f] by (cases xs) auto

lemma max_by_key_None [simp]: "max_by_key f xs = None \<longleftrightarrow> xs = []"
  by (cases xs) auto


text \<open>A token library that reads every token as the session \<open>j\<close>, and a service that knows it.\<close>

definition open_lib :: auth_lib where
  "open_lib = sample_lib\<lparr>paseto_parse := (\<lambda>key token now. Some [(''jti'', VString ''j''), (''sub'', VString token)])\<rparr>"

definition sample_mm_env :: mm_env where
  "sample_mm_env = \<lparr>mm_lib = open_lib, show_status = (\<lambda>_. []), servers_iter = (\<lambda>xs. xs)\<rparr>"

definition sample_mm :: "(string \<times> RegisteredServer) list \<Rightarrow> MatchmakingServiceImpl" where
  "sample_mm ss = (new_matchmaking (sample_auth\<lparr>session_activity := [''j'' \<mapsto> 0]\<rparr>))\<lparr>servers := ss\<rparr>"

definition sample_server :: "string \<Rightarrow> u32 \<Rightarrow> instant \<Rightarrow> string \<times> RegisteredServer" where
  "sample_server n p t =
     (n, \<lparr>info = \<lparr>instance_id = n, addr = n, players = p, reserved = 0, max_players = 8\<rparr>, last_heartbeat = t\<rparr>)"

lemma sample_mm_simps [simp]:
  "servers_iter sample_mm_env xs = xs" "servers (sample_mm ss) = ss" "tasks (sample_mm ss) = []"
  "active_queues (sample_mm ss) = Map.empty"
  by (simp_all add: sample_mm_env_def sample_mm_def new_matchmaking_def)


subsection \<open>Steps on the task list\<close>

lemma tasks_update_task [simp]:
  "tasks (update_task q f st) = (if q < length (tasks st) then (tasks st)[q := f (tasks st ! q)] else tasks st)"
  "active_queues (update_task q f st) = active_queues st"
  by (simp_all add: update_task_def)

lemma tasks_send_update [simp]:
  "tasks (send_update q u st) =
     (if q < length (tasks st)
      then (tasks st)[q := (tasks st ! q)\<lparr>tk_stream := tk_stream (tasks st ! q) @ [u]\<rparr>] else tasks st)"
  "active_queues (send_update q u st) = active_queues st"
  by (simp_all add: send_update_def)

lemma length_remove_queue [simp]: "length (tasks (remove_queue c t st)) = length (tasks st)"
  by (simp add: remove_queue_def split: option.splits)

lemma remove_queue_nth:
  "q < length (tasks st) \<Longrightarrow>
   tasks (remove_queue c t st) ! q =
     (if active_queues st t = Some q then (tasks st ! q)\<lparr>tk_cancel := c\<rparr> else tasks st ! q)"
  by (auto simp: remove_queue_def nth_list_update split: option.splits)

lemma active_remove_queue [simp]: "active_queues (remove_queue c t st) = (active_queues st)(t := None)"
  by (auto simp: remove_queue_def split: option.splits)

text \<open>Every entry of the map belongs to a task of its token.\<close>

definition mm_wf :: "MatchmakingServiceImpl \<Rightarrow> bool" where
  "mm_wf st \<longleftrightarrow> (\<forall>t q. active_queues st t = Some q \<longrightarrow>
     q < length (tasks st) \<and> tk_token (tasks st ! q) = t \<and> tk_cancel (tasks st ! q) = Pending)"

lemma mm_wfD:
  "mm_wf st \<Longrightarrow> active_queues st t = Some q \<Longrightarrow>
     q < length (tasks st) \<and> tk_token (tasks st ! q) = t \<and> tk_cancel (tasks st ! q) = Pending"
  by (simp add: mm_wf_def)

lemma mm_wf_update:
  "mm_wf st \<Longrightarrow> (\<And>k. tk_token (f k) = tk_token k \<and> tk_cancel (f k) = tk_cancel k) \<Longrightarrow> mm_wf (update_task q f st)"
  by (auto simp: mm_wf_def nth_list_update)

lemma mm_wf_send: "mm_wf st \<Longrightarrow> mm_wf (send_update q u st)"
  by (simp add: send_update_def mm_wf_update)

lemma mm_wf_remove: "mm_wf st \<Longrightarrow> mm_wf (remove_queue c t st)"
  by (auto simp: mm_wf_def remove_queue_nth split: if_splits)

lemma mm_wf_same: "mm_wf st \<Longrightarrow> tasks st' = tasks st \<Longrightarrow> active_queues st' = active_queues st \<Longrightarrow> mm_wf st'"
  by (simp add: mm_wf_def)

lemma mm_wf_frame [simp]:
  "mm_wf (st\<lparr>servers := ss\<rparr>) \<longleftrightarrow> mm_wf st" "mm_wf (st\<lparr>authorizer := a\<rparr>) \<longleftrightarrow> mm_wf st"
  by (simp_all add: mm_wf_def)

text \<open>Joining either changes only the authorizer or appends a task that holds the entry.\<close>

lemma join_queueE:
  assumes "join_queue env st t now now' start = (r, st')"
  obtains e where "r = Inl e" "tasks st' = tasks st" "active_queues st' = active_queues st"
  | "r = Inr (length (tasks st))"
    "tasks st' = tasks (remove_queue SenderDropped t st) @
       [\<lparr>tk_token = t, tk_cancel = Pending, tk_deadline = start + from_secs 1, tk_queued_sent = False,
         tk_stage = Selecting, tk_stream = []\<rparr>]"
    "active_queues st' = (active_queues st)(t \<mapsto> length (tasks st))"
proof -
  have "tasks (remove_queue c t (st\<lparr>authorizer := a\<rparr>)) = tasks (remove_queue c t st)" for c a
    by (simp add: remove_queue_def update_task_def split: option.split)
  note this [simp]
  obtain ok a where auth: "is_authorized (mm_lib env) (authorizer st) t now now' = (ok, a)"
    by fastforce
  show thesis
  proof (cases ok)
    case True
    show thesis
      by (rule that(2)) (use assms auth True in \<open>auto simp: join_queue_def Let_def\<close>)
  next
    case False
    show thesis
      by (rule that(1)) (use assms auth False in \<open>auto simp: join_queue_def Let_def\<close>)
  qed
qed

lemma mm_wf_join:
  assumes "mm_wf st" and "join_queue env st t now now' start = (r, st')"
  shows "mm_wf st'"
  using assms(2)
proof (cases rule: join_queueE)
  case 2
  have "q < length (tasks st') \<and> tk_token (tasks st' ! q) = u \<and> tk_cancel (tasks st' ! q) = Pending"
    if "active_queues st' u = Some q" for u q
    using that 2 mm_wfD [OF mm_wf_remove [OF assms(1)], of SenderDropped t u q]
    by (cases "u = t") (auto simp: nth_append)
  then show ?thesis
    by (simp add: mm_wf_def)
qed (rule mm_wf_same [OF assms(1)])

lemma mm_wf_step: "mm_wf st \<Longrightarrow> mm_step env e st = Some st' \<Longrightarrow> mm_wf st'"
proof (cases e)
  case (JoinQueue t now now' start)
  assume "mm_wf st" "mm_step env e st = Some st'"
  with JoinQueue show ?thesis
    using mm_wf_join [of st env t now now' start] by (cases "join_queue env st t now now' start") auto
qed (auto simp: cancel_queue_def register_instance_def heartbeat_def mm_wf_update mm_wf_send
    mm_wf_remove split: option.splits if_splits)

lemma mm_wf_new: "mm_wf (new_matchmaking a)"
  by (simp add: mm_wf_def new_matchmaking_def)

lemma mm_reachable_wf: "mm_reachable env st \<Longrightarrow> mm_wf st"
  by (induction rule: mm_reachable.induct) (auto intro: mm_wf_new mm_wf_step)

subsection \<open>What a stream carries\<close>

fun is_outcome :: "Status + QueueUpdate \<Rightarrow> bool" where
  "is_outcome (Inr (Queued _ _)) = False"
| "is_outcome _ = True"

definition stream_ok :: "queue_task \<Rightarrow> bool" where
  "stream_ok k \<longleftrightarrow>
     length (filter is_outcome (tk_stream k)) = (if tk_stage k = Selecting then 0 else 1) \<and>
     length (filter (\<lambda>u. \<not> is_outcome u) (tk_stream k)) = (if tk_queued_sent k then 1 else 0)"

lemma list_all_update: "list_all P xs \<Longrightarrow> (i < length xs \<Longrightarrow> P x) \<Longrightarrow> list_all P (xs[i := x])"
  by (cases "i < length xs") (auto simp: list_all_length nth_list_update)

lemma stream_ok_cancel [simp]: "stream_ok (k\<lparr>tk_cancel := c\<rparr>) \<longleftrightarrow> stream_ok k"
  by (simp add: stream_ok_def)

lemma stream_ok_remove: "list_all stream_ok (tasks st) \<Longrightarrow> list_all stream_ok (tasks (remove_queue c t st))"
  by (simp add: list_all_length remove_queue_nth)

lemma match_update_outcome: "is_outcome (match_update env st now d)"
  by (simp add: match_update_def split: option.split sum.split)

lemma stream_ok_step:
  assumes "list_all stream_ok (tasks st)" and "mm_step env e st = Some st'"
  shows "list_all stream_ok (tasks st')"
proof (cases e)
  case (JoinQueue t now now' start)
  obtain r where "join_queue env st t now now' start = (r, st')"
    using assms(2) JoinQueue by (cases "join_queue env st t now now' start") simp
  then show ?thesis
    by (cases rule: join_queueE) (use assms(1) in \<open>simp_all add: stream_ok_remove, simp add: stream_ok_def\<close>)
next
  case (SendQueued q)
  then show ?thesis
    using assms by (auto simp: stream_ok_def list_all_length nth_list_update split: if_splits)
next
  case (CancelBranch q)
  then show ?thesis
    using assms by (auto simp: stream_ok_def list_all_length nth_list_update in_stage_def split: if_splits)
next
  case (TimerBranch q now d)
  then show ?thesis
    using assms match_update_outcome [of env st now d]
    by (auto simp: stream_ok_def list_all_length nth_list_update in_stage_def split: if_splits)
next
  case (RemoveEntry q)
  then have q: "in_stage st q Finishing"
    "tasks st' = (tasks (remove_queue SenderDropped (tk_token (tasks st ! q)) st))[q :=
       (tasks (remove_queue SenderDropped (tk_token (tasks st ! q)) st) ! q)\<lparr>tk_stage := Finished\<rparr>]"
    using assms(2) by (auto simp: in_stage_def split: if_splits)
  then show ?thesis
    using stream_ok_remove [OF assms(1), of SenderDropped "tk_token (tasks st ! q)"]
    by (auto intro!: list_all_update simp: in_stage_def remove_queue_nth)
      (auto simp: stream_ok_def list_all_length remove_queue_nth)
qed (use assms in \<open>auto simp: cancel_queue_def register_instance_def heartbeat_def stream_ok_remove
    split: option.splits\<close>)

text \<open>
  Every queue stream of a reachable state carries exactly one outcome once its task has left the
  selection, and none before, and at most one queued status: a match, a cancellation and a failure
  exclude each other, and no stream ever holds more updates than its channel.
\<close>

lemma queue_stream_one_outcome:
  assumes "mm_reachable env st" and "q < length (tasks st)"
  shows "length (filter is_outcome (tk_stream (tasks st ! q))) =
           (if tk_stage (tasks st ! q) = Selecting then 0 else 1) \<and>
         length (tk_stream (tasks st ! q)) \<le> 2"
proof -
  have "list_all stream_ok (tasks st)"
    using assms(1) by induction (auto simp: new_matchmaking_def intro: stream_ok_step)
  then have "stream_ok (tasks st ! q)"
    using assms(2) by (simp add: list_all_length)
  then show ?thesis
    using sum_length_filter_compl [of is_outcome "tk_stream (tasks st ! q)"]
    by (auto simp: stream_ok_def split: if_splits)
qed

lemma open_authorized:
  "is_authorized (mm_lib sample_mm_env) (authorizer (sample_mm ss)) t 0 0 =
     (True, sample_auth\<lparr>session_activity := [''j'' \<mapsto> 0]\<rparr>)"
  by (simp add: is_authorized_def verify_session_def sample_mm_env_def open_lib_def claim_str_def
      sample_mm_def new_matchmaking_def session_defs timestamp_def)

definition joined :: MatchmakingServiceImpl where
  "joined = snd (join_queue sample_mm_env (sample_mm []) ''t'' 0 0 0)"

lemma joined_simps [simp]:
  "tasks joined = [\<lparr>tk_token = ''t'', tk_cancel = Pending, tk_deadline = from_secs 1, tk_queued_sent = False,
      tk_stage = Selecting, tk_stream = []\<rparr>]"
  "active_queues joined = [''t'' \<mapsto> 0]"
  by (simp_all add: joined_def join_queue_def open_authorized remove_queue_def)

lemma joined_reachable: "mm_reachable sample_mm_env joined"
proof (rule mm_reachable.step)
  show "mm_reachable sample_mm_env (sample_mm [])"
    unfolding sample_mm_def using mm_reachable.start
    by (simp add: new_matchmaking_def)
  show "mm_step sample_mm_env (JoinQueue ''t'' 0 0 0) (sample_mm []) = Some joined"
    by (simp add: joined_def)
qed

subsection \<open>Queues of different tokens do not disturb each other\<close>

definition cancelled_status :: "Status + QueueUpdate" where
  "cancelled_status = Inl (mk_status Cancelled ''Matchmaking cancelled by user'')"

text \<open>The task \<open>q\<close> is the only one left of its token, and nobody has cancelled it.\<close>

definition sole_queue :: "string \<Rightarrow> nat \<Rightarrow> MatchmakingServiceImpl \<Rightarrow> bool" where
  "sole_queue t q st \<longleftrightarrow>
     mm_wf st \<and> q < length (tasks st) \<and> tk_token (tasks st ! q) = t \<and>
     (\<forall>q' < length (tasks st). q' \<noteq> q \<and> tk_token (tasks st ! q') = t \<longrightarrow> tk_stage (tasks st ! q') = Finished) \<and>
     (tk_stage (tasks st ! q) = Selecting \<longrightarrow> tk_cancel (tasks st ! q) = Pending) \<and>
     cancelled_status \<notin> set (tk_stream (tasks st ! q))"

fun foreign_event :: "string \<Rightarrow> mm_event \<Rightarrow> bool" where
  "foreign_event t (JoinQueue t' _ _ _) = (t' \<noteq> t)"
| "foreign_event t (CancelQueue t') = (t' \<noteq> t)"
| "foreign_event t _ = True"

text \<open>The queue part of the claim only looks at the tasks.\<close>

lemma sole_queueI:
  assumes "sole_queue t q st" and "mm_wf st'" and "length (tasks st) \<le> length (tasks st')"
    and "tk_token (tasks st' ! q) = t"
    and "tk_stage (tasks st' ! q) = Selecting \<Longrightarrow>
      tk_stage (tasks st ! q) = Selecting \<and> tk_cancel (tasks st' ! q) = tk_cancel (tasks st ! q)"
    and "cancelled_status \<notin> set (tk_stream (tasks st' ! q))"
    and "\<And>q'. q' < length (tasks st') \<Longrightarrow> q' \<noteq> q \<Longrightarrow> tk_token (tasks st' ! q') = t \<Longrightarrow>
      q' < length (tasks st) \<and> tk_token (tasks st ! q') = t \<and>
      (tk_stage (tasks st ! q') = Finished \<longrightarrow> tk_stage (tasks st' ! q') = Finished)"
  shows "sole_queue t q st'"
  using assms unfolding sole_queue_def by (metis order_less_le_trans)

lemma sole_queueD:
  assumes "sole_queue t q st"
  shows "mm_wf st" "q < length (tasks st)" "tk_token (tasks st ! q) = t"
    "cancelled_status \<notin> set (tk_stream (tasks st ! q))"
    "tk_stage (tasks st ! q) = Selecting \<Longrightarrow> tk_cancel (tasks st ! q) = Pending"
    "\<And>q'. q' < length (tasks st) \<Longrightarrow> q' \<noteq> q \<Longrightarrow> tk_token (tasks st ! q') = t \<Longrightarrow> tk_stage (tasks st ! q') = Finished"
  using assms by (auto simp: sole_queue_def)

lemma remove_queue_other:
  assumes "sole_queue t q st" and "t' \<noteq> t"
  shows "tasks (remove_queue c t' st) ! q = tasks st ! q"
  using assms sole_queueD(1-3) [OF assms(1)] mm_wfD [of st t' q] by (auto simp: remove_queue_nth)

lemma remove_queue_frame:
  "i < length (tasks st) \<Longrightarrow> tk_token (tasks (remove_queue c t st) ! i) = tk_token (tasks st ! i) \<and>
     tk_stage (tasks (remove_queue c t st) ! i) = tk_stage (tasks st ! i) \<and>
     tk_stream (tasks (remove_queue c t st) ! i) = tk_stream (tasks st ! i)"
  by (simp add: remove_queue_nth)

lemma match_update_not_cancelled: "match_update env st now d \<noteq> cancelled_status"
  by (simp add: match_update_def cancelled_status_def mk_status_def split: option.split sum.split)

lemma sole_queue_step:
  assumes sole: "sole_queue t q st" and st': "mm_step env e st = Some st'" and f: "foreign_event t e"
  shows "sole_queue t q st'"
proof -
  note D = sole_queueD [OF sole]
  note wf = mm_wf_step [OF D(1) st']
  show ?thesis
  proof (cases e)
    case (JoinQueue t' now now' start)
    obtain r where "join_queue env st t' now now' start = (r, st')"
      using st' JoinQueue by (cases "join_queue env st t' now now' start") simp
    then show ?thesis
    proof (cases rule: join_queueE)
      case 1
      then show ?thesis
        by (intro sole_queueI [OF sole wf]) (use D in auto)
    next
      case 2
      then show ?thesis
        using f JoinQueue D remove_queue_other [OF sole, of t' SenderDropped]
        by (intro sole_queueI [OF sole wf]) (auto simp: nth_append remove_queue_frame split: if_splits)
    qed
  next
    case (CancelQueue t')
    then show ?thesis
      using f st' D remove_queue_other [OF sole, of t' Signalled]
      by (intro sole_queueI [OF sole wf]) (auto simp: cancel_queue_def remove_queue_frame)
  next
    case (SendQueued q')
    then show ?thesis
      using st' D by (intro sole_queueI [OF sole wf])
        (auto simp: nth_list_update cancelled_status_def split: if_splits)
  next
    case (CancelBranch q')
    then show ?thesis
      using st' D by (intro sole_queueI [OF sole wf])
        (auto simp: nth_list_update in_stage_def split: if_splits)
  next
    case (TimerBranch q' now d)
    then show ?thesis
      using st' D match_update_not_cancelled [of env st now d] by (intro sole_queueI [OF sole wf])
        (auto simp: nth_list_update in_stage_def split: if_splits)
  next
    case (RemoveEntry q')
    then have "tk_token (tasks st ! q') \<noteq> t" if "q' \<noteq> q"
      using st' D(6) [of q'] that by (auto simp: in_stage_def split: if_splits)
    with RemoveEntry show ?thesis
      using st' D remove_queue_other [OF sole, of "tk_token (tasks st ! q')" SenderDropped]
      by (intro sole_queueI [OF sole wf])
        (auto simp: nth_list_update in_stage_def remove_queue_frame split: if_splits)
  qed (use st' D wf sole in \<open>auto simp: register_instance_def heartbeat_def sole_queue_def split: option.splits\<close>)
qed

lemma sole_queue_run:
  "sole_queue t q st \<Longrightarrow> mm_run env es st = Some st' \<Longrightarrow> list_all (foreign_event t) es \<Longrightarrow> sole_queue t q st'"
  by (induction es arbitrary: st) (auto simp: bind_eq_Some_conv intro: sole_queue_step)

text \<open>
  C28. A player's queue is ended by the player alone: a task that is the only one of its token, and that
  nobody has cancelled, never reports a cancellation in any interleaving of other players' requests,
  server registrations, heartbeats, authentication calls and task steps.
\<close>

theorem queue_not_cancelled_by_others:
  assumes "mm_reachable env st" and "q < length (tasks st)" and "tk_token (tasks st ! q) = t"
    and "\<forall>q' < length (tasks st). tk_token (tasks st ! q') = t \<longrightarrow> q' = q \<or> tk_stage (tasks st ! q') = Finished"
    and "tk_cancel (tasks st ! q) = Pending" and "cancelled_status \<notin> set (tk_stream (tasks st ! q))"
    and "list_all (foreign_event t) es" and "mm_run env es st = Some st'"
  shows "cancelled_status \<notin> set (tk_stream (tasks st' ! q))"
proof -
  have "sole_queue t q st"
    using assms mm_reachable_wf [OF assms(1)] by (auto simp: sole_queue_def)
  from sole_queueD(4) [OF sole_queue_run [OF this assms(8,7)]] show ?thesis .
qed

theorem queue_not_cancelled_by_others_witness:
  "\<exists>st'. mm_run sample_mm_env [CancelQueue ''u'', SendQueued 0] joined = Some st' \<and>
     cancelled_status \<notin> set (tk_stream (tasks st' ! 0))"
proof -
  have "cancel_queue joined ''u'' = (False, joined)"
    by (simp add: cancel_queue_def remove_queue_def)
  then obtain st' where run: "mm_run sample_mm_env [CancelQueue ''u'', SendQueued 0] joined = Some st'"
    by simp
  have "cancelled_status \<notin> set (tk_stream (tasks st' ! 0))"
    by (rule queue_not_cancelled_by_others [OF joined_reachable _ _ _ _ _ _ run, where t = "''t''"])
      simp_all
  with run show ?thesis by blast
qed

subsection \<open>A second request with the same token\<close>

text \<open>
  C29. A player who joins again with the same token loses both queues, without any cancel request:
  the first task ends because its sender is replaced, and its cleanup removes the entry of the second,
  whose task then reports a cancellation too and which the player can no longer cancel.
\<close>

theorem rejoin_cancels_both:
  assumes "is_authorized (mm_lib env) (authorizer st) t n1 n1' = (True, a)"
    and "is_authorized (mm_lib env) a t n2 n2' = (True, a')"
    and "active_queues st t = None" and "q = length (tasks st)"
  shows "\<exists>st1 st2.
     mm_run env [JoinQueue t n1 n1' s1, JoinQueue t n2 n2' s2, CancelBranch q, RemoveEntry q] st = Some st1 \<and>
     fst (cancel_queue st1 t) = False \<and>
     mm_run env [CancelBranch (Suc q), RemoveEntry (Suc q)] st1 = Some st2 \<and>
     tk_stream (tasks st2 ! q) = [cancelled_status] \<and> tk_stream (tasks st2 ! Suc q) = [cancelled_status]"
proof -
  define k where "k c g ms s = \<lparr>tk_token = t, tk_cancel = c, tk_deadline = s + from_secs 1,
    tk_queued_sent = False, tk_stage = g, tk_stream = ms\<rparr>" for c g s and ms :: "(Status + QueueUpdate) list"
  define S where "S au m ts = st\<lparr>authorizer := au, active_queues := (active_queues st)(t := m),
    tasks := tasks st @ ts\<rparr>" for au m ts
  note [simp] = assms(4) and defs = k_def S_def join_queue_def remove_queue_def in_stage_def
    update_task_def send_update_def list_update_append nth_append Let_def
  let ?C = "[cancelled_status]"
  have 1: "mm_step env (JoinQueue t n1 n1' s1) st = Some (S a (Some q) [k Pending Selecting [] s1])"
    using assms(1,3) by (simp add: defs)
  have 2: "mm_step env (JoinQueue t n2 n2' s2) (S a (Some q) [k Pending Selecting [] s1]) =
      Some (S a' (Some (Suc q)) [k SenderDropped Selecting [] s1, k Pending Selecting [] s2])"
    using assms(2) by (simp add: defs)
  have 3: "mm_step env (CancelBranch q)
        (S a' (Some (Suc q)) [k SenderDropped Selecting [] s1, k Pending Selecting [] s2]) =
      Some (S a' (Some (Suc q)) [k SenderDropped Finishing ?C s1, k Pending Selecting [] s2])"
    by (simp add: defs cancelled_status_def)
  have 4: "mm_step env (RemoveEntry q)
        (S a' (Some (Suc q)) [k SenderDropped Finishing ?C s1, k Pending Selecting [] s2]) =
      Some (S a' None [k SenderDropped Finished ?C s1, k SenderDropped Selecting [] s2])"
    by (simp add: defs)
  have 5: "mm_step env (CancelBranch (Suc q))
        (S a' None [k SenderDropped Finished ?C s1, k SenderDropped Selecting [] s2]) =
      Some (S a' None [k SenderDropped Finished ?C s1, k SenderDropped Finishing ?C s2])"
    by (simp add: defs cancelled_status_def)
  have 6: "mm_step env (RemoveEntry (Suc q))
        (S a' None [k SenderDropped Finished ?C s1, k SenderDropped Finishing ?C s2]) =
      Some (S a' None [k SenderDropped Finished ?C s1, k SenderDropped Finished ?C s2])"
    by (simp add: defs)
  let ?st1 = "S a' None [k SenderDropped Finished ?C s1, k SenderDropped Selecting [] s2]"
  let ?st2 = "S a' None [k SenderDropped Finished ?C s1, k SenderDropped Finished ?C s2]"
  have "mm_run env [JoinQueue t n1 n1' s1, JoinQueue t n2 n2' s2, CancelBranch q, RemoveEntry q] st = Some ?st1"
    by (simp only: mm_run.simps Option.bind.simps 1 2 3 4)
  moreover have "mm_run env [CancelBranch (Suc q), RemoveEntry (Suc q)] ?st1 = Some ?st2"
    by (simp only: mm_run.simps Option.bind.simps 5 6)
  moreover have "fst (cancel_queue ?st1 t) = False" "tk_stream (tasks ?st2 ! q) = ?C"
      "tk_stream (tasks ?st2 ! Suc q) = ?C"
    by (simp_all add: S_def k_def cancel_queue_def nth_append)
  ultimately show ?thesis by blast
qed

theorem rejoin_cancels_both_witness:
  "\<exists>st1 st2.
     mm_run sample_mm_env [JoinQueue ''t'' 0 0 0, JoinQueue ''t'' 0 0 5, CancelBranch 0, RemoveEntry 0]
       (sample_mm []) = Some st1 \<and>
     fst (cancel_queue st1 ''t'') = False \<and>
     mm_run sample_mm_env [CancelBranch (Suc 0), RemoveEntry (Suc 0)] st1 = Some st2 \<and>
     tk_stream (tasks st2 ! 0) = [cancelled_status] \<and> tk_stream (tasks st2 ! Suc 0) = [cancelled_status]"
  by (rule rejoin_cancels_both [OF open_authorized])
    (use open_authorized [of "[]" "''t''"] in \<open>simp_all add: sample_mm_def new_matchmaking_def\<close>)

text \<open>Nothing reserves the place a match is given: a server with one free place takes any number.\<close>

lemma match_update_keeps_servers: "mm_step env (TimerBranch q now d) st = Some st' \<Longrightarrow> servers st' = servers st"
  by (auto simp: update_task_def send_update_def split: if_splits)

text \<open>The free places wrap: a full server with a large reservation looks empty.\<close>

lemma free_slots_wraps:
  "has_room \<lparr>info = \<lparr>instance_id = i, addr = a, players = - 1, reserved = 1, max_players = 8\<rparr>, last_heartbeat = t\<rparr>"
  by (simp add: has_room_def)

end
