(* ===== verification/Transport.thy ===== *)
theory Transport
  imports Tick
begin

text \<open>
  The transport interface (\<^verbatim>\<open>PlatformTransport\<close>) as the engine uses it, and
  \<^verbatim>\<open>crates/aetheris-server/src/multi_transport.rs\<close>, which combines several transports. A transport is
  a table of functions on its state; every call returns the new state. The contract of a transport,
  that it answers \<^verbatim>\<open>ClientNotConnected\<close> without effect exactly for the clients it does not know, is a
  locale; the combination of transports that meet it meets it again.
\<close>

datatype TransportError =
    ClientNotConnected ClientId
  | PayloadTooLarge nat nat
  | Io string

record 't PlatformTransport =
  pt_send_unreliable :: "ClientId \<Rightarrow> bytes \<Rightarrow> 't \<Rightarrow> (TransportError + unit) \<times> 't"
  pt_send_reliable :: "ClientId \<Rightarrow> bytes \<Rightarrow> 't \<Rightarrow> (TransportError + unit) \<times> 't"
  pt_broadcast_unreliable :: "bytes \<Rightarrow> 't \<Rightarrow> (TransportError + unit) \<times> 't"
  pt_poll_events :: "'t \<Rightarrow> ((TransportError + NetworkEvent list) \<times> 't) option"
  pt_disconnect :: "ClientId \<Rightarrow> 't \<Rightarrow> (TransportError + unit) \<times> 't"
  pt_connected_client_count :: "'t \<Rightarrow> u64"

subsection \<open>The multiplexer\<close>

type_synonym 't MultiTransport = "'t list"

definition new_multi :: "'t MultiTransport" where
  "new_multi = []"

definition add_transport :: "'t \<Rightarrow> 't MultiTransport \<Rightarrow> 't MultiTransport" where
  "add_transport t ts = ts @ [t]"

text \<open>The loop of both sends: the first transport that knows the client decides.\<close>

fun first_known ::
  "(ClientId \<Rightarrow> bytes \<Rightarrow> 't \<Rightarrow> (TransportError + unit) \<times> 't) \<Rightarrow> ClientId \<Rightarrow> bytes \<Rightarrow> 't MultiTransport \<Rightarrow>
     (TransportError + unit) \<times> 't MultiTransport" where
  "first_known send c d [] = (Inl (ClientNotConnected c), [])"
| "first_known send c d (t # ts) =
     (case send c d t of
        (Inr _, t') \<Rightarrow> (Inr (), t' # ts)
      | (Inl (ClientNotConnected _), t') \<Rightarrow> (case first_known send c d ts of (r, ts') \<Rightarrow> (r, t' # ts'))
      | (Inl e, t') \<Rightarrow> (Inl e, t' # ts))"

definition multi_send_unreliable ::
  "'t PlatformTransport \<Rightarrow> ClientId \<Rightarrow> bytes \<Rightarrow> 't MultiTransport \<Rightarrow> (TransportError + unit) \<times> 't MultiTransport" where
  "multi_send_unreliable V = first_known (pt_send_unreliable V)"

definition multi_send_reliable ::
  "'t PlatformTransport \<Rightarrow> ClientId \<Rightarrow> bytes \<Rightarrow> 't MultiTransport \<Rightarrow> (TransportError + unit) \<times> 't MultiTransport" where
  "multi_send_reliable V = first_known (pt_send_reliable V)"

text \<open>All transports are tried; the first error is the answer.\<close>

fun broadcast_loop ::
  "'t PlatformTransport \<Rightarrow> bytes \<Rightarrow> TransportError option \<Rightarrow> 't MultiTransport \<Rightarrow> TransportError option \<times> 't MultiTransport" where
  "broadcast_loop V d first_error [] = (first_error, [])"
| "broadcast_loop V d first_error (t # ts) =
     (case pt_broadcast_unreliable V d t of (r, t') \<Rightarrow>
        let first_error = (case r of Inl e \<Rightarrow> if first_error = None then Some e else first_error
                           | Inr _ \<Rightarrow> first_error)
        in case broadcast_loop V d first_error ts of (fe, ts') \<Rightarrow> (fe, t' # ts'))"

definition multi_broadcast_unreliable ::
  "'t PlatformTransport \<Rightarrow> bytes \<Rightarrow> 't MultiTransport \<Rightarrow> (TransportError + unit) \<times> 't MultiTransport" where
  "multi_broadcast_unreliable V d ts =
     (case broadcast_loop V d None ts of
        (Some e, ts') \<Rightarrow> (Inl e, ts')
      | (None, ts') \<Rightarrow> (Inr (), ts'))"

text \<open>An error ends the loop, and with it the events collected so far are lost. A poll that does not return
  is \<open>None\<close>.\<close>

fun poll_loop ::
  "'t PlatformTransport \<Rightarrow> NetworkEvent list \<Rightarrow> 't MultiTransport \<Rightarrow>
     ((TransportError + NetworkEvent list) \<times> 't MultiTransport) option" where
  "poll_loop V all_events [] = Some (Inr all_events, [])"
| "poll_loop V all_events (t # ts) =
     (case pt_poll_events V t of
        None \<Rightarrow> None
      | Some (Inl e, t') \<Rightarrow> Some (Inl e, t' # ts)
      | Some (Inr es, t') \<Rightarrow> map_option (\<lambda>(r, ts'). (r, t' # ts')) (poll_loop V (all_events @ es) ts))"

definition multi_poll_events ::
  "'t PlatformTransport \<Rightarrow> 't MultiTransport \<Rightarrow> ((TransportError + NetworkEvent list) \<times> 't MultiTransport) option" where
  "multi_poll_events V ts = poll_loop V [] ts"

definition multi_disconnect ::
  "'t PlatformTransport \<Rightarrow> ClientId \<Rightarrow> 't MultiTransport \<Rightarrow> (TransportError + unit) \<times> 't MultiTransport" where
  "multi_disconnect V c ts = (Inr (), map (\<lambda>t. snd (pt_disconnect V c t)) ts)"

definition multi_connected_client_count :: "'t PlatformTransport \<Rightarrow> 't MultiTransport \<Rightarrow> u64" where
  "multi_connected_client_count V ts = fold (\<lambda>t n. n + pt_connected_client_count V t) ts 0"

text \<open>\<^verbatim>\<open>impl PlatformTransport for MultiTransport\<close>\<close>

definition multi_vt :: "'t PlatformTransport \<Rightarrow> 't MultiTransport PlatformTransport" where
  "multi_vt V =
     \<lparr>pt_send_unreliable = multi_send_unreliable V, pt_send_reliable = multi_send_reliable V,
      pt_broadcast_unreliable = multi_broadcast_unreliable V, pt_poll_events = multi_poll_events V,
      pt_disconnect = multi_disconnect V, pt_connected_client_count = multi_connected_client_count V\<rparr>"

subsection \<open>The contract of a transport\<close>

text \<open>
  For the payloads that fit it, a transport refuses exactly the clients it does not know, and then
  nothing happens.
\<close>

definition not_connected :: "TransportError + unit \<Rightarrow> bool" where
  "not_connected r \<longleftrightarrow> (\<exists>c. r = Inl (ClientNotConnected c))"

locale transport_contract =
  fixes V :: "'t PlatformTransport"
    and knows :: "'t \<Rightarrow> ClientId \<Rightarrow> bool"
    and fits :: "bytes \<Rightarrow> bool"
  assumes unknown_unreliable: "fits d \<Longrightarrow> \<not> knows t c \<Longrightarrow> pt_send_unreliable V c d t = (Inl (ClientNotConnected c), t)"
    and unknown_reliable: "fits d \<Longrightarrow> \<not> knows t c \<Longrightarrow> pt_send_reliable V c d t = (Inl (ClientNotConnected c), t)"
    and known_unreliable: "fits d \<Longrightarrow> knows t c \<Longrightarrow> \<not> not_connected (fst (pt_send_unreliable V c d t))"
    and known_reliable: "fits d \<Longrightarrow> knows t c \<Longrightarrow> \<not> not_connected (fst (pt_send_reliable V c d t))"

definition multi_knows :: "('t \<Rightarrow> ClientId \<Rightarrow> bool) \<Rightarrow> 't MultiTransport \<Rightarrow> ClientId \<Rightarrow> bool" where
  "multi_knows knows ts c \<longleftrightarrow> (\<exists>t \<in> set ts. knows t c)"

text \<open>The loop on transports that refuse exactly the unknown clients.\<close>

lemma first_known_unknown:
  assumes "\<And>t. t \<in> set ts \<Longrightarrow> send c d t = (Inl (ClientNotConnected c), t)"
  shows "first_known send c d ts = (Inl (ClientNotConnected c), ts)"
  using assms
proof (induction ts)
  case (Cons t ts)
  from Cons.prems [of t] Cons.IH Cons.prems show ?case
    by simp
qed simp

lemma first_known_here:
  assumes "\<not> not_connected (fst (send c d t))"
  shows "first_known send c d (t # us) = (fst (send c d t), snd (send c d t) # us)"
proof -
  obtain r t' where s: "send c d t = (r, t')" by fastforce
  show ?thesis
  proof (cases r)
    case (Inl e)
    with assms s show ?thesis
      by (cases e) (simp_all add: not_connected_def)
  next
    case (Inr u)
    with s show ?thesis by simp
  qed
qed

lemma first_known_at:
  assumes "\<And>t. t \<in> set ts \<Longrightarrow> send c d t = (Inl (ClientNotConnected c), t)"
    and "\<not> not_connected (fst (send c d t))"
  shows "first_known send c d (ts @ t # us) = (fst (send c d t), ts @ snd (send c d t) # us)"
  using assms(1)
proof (induction ts)
  case Nil
  show ?case
    using first_known_here [of send c d t us] assms(2) by simp
next
  case (Cons u ts)
  from Cons.prems [of u] Cons.IH Cons.prems show ?case
    by simp
qed

context transport_contract
begin

text \<open>The first transport that knows the client gets the message, and no other one.\<close>

lemma routes_unreliable:
  assumes "fits d" and "\<And>u. u \<in> set ts \<Longrightarrow> \<not> knows u c" and "knows t c"
  shows "multi_send_unreliable V c d (ts @ t # us) =
    (fst (pt_send_unreliable V c d t), ts @ snd (pt_send_unreliable V c d t) # us)"
  unfolding multi_send_unreliable_def
  by (rule first_known_at [of _ "pt_send_unreliable V"])
    (simp_all add: assms unknown_unreliable known_unreliable)

lemma routes_reliable:
  assumes "fits d" and "\<And>u. u \<in> set ts \<Longrightarrow> \<not> knows u c" and "knows t c"
  shows "multi_send_reliable V c d (ts @ t # us) =
    (fst (pt_send_reliable V c d t), ts @ snd (pt_send_reliable V c d t) # us)"
  unfolding multi_send_reliable_def
  by (rule first_known_at [of _ "pt_send_reliable V"])
    (simp_all add: assms unknown_reliable known_reliable)

lemma unrouted:
  assumes "fits d" and "\<not> multi_knows knows ts c"
  shows "multi_send_unreliable V c d ts = (Inl (ClientNotConnected c), ts)"
    and "multi_send_reliable V c d ts = (Inl (ClientNotConnected c), ts)"
  using assms first_known_unknown [of ts "pt_send_unreliable V" c d] first_known_unknown [of ts "pt_send_reliable V" c d]
  by (simp_all add: multi_send_unreliable_def multi_send_reliable_def unknown_unreliable unknown_reliable multi_knows_def)

lemma split_known:
  assumes "multi_knows knows ts c"
  obtains us t vs where "ts = us @ t # vs" "knows t c" "\<And>u. u \<in> set us \<Longrightarrow> \<not> knows u c"
  using assms split_list_first_prop [of ts "\<lambda>t. knows t c"] unfolding multi_knows_def by blast

lemma combined: "transport_contract (multi_vt V) (multi_knows knows) fits"
proof (unfold_locales, goal_cases)
  case (3 d ts c)
  then obtain us t vs where "ts = us @ t # vs" "knows t c" "\<And>u. u \<in> set us \<Longrightarrow> \<not> knows u c"
    using split_known by blast
  with 3(1) show ?case
    by (simp add: multi_vt_def routes_unreliable known_unreliable)
next
  case (4 d ts c)
  then obtain us t vs where "ts = us @ t # vs" "knows t c" "\<And>u. u \<in> set us \<Longrightarrow> \<not> knows u c"
    using split_known by blast
  with 4(1) show ?case
    by (simp add: multi_vt_def routes_reliable known_reliable)
qed (simp_all add: multi_vt_def unrouted)

end

text \<open>\<^verbatim>\<open>Box<dyn PlatformTransport>\<close> over two implementations dispatches to the one it holds.\<close>

definition on_sum :: "('a \<Rightarrow> 'r \<times> 'a) \<Rightarrow> ('b \<Rightarrow> 'r \<times> 'b) \<Rightarrow> 'a + 'b \<Rightarrow> 'r \<times> ('a + 'b)" where
  "on_sum f g t = (case t of Inl a \<Rightarrow> map_prod id Inl (f a) | Inr b \<Rightarrow> map_prod id Inr (g b))"

definition dyn_vt :: "'a PlatformTransport \<Rightarrow> 'b PlatformTransport \<Rightarrow> ('a + 'b) PlatformTransport" where
  "dyn_vt A B =
     \<lparr>pt_send_unreliable = (\<lambda>c d. on_sum (pt_send_unreliable A c d) (pt_send_unreliable B c d)),
      pt_send_reliable = (\<lambda>c d. on_sum (pt_send_reliable A c d) (pt_send_reliable B c d)),
      pt_broadcast_unreliable = (\<lambda>d. on_sum (pt_broadcast_unreliable A d) (pt_broadcast_unreliable B d)),
      pt_poll_events =
        case_sum (\<lambda>a. map_option (map_prod id Inl) (pt_poll_events A a))
          (\<lambda>b. map_option (map_prod id Inr) (pt_poll_events B b)),
      pt_disconnect = (\<lambda>c. on_sum (pt_disconnect A c) (pt_disconnect B c)),
      pt_connected_client_count = case_sum (pt_connected_client_count A) (pt_connected_client_count B)\<rparr>"

lemma on_sum_simps [simp]:
  "on_sum f g (Inl a) = (fst (f a), Inl (snd (f a)))" "on_sum f g (Inr b) = (fst (g b), Inr (snd (g b)))"
  by (simp_all add: on_sum_def map_prod_def case_prod_beta)

lemma dyn_contract:
  assumes "transport_contract A ka fits" and "transport_contract B kb fits"
  shows "transport_contract (dyn_vt A B) (case_sum ka kb) fits"
proof -
  note A = transport_contract.unknown_unreliable [OF assms(1)] transport_contract.unknown_reliable [OF assms(1)]
    transport_contract.known_unreliable [OF assms(1)] transport_contract.known_reliable [OF assms(1)]
  note B = transport_contract.unknown_unreliable [OF assms(2)] transport_contract.unknown_reliable [OF assms(2)]
    transport_contract.known_unreliable [OF assms(2)] transport_contract.known_reliable [OF assms(2)]
  show ?thesis
    by unfold_locales (simp_all add: dyn_vt_def A B split: sum.splits)
qed

subsection \<open>Polling\<close>

lemma poll_loop_total:
  assumes "\<And>t. t \<in> set ts \<Longrightarrow> pt_poll_events V t = Some (Inr (ev t), nx t)"
  shows "poll_loop V es ts = Some (Inr (es @ concat (map ev ts)), map nx ts)"
  using assms by (induction ts arbitrary: es) auto

text \<open>The announcements of one client in a list of events: \<open>True\<close> for a connection, \<open>False\<close> for a
  disconnection.\<close>

fun seen_event :: "u64 \<Rightarrow> NetworkEvent \<Rightarrow> bool list" where
  "seen_event c (ClientConnected c') = (if c' = c then [True] else [])"
| "seen_event c (ClientDisconnected c') = (if c' = c then [False] else [])"
| "seen_event c _ = []"

end
