(* ===== verification/Renet.thy ===== *)
theory Renet
  imports Transport Ieee
begin

text \<open>
  \<^verbatim>\<open>crates/aetheris-transport-renet/src/lib.rs\<close>: the transport over the \<^verbatim>\<open>renet\<close> crate, with its
  per-address token bucket. The server and the netcode socket of the crate are parameters: their
  states have the types \<open>'s\<close> and \<open>'n\<close>, their calls are the fields of \<open>renet_lib\<close>. The crate's event and message
  queues are drained by loops that end only if the crate's queues do, so the loops are partial
  functions. Clock readings are arguments. The mutexes are never poisoned, since nothing panics while it
  holds one, so their error branches are left out, as are metrics and logs.
\<close>

subsection \<open>The token bucket\<close>

record TokenBucket =
  tokens :: f64
  last_refill :: instant

record IpRateLimiter =
  limits :: "IpAddr \<rightharpoonup> TokenBucket"
  max_rate :: f64

definition new_ip_limiter :: "f64 \<Rightarrow> IpRateLimiter" where
  "new_ip_limiter r = \<lparr>limits = Map.empty, max_rate = r\<rparr>"

text \<open>\<^verbatim>\<open>as_secs_f64\<close>: the whole seconds plus the nanoseconds over a billion.\<close>

definition as_secs_f64 :: "nat \<Rightarrow> f64" where
  "as_secs_f64 ns = fadd F64 (fp_of_nat F64 (ns div 1000000000))
                      (fdiv F64 (fp_of_nat F64 (ns mod 1000000000)) (fp_of_nat F64 1000000000))"

definition fge :: "fp \<Rightarrow> fp \<Rightarrow> bool" where
  "fge a b \<longleftrightarrow> a \<noteq> NaN \<and> b \<noteq> NaN \<and> \<not> flt a b"

definition fmin :: "fp \<Rightarrow> fp \<Rightarrow> fp" where
  "fmin a b = (if a = NaN then b else if b = NaN then a else if flt b a then b else a)"

text \<open>\<^verbatim>\<open>duration_since\<close> saturates at zero.\<close>

definition refill :: "f64 \<Rightarrow> TokenBucket \<Rightarrow> instant \<Rightarrow> f64" where
  "refill rate b now = fmin (fadd F64 (tokens b) (fmul F64 (as_secs_f64 (now - last_refill b)) rate)) rate"

definition check_ip :: "IpRateLimiter \<Rightarrow> IpAddr \<Rightarrow> instant \<Rightarrow> bool \<times> IpRateLimiter" where
  "check_ip l ip now =
     (let bucket = (case limits l ip of Some b \<Rightarrow> b | None \<Rightarrow> \<lparr>tokens = max_rate l, last_refill = now\<rparr>);
          tk = refill (max_rate l) bucket now
      in if fge tk fone
         then (True, l\<lparr>limits := (limits l)(ip \<mapsto> \<lparr>tokens = fsub F64 tk fone, last_refill = now\<rparr>)\<rparr>)
         else (False, l\<lparr>limits := (limits l)(ip \<mapsto> \<lparr>tokens = tk, last_refill = now\<rparr>)\<rparr>))"

definition prunable :: "f64 \<Rightarrow> instant \<Rightarrow> TokenBucket \<Rightarrow> bool" where
  "prunable rate now b \<longleftrightarrow>
     fge (tokens b) (fsub F64 rate (fround F64 False (1 / 10))) \<and> now - last_refill b > from_secs (10 * 60)"

definition prune_ip :: "IpRateLimiter \<Rightarrow> instant \<Rightarrow> IpRateLimiter" where
  "prune_ip l now =
     l\<lparr>limits := (\<lambda>ip. case limits l ip of
                    Some b \<Rightarrow> if prunable (max_rate l) now b then None else Some b
                  | None \<Rightarrow> None)\<rparr>"

subsection \<open>The crate\<close>

definition CHANNEL_UNRELIABLE :: u8 where "CHANNEL_UNRELIABLE = 0"
definition CHANNEL_RELIABLE :: u8 where "CHANNEL_RELIABLE = 1"

datatype ServerEvent = SClientConnected u64 | SClientDisconnected u64

record ('s, 'n) renet_lib =
  rn_is_connected :: "u64 \<Rightarrow> 's \<Rightarrow> bool"
  rn_send_message :: "u64 \<Rightarrow> u8 \<Rightarrow> bytes \<Rightarrow> 's \<Rightarrow> 's"
  rn_broadcast_message :: "u8 \<Rightarrow> bytes \<Rightarrow> 's \<Rightarrow> 's"
  rn_disconnect :: "u64 \<Rightarrow> 's \<Rightarrow> 's"
  rn_connected_clients :: "'s \<Rightarrow> u64"
  rn_clients_id :: "'s \<Rightarrow> u64 list"
  rn_get_event :: "'s \<Rightarrow> (ServerEvent \<times> 's) option"
  rn_receive_message :: "u64 \<Rightarrow> u8 \<Rightarrow> 's \<Rightarrow> (bytes \<times> 's) option"
  rn_update :: "nat \<Rightarrow> 's \<Rightarrow> 's"
  nc_update :: "nat \<Rightarrow> 'n \<Rightarrow> 's \<Rightarrow> 'n \<times> 's"
  nc_send_packets :: "'n \<Rightarrow> 's \<Rightarrow> 'n \<times> 's"
  nc_client_ip :: "u64 \<Rightarrow> 'n \<Rightarrow> IpAddr option"
  max_safe :: nat

record RenetServerConfig =
  protocol_id :: u64
  max_clients :: u64
  max_new_connections_per_second :: u32
  cfg_max_payload_size :: nat
  max_unreliable_channel_memory_bytes :: nat

definition default_renet_config :: "nat \<Rightarrow> RenetServerConfig" where
  "default_renet_config safe =
     \<lparr>protocol_id = 0, max_clients = 1000, max_new_connections_per_second = 5,
      cfg_max_payload_size = safe, max_unreliable_channel_memory_bytes = 1024 * 1024\<rparr>"

record ('s, 'n) RenetTransport =
  server :: 's
  netcode :: 'n
  last_update :: instant
  ip_limiter :: IpRateLimiter
  max_payload_size :: nat
  last_prune :: instant
  suppressed_disconnects :: "u64 set"

text \<open>\<^verbatim>\<open>new_server\<close> once the socket is bound; \<open>s\<close> and \<open>n\<close> are the crate's initial states.\<close>

definition new_server ::
  "nat \<Rightarrow> RenetServerConfig option \<Rightarrow> 's \<Rightarrow> 'n \<Rightarrow> instant \<Rightarrow> instant \<Rightarrow> ('s, 'n) RenetTransport" where
  "new_server safe config s n now now' =
     (let config = (case config of Some c \<Rightarrow> c | None \<Rightarrow> default_renet_config safe)
      in \<lparr>server = s, netcode = n, last_update = now,
          ip_limiter = new_ip_limiter (fp_of_nat F64 (unat (max_new_connections_per_second config))),
          max_payload_size = cfg_max_payload_size config, last_prune = now', suppressed_disconnects = {}\<rparr>)"

subsection \<open>Sending\<close>

definition renet_send ::
  "('s, 'n) renet_lib \<Rightarrow> u8 \<Rightarrow> ClientId \<Rightarrow> bytes \<Rightarrow> ('s, 'n) RenetTransport \<Rightarrow>
     (TransportError + unit) \<times> ('s, 'n) RenetTransport" where
  "renet_send L channel c d t =
     (if length d > max_safe L then (Inl (PayloadTooLarge (length d) (max_safe L)), t)
      else if \<not> rn_is_connected L c (server t) then (Inl (ClientNotConnected c), t)
      else (Inr (), t\<lparr>server := rn_send_message L c channel d (server t)\<rparr>))"

definition renet_send_unreliable ::
  "('s, 'n) renet_lib \<Rightarrow> ClientId \<Rightarrow> bytes \<Rightarrow> ('s, 'n) RenetTransport \<Rightarrow>
     (TransportError + unit) \<times> ('s, 'n) RenetTransport" where
  "renet_send_unreliable L = renet_send L CHANNEL_UNRELIABLE"

definition renet_send_reliable ::
  "('s, 'n) renet_lib \<Rightarrow> ClientId \<Rightarrow> bytes \<Rightarrow> ('s, 'n) RenetTransport \<Rightarrow>
     (TransportError + unit) \<times> ('s, 'n) RenetTransport" where
  "renet_send_reliable L = renet_send L CHANNEL_RELIABLE"

definition renet_broadcast_unreliable ::
  "('s, 'n) renet_lib \<Rightarrow> bytes \<Rightarrow> ('s, 'n) RenetTransport \<Rightarrow>
     (TransportError + unit) \<times> ('s, 'n) RenetTransport" where
  "renet_broadcast_unreliable L d t =
     (if length d > max_safe L then (Inl (PayloadTooLarge (length d) (max_safe L)), t)
      else (Inr (), t\<lparr>server := rn_broadcast_message L CHANNEL_UNRELIABLE d (server t)\<rparr>))"

subsection \<open>Polling\<close>

text \<open>The periodic sweep; \<open>now'\<close> is the reading \<^verbatim>\<open>prune\<close> takes itself.\<close>

definition maybe_prune :: "instant \<Rightarrow> instant \<Rightarrow> ('s, 'n) RenetTransport \<Rightarrow> ('s, 'n) RenetTransport" where
  "maybe_prune now now' t =
     (if now - last_prune t > from_secs 60
      then t\<lparr>ip_limiter := prune_ip (ip_limiter t) now', last_prune := now\<rparr> else t)"

text \<open>One event of the crate. \<open>now\<close> is the reading of the limiter.\<close>

fun on_server_event ::
  "('s, 'n) renet_lib \<Rightarrow> instant \<Rightarrow> ServerEvent \<Rightarrow> ('s, 'n) RenetTransport \<Rightarrow>
     NetworkEvent list \<times> ('s, 'n) RenetTransport" where
  "on_server_event L now (SClientConnected c) t =
     (case (case nc_client_ip L c (netcode t) of
              Some ip \<Rightarrow> check_ip (ip_limiter t) ip now
            | None \<Rightarrow> (True, ip_limiter t)) of (allowed, l) \<Rightarrow>
        let t = t\<lparr>ip_limiter := l\<rparr>
        in if allowed then ([ClientConnected c], t)
           else ([], t\<lparr>suppressed_disconnects := insert c (suppressed_disconnects t),
                       server := rn_disconnect L c (server t)\<rparr>))"
| "on_server_event L now (SClientDisconnected c) t =
     (if c \<in> suppressed_disconnects t
      then ([], t\<lparr>suppressed_disconnects := suppressed_disconnects t - {c}\<rparr>)
      else ([ClientDisconnected c], t))"

text \<open>The event loop; \<open>clk k\<close> is the reading at its \<open>k\<close>-th round.\<close>

partial_function (option) drain_events ::
  "('s, 'n) renet_lib \<Rightarrow> (nat \<Rightarrow> instant) \<Rightarrow> nat \<Rightarrow> NetworkEvent list \<Rightarrow> ('s, 'n) RenetTransport \<Rightarrow>
     (NetworkEvent list \<times> ('s, 'n) RenetTransport) option" where
  "drain_events L clk k es t =
     (case rn_get_event L (server t) of
        None \<Rightarrow> Some (es, t)
      | Some (e, s) \<Rightarrow>
          (case on_server_event L (clk k) e (t\<lparr>server := s\<rparr>) of
             (es', t') \<Rightarrow> drain_events L clk (Suc k) (es @ es') t'))"

text \<open>The messages of one client on one channel; oversized ones are dropped.\<close>

partial_function (option) drain_messages ::
  "('s, 'n) renet_lib \<Rightarrow> nat \<Rightarrow> (bytes \<Rightarrow> NetworkEvent) \<Rightarrow> u64 \<Rightarrow> u8 \<Rightarrow> NetworkEvent list \<Rightarrow> 's \<Rightarrow>
     (NetworkEvent list \<times> 's) option" where
  "drain_messages L max_payload mk c ch es s =
     (case rn_receive_message L c ch s of
        None \<Rightarrow> Some (es, s)
      | Some (m, s') \<Rightarrow>
          drain_messages L max_payload mk c ch (if length m > max_payload then es else es @ [mk m]) s')"

fun drain_clients ::
  "('s, 'n) renet_lib \<Rightarrow> nat \<Rightarrow> u64 list \<Rightarrow> NetworkEvent list \<times> 's \<Rightarrow> (NetworkEvent list \<times> 's) option" where
  "drain_clients L max_payload [] (es, s) = Some (es, s)"
| "drain_clients L max_payload (c # cs) (es, s) =
     do {
       (es, s) \<leftarrow> drain_messages L max_payload (UnreliableMessage c) c CHANNEL_UNRELIABLE es s;
       (es, s) \<leftarrow> drain_messages L max_payload (ReliableMessage c) c CHANNEL_RELIABLE es s;
       drain_clients L max_payload cs (es, s)
     }"

record poll_clock =
  pc_now :: instant
  pc_prune :: instant
  pc_events :: "nat \<Rightarrow> instant"

definition pump :: "('s, 'n) renet_lib \<Rightarrow> nat \<Rightarrow> ('s, 'n) RenetTransport \<Rightarrow> ('s, 'n) RenetTransport" where
  "pump L duration t =
     (case nc_update L duration (netcode t) (server t) of (n, s) \<Rightarrow>
      case nc_send_packets L n (rn_update L duration s) of (n, s) \<Rightarrow> t\<lparr>netcode := n, server := s\<rparr>)"

definition renet_poll_events ::
  "('s, 'n) renet_lib \<Rightarrow> poll_clock \<Rightarrow> ('s, 'n) RenetTransport \<Rightarrow>
     (NetworkEvent list \<times> ('s, 'n) RenetTransport) option" where
  "renet_poll_events L pc t =
     (let duration = pc_now pc - last_update t;
          t = maybe_prune (pc_now pc) (pc_prune pc) (t\<lparr>last_update := pc_now pc\<rparr>);
          t = pump L duration t
      in do {
           (es, t) \<leftarrow> drain_events L (pc_events pc) 0 [] t;
           (es, s) \<leftarrow> drain_clients L (max_payload_size t) (rn_clients_id L (server t)) (es, server t);
           Some (es, t\<lparr>server := s\<rparr>)
         })"

definition renet_disconnect ::
  "('s, 'n) renet_lib \<Rightarrow> ClientId \<Rightarrow> ('s, 'n) RenetTransport \<Rightarrow> (TransportError + unit) \<times> ('s, 'n) RenetTransport" where
  "renet_disconnect L c t = (Inr (), t\<lparr>server := rn_disconnect L c (server t)\<rparr>)"

definition renet_connected_client_count :: "('s, 'n) renet_lib \<Rightarrow> ('s, 'n) RenetTransport \<Rightarrow> u64" where
  "renet_connected_client_count L t = rn_connected_clients L (server t)"

text \<open>\<^verbatim>\<open>impl PlatformTransport for RenetTransport\<close>, with the clock readings of the polls to come.\<close>

record ('s, 'n) clocked_renet =
  rt :: "('s, 'n) RenetTransport"
  poll_clocks :: "nat \<Rightarrow> poll_clock"
  polls :: nat

definition on_rt ::
  "(('s, 'n) RenetTransport \<Rightarrow> 'r \<times> ('s, 'n) RenetTransport) \<Rightarrow> ('s, 'n) clocked_renet \<Rightarrow> 'r \<times> ('s, 'n) clocked_renet" where
  "on_rt f x = (case f (rt x) of (r, t) \<Rightarrow> (r, x\<lparr>rt := t\<rparr>))"

definition renet_vt :: "('s, 'n) renet_lib \<Rightarrow> ('s, 'n) clocked_renet PlatformTransport" where
  "renet_vt L =
     \<lparr>pt_send_unreliable = (\<lambda>c d. on_rt (renet_send_unreliable L c d)),
      pt_send_reliable = (\<lambda>c d. on_rt (renet_send_reliable L c d)),
      pt_broadcast_unreliable = (\<lambda>d. on_rt (renet_broadcast_unreliable L d)),
      pt_poll_events = (\<lambda>x. map_option (\<lambda>(es, t). (Inr es, x\<lparr>rt := t, polls := Suc (polls x)\<rparr>))
        (renet_poll_events L (poll_clocks x (polls x)) (rt x))),
      pt_disconnect = (\<lambda>c. on_rt (renet_disconnect L c)),
      pt_connected_client_count = (\<lambda>x. renet_connected_client_count L (rt x))\<rparr>"

definition renet_knows :: "('s, 'n) renet_lib \<Rightarrow> ('s, 'n) clocked_renet \<Rightarrow> ClientId \<Rightarrow> bool" where
  "renet_knows L x c \<longleftrightarrow> rn_is_connected L c (server (rt x))"

definition renet_fits :: "('s, 'n) renet_lib \<Rightarrow> bytes \<Rightarrow> bool" where
  "renet_fits L d \<longleftrightarrow> length d \<le> max_safe L"

interpretation renet: transport_contract "renet_vt L" "renet_knows L" "renet_fits L"
  for L :: "('s, 'n) renet_lib"
  by unfold_locales
    (simp_all add: renet_vt_def on_rt_def renet_send_unreliable_def renet_send_reliable_def renet_send_def
      renet_knows_def renet_fits_def not_connected_def)

end
