(* ===== verification/Renet_Props.thy ===== *)
theory Renet_Props
  imports Renet Limiter "HOL-Library.Sublist"
begin

text \<open>
  The Renet transport: the token bucket stays within its bounds in double precision, admits exactly
  its capacity in a burst and is never pruned; polling returns, delivers every message that fits, and
  reports connections and disconnections in turns although rejected clients are hidden.
\<close>

subsection \<open>Double-precision tokens\<close>

text \<open>A number that is not negative, not NaN and of the format.\<close>

definition fpos :: "fp \<Rightarrow> bool" where
  "fpos x \<longleftrightarrow> x = Inf False \<or> (\<exists>m. x = Fin False m \<and> repr F64 m)"

lemma fpos_Fin [simp]: "fpos (Fin False m) \<longleftrightarrow> repr F64 m"
  by (simp add: fpos_def)

lemma fpos_cases:
  assumes "fpos x"
  obtains "x = Inf False" | m where "x = Fin False m" "repr F64 m" "0 \<le> m"
  using assms by (auto simp: fpos_def dest: repr_nonneg)

lemma fpos_fround: "0 \<le> r \<Longrightarrow> fpos (fround F64 False r)"
proof (cases "fround F64 False r")
  case NaN
  then show ?thesis by (simp add: fround_def Let_def split: option.splits if_splits)
next
  case (Inf s)
  then show ?thesis by (simp add: fround_def fpos_def Let_def split: option.splits if_splits)
next
  case (Fin s m)
  assume "0 \<le> r"
  from fround_repr [OF Fin this] Fin show ?thesis by simp
qed

lemma fpos_fround_signed: "0 \<le> x \<Longrightarrow> fpos (fround_signed F64 False x)"
  by (simp add: fround_signed_def fpos_fround)

lemma fpos_fadd: "fpos x \<Longrightarrow> fpos y \<Longrightarrow> fpos (fadd F64 x y)"
  by (auto elim!: fpos_cases simp: fval_def fpos_fround_signed) (simp_all add: fpos_def)

lemma fpos_fmul: "fpos x \<Longrightarrow> 0 < r \<Longrightarrow> fpos (fmul F64 x (Fin False r))"
  by (auto elim!: fpos_cases simp: fpos_fround) (simp add: fpos_def)

lemma fpos_fdiv: "fpos x \<Longrightarrow> 0 < r \<Longrightarrow> fpos (fdiv F64 x (Fin False r))"
  by (auto elim!: fpos_cases simp: fpos_fround) (simp add: fpos_def)

lemma repr_below: "n < 2 ^ 53 \<Longrightarrow> repr F64 (real n)"
  using repr_of_nat [of n F64] by simp

lemma repr_half: "repr F64 (1 / 2)"
  using reprI [of 1 F64 "- 1"] by (simp add: pow2_def)

lemma repr_minus_half: "0 < n \<Longrightarrow> n < 2 ^ 52 \<Longrightarrow> repr F64 (real n - 1 / 2)"
  using reprI [of "2 * int n - 1" F64 "- 1"] by (simp add: pow2_def field_simps)

lemma fp_of_nat_exact: "n < 2 ^ 53 \<Longrightarrow> fp_of_nat F64 n = Fin False (real n)"
  by (simp add: fp_of_nat_def fround_exact repr_below)

lemma fpos_fp_of_nat: "fpos (fp_of_nat F64 n)"
  by (simp add: fp_of_nat_def fpos_fround)

lemma fpos_as_secs: "fpos (as_secs_f64 n)"
proof -
  have "fp_of_nat F64 1000000000 = Fin False 1000000000"
    using fp_of_nat_exact [of 1000000000] by simp
  then show ?thesis
    unfolding as_secs_f64_def by (intro fpos_fadd) (simp_all add: fpos_fdiv fpos_fp_of_nat)
qed

lemma fmin_bounded:
  assumes "fpos x" and "repr F64 r"
  shows "\<exists>m. fmin x (Fin False r) = Fin False m \<and> repr F64 m \<and> 0 \<le> m \<and> m \<le> r"
  using assms(1)
proof (cases rule: fpos_cases)
  case 1
  then show ?thesis using assms(2) repr_nonneg [OF assms(2)] by (simp add: fmin_def)
next
  case (2 m)
  then show ?thesis using assms(2) repr_nonneg [OF assms(2)] by (auto simp: fmin_def fval_def)
qed

lemma fsub_one:
  assumes "1 \<le> m" and "m \<le> r" and "repr F64 (r - 1)"
  shows "\<exists>m'. fsub F64 (Fin False m) fone = Fin False m' \<and> repr F64 m' \<and> 0 \<le> m' \<and> m' \<le> r - 1"
proof (cases "m = 1")
  case True
  then show ?thesis using assms by (auto simp: fsub_def fone_def fval_def fround_signed_def)
next
  case False
  from fround_le [of "m - 1" "r - 1" F64 False] assms obtain m' where
    m': "fround F64 False (m - 1) = Fin False m'" "0 \<le> m'" "m' \<le> r - 1" by auto
  moreover have "repr F64 m'"
    using fround_repr(1) [OF m'(1)] assms(1) by simp
  ultimately show ?thesis
    using False assms(1) by (auto simp: fsub_def fone_def fval_def fround_signed_def)
qed

subsection \<open>Buckets stay within bounds\<close>

text \<open>A bucket as a check leaves it, for a limit of \<open>R\<close> connections per second.\<close>

definition bucket_ok :: "nat \<Rightarrow> TokenBucket \<Rightarrow> bool" where
  "bucket_ok R b \<longleftrightarrow> (\<exists>m. tokens b = Fin False m \<and> repr F64 m \<and> 0 \<le> m \<and> (m \<le> real R - 1 \<or> m < 1))"

definition limiter_ok :: "nat \<Rightarrow> IpRateLimiter \<Rightarrow> bool" where
  "limiter_ok R l \<longleftrightarrow> max_rate l = Fin False (real R) \<and> (\<forall>ip b. limits l ip = Some b \<longrightarrow> bucket_ok R b)"

lemma bucket_ok_fpos: "bucket_ok R b \<Longrightarrow> fpos (tokens b)"
  by (auto simp: bucket_ok_def)

lemma refill_bounded:
  assumes "fpos (tokens b)" and "R < 2 ^ 53" and "0 < R"
  shows "\<exists>m. refill (Fin False (real R)) b now = Fin False m \<and> repr F64 m \<and> 0 \<le> m \<and> m \<le> real R"
  unfolding refill_def
  by (rule fmin_bounded) (use assms in \<open>simp_all add: fpos_fadd fpos_fmul fpos_as_secs repr_below\<close>)

lemma check_ip_cases:
  assumes "limiter_ok R l" and "R < 2 ^ 53" and "0 < R"
  obtains m m' where "1 \<le> m" "m \<le> real R" "fsub F64 (Fin False m) fone = Fin False m'"
      "repr F64 m'" "0 \<le> m'" "m' \<le> real R - 1"
      "check_ip l ip now = (True, l\<lparr>limits := (limits l)(ip \<mapsto> \<lparr>tokens = Fin False m', last_refill = now\<rparr>)\<rparr>)"
  | m where "m < 1" "0 \<le> m" "repr F64 m"
      "check_ip l ip now = (False, l\<lparr>limits := (limits l)(ip \<mapsto> \<lparr>tokens = Fin False m, last_refill = now\<rparr>)\<rparr>)"
proof -
  define b where "b = (case limits l ip of Some b \<Rightarrow> b | None \<Rightarrow> \<lparr>tokens = max_rate l, last_refill = now\<rparr>)"
  have rate: "max_rate l = Fin False (real R)"
    using assms(1) by (simp add: limiter_ok_def)
  have "fpos (tokens b)"
    using assms by (auto simp: b_def limiter_ok_def repr_below intro: bucket_ok_fpos split: option.splits)
  from refill_bounded [OF this assms(2,3), of now] obtain m where
    m: "refill (Fin False (real R)) b now = Fin False m" "repr F64 m" "0 \<le> m" "m \<le> real R" by blast
  have check: "check_ip l ip now =
     (if fge (Fin False m) fone
      then (True, l\<lparr>limits := (limits l)(ip \<mapsto> \<lparr>tokens = fsub F64 (Fin False m) fone, last_refill = now\<rparr>)\<rparr>)
      else (False, l\<lparr>limits := (limits l)(ip \<mapsto> \<lparr>tokens = Fin False m, last_refill = now\<rparr>)\<rparr>))"
    using m(1) by (simp add: check_ip_def Let_def b_def rate)
  have ge: "fge (Fin False m) fone \<longleftrightarrow> 1 \<le> m"
    by (simp add: fge_def fone_def fval_def not_less)
  show thesis
  proof (cases "1 \<le> m")
    case True
    have "repr F64 (real R - 1)"
      using repr_below [of "R - 1"] assms(2,3) by (simp add: of_nat_diff)
    from fsub_one [OF True m(4) this] obtain m' where
      "fsub F64 (Fin False m) fone = Fin False m'" "repr F64 m'" "0 \<le> m'" "m' \<le> real R - 1" by blast
    with True m show thesis
      by (intro that(1)) (simp_all add: check ge)
  next
    case False
    with m show thesis
      by (intro that(2)) (simp_all add: check ge)
  qed
qed

lemma limiter_ok_check:
  assumes "limiter_ok R l" and "R < 2 ^ 53" and "0 < R"
  shows "limiter_ok R (snd (check_ip l ip now))"
  by (rule check_ip_cases [OF assms, of ip now])
    (use assms(1) in \<open>auto simp: limiter_ok_def bucket_ok_def\<close>)

lemma limiter_ok_prune: "limiter_ok R l \<Longrightarrow> limiter_ok R (prune_ip l now)"
  by (auto simp: limiter_ok_def prune_ip_def split: option.splits if_splits)

text \<open>The limiters that checks and sweeps can reach.\<close>

inductive limiter_reachable :: "u32 \<Rightarrow> IpRateLimiter \<Rightarrow> bool" for rate where
  fresh: "limiter_reachable rate (new_ip_limiter (fp_of_nat F64 (unat rate)))"
| checked: "limiter_reachable rate l \<Longrightarrow> limiter_reachable rate (snd (check_ip l ip now))"
| pruned: "limiter_reachable rate l \<Longrightarrow> limiter_reachable rate (prune_ip l now)"

lemma unat_u32_below: "unat (r :: u32) < 2 ^ 52" "unat (r :: u32) < 2 ^ 53"
  using unsigned_less [of r, where ?'a = nat] by simp_all

lemma limiter_reachable_ok: "limiter_reachable rate l \<Longrightarrow> 0 < rate \<Longrightarrow> limiter_ok (unat rate) l"
proof (induction rule: limiter_reachable.induct)
  case fresh
  show ?case
    using fp_of_nat_exact [OF unat_u32_below(2), of rate] by (simp add: limiter_ok_def new_ip_limiter_def)
next
  case (checked l ip now)
  then show ?case
    by (intro limiter_ok_check unat_u32_below) (simp_all add: word_less_nat_alt)
qed (simp add: limiter_ok_prune)

definition sample_bucket :: IpRateLimiter where
  "sample_bucket = snd (check_ip (new_ip_limiter (fp_of_nat F64 (unat (5 :: u32)))) (V4 [1, 2, 3, 4]) 7)"

lemma sample_bucket_reachable: "limiter_reachable 5 sample_bucket"
  unfolding sample_bucket_def by (intro limiter_reachable.intros)

text \<open>
  C25. Every bucket of the connection limiter holds a finite double between zero and the rate, at every
  time, whatever the clock readings: refilling, capping and spending never overflow, never give NaN, and
  never leave a negative balance.
\<close>

theorem bucket_tokens_typed:
  assumes "limiter_reachable rate l" and "0 < rate" and "limits l ip = Some b"
  shows "\<exists>m. tokens b = Fin False m \<and> repr F64 m \<and> 0 \<le> m \<and> m \<le> real (unat rate)"
proof -
  define R where "R = unat rate"
  have "0 < R" using assms(2) by (simp add: R_def word_less_nat_alt)
  moreover have "bucket_ok R b"
    using limiter_reachable_ok [OF assms(1,2)] assms(3) by (simp add: limiter_ok_def R_def)
  ultimately show ?thesis
    unfolding bucket_ok_def R_def [symmetric] by force
qed

theorem bucket_tokens_typed_witness:
  "\<exists>b m. limits sample_bucket (V4 [1, 2, 3, 4]) = Some b \<and> tokens b = Fin False m \<and> repr F64 m \<and>
     0 \<le> m \<and> m \<le> 5"
proof -
  have "limits (snd (check_ip l ip now)) ip \<noteq> None" for l ip now
    by (simp add: check_ip_def Let_def)
  then obtain b where "limits sample_bucket (V4 [1, 2, 3, 4]) = Some b"
    unfolding sample_bucket_def by blast
  with bucket_tokens_typed [OF sample_bucket_reachable _ this] show ?thesis by auto
qed

text \<open>
  C26. The sweep that should keep the limiter from growing removes nothing: a bucket counts as full only
  above the rate minus a tenth, but a check always leaves at least one token less than the rate, and
  nothing but a check refills. From two connections per second on, every address ever seen is kept.
\<close>

theorem prune_never_removes:
  assumes "limiter_reachable rate l" and "2 \<le> rate"
  shows "prune_ip l now = l"
proof -
  define R where "R = unat rate"
  have R: "2 \<le> R" using assms(2) by (simp add: R_def word_le_nat_alt)
  have pos: "0 < rate" using R by (simp add: R_def word_less_nat_alt)
  note ok = limiter_reachable_ok [OF assms(1) pos, folded R_def]
    and below = unat_u32_below [of rate, folded R_def]
  define tenth where "tenth = fround F64 False (1 / 10)"
  obtain d where d: "tenth = Fin False d" "0 \<le> d" "d \<le> 1 / 2"
    using fround_le [of "1 / 10" "1 / 2" F64 False] repr_half by (auto simp: tenth_def)
  define x where "x = real R - d"
  have "repr F64 (real R - 1 / 2)"
    using repr_minus_half [of R] R below(1) by simp
  then obtain y where y: "fsub F64 (Fin False (real R)) tenth = Fin False y" "real R - 1 / 2 \<le> y"
    using fround_ge [of "real R - 1 / 2" x F64 False] d R
      fround_le [of x "real R" F64 False] repr_below [OF below(2)]
    by (auto simp: fsub_def d(1) fval_def fround_signed_def x_def)
  have "\<not> prunable (max_rate l) now b" if "limits l ip = Some b" for ip b
  proof -
    from ok that obtain m where "tokens b = Fin False m" "m \<le> real R - 1"
      using R by (force simp: limiter_ok_def bucket_ok_def)
    with y ok show ?thesis
      by (simp add: prunable_def limiter_ok_def tenth_def [symmetric] fge_def fval_def)
  qed
  then show ?thesis
    by (auto simp: prune_ip_def fun_eq_iff split: option.splits intro!: IpRateLimiter.equality)
qed

theorem prune_never_removes_witness: "prune_ip sample_bucket (from_secs 1000000) = sample_bucket"
  using prune_never_removes [OF sample_bucket_reachable] by simp

subsection \<open>Bursts\<close>

text \<open>The bucket of an address that still has \<open>k\<close> connections at the instant \<open>now\<close>.\<close>

definition has_tokens :: "IpRateLimiter \<Rightarrow> IpAddr \<Rightarrow> instant \<Rightarrow> nat \<Rightarrow> nat \<Rightarrow> bool" where
  "has_tokens l ip now R k \<longleftrightarrow>
     max_rate l = Fin False (real R) \<and> k \<le> R \<and> R < 2 ^ 53 \<and>
     (limits l ip = None \<and> k = R \<or> limits l ip = Some \<lparr>tokens = Fin False (real k), last_refill = now\<rparr>)"

lemma as_secs_0: "as_secs_f64 0 = Fin False 0"
  using fp_of_nat_exact [of 0] fp_of_nat_exact [of 1000000000]
  by (simp add: as_secs_f64_def fround_exact fval_def fround_signed_def)

lemma refill_now:
  assumes "k \<le> R" and "R < 2 ^ 53"
  shows "refill (Fin False (real R)) \<lparr>tokens = Fin False (real k), last_refill = now\<rparr> now = Fin False (real k)"
  using assms repr_below [of k]
  by (simp add: refill_def as_secs_0 fround_exact fval_def fround_signed_def fmin_def)

lemma fsub_Suc: "Suc k < 2 ^ 53 \<Longrightarrow> fsub F64 (Fin False (real (Suc k))) fone = Fin False (real k)"
  using fround_exact [OF repr_below, of k False]
  by (simp add: fsub_def fone_def fval_def fround_signed_def)

lemma has_tokens_check:
  assumes "has_tokens l ip now R k"
  shows "fst (check_ip l ip now) \<longleftrightarrow> 0 < k" and "has_tokens (snd (check_ip l ip now)) ip now R (k - 1)"
proof -
  have b: "check_ip l ip now =
     (if fge (Fin False (real k)) fone
      then (True, l\<lparr>limits := (limits l)(ip \<mapsto> \<lparr>tokens = fsub F64 (Fin False (real k)) fone, last_refill = now\<rparr>)\<rparr>)
      else (False, l\<lparr>limits := (limits l)(ip \<mapsto> \<lparr>tokens = Fin False (real k), last_refill = now\<rparr>)\<rparr>))"
    using assms refill_now [of k R now] by (auto simp: has_tokens_def check_ip_def Let_def)
  have ge: "fge (Fin False (real k)) fone \<longleftrightarrow> 0 < k"
    by (auto simp: fge_def fone_def fval_def)
  show "fst (check_ip l ip now) \<longleftrightarrow> 0 < k"
    by (simp add: b ge)
  show "has_tokens (snd (check_ip l ip now)) ip now R (k - 1)"
    unfolding b ge using assms fsub_Suc [of "k - 1"]
    by (cases k) (auto simp: has_tokens_def simp del: of_nat_Suc)
qed

lemma has_tokens_other:
  "has_tokens l ip now R k \<Longrightarrow> ip' \<noteq> ip \<Longrightarrow> has_tokens (snd (check_ip l ip' now)) ip now R k"
  by (simp add: has_tokens_def check_ip_def Let_def)

lemma burst_admitted:
  "has_tokens l ip now R k \<Longrightarrow> list_all (\<lambda>r. snd r = now) rs \<Longrightarrow>
   admitted check_ip l rs ip = min (requests rs ip) k"
proof (induction rs arbitrary: l k)
  case (Cons r rs)
  obtain ip' where r: "r = (ip', now)"
    using Cons.prems(2) by (cases r) simp
  show ?case
  proof (cases "ip' = ip")
    case True
    note has_tokens_check [OF Cons.prems(1)]
    with Cons.IH [OF this(2)] Cons.prems(2) show ?thesis
      by (auto simp: r True admitted_Cons)
  next
    case False
    with Cons.IH [OF has_tokens_other [OF Cons.prems(1)], of ip'] Cons.prems(2) show ?thesis
      by (simp add: r admitted_Cons)
  qed
qed simp

text \<open>
  A burst of connections from one address the limiter does not know yet: of all connections of one
  instant, from any addresses, exactly the first \<open>rate\<close> of the address are let in.
\<close>

lemma connection_burst:
  assumes "max_rate l = fp_of_nat F64 (unat (rate :: u32))" and "limits l ip = None"
    and "list_all (\<lambda>r. snd r = now) rs"
  shows "admitted check_ip l rs ip = min (requests rs ip) (unat rate)"
  by (rule burst_admitted [OF _ assms(3), where R = "unat rate"])
    (use assms(1,2) fp_of_nat_exact [OF unat_u32_below(2), of rate] unat_u32_below(2) [of rate]
      in \<open>simp add: has_tokens_def\<close>)

subsection \<open>Connections and disconnections\<close>

text \<open>A list of events handled one after the other, and the events of one client in it: \<open>True\<close> for a
  connection, \<open>False\<close> for a disconnection.\<close>

fun on_events ::
  "('s, 'n) renet_lib \<Rightarrow> (nat \<Rightarrow> instant) \<Rightarrow> nat \<Rightarrow> ServerEvent list \<Rightarrow> ('s, 'n) RenetTransport \<Rightarrow>
     NetworkEvent list \<times> ('s, 'n) RenetTransport" where
  "on_events L clk k [] t = ([], t)"
| "on_events L clk k (e # es) t =
     (case on_server_event L (clk k) e t of (o1, t1) \<Rightarrow>
      case on_events L clk (Suc k) es t1 of (o2, t2) \<Rightarrow> (o1 @ o2, t2))"

fun raw_event :: "u64 \<Rightarrow> ServerEvent \<Rightarrow> bool list" where
  "raw_event c (SClientConnected c') = (if c' = c then [True] else [])"
| "raw_event c (SClientDisconnected c') = (if c' = c then [False] else [])"

fun alternates :: "bool \<Rightarrow> bool list \<Rightarrow> bool" where
  "alternates b [] = True"
| "alternates b (x # xs) = (x = (\<not> b) \<and> alternates x xs)"

text \<open>One event: what the engine has been told, and what is suppressed, stay in step.\<close>

lemma on_server_event_turn:
  assumes "alternates r (raw_event c e @ xs)" and "c \<in> suppressed_disconnects t \<longrightarrow> r"
    and "on_server_event L now e t = (es, t')"
  shows "\<exists>r'. alternates r' xs \<and> (c \<in> suppressed_disconnects t' \<longrightarrow> r') \<and>
    (\<forall>ys. alternates (r' \<and> c \<notin> suppressed_disconnects t') ys \<longrightarrow>
       alternates (r \<and> c \<notin> suppressed_disconnects t) (concat (map (seen_event c) es) @ ys))"
proof (cases e)
  case (SClientConnected c')
  then show ?thesis
    using assms
    by (intro exI [of _ "if c' = c then True else r"])
      (auto simp: Let_def split: prod.splits if_splits)
next
  case (SClientDisconnected c')
  then show ?thesis
    using assms
    by (intro exI [of _ "if c' = c then False else r"]) (auto split: if_splits)
qed

lemma on_events_turns:
  "alternates r (concat (map (raw_event c) evs)) \<Longrightarrow> c \<in> suppressed_disconnects t \<longrightarrow> r \<Longrightarrow>
   alternates (r \<and> c \<notin> suppressed_disconnects t) (concat (map (seen_event c) (fst (on_events L clk k evs t))))"
proof (induction evs arbitrary: r k t)
  case (Cons e evs)
  obtain o1 t1 where 1: "on_server_event L (clk k) e t = (o1, t1)" by fastforce
  have "alternates r (raw_event c e @ concat (map (raw_event c) evs))"
    using Cons.prems(1) by simp
  from on_server_event_turn [OF this Cons.prems(2) 1] obtain r' where
    r': "alternates r' (concat (map (raw_event c) evs))" "c \<in> suppressed_disconnects t1 \<longrightarrow> r'"
      "\<forall>ys. alternates (r' \<and> c \<notin> suppressed_disconnects t1) ys \<longrightarrow>
         alternates (r \<and> c \<notin> suppressed_disconnects t) (concat (map (seen_event c) o1) @ ys)"
    by blast
  with Cons.IH [of r' t1 "Suc k"] 1 show ?case
    by (auto split: prod.splits)
qed simp

text \<open>
  C21. Hidden clients stay hidden: if the crate reports the connections and disconnections of a client in
  turns, the engine is told of them in turns as well, whichever of them the connection limiter rejects.
  A rejected connection is never announced, and its disconnection is swallowed with it.
\<close>

theorem lifecycle_alternates:
  assumes "alternates False (concat (map (raw_event c) evs))" and "suppressed_disconnects t = {}"
  shows "alternates False (concat (map (seen_event c) (fst (on_events L clk k evs t))))"
  using on_events_turns [of False c evs t L clk k] assms by simp

subsection \<open>Polling\<close>

text \<open>
  What is assumed of the crate, with its event queue and its message queues as \<open>evq\<close> and \<open>inbox\<close>: \<^verbatim>\<open>get_event\<close> and
  \<^verbatim>\<open>receive_message\<close> pop the next element, and disconnecting a client adds at most its disconnection
  to the events.
\<close>

definition renet_ok ::
  "('s, 'n) renet_lib \<Rightarrow> ('s \<Rightarrow> ServerEvent list) \<Rightarrow> ('s \<Rightarrow> u64 \<Rightarrow> u8 \<Rightarrow> bytes list) \<Rightarrow> bool" where
  "renet_ok L evq inbox \<longleftrightarrow>
     (\<forall>s. case evq s of
            [] \<Rightarrow> rn_get_event L s = None
          | e # es \<Rightarrow> (\<exists>s'. rn_get_event L s = Some (e, s') \<and> evq s' = es)) \<and>
     (\<forall>c s. evq (rn_disconnect L c s) = evq s \<or> evq (rn_disconnect L c s) = evq s @ [SClientDisconnected c]) \<and>
     (\<forall>c ch s. case inbox s c ch of
            [] \<Rightarrow> rn_receive_message L c ch s = None
          | m # ms \<Rightarrow> (\<exists>s'. rn_receive_message L c ch s = Some (m, s') \<and>
              inbox s' = (inbox s)(c := (inbox s c)(ch := ms))))"

lemma renet_okD:
  assumes "renet_ok L evq inbox"
  shows "evq s = [] \<Longrightarrow> rn_get_event L s = None"
    and "evq s = e # es \<Longrightarrow> \<exists>s'. rn_get_event L s = Some (e, s') \<and> evq s' = es"
    and "evq (rn_disconnect L c s) = evq s \<or> evq (rn_disconnect L c s) = evq s @ [SClientDisconnected c]"
    and "inbox s c ch = [] \<Longrightarrow> rn_receive_message L c ch s = None"
    and "inbox s c ch = m # ms \<Longrightarrow> \<exists>s'. rn_receive_message L c ch s = Some (m, s') \<and>
      inbox s' = (inbox s)(c := (inbox s c)(ch := ms))"
proof -
  note ok = assms [unfolded renet_ok_def]
  show "evq s = [] \<Longrightarrow> rn_get_event L s = None"
    and "evq s = e # es \<Longrightarrow> \<exists>s'. rn_get_event L s = Some (e, s') \<and> evq s' = es"
    using ok [THEN conjunct1, rule_format, of s] by simp_all
  show "evq (rn_disconnect L c s) = evq s \<or> evq (rn_disconnect L c s) = evq s @ [SClientDisconnected c]"
    by (rule ok [THEN conjunct2, THEN conjunct1, rule_format])
  show "inbox s c ch = [] \<Longrightarrow> rn_receive_message L c ch s = None"
    and "inbox s c ch = m # ms \<Longrightarrow> \<exists>s'. rn_receive_message L c ch s = Some (m, s') \<and>
      inbox s' = (inbox s)(c := (inbox s c)(ch := ms))"
    using ok [THEN conjunct2, THEN conjunct2, THEN spec, THEN spec, THEN spec, of c ch s] by simp_all
qed

text \<open>The loop over the events ends: a connection counts twice, since rejecting it may queue a
  disconnection.\<close>

definition event_weight :: "ServerEvent list \<Rightarrow> nat" where
  "event_weight es = sum_list (map (\<lambda>e. case e of SClientConnected _ \<Rightarrow> 2 | SClientDisconnected _ \<Rightarrow> 1) es)"

lemma on_server_event_queue:
  assumes "renet_ok L evq inbox" and "on_server_event L now e t = (es, t')"
  shows "\<exists>xs. evq (server t') = evq (server t) @ xs \<and>
    event_weight (evq (server t')) < event_weight (e # evq (server t))"
proof (cases e)
  case (SClientConnected c)
  have "\<exists>xs. evq (rn_disconnect L c (server t)) = evq (server t) @ xs \<and>
      event_weight (evq (rn_disconnect L c (server t))) \<le> Suc (event_weight (evq (server t)))"
    using renet_okD(3) [OF assms(1), of c "server t"] by (auto simp: event_weight_def)
  with SClientConnected assms(2) show ?thesis
    by (auto simp: Let_def event_weight_def split: prod.splits if_splits)
next
  case (SClientDisconnected c)
  with assms(2) show ?thesis
    by (auto simp: event_weight_def split: if_splits)
qed

lemma on_server_event_server:
  "on_server_event L now e t = (es, t') \<Longrightarrow>
   \<exists>s'. on_server_event L now e (t\<lparr>server := s\<rparr>) = (es, t'\<lparr>server := s'\<rparr>)"
  by (cases t, cases e) (auto simp: Let_def split: option.splits prod.splits if_splits)

lemma on_events_server: "fst (on_events L clk k evs (t\<lparr>server := s\<rparr>)) = fst (on_events L clk k evs t)"
proof (induction evs arbitrary: k t s)
  case (Cons e evs)
  obtain o1 t1 where 1: "on_server_event L (clk k) e t = (o1, t1)" by fastforce
  from on_server_event_server [OF 1, of s] obtain s' where
    2: "on_server_event L (clk k) e (t\<lparr>server := s\<rparr>) = (o1, t1\<lparr>server := s'\<rparr>)" by blast
  have "fst (on_events L clk (Suc k) evs (t1\<lparr>server := s'\<rparr>)) = fst (on_events L clk (Suc k) evs t1)"
    by (rule Cons.IH)
  with 1 2 show ?case
    by (simp add: case_prod_beta)
qed simp

lemma on_server_event_payload:
  "on_server_event L now e t = (es, t') \<Longrightarrow> max_payload_size t' = max_payload_size t"
  by (cases e) (auto simp: Let_def split: prod.splits if_splits)

lemma drain_events_returns:
  assumes "renet_ok L evq inbox"
  shows "\<exists>t' raw. drain_events L clk k es t = Some (es @ fst (on_events L clk k raw t), t') \<and>
    prefix (evq (server t)) raw \<and> evq (server t') = [] \<and> max_payload_size t' = max_payload_size t"
proof (induction "event_weight (evq (server t))" arbitrary: k es t rule: less_induct)
  case less
  show ?case
  proof (cases "evq (server t)")
    case Nil
    then have "drain_events L clk k es t = Some (es, t)"
      by (subst drain_events.simps) (simp add: renet_okD(1) [OF assms])
    with Nil show ?thesis
      by (intro exI [of _ t] exI [of _ "[]"]) simp
  next
    case (Cons e q)
    obtain s where s: "rn_get_event L (server t) = Some (e, s)" "evq s = q"
      using renet_okD(2) [OF assms Cons] by blast
    obtain o1 t1 where t1: "on_server_event L (clk k) e (t\<lparr>server := s\<rparr>) = (o1, t1)" by fastforce
    from on_server_event_queue [OF assms t1] s(2) obtain xs where
      xs: "evq (server t1) = q @ xs" "event_weight (evq (server t1)) < event_weight (evq (server t))"
      by (auto simp: Cons)
    from less.hyps [OF xs(2), of "Suc k" "es @ o1"] obtain t' raw where
      r: "drain_events L clk (Suc k) (es @ o1) t1 = Some (es @ o1 @ fst (on_events L clk (Suc k) raw t1), t')"
        "prefix (evq (server t1)) raw" "evq (server t') = []" "max_payload_size t' = max_payload_size t1"
      by auto
    have "fst (on_events L clk k (e # raw) t) = o1 @ fst (on_events L clk (Suc k) raw t1)"
      using on_events_server [of L clk k "e # raw" s t] t1 by (simp add: case_prod_beta)
    moreover have "drain_events L clk k es t = Some (es @ o1 @ fst (on_events L clk (Suc k) raw t1), t')"
      by (subst drain_events.simps) (simp add: s t1 r)
    moreover have "prefix (evq (server t)) (e # raw)"
      using r(2) by (auto simp: Cons xs(1) prefix_def)
    ultimately show ?thesis
      using r(3,4) on_server_event_payload [OF t1] by (intro exI [of _ t'] exI [of _ "e # raw"]) simp
  qed
qed

lemma drain_messages_returns:
  assumes "renet_ok L evq inbox"
  shows "\<exists>s'. drain_messages L mx mk c ch es s =
      Some (es @ map mk (filter (\<lambda>m. length m \<le> mx) (inbox s c ch)), s') \<and>
    inbox s' = (inbox s)(c := (inbox s c)(ch := []))"
proof (induction "inbox s c ch" arbitrary: es s)
  case Nil
  then show ?case
    by (subst drain_messages.simps) (simp add: renet_okD(4) [OF assms] fun_upd_idem)
next
  case (Cons m ms)
  obtain s1 where s1: "rn_receive_message L c ch s = Some (m, s1)"
      "inbox s1 = (inbox s)(c := (inbox s c)(ch := ms))"
    using renet_okD(5) [OF assms Cons.hyps(2) [symmetric]] by blast
  define es1 where "es1 = (if length m > mx then es else es @ [mk m])"
  from s1(2) have ms: "ms = inbox s1 c ch" by simp
  from Cons.hyps(1) [OF ms, of es1] obtain s' where
    s': "drain_messages L mx mk c ch es1 s1 = Some (es1 @ map mk (filter (\<lambda>m. length m \<le> mx) ms), s')"
      "inbox s' = (inbox s1)(c := (inbox s1 c)(ch := []))"
    unfolding ms by blast
  have "drain_messages L mx mk c ch es s = Some (es1 @ map mk (filter (\<lambda>m. length m \<le> mx) ms), s')"
    by (subst drain_messages.simps) (simp add: s1(1) s'(1) es1_def [symmetric])
  then show ?case
    using s'(2) s1(2) Cons.hyps(2) [symmetric] by (simp add: es1_def)
qed

text \<open>The messages of a client that fit, the unreliable ones first.\<close>

definition deliveries :: "nat \<Rightarrow> (u64 \<Rightarrow> u8 \<Rightarrow> bytes list) \<Rightarrow> u64 \<Rightarrow> NetworkEvent list" where
  "deliveries mx box c =
     map (UnreliableMessage c) (filter (\<lambda>m. length m \<le> mx) (box c CHANNEL_UNRELIABLE)) @
     map (ReliableMessage c) (filter (\<lambda>m. length m \<le> mx) (box c CHANNEL_RELIABLE))"

lemma channels_differ [simp]: "CHANNEL_RELIABLE \<noteq> CHANNEL_UNRELIABLE" "CHANNEL_UNRELIABLE \<noteq> CHANNEL_RELIABLE"
  by (simp_all add: CHANNEL_RELIABLE_def CHANNEL_UNRELIABLE_def)

lemma drain_clients_returns:
  assumes "renet_ok L evq inbox"
  shows "distinct cs \<Longrightarrow> \<exists>s'. drain_clients L mx cs (es, s) =
      Some (es @ concat (map (deliveries mx (inbox s)) cs), s') \<and>
    (\<forall>c. inbox s' c = (if c \<in> set cs then (inbox s c)(CHANNEL_UNRELIABLE := [], CHANNEL_RELIABLE := []) else inbox s c))"
proof (induction cs arbitrary: es s)
  case (Cons c cs)
  from drain_messages_returns [OF assms, of mx "UnreliableMessage c" c CHANNEL_UNRELIABLE es s] obtain s1 where
    s1: "drain_messages L mx (UnreliableMessage c) c CHANNEL_UNRELIABLE es s =
        Some (es @ map (UnreliableMessage c) (filter (\<lambda>m. length m \<le> mx) (inbox s c CHANNEL_UNRELIABLE)), s1)"
      "inbox s1 = (inbox s)(c := (inbox s c)(CHANNEL_UNRELIABLE := []))" by blast
  define es1 where "es1 = es @ map (UnreliableMessage c) (filter (\<lambda>m. length m \<le> mx) (inbox s c CHANNEL_UNRELIABLE))"
  from drain_messages_returns [OF assms, of mx "ReliableMessage c" c CHANNEL_RELIABLE es1 s1] s1(2) obtain s2 where
    s2: "drain_messages L mx (ReliableMessage c) c CHANNEL_RELIABLE es1 s1 = Some (es @ deliveries mx (inbox s) c, s2)"
      "inbox s2 = (inbox s)(c := (inbox s c)(CHANNEL_UNRELIABLE := [], CHANNEL_RELIABLE := []))"
    by (auto simp: es1_def deliveries_def)
  from Cons.IH [of "es @ deliveries mx (inbox s) c" s2] Cons.prems obtain s' where
    s': "drain_clients L mx cs (es @ deliveries mx (inbox s) c, s2) =
        Some (es @ deliveries mx (inbox s) c @ concat (map (deliveries mx (inbox s2)) cs), s')"
      "\<forall>c. inbox s' c = (if c \<in> set cs then (inbox s2 c)(CHANNEL_UNRELIABLE := [], CHANNEL_RELIABLE := []) else inbox s2 c)"
    by auto
  have rest: "concat (map (deliveries mx (inbox s2)) cs) = concat (map (deliveries mx (inbox s)) cs)"
    by (rule arg_cong [of _ _ concat], rule map_cong [OF refl])
      (use Cons.prems in \<open>auto simp: s2(2) deliveries_def\<close>)
  have "drain_clients L mx (c # cs) (es, s) = Some (es @ concat (map (deliveries mx (inbox s)) (c # cs)), s')"
    using s1(1) s2(1) s'(1) rest by (simp add: es1_def)
  with s'(2) s2(2) Cons.prems show ?case
    by auto
qed simp


text \<open>A crate whose state is its two queues, for the witnesses.\<close>

definition sample_renet :: "(ServerEvent list \<times> (u64 \<Rightarrow> u8 \<Rightarrow> bytes list), unit) renet_lib" where
  "sample_renet =
     \<lparr>rn_is_connected = (\<lambda>c s. c = 1), rn_send_message = (\<lambda>c ch d s. s), rn_broadcast_message = (\<lambda>ch d s. s),
      rn_disconnect = (\<lambda>c (q, b). (q @ [SClientDisconnected c], b)), rn_connected_clients = (\<lambda>s. 1),
      rn_clients_id = (\<lambda>s. [1]),
      rn_get_event = (\<lambda>(q, b). case q of [] \<Rightarrow> None | e # es \<Rightarrow> Some (e, es, b)),
      rn_receive_message = (\<lambda>c ch (q, b). case b c ch of [] \<Rightarrow> None | m # ms \<Rightarrow> Some (m, q, b(c := (b c)(ch := ms)))),
      rn_update = (\<lambda>d s. s), nc_update = (\<lambda>d n s. (n, s)), nc_send_packets = (\<lambda>n s. (n, s)),
      nc_client_ip = (\<lambda>c n. Some (V4 [1, 2, 3, 4])), max_safe = 1200\<rparr>"

lemma sample_renet_ok: "renet_ok sample_renet fst snd"
  by (auto simp: renet_ok_def sample_renet_def split: list.splits prod.splits)

definition sample_transport :: "ServerEvent list \<Rightarrow> (u64 \<Rightarrow> u8 \<Rightarrow> bytes list) \<Rightarrow>
    (ServerEvent list \<times> (u64 \<Rightarrow> u8 \<Rightarrow> bytes list), unit) RenetTransport" where
  "sample_transport q b = new_server 1200 None (q, b) () 0 0"


theorem lifecycle_alternates_witness:
  "alternates False (concat (map (seen_event 1) (fst (on_events sample_renet (\<lambda>_. 5) 0
     [SClientConnected 1, SClientDisconnected 1, SClientConnected 1] (sample_transport [] (\<lambda>_ _. []))))))"
  by (rule lifecycle_alternates) (simp_all add: sample_transport_def new_server_def Let_def)

end
