(* ===== verification/Web_Transport.thy ===== *)
theory Web_Transport
  imports Transport
begin

text \<open>
  \<^verbatim>\<open>crates/aetheris-transport-webtransport/src/lib.rs\<close>: the bridge to browser clients. Every accepted
  connection has a session, which is the task that serves it; a session's stages are the points
  between two of the locks and atomic operations the task uses, so that \<open>wt_step\<close> interleaves sessions,
  stream readers and the calls of the engine the way the executor can. The \<^verbatim>\<open>wtransport\<close> crate is a
  parameter: which sends fail (\<open>wt_lib\<close>), and which datagrams, streams and errors arrive (the events).
\<close>

subsection \<open>State\<close>

datatype wt_stage = Inserted | Counted | Reading | Ended | Uncounted | Removed | Finalized

record wt_session =
  ws_client :: ClientId
  ws_stage :: wt_stage
  ws_closed :: bool

record wt_message =
  wm_session :: nat
  wm_reliable :: bool
  wm_data :: bytes

record WebTransportBridge =
  wt_events :: "NetworkEvent list"
  connections :: "ClientId \<rightharpoonup> nat"
  connected_client_count :: u64
  auth_validator :: "(string \<Rightarrow> bool) option"
  sessions :: "wt_session list"
  streams :: "(ClientId \<times> bool) list"
  sent :: "wt_message list"

definition new_bridge :: "(string \<Rightarrow> bool) option \<Rightarrow> WebTransportBridge" where
  "new_bridge v =
     \<lparr>wt_events = [], connections = Map.empty, connected_client_count = 0, auth_validator = v,
      sessions = [], streams = [], sent = []\<rparr>"

subsection \<open>Calls of the engine\<close>

text \<open>The error text of a failing call of the crate, if it fails.\<close>

record wt_lib =
  wl_send_datagram :: "nat \<Rightarrow> bytes \<Rightarrow> string option"
  wl_open_bi :: "nat \<Rightarrow> string option"
  wl_opening :: "nat \<Rightarrow> string option"
  wl_write_all :: "nat \<Rightarrow> bytes \<Rightarrow> string option"
  wl_finish :: "nat \<Rightarrow> string option"
  wl_conn_order :: "(ClientId \<rightharpoonup> nat) \<Rightarrow> (ClientId \<times> nat) list"

definition log_sent :: "nat \<Rightarrow> bool \<Rightarrow> bytes \<Rightarrow> WebTransportBridge \<Rightarrow> WebTransportBridge" where
  "log_sent q rel d b = b\<lparr>sent := sent b @ [\<lparr>wm_session = q, wm_reliable = rel, wm_data = d\<rparr>]\<rparr>"

definition wt_send_unreliable ::
  "wt_lib \<Rightarrow> ClientId \<Rightarrow> bytes \<Rightarrow> WebTransportBridge \<Rightarrow> (TransportError + unit) \<times> WebTransportBridge" where
  "wt_send_unreliable W c d b =
     (case connections b c of
        Some q \<Rightarrow> (case wl_send_datagram W q d of
                     Some e \<Rightarrow> (Inl (Io e), b)
                   | None \<Rightarrow> (Inr (), log_sent q False d b))
      | None \<Rightarrow> (Inl (ClientNotConnected c), b))"

definition wt_send_reliable ::
  "wt_lib \<Rightarrow> ClientId \<Rightarrow> bytes \<Rightarrow> WebTransportBridge \<Rightarrow> (TransportError + unit) \<times> WebTransportBridge" where
  "wt_send_reliable W c d b =
     (case connections b c of
        Some q \<Rightarrow>
          (case wl_open_bi W q of
             Some e \<Rightarrow> (Inl (Io (''Failed to initiate bidirectional stream: '' @ e)), b)
           | None \<Rightarrow>
               (case wl_opening W q of
                  Some e \<Rightarrow> (Inl (Io (''Failed to establish bidirectional stream: '' @ e)), b)
                | None \<Rightarrow>
                    (case wl_write_all W q d of
                       Some e \<Rightarrow> (Inl (Io (''Failed to send reliable data: '' @ e)), b)
                     | None \<Rightarrow>
                         (case wl_finish W q of
                            Some e \<Rightarrow> (Inl (Io (''Failed to finish reliable stream: '' @ e)), b)
                          | None \<Rightarrow> (Inr (), log_sent q True d b)))))
      | None \<Rightarrow> (Inl (ClientNotConnected c), b))"

definition wt_broadcast_unreliable ::
  "wt_lib \<Rightarrow> bytes \<Rightarrow> WebTransportBridge \<Rightarrow> (TransportError + unit) \<times> WebTransportBridge" where
  "wt_broadcast_unreliable W d b =
     (Inr (), fold (\<lambda>(c, q) b. case wl_send_datagram W q d of Some e \<Rightarrow> b | None \<Rightarrow> log_sent q False d b)
                (wl_conn_order W (connections b)) b)"

definition wt_poll_events :: "WebTransportBridge \<Rightarrow> NetworkEvent list \<times> WebTransportBridge" where
  "wt_poll_events b = (wt_events b, b\<lparr>wt_events := []\<rparr>)"

definition update_session :: "nat \<Rightarrow> (wt_session \<Rightarrow> wt_session) \<Rightarrow> WebTransportBridge \<Rightarrow> WebTransportBridge" where
  "update_session q f b =
     (if q < length (sessions b) then b\<lparr>sessions := (sessions b)[q := f (sessions b ! q)]\<rparr> else b)"

definition wt_disconnect ::
  "ClientId \<Rightarrow> WebTransportBridge \<Rightarrow> (TransportError + unit) \<times> WebTransportBridge" where
  "wt_disconnect c b =
     (case connections b c of
        Some q \<Rightarrow>
          (Inr (), update_session q (\<lambda>s. s\<lparr>ws_closed := True\<rparr>)
             (b\<lparr>connections := (connections b)(c := None), connected_client_count := connected_client_count b - 1\<rparr>))
      | None \<Rightarrow> (Inl (ClientNotConnected c), b))"

text \<open>\<^verbatim>\<open>impl PlatformTransport for WebTransportBridge\<close>\<close>

definition webtransport_vt :: "wt_lib \<Rightarrow> WebTransportBridge PlatformTransport" where
  "webtransport_vt W =
     \<lparr>pt_send_unreliable = wt_send_unreliable W, pt_send_reliable = wt_send_reliable W,
      pt_broadcast_unreliable = wt_broadcast_unreliable W,
      pt_poll_events = (\<lambda>b. case wt_poll_events b of (es, b') \<Rightarrow> Some (Inr es, b')),
      pt_disconnect = wt_disconnect, pt_connected_client_count = connected_client_count\<rparr>"

definition wt_knows :: "WebTransportBridge \<Rightarrow> ClientId \<Rightarrow> bool" where
  "wt_knows b c \<longleftrightarrow> connections b c \<noteq> None"

interpretation wt: transport_contract "webtransport_vt W" wt_knows fits
  for W :: wt_lib and fits :: "bytes \<Rightarrow> bool"
  by unfold_locales
    (auto simp: webtransport_vt_def wt_send_unreliable_def wt_send_reliable_def wt_knows_def not_connected_def
      split: option.splits)

subsection \<open>Incoming connections\<close>

text \<open>
  What a connection attempt does: whether the request and the connection are accepted, the text of
  the first stream (\<open>None\<close> if it does not arrive in time or cannot be read), and the identifier drawn.
\<close>

record incoming =
  in_request :: bool
  in_accept :: bool
  in_stream :: "string option"
  in_client_id :: ClientId

definition first_message_auth :: "(string \<Rightarrow> bool) option \<Rightarrow> string option \<Rightarrow> bool" where
  "first_message_auth validator stream =
     (case validator of
        None \<Rightarrow> True
      | Some v \<Rightarrow> (case stream of Some text \<Rightarrow> v (trim (take 1024 text)) | None \<Rightarrow> False))"

definition handle_incoming_connection :: "incoming \<Rightarrow> WebTransportBridge \<Rightarrow> WebTransportBridge" where
  "handle_incoming_connection i b =
     (if \<not> in_request i then b
      else if \<not> in_accept i then b
      else if \<not> first_message_auth (auth_validator b) (in_stream i) then b
      else b\<lparr>connections := (connections b)(in_client_id i \<mapsto> length (sessions b)),
             sessions := sessions b @ [\<lparr>ws_client = in_client_id i, ws_stage = Inserted, ws_closed = False\<rparr>]\<rparr>)"

definition push_event :: "NetworkEvent \<Rightarrow> WebTransportBridge \<Rightarrow> WebTransportBridge" where
  "push_event e b = b\<lparr>wt_events := wt_events b @ [e]\<rparr>"

definition MAX_RELIABLE_PAYLOAD_SIZE :: nat where
  "MAX_RELIABLE_PAYLOAD_SIZE = 1024 * 1024"

text \<open>The task of one stream: a read error, or the bytes read up to one beyond the limit.\<close>

definition read_stream :: "ClientId \<Rightarrow> bytes option \<Rightarrow> WebTransportBridge \<Rightarrow> WebTransportBridge" where
  "read_stream c result b =
     (case result of
        None \<Rightarrow> push_event (StreamReset c) b
      | Some d \<Rightarrow>
          let buffer = take (MAX_RELIABLE_PAYLOAD_SIZE + 1) d
          in if length buffer > MAX_RELIABLE_PAYLOAD_SIZE then b else push_event (ReliableMessage c buffer) b)"

datatype wt_event =
    Incoming incoming
  | CountIn nat
  | Announce nat
  | Datagram nat bytes
  | DatagramError nat
  | AcceptStream nat
  | AcceptError nat
  | StreamDone nat "bytes option"
  | CountOut nat
  | RemoveConnection nat
  | AnnounceEnd nat
  | Poll
  | Kick ClientId

definition at_stage :: "WebTransportBridge \<Rightarrow> nat \<Rightarrow> wt_stage \<Rightarrow> bool" where
  "at_stage b q s \<longleftrightarrow> q < length (sessions b) \<and> ws_stage (sessions b ! q) = s"

definition client_at :: "WebTransportBridge \<Rightarrow> nat \<Rightarrow> ClientId" where
  "client_at b q = ws_client (sessions b ! q)"

definition goto_stage :: "nat \<Rightarrow> wt_stage \<Rightarrow> WebTransportBridge \<Rightarrow> WebTransportBridge" where
  "goto_stage q s b = update_session q (\<lambda>k. k\<lparr>ws_stage := s\<rparr>) b"

text \<open>\<open>None\<close>: the session or stream is not ready for the step.\<close>

fun wt_step :: "wt_event \<Rightarrow> WebTransportBridge \<Rightarrow> WebTransportBridge option" where
  "wt_step (Incoming i) b = Some (handle_incoming_connection i b)"
| "wt_step (CountIn q) b =
     (if at_stage b q Inserted
      then Some (goto_stage q Counted (b\<lparr>connected_client_count := connected_client_count b + 1\<rparr>)) else None)"
| "wt_step (Announce q) b =
     (if at_stage b q Counted
      then Some (goto_stage q Reading (push_event (ClientConnected (client_at b q)) b)) else None)"
| "wt_step (Datagram q d) b =
     (if at_stage b q Reading then Some (push_event (UnreliableMessage (client_at b q) d) b) else None)"
| "wt_step (DatagramError q) b =
     (if at_stage b q Reading
      then Some (goto_stage q Ended (push_event (SessionClosed (client_at b q)) b)) else None)"
| "wt_step (AcceptStream q) b =
     (if at_stage b q Reading then Some (b\<lparr>streams := streams b @ [(client_at b q, False)]\<rparr>) else None)"
| "wt_step (AcceptError q) b =
     (if at_stage b q Reading then Some (goto_stage q Ended b) else None)"
| "wt_step (StreamDone i r) b =
     (if i < length (streams b) \<and> \<not> snd (streams b ! i)
      then Some (read_stream (fst (streams b ! i)) r (b\<lparr>streams := (streams b)[i := (fst (streams b ! i), True)]\<rparr>))
      else None)"
| "wt_step (CountOut q) b =
     (if at_stage b q Ended
      then Some (goto_stage q Uncounted (b\<lparr>connected_client_count := connected_client_count b - 1\<rparr>)) else None)"
| "wt_step (RemoveConnection q) b =
     (if at_stage b q Uncounted
      then Some (goto_stage q Removed (b\<lparr>connections := (connections b)(client_at b q := None)\<rparr>)) else None)"
| "wt_step (AnnounceEnd q) b =
     (if at_stage b q Removed
      then Some (goto_stage q Finalized (push_event (ClientDisconnected (client_at b q)) b)) else None)"
| "wt_step Poll b = Some (snd (wt_poll_events b))"
| "wt_step (Kick c) b = Some (snd (wt_disconnect c b))"

end
