(* ===== verification/Web_Transport_Props.thy ===== *)
theory Web_Transport_Props
  imports Web_Transport
begin

text \<open>
  The WebTransport bridge over every interleaving of its sessions: what the client counter counts,
  and that every session is announced once and, when it ends, ended once.
\<close>

text \<open>The states that can be reached, with the events that polling has handed out so far.\<close>

definition delivered :: "wt_event \<Rightarrow> WebTransportBridge \<Rightarrow> NetworkEvent list" where
  "delivered e b = (case e of Poll \<Rightarrow> fst (wt_poll_events b) | _ \<Rightarrow> [])"

inductive wt_reachable :: "(string \<Rightarrow> bool) option \<Rightarrow> WebTransportBridge \<Rightarrow> NetworkEvent list \<Rightarrow> bool" for v where
  start: "wt_reachable v (new_bridge v) []"
| step: "wt_reachable v b h \<Longrightarrow> wt_step e b = Some b' \<Longrightarrow> wt_reachable v b' (h @ delivered e b)"

subsection \<open>The client counter\<close>

definition counted :: "wt_session \<Rightarrow> bool" where
  "counted s \<longleftrightarrow> ws_stage s \<in> {Counted, Reading, Ended}"

definition tally :: "(wt_session \<Rightarrow> bool) \<Rightarrow> wt_session list \<Rightarrow> u64" where
  "tally P ss = of_nat (length (filter P ss))"

lemma tally_simps [simp]:
  "tally P [] = 0" "tally P (s # ss) = (if P s then 1 else 0) + tally P ss"
  "tally P (ss @ ts) = tally P ss + tally P ts"
  by (simp_all add: tally_def)

lemma tally_update:
  "q < length ss \<Longrightarrow>
   tally P (ss[q := s]) = tally P ss - (if P (ss ! q) then 1 else 0) + (if P s then 1 else 0)"
  by (induction ss arbitrary: q) (auto simp: nth_Cons' split: nat.splits)

text \<open>Every entry of the connection map is a session of its client that nobody has closed.\<close>

definition wt_wf :: "WebTransportBridge \<Rightarrow> bool" where
  "wt_wf b \<longleftrightarrow> (\<forall>c q. connections b c = Some q \<longrightarrow>
     q < length (sessions b) \<and> ws_client (sessions b ! q) = c \<and> \<not> ws_closed (sessions b ! q))"

definition count_ok :: "WebTransportBridge \<Rightarrow> bool" where
  "count_ok b \<longleftrightarrow> connected_client_count b = tally counted (sessions b) - tally ws_closed (sessions b)"

lemma session_simps [simp]:
  "sessions (update_session q f b) = (if q < length (sessions b) then (sessions b)[q := f (sessions b ! q)] else sessions b)"
  "connections (update_session q f b) = connections b"
  "connected_client_count (update_session q f b) = connected_client_count b"
  "wt_events (update_session q f b) = wt_events b"
  "sessions (push_event e b) = sessions b" "connections (push_event e b) = connections b"
  "connected_client_count (push_event e b) = connected_client_count b"
  "wt_events (push_event e b) = wt_events b @ [e]"
  by (simp_all add: update_session_def push_event_def)

lemma read_stream_simps [simp]:
  "sessions (read_stream c r b) = sessions b" "connections (read_stream c r b) = connections b"
  "connected_client_count (read_stream c r b) = connected_client_count b"
  by (simp_all add: read_stream_def Let_def split: option.splits)

lemma wt_wf_step: "wt_wf b \<Longrightarrow> wt_step e b = Some b' \<Longrightarrow> wt_wf b'"
  by (cases e)
    (auto simp: wt_wf_def goto_stage_def handle_incoming_connection_def wt_poll_events_def wt_disconnect_def
      nth_append nth_list_update split: if_splits option.splits, metis less_SucI, metis)

lemma count_ok_step: "wt_wf b \<Longrightarrow> count_ok b \<Longrightarrow> wt_step e b = Some b' \<Longrightarrow> count_ok b'"
  by (cases e)
    (auto simp: wt_wf_def count_ok_def goto_stage_def handle_incoming_connection_def wt_poll_events_def
      wt_disconnect_def at_stage_def counted_def tally_update split: if_splits option.splits)

lemma wt_reachable_ok: "wt_reachable v b h \<Longrightarrow> wt_wf b \<and> count_ok b"
proof (induction rule: wt_reachable.induct)
  case start
  show ?case by (simp add: wt_wf_def count_ok_def new_bridge_def)
next
  case (step b h e b')
  then show ?case using wt_wf_step count_ok_step by blast
qed

text \<open>
  C23. What the client counter holds, in every reachable state and every interleaving: the number of
  sessions between their connection and their end, minus the number of sessions the engine has kicked.
  A kicked client is subtracted twice, by the kick and by its own session, so after the first kick the
  counter is wrong for good, and it wraps below zero when the other clients leave.
\<close>

theorem webtransport_count:
  assumes "wt_reachable v b h"
  shows "connected_client_count b =
    of_nat (length (filter counted (sessions b))) - of_nat (length (filter ws_closed (sessions b)))"
  using wt_reachable_ok [OF assms] by (simp add: count_ok_def tally_def)

text \<open>A run of steps, for the witnesses.\<close>

fun wt_run :: "wt_event list \<Rightarrow> WebTransportBridge \<Rightarrow> WebTransportBridge option" where
  "wt_run [] b = Some b"
| "wt_run (e # es) b = Option.bind (wt_step e b) (wt_run es)"

lemma wt_run_reachable: "wt_reachable v b h \<Longrightarrow> wt_run es b = Some b' \<Longrightarrow> \<exists>h'. wt_reachable v b' h'"
  by (induction es arbitrary: b h) (auto simp: bind_eq_Some_conv intro: wt_reachable.step)

definition kicked_once :: "wt_event list" where
  "kicked_once =
     [Incoming \<lparr>in_request = True, in_accept = True, in_stream = None, in_client_id = 7\<rparr>, CountIn 0, Announce 0,
      Kick 7, DatagramError 0, CountOut 0, RemoveConnection 0, AnnounceEnd 0]"

lemmas wt_defs = handle_incoming_connection_def first_message_auth_def goto_stage_def update_session_def
  push_event_def at_stage_def client_at_def wt_disconnect_def wt_poll_events_def

theorem webtransport_count_witness:
  "\<exists>b. wt_run kicked_once (new_bridge None) = Some b \<and> connections b 7 = None \<and>
     unat (connected_client_count b) = 2 ^ 64 - 1"
proof -
  obtain b where b: "wt_run kicked_once (new_bridge None) = Some b" "connections b 7 = None"
      "sessions b = [\<lparr>ws_client = 7, ws_stage = Finalized, ws_closed = True\<rparr>]"
    by (simp add: kicked_once_def new_bridge_def wt_defs)
  from wt_run_reachable [OF wt_reachable.start b(1)] obtain h where "wt_reachable None b h" by blast
  from webtransport_count [OF this] b show ?thesis
    by (simp add: counted_def unat_max_word)
qed

subsection \<open>Announcements\<close>

text \<open>The announcements of a client so far, and those a session owes at its stage.\<close>

definition announced :: "WebTransportBridge \<Rightarrow> NetworkEvent list \<Rightarrow> ClientId \<Rightarrow> bool list" where
  "announced b h c = concat (map (seen_event c) (h @ wt_events b))"

fun owed :: "wt_stage \<Rightarrow> bool list" where
  "owed Inserted = []"
| "owed Counted = []"
| "owed Finalized = [True, False]"
| "owed _ = [True]"

definition sole_session :: "WebTransportBridge \<Rightarrow> nat \<Rightarrow> bool" where
  "sole_session b q \<longleftrightarrow> q < length (sessions b) \<and>
     (\<forall>q' < length (sessions b). ws_client (sessions b ! q') = ws_client (sessions b ! q) \<longrightarrow> q' = q)"

definition announced_ok :: "WebTransportBridge \<Rightarrow> NetworkEvent list \<Rightarrow> bool" where
  "announced_ok b h \<longleftrightarrow>
     (\<forall>q. sole_session b q \<longrightarrow> announced b h (ws_client (sessions b ! q)) = owed (ws_stage (sessions b ! q))) \<and>
     (\<forall>c. c \<notin> ws_client ` set (sessions b) \<longrightarrow> announced b h c = [])"

text \<open>A step of one session that pushes at most one announcement of its client.\<close>

lemma announced_ok_session:
  assumes "announced_ok b h" and "q < length (sessions b)"
    and "sessions b' = (sessions b)[q := k]" and "ws_client k = ws_client (sessions b ! q)"
    and "\<And>c. announced b' h' c = announced b h c @ (if c = ws_client (sessions b ! q) then xs else [])"
    and "owed (ws_stage k) = owed (ws_stage (sessions b ! q)) @ xs"
  shows "announced_ok b' h'"
proof -
  have len: "length (sessions b') = length (sessions b)" and
    client: "\<And>i. i < length (sessions b) \<Longrightarrow> ws_client (sessions b' ! i) = ws_client (sessions b ! i)"
    using assms(2-4) by (simp_all add: nth_list_update)
  have sole: "sole_session b' i \<longleftrightarrow> sole_session b i" for i
    unfolding sole_session_def len using client by metis
  have "ws_client ` set (sessions b') = ws_client ` set (sessions b)"
    using len client by (metis (no_types, lifting) list.set_map map_equality_iff)
  moreover have "announced b' h' (ws_client (sessions b' ! i)) = owed (ws_stage (sessions b' ! i))"
    if "sole_session b i" for i
  proof -
    have i: "i < length (sessions b)" and "ws_client (sessions b ! i) = ws_client (sessions b ! q) \<Longrightarrow> i = q"
      using that assms(2) by (auto simp: sole_session_def)
    then show ?thesis
      using assms(1) that client [OF i] assms(3-6) i assms(2)
      by (cases "i = q") (auto simp: announced_ok_def)
  qed
  moreover have "ws_client (sessions b ! q) \<in> ws_client ` set (sessions b)"
    using assms(2) by simp
  ultimately show ?thesis
    using assms(1,5) by (auto simp: announced_ok_def sole)
qed

lemma announced_ok_same:
  "announced_ok b h \<Longrightarrow> sessions b' = sessions b \<Longrightarrow> (\<And>c. announced b' h' c = announced b h c) \<Longrightarrow> announced_ok b' h'"
  by (simp add: announced_ok_def sole_session_def)

lemma announced_ok_new:
  assumes "announced_ok b h" and "sessions b' = sessions b @ [\<lparr>ws_client = c, ws_stage = Inserted, ws_closed = False\<rparr>]"
    and "\<And>c. announced b' h' c = announced b h c"
  shows "announced_ok b' h'"
proof -
  have sole: "sole_session b q" if "sole_session b' q" "q \<noteq> length (sessions b)" for q
    using that by (fastforce simp: sole_session_def assms(2) nth_append split: if_splits)
  have fresh: "c \<notin> ws_client ` set (sessions b)" if "sole_session b' (length (sessions b))"
  proof
    assume "c \<in> ws_client ` set (sessions b)"
    then obtain i where "i < length (sessions b)" "ws_client (sessions b ! i) = c"
      by (auto simp: in_set_conv_nth)
    with that show False
      unfolding sole_session_def assms(2) by (auto simp: nth_append dest!: spec [of _ i])
  qed
  have "announced b' h' (ws_client (sessions b' ! q)) = owed (ws_stage (sessions b' ! q))"
    if "sole_session b' q" for q
  proof (cases "q = length (sessions b)")
    case True
    with fresh that assms show ?thesis by (simp add: announced_ok_def)
  next
    case False
    with sole [OF that] assms show ?thesis
      by (auto simp: announced_ok_def sole_session_def nth_append)
  qed
  with assms show ?thesis
    by (auto simp: announced_ok_def)
qed

lemma announced_push:
  "announced (push_event e b) h c = announced b h c @ seen_event c e"
  by (simp add: announced_def)

lemma announced_other [simp]:
  "announced (update_session q f b) h = announced b h"
  "announced (b\<lparr>connected_client_count := n\<rparr>) h = announced b h"
  "announced (b\<lparr>connections := m\<rparr>) h = announced b h"
  "announced (b\<lparr>streams := ss\<rparr>) h = announced b h"
  by (simp_all add: announced_def fun_eq_iff)

lemma announced_read_stream [simp]: "announced (read_stream c r b) h = announced b h"
  by (simp add: read_stream_def Let_def announced_push fun_eq_iff split: option.split)

lemma announced_ok_step:
  assumes ok: "announced_ok b h" and st: "wt_step e b = Some b'"
  shows "announced_ok b' (h @ delivered e b)"
proof -
  note session = announced_ok_session [OF ok] and same = announced_ok_same [OF ok]
  note simps = goto_stage_def at_stage_def client_at_def announced_push delivered_def
  show ?thesis
  proof (cases e)
    case (Incoming i)
    show ?thesis
    proof (cases "sessions b' = sessions b")
      case True
      then show ?thesis
        using st Incoming
        by (intro same) (auto simp: handle_incoming_connection_def delivered_def announced_def split: if_splits)
    next
      case False
      then show ?thesis
        using st Incoming
        by (intro announced_ok_new [OF ok, of b' "in_client_id i"])
          (auto simp: handle_incoming_connection_def delivered_def announced_def split: if_splits)
    qed
  next
    case (CountIn q)
    then show ?thesis
      using st by (intro session [of q b' "(sessions b ! q)\<lparr>ws_stage := Counted\<rparr>" _ "[]"]) (auto simp: simps split: if_splits)
  next
    case (Announce q)
    then show ?thesis
      using st by (intro session [of q b' "(sessions b ! q)\<lparr>ws_stage := Reading\<rparr>" _ "[True]"]) (auto simp: simps split: if_splits)
  next
    case (DatagramError q)
    then show ?thesis
      using st by (intro session [of q b' "(sessions b ! q)\<lparr>ws_stage := Ended\<rparr>" _ "[]"]) (auto simp: simps split: if_splits)
  next
    case (AcceptError q)
    then show ?thesis
      using st by (intro session [of q b' "(sessions b ! q)\<lparr>ws_stage := Ended\<rparr>" _ "[]"]) (auto simp: simps split: if_splits)
  next
    case (CountOut q)
    then show ?thesis
      using st by (intro session [of q b' "(sessions b ! q)\<lparr>ws_stage := Uncounted\<rparr>" _ "[]"]) (auto simp: simps split: if_splits)
  next
    case (RemoveConnection q)
    then show ?thesis
      using st by (intro session [of q b' "(sessions b ! q)\<lparr>ws_stage := Removed\<rparr>" _ "[]"]) (auto simp: simps split: if_splits)
  next
    case (AnnounceEnd q)
    then show ?thesis
      using st by (intro session [of q b' "(sessions b ! q)\<lparr>ws_stage := Finalized\<rparr>" _ "[False]"]) (auto simp: simps split: if_splits)
  next
    case Poll
    then show ?thesis
      using st by (intro same) (auto simp: delivered_def wt_poll_events_def announced_def)
  next
    case (Kick c)
    show ?thesis
    proof (cases "connections b c")
      case None
      with st Kick show ?thesis
        by (intro same) (auto simp: wt_disconnect_def delivered_def)
    next
      case (Some q)
      show ?thesis
      proof (cases "q < length (sessions b)")
        case True
        then show ?thesis
          using st Kick Some
          by (intro session [of q b' "(sessions b ! q)\<lparr>ws_closed := True\<rparr>" _ "[]"])
            (auto simp: wt_disconnect_def delivered_def)
      next
        case False
        then show ?thesis
          using st Kick Some by (intro same) (auto simp: wt_disconnect_def delivered_def)
      qed
    qed
  qed (use st in \<open>auto intro!: same simp: simps split: if_splits\<close>)
qed



end
