(* ===== verification/Transport_Props.thy ===== *)
theory Transport_Props
  imports Renet_Props Web_Transport_Props
begin

text \<open>
  The two transports of the server behind the multiplexer, as \<^verbatim>\<open>main.rs\<close> combines them: Renet first, then
  WebTransport. Both meet the transport contract, so their combination does, and the routing of messages
  is a fact of the contract.
\<close>

type_synonym ('s, 'n) any_transport = "('s, 'n) clocked_renet + WebTransportBridge"

definition any_vt :: "('s, 'n) renet_lib \<Rightarrow> wt_lib \<Rightarrow> ('s, 'n) any_transport PlatformTransport" where
  "any_vt L W = dyn_vt (renet_vt L) (webtransport_vt W)"

definition any_knows :: "('s, 'n) renet_lib \<Rightarrow> ('s, 'n) any_transport \<Rightarrow> ClientId \<Rightarrow> bool" where
  "any_knows L = case_sum (renet_knows L) wt_knows"

definition server_transports :: "('s, 'n) clocked_renet \<Rightarrow> WebTransportBridge \<Rightarrow> ('s, 'n) any_transport MultiTransport" where
  "server_transports r b = add_transport (Inr b) (add_transport (Inl r) new_multi)"

interpretation any: transport_contract "any_vt L W" "any_knows L" "renet_fits L"
  for L :: "('s, 'n) renet_lib" and W :: wt_lib
  unfolding any_vt_def any_knows_def
  by (rule dyn_contract [OF renet.transport_contract_axioms wt.transport_contract_axioms])

interpretation multi: transport_contract "multi_vt (any_vt L W)" "multi_knows (any_knows L)" "renet_fits L"
  for L :: "('s, 'n) renet_lib" and W :: wt_lib
  by (rule any.combined)

lemma server_transports_list: "server_transports r b = [Inl r, Inr b]"
  by (simp add: server_transports_def add_transport_def new_multi_def)

text \<open>
  C19. Where a message goes: a payload within the limit of Renet reaches the Renet client of that id if there
  is one, otherwise the browser client of that id, through the other transport's own send, and leaves the
  remaining transport untouched; an unknown client is refused and nothing changes.
\<close>

theorem message_routing:
  assumes "length d \<le> max_safe L"
  shows "pt_send_reliable (multi_vt (any_vt L W)) c d (server_transports r b) =
    (if rn_is_connected L c (server (rt r))
     then (Inr (), server_transports (r\<lparr>rt := (rt r)\<lparr>server := rn_send_message L c CHANNEL_RELIABLE d (server (rt r))\<rparr>\<rparr>) b)
     else if connections b c \<noteq> None
     then (fst (wt_send_reliable W c d b), server_transports r (snd (wt_send_reliable W c d b)))
     else (Inl (ClientNotConnected c), server_transports r b))"
proof -
  have fits: "renet_fits L d"
    using assms by (simp add: renet_fits_def)
  consider "rn_is_connected L c (server (rt r))" | "\<not> rn_is_connected L c (server (rt r))" "connections b c \<noteq> None"
    | "\<not> rn_is_connected L c (server (rt r))" "connections b c = None" by blast
  then show ?thesis
  proof cases
    case 1
    with any.routes_reliable [OF fits, of "[]" c "Inl r" W "[Inr b]"] assms show ?thesis
      by (simp add: server_transports_list multi_vt_def any_knows_def any_vt_def dyn_vt_def renet_vt_def renet_knows_def
          on_rt_def renet_send_reliable_def renet_send_def)
  next
    case 2
    with any.routes_reliable [OF fits, of "[Inl r]" c "Inr b" W "[]"] show ?thesis
      by (simp add: server_transports_list multi_vt_def any_knows_def any_vt_def dyn_vt_def webtransport_vt_def
          renet_knows_def wt_knows_def)
  next
    case 3
    then have "\<not> multi_knows (any_knows L) (server_transports r b) c"
      by (simp add: multi_knows_def any_knows_def server_transports_list renet_knows_def wt_knows_def)
    from multi.unknown_reliable [OF fits this, of W] 3 show ?thesis by simp
  qed
qed

text \<open>
  C24. A reliable message above the datagram limit never reaches a browser client: Renet, which is asked
  first, refuses the size before it looks whether it knows the client, and the multiplexer takes that for
  the final answer. The bridge alone would have sent it over a stream, which has no such limit.
\<close>

theorem large_message_blocked:
  assumes "max_safe L < length d" and "connections b c = Some q"
    and "wl_open_bi W q = None" "wl_opening W q = None" "wl_write_all W q d = None" "wl_finish W q = None"
  shows "fst (wt_send_reliable W c d b) = Inr () \<and>
    pt_send_reliable (multi_vt (any_vt L W)) c d (server_transports r b) =
      (Inl (PayloadTooLarge (length d) (max_safe L)), server_transports r b)"
  using assms
  by (simp add: server_transports_list multi_vt_def multi_send_reliable_def any_vt_def dyn_vt_def renet_vt_def on_rt_def
      renet_send_reliable_def renet_send_def wt_send_reliable_def)

text \<open>One poll of the server collects the events of both transports, Renet's first.\<close>

lemma server_poll:
  assumes "renet_poll_events L (poll_clocks r (polls r)) (rt r) = Some (es, t)"
  shows "pt_poll_events (multi_vt (any_vt L W)) (server_transports r b) =
    Some (Inr (es @ wt_events b),
          server_transports (r\<lparr>rt := t, polls := Suc (polls r)\<rparr>) (b\<lparr>wt_events := []\<rparr>))"
  using assms
  by (simp add: server_transports_list multi_vt_def multi_poll_events_def any_vt_def dyn_vt_def renet_vt_def
      webtransport_vt_def wt_poll_events_def)

subsection \<open>Witnesses\<close>

definition sample_clocked :: "(ServerEvent list \<times> (u64 \<Rightarrow> u8 \<Rightarrow> bytes list), unit) clocked_renet" where
  "sample_clocked = \<lparr>rt = sample_transport [] (\<lambda>_ _. []),
     poll_clocks = (\<lambda>_. \<lparr>pc_now = 0, pc_prune = 0, pc_events = (\<lambda>_. 0)\<rparr>), polls = 0\<rparr>"

definition sample_wt_lib :: wt_lib where
  "sample_wt_lib =
     \<lparr>wl_send_datagram = (\<lambda>q d. None), wl_open_bi = (\<lambda>q. None), wl_opening = (\<lambda>q. None),
      wl_write_all = (\<lambda>q d. None), wl_finish = (\<lambda>q. None), wl_conn_order = (\<lambda>m. [])\<rparr>"

definition sample_bridge :: WebTransportBridge where
  "sample_bridge = handle_incoming_connection
     \<lparr>in_request = True, in_accept = True, in_stream = None, in_client_id = 7\<rparr> (new_bridge None)"

lemma sample_bridge_simps [simp]: "connections sample_bridge = [7 \<mapsto> 0]"
  by (simp add: sample_bridge_def handle_incoming_connection_def first_message_auth_def new_bridge_def)

theorem message_routing_witness:
  "fst (pt_send_reliable (multi_vt (any_vt sample_renet sample_wt_lib)) 7 [1, 2]
     (server_transports sample_clocked sample_bridge)) = Inr ()"
  using message_routing [of "[1, 2]" sample_renet sample_wt_lib 7 sample_clocked sample_bridge]
  by (simp add: sample_renet_def wt_send_reliable_def sample_wt_lib_def)

theorem large_message_blocked_witness:
  "pt_send_reliable (multi_vt (any_vt sample_renet sample_wt_lib)) 7 (replicate 1300 0)
     (server_transports sample_clocked sample_bridge) =
   (Inl (PayloadTooLarge 1300 1200), server_transports sample_clocked sample_bridge)"
proof -
  have m: "max_safe sample_renet = 1200"
    by (simp add: sample_renet_def)
  show ?thesis
    using large_message_blocked [of sample_renet "replicate 1300 0" sample_bridge 7 0 sample_wt_lib sample_clocked]
    unfolding m by (simp add: sample_wt_lib_def)
qed

end
