(* ===== verification/Startup.thy ===== *)
theory Startup
  imports Telemetry Renet Web_Transport Adapter
begin

text \<open>
  How the server comes up: the configuration (\<^verbatim>\<open>config.rs\<close>), the e-mail senders (\<^verbatim>\<open>auth/email.rs\<close>), the world
  bootstrap (\<^verbatim>\<open>lib.rs\<close>), the decisions of \<^verbatim>\<open>main.rs\<close> up to the point where it serves, and the cached
  development certificate of the WebTransport crate. The environment is a map of variables. Binding
  sockets, starting threads and installing log and metrics back ends is left out: the model is what the
  process decides before and between those effects.
\<close>

type_synonym env_vars = "string \<rightharpoonup> string"

definition var_or :: "env_vars \<Rightarrow> string \<Rightarrow> string \<Rightarrow> string" where
  "var_or vars n d = (case vars n of Some v \<Rightarrow> v | None \<Rightarrow> d)"

definition truthy :: "env_vars \<Rightarrow> string \<Rightarrow> bool" where
  "truthy vars n =
     (case vars n of Some v \<Rightarrow> to_lowercase v \<in> {''1'', ''true'', ''yes'', ''on''} | None \<Rightarrow> False)"

subsection \<open>Configuration\<close>

text \<open>\<^verbatim>\<open>str::parse\<close> for an unsigned integer of \<open>w\<close> bits.\<close>

definition parse_digits :: "nat \<Rightarrow> string \<Rightarrow> nat option" where
  "parse_digits w s =
     (if s = [] then None
      else case digits_value (\<lambda>c. digit_of (of_char c)) 10 0 s of
             Some n \<Rightarrow> if n < 2 ^ w then Some n else None
           | None \<Rightarrow> None)"

definition parse_uint :: "nat \<Rightarrow> string \<Rightarrow> nat option" where
  "parse_uint w s = (case s of c # cs \<Rightarrow> parse_digits w (if c = CHR ''+'' then cs else s) | [] \<Rightarrow> None)"

definition uint_var :: "nat \<Rightarrow> env_vars \<Rightarrow> string \<Rightarrow> nat \<Rightarrow> nat" where
  "uint_var w vars n d = (case Option.bind (vars n) (parse_uint w) of Some k \<Rightarrow> k | None \<Rightarrow> d)"

record ServerConfig =
  metrics_port :: u16
  cfg_tick_rate :: u64
  encode_threads :: u64

definition load_config :: "env_vars \<Rightarrow> ServerConfig" where
  "load_config vars =
     \<lparr>metrics_port = of_nat (uint_var 16 vars ''AETHERIS_METRICS_PORT'' 9000),
      cfg_tick_rate = of_nat (uint_var 64 vars ''AETHERIS_TICK_RATE'' 60),
      encode_threads = of_nat (uint_var 64 vars ''AETHERIS_ENCODE_THREADS'' 2)\<rparr>"

subsection \<open>E-mail\<close>

datatype EmailSender =
    LogEmailSender
  | LettreSmtpEmailSender string string string string
  | ResendEmailSender string string

text \<open>\<open>relay\<close> is the error of the SMTP library for a relay address, if it has one.\<close>

definition require_var :: "env_vars \<Rightarrow> string \<Rightarrow> string + string" where
  "require_var vars n = (case vars n of Some v \<Rightarrow> Inr v | None \<Rightarrow> Inl (n @ '' missing''))"

definition smtp_from_env :: "(string \<Rightarrow> string option) \<Rightarrow> env_vars \<Rightarrow> string + EmailSender" where
  "smtp_from_env relay vars =
     (case require_var vars ''SMTP_URL'' of Inl e \<Rightarrow> Inl e | Inr url \<Rightarrow>
      case require_var vars ''SMTP_USERNAME'' of Inl e \<Rightarrow> Inl e | Inr user \<Rightarrow>
      case require_var vars ''SMTP_PASSWORD'' of Inl e \<Rightarrow> Inl e | Inr pass \<Rightarrow>
      case require_var vars ''SMTP_FROM'' of Inl e \<Rightarrow> Inl e | Inr from' \<Rightarrow>
      case relay url of Some e \<Rightarrow> Inl e | None \<Rightarrow> Inr (LettreSmtpEmailSender url user pass from'))"

definition resend_from_env :: "env_vars \<Rightarrow> string + EmailSender" where
  "resend_from_env vars =
     (case require_var vars ''RESEND_API_KEY'' of
        Inl e \<Rightarrow> Inl e
      | Inr key \<Rightarrow> Inr (ResendEmailSender key (var_or vars ''RESEND_FROM'' ''onboarding@resend.dev'')))"

text \<open>The libraries behind the senders: the error of an address, of composing and of delivering a
  message, and the status code, status text and body of the HTTP interface's answer.\<close>

record mail_lib =
  ml_address :: "string \<Rightarrow> string option"
  ml_compose :: "string \<Rightarrow> string \<Rightarrow> string \<Rightarrow> string \<Rightarrow> string \<Rightarrow> string option"
  ml_deliver :: "EmailSender \<Rightarrow> string \<Rightarrow> string \<Rightarrow> string \<Rightarrow> string \<Rightarrow> string option"
  ml_post :: "EmailSender \<Rightarrow> string \<Rightarrow> string \<Rightarrow> string \<Rightarrow> string \<Rightarrow> string + nat \<times> string \<times> string"

fun email_send :: "mail_lib \<Rightarrow> EmailSender \<Rightarrow> string \<Rightarrow> string \<Rightarrow> string \<Rightarrow> string \<Rightarrow> string + unit" where
  "email_send M LogEmailSender to subject plaintext html = Inr ()"
| "email_send M (LettreSmtpEmailSender url user pass from') to subject plaintext html =
     (case ml_address M from' of Some e \<Rightarrow> Inl e | None \<Rightarrow>
      case ml_address M to of Some e \<Rightarrow> Inl e | None \<Rightarrow>
      case ml_compose M from' to subject plaintext html of Some e \<Rightarrow> Inl e | None \<Rightarrow>
      case ml_deliver M (LettreSmtpEmailSender url user pass from') to subject plaintext html of
        Some e \<Rightarrow> Inl e | None \<Rightarrow> Inr ())"
| "email_send M (ResendEmailSender key from') to subject plaintext html =
     (case ml_post M (ResendEmailSender key from') to subject plaintext html of
        Inl e \<Rightarrow> Inl e
      | Inr (status, status_text, body) \<Rightarrow>
          if 200 \<le> status \<and> status < 300 then Inr ()
          else Inl (''Resend API error ('' @ status_text @ ''): '' @ body))"

definition choose_email_sender :: "(string \<Rightarrow> string option) \<Rightarrow> env_vars \<Rightarrow> string + EmailSender" where
  "choose_email_sender relay vars =
     (let sender_type = var_or vars ''OTP_EMAIL_SENDER'' ''log'';
          env = var_or vars ''AETHERIS_ENV'' ''dev''
      in if sender_type = ''log''
         then if env = ''production''
              then Inl ''OTP_EMAIL_SENDER=log is forbidden in AETHERIS_ENV=production''
              else Inr LogEmailSender
         else if sender_type = ''smtp''
         then (case smtp_from_env relay vars of
                 Inl e \<Rightarrow> Inl (''Failed to initialize SMTP sender: '' @ e) | Inr s \<Rightarrow> Inr s)
         else if sender_type = ''resend''
         then (case resend_from_env vars of
                 Inl e \<Rightarrow> Inl (''Failed to initialize Resend sender: '' @ e) | Inr s \<Rightarrow> Inr s)
         else Inl (''Unknown OTP_EMAIL_SENDER: '' @ sender_type))"

subsection \<open>The world\<close>

text \<open>\<open>order\<close> is the order in which the hash map of the registry is iterated.\<close>

definition register_all ::
  "ecs_env \<Rightarrow> (ComponentRegistry \<Rightarrow> ComponentRegistry) \<Rightarrow> ComponentRegistry \<Rightarrow> adapter \<Rightarrow> adapter" where
  "register_all env order reg a = fold (\<lambda>(k, d). register_replicator env (cd_replicator d)) (order reg) a"

definition bootstrap_phase1_world ::
  "ecs_env \<Rightarrow> (ComponentRegistry \<Rightarrow> ComponentRegistry) \<Rightarrow> world \<Rightarrow> u64 \<Rightarrow>
     (ComponentRegistry \<Rightarrow> ComponentRegistry option) \<Rightarrow> adapter option" where
  "bootstrap_phase1_world env order w rate extra_registry =
     do {
       a \<leftarrow> new_adapter env w rate;
       reg \<leftarrow> register_platform_components (kinds env) [];
       reg \<leftarrow> extra_registry reg;
       Some (register_all env order reg a)
     }"

subsection \<open>The process\<close>

text \<open>\<^verbatim>\<open>str::parse::<SocketAddr>\<close>\<close>

definition parse_socket_v4 :: "string \<Rightarrow> (IpAddr \<times> u16) option" where
  "parse_socket_v4 s =
     (case split_at (CHR '':'') s of
        [ip, port] \<Rightarrow>
          (case (parse_v4 ip, parse_digits 16 port) of
             (Some os, Some p) \<Rightarrow> Some (V4 os, of_nat p) | _ \<Rightarrow> None)
      | _ \<Rightarrow> None)"

definition parse_socket_v6 :: "string \<Rightarrow> (IpAddr \<times> u16) option" where
  "parse_socket_v6 s =
     (case s of
        c # cs \<Rightarrow>
          if c \<noteq> CHR ''['' then None
          else (case split_at (CHR '']'') cs of
                  [inner, port] \<Rightarrow>
                    (case (split_at (CHR ''%'') inner, strip_prefix '':'' port) of
                       (ip # scope, Some p) \<Rightarrow>
                         (case (parse_v6 ip, parse_digits 16 p) of
                            (Some gs, Some p) \<Rightarrow>
                              if scope = [] \<or> length scope = 1 \<and> parse_digits 32 (hd scope) \<noteq> None
                              then Some (V6 gs, of_nat p) else None
                          | _ \<Rightarrow> None)
                     | _ \<Rightarrow> None)
                | _ \<Rightarrow> None)
      | [] \<Rightarrow> None)"

definition parse_socket_addr :: "string \<Rightarrow> (IpAddr \<times> u16) option" where
  "parse_socket_addr s = (case parse_socket_v4 s of Some a \<Rightarrow> Some a | None \<Rightarrow> parse_socket_v6 s)"

datatype allow_origin = AnyOrigin | OnlyOrigin string

record startup =
  su_config :: ServerConfig
  su_grpc_addr :: "IpAddr \<times> u16"
  su_email :: EmailSender
  su_auth :: AuthServiceImpl
  su_http_port :: u16
  su_http_cors :: allow_origin
  su_tls :: "(string \<times> string) option"
  su_renet_addr :: "IpAddr \<times> u16"
  su_renet :: RenetServerConfig
  su_wt_addr :: "IpAddr \<times> u16"
  su_world :: adapter
  su_cors :: allow_origin

text \<open>The process panics, returns an error from \<^verbatim>\<open>main\<close>, or serves.\<close>

datatype boot = Panicked | Failed string | Serving startup

definition get_tls_paths :: "env_vars \<Rightarrow> string \<times> string" where
  "get_tls_paths vars =
     (var_or vars ''AETHERIS_GRPC_TLS_CERT_PATH'' ''target/dev-certs/cert.pem'',
      var_or vars ''AETHERIS_GRPC_TLS_KEY_PATH'' ''target/dev-certs/key.pem'')"

text \<open>The identity of the control plane: the certificate and the key read from the two files.\<close>

definition build_tls_config ::
  "(string \<Rightarrow> string + string) \<Rightarrow> string \<Rightarrow> string \<Rightarrow> string + string \<times> string" where
  "build_tls_config read cert_path key_path =
     (case read cert_path of
        Inl e \<Rightarrow> Inl (''Failed to read TLS cert from '' @ cert_path @ '': '' @ e)
      | Inr cert \<Rightarrow>
          (case read key_path of
             Inl e \<Rightarrow> Inl (''Failed to read TLS key from '' @ key_path @ '': '' @ e)
           | Inr key \<Rightarrow> Inr (cert, key)))"

definition renet_config_from_env :: "nat \<Rightarrow> env_vars \<Rightarrow> RenetServerConfig" where
  "renet_config_from_env safe vars =
     (let c = default_renet_config safe;
          c = (if truthy vars ''AETHERIS_AUTH_BYPASS'' then c\<lparr>max_new_connections_per_second := 100\<rparr> else c)
      in c\<lparr>max_unreliable_channel_memory_bytes := 5 * 1024 * 1024\<rparr>)"

text \<open>\<open>header_error\<close> is the error of the HTTP library for a header value, if it has one.\<close>

definition cors_origin :: "(string \<Rightarrow> string option) \<Rightarrow> env_vars \<Rightarrow> string + allow_origin" where
  "cors_origin header_error vars =
     (if var_or vars ''AETHERIS_ENV'' ''dev'' = ''production''
      then let orig = var_or vars ''ALLOWED_ORIGINS'' ''https://aetheris.io''
           in (case header_error orig of
                 None \<Rightarrow> Inr (OnlyOrigin orig)
               | Some e \<Rightarrow> Inl (''Invalid ALLOWED_ORIGINS: '' @ e))
      else Inr AnyOrigin)"

text \<open>What the process is started with: the libraries and the outcome of the OpenID discovery.\<close>

record process_env =
  pe_vars :: env_vars
  pe_relay :: "string \<Rightarrow> string option"
  pe_header_error :: "string \<Rightarrow> string option"
  pe_read_file :: "string \<Rightarrow> string + string"
  pe_tls_error :: "string \<times> string \<Rightarrow> string option"
  pe_google :: "GoogleOidcClient option"
  pe_safe :: nat
  pe_ecs :: ecs_env
  pe_order :: "ComponentRegistry \<Rightarrow> ComponentRegistry"
  pe_world :: world

definition control_plane_tls :: "process_env \<Rightarrow> string + (string \<times> string) option" where
  "control_plane_tls P =
     (if truthy (pe_vars P) ''AETHERIS_GRPC_TLS''
      then case get_tls_paths (pe_vars P) of (cert_path, key_path) \<Rightarrow>
             (case build_tls_config (pe_read_file P) cert_path key_path of
                Inl e \<Rightarrow> Inl e
              | Inr identity \<Rightarrow> (case pe_tls_error P identity of Some e \<Rightarrow> Inl e | None \<Rightarrow> Inr (Some identity)))
      else Inr None)"

definition main_server :: "process_env \<Rightarrow> boot" where
  "main_server P =
     (let vars = pe_vars P; config = load_config vars
      in case parse_socket_addr (var_or vars ''AETHERIS_GRPC_ADDR'' ''0.0.0.0:50051'') of
           None \<Rightarrow> Failed ''invalid socket address syntax''
         | Some grpc \<Rightarrow>
         case choose_email_sender (pe_relay P) vars of
           Inl e \<Rightarrow> Failed e
         | Inr email \<Rightarrow>
         case new_auth vars (pe_google P) of
           None \<Rightarrow> Panicked
         | Some a \<Rightarrow>
         if var_or vars ''AETHERIS_ENV'' ''dev'' = ''production'' \<and> \<not> truthy vars ''AETHERIS_GRPC_TLS''
         then Failed ''AETHERIS_GRPC_TLS=true is REQUIRED in AETHERIS_ENV=production''
         else
         case parse_socket_addr (var_or vars ''AETHERIS_RENET_ADDR'' ''0.0.0.0:5000'') of
           None \<Rightarrow> Failed ''invalid socket address syntax''
         | Some renet \<Rightarrow>
         case parse_socket_addr (var_or vars ''AETHERIS_WT_ADDR'' ''[::]:4433'') of
           None \<Rightarrow> Failed ''invalid socket address syntax''
         | Some wt \<Rightarrow>
         case bootstrap_phase1_world (pe_ecs P) (pe_order P) (pe_world P) (cfg_tick_rate config) Some of
           None \<Rightarrow> Panicked
         | Some w \<Rightarrow>
         case cors_origin (pe_header_error P) vars of
           Inl e \<Rightarrow> Failed e
         | Inr cors \<Rightarrow>
         case control_plane_tls P of
           Inl e \<Rightarrow> Failed e
         | Inr tls \<Rightarrow>
         Serving \<lparr>su_config = config, su_grpc_addr = grpc, su_email = email, su_auth = a,
                  su_http_port = of_nat (uint_var 16 vars ''AETHERIS_TELEMETRY_HTTP_PORT'' 50055),
                  su_http_cors = AnyOrigin,
                  su_tls = tls,
                  su_renet_addr = renet, su_renet = renet_config_from_env (pe_safe P) vars,
                  su_wt_addr = wt, su_world = w, su_cors = cors\<rparr>)"

subsection \<open>The development certificate\<close>

text \<open>The cache directory, and the certificate library: a certificate for a period of validity, in days, and
  the identity a pair of PEM texts loads to.\<close>

record cert_files =
  cert_pem :: "string option"
  key_pem :: "string option"
  cert_sha256 :: "string option"
  cert_version :: "string option"

record 'i cert_lib =
  load_pemfiles :: "string \<Rightarrow> string \<Rightarrow> 'i option"
  self_signed :: "int \<Rightarrow> int \<Rightarrow> nat \<Rightarrow> string \<times> string \<times> string"

definition CERT_VERSION :: string where
  "CERT_VERSION = ''v3''"

definition cached_identity :: "'i cert_lib \<Rightarrow> cert_files \<Rightarrow> ('i \<times> string) option" where
  "cached_identity C fs =
     (case (cert_pem fs, key_pem fs, cert_sha256 fs) of
        (Some c, Some k, Some h) \<Rightarrow>
          if (case cert_version fs of Some v \<Rightarrow> trim v = CERT_VERSION | None \<Rightarrow> False)
          then map_option (\<lambda>i. (i, trim h)) (load_pemfiles C c k) else None
      | _ \<Rightarrow> None)"

text \<open>\<open>today\<close> is the day of the call, \<open>seed\<close> the key generator's draw.\<close>

definition generate_self_signed_identity ::
  "'i cert_lib \<Rightarrow> int \<Rightarrow> nat \<Rightarrow> cert_files \<Rightarrow> (('i \<times> string) \<times> cert_files) option" where
  "generate_self_signed_identity C today seed fs =
     (case cached_identity C fs of
        Some r \<Rightarrow> Some (r, fs)
      | None \<Rightarrow>
          (case self_signed C (today - 1) (today + 10) seed of (c, k, h) \<Rightarrow>
             map_option (\<lambda>i. ((i, h), \<lparr>cert_pem = Some c, key_pem = Some k, cert_sha256 = Some h,
                                       cert_version = Some CERT_VERSION\<rparr>))
               (load_pemfiles C c k)))"

end
