(* ===== verification/Startup_Props.thy ===== *)
theory Startup_Props
  imports Startup Registry_Props "HOL-Library.Multiset"
begin

text \<open>
  What a server that has come up can rely on: the hardening of a production start, a replicator table that
  does not depend on hash order, and what the certificate cache keeps.
\<close>

subsection \<open>Production\<close>

lemma production_auth:
  assumes "new_auth vars g = Some a" and "vars ''AETHERIS_ENV'' = Some ''production''"
  shows "\<not> truthy vars ''AETHERIS_AUTH_BYPASS'' \<and> \<not> bypass_enabled a \<and>
    vars ''SESSION_PASETO_KEY'' = Some (session_key a) \<and> vars ''TRANSPORT_PASETO_KEY'' = Some (transport_key a)"
  using assms by (auto simp: new_auth_def Let_def truthy_def split: if_splits option.splits)

lemma production_email:
  "choose_email_sender relay vars = Inr s \<Longrightarrow> vars ''AETHERIS_ENV'' = Some ''production'' \<Longrightarrow> s \<noteq> LogEmailSender"
  by (auto simp: choose_email_sender_def smtp_from_env_def resend_from_env_def require_var_def var_or_def Let_def
      split: if_splits option.splits sum.splits)

lemma tls_identity: "control_plane_tls P = Inr i \<Longrightarrow> truthy (pe_vars P) ''AETHERIS_GRPC_TLS'' \<Longrightarrow> i \<noteq> None"
  by (auto simp: control_plane_tls_def split: sum.splits option.splits prod.splits)

lemma main_servingE:
  assumes "main_server P = Serving u"
  obtains "choose_email_sender (pe_relay P) (pe_vars P) = Inr (su_email u)"
    "new_auth (pe_vars P) (pe_google P) = Some (su_auth u)"
    "\<not> (var_or (pe_vars P) ''AETHERIS_ENV'' ''dev'' = ''production'' \<and> \<not> truthy (pe_vars P) ''AETHERIS_GRPC_TLS'')"
    "bootstrap_phase1_world (pe_ecs P) (pe_order P) (pe_world P) (cfg_tick_rate (su_config u)) Some = Some (su_world u)"
    "cors_origin (pe_header_error P) (pe_vars P) = Inr (su_cors u)"
    "control_plane_tls P = Inr (su_tls u)"
    "su_renet u = renet_config_from_env (pe_safe P) (pe_vars P)" "su_config u = load_config (pe_vars P)"
  using assms unfolding main_server_def Let_def
  by (auto split: option.splits sum.splits if_splits)


definition sample_process :: process_env where
  "sample_process =
     \<lparr>pe_vars = [''AETHERIS_ENV'' \<mapsto> ''production'', ''SESSION_PASETO_KEY'' \<mapsto> dev_key,
        ''TRANSPORT_PASETO_KEY'' \<mapsto> dev_key, ''OTP_EMAIL_SENDER'' \<mapsto> ''resend'', ''RESEND_API_KEY'' \<mapsto> ''k'',
        ''AETHERIS_GRPC_TLS'' \<mapsto> ''1''],
      pe_relay = (\<lambda>_. None), pe_header_error = (\<lambda>_. None), pe_read_file = Inr,
      pe_tls_error = (\<lambda>_. None), pe_google = None, pe_safe = 1200, pe_ecs = sample_env,
      pe_order = (\<lambda>reg. reg), pe_world = empty_world\<rparr>"

subsection \<open>The replicator table\<close>

lemma btree_insert_spec:
  assumes "sorted (map fst xs)" and "distinct (map fst xs)" and "k \<notin> fst ` set xs"
  shows "sorted (map fst (btree_insert k v xs)) \<and> distinct (map fst (btree_insert k v xs)) \<and>
    set (btree_insert k v xs) = insert (k, v) (set xs)"
  using assms by (induction k v xs rule: btree_insert.induct) auto

lemma fold_btree_insert:
  assumes "sorted (map fst xs)" and "distinct (map fst xs @ map fst kvs)"
  shows "sorted (map fst (fold (\<lambda>(k, v). btree_insert k v) kvs xs)) \<and>
    distinct (map fst (fold (\<lambda>(k, v). btree_insert k v) kvs xs)) \<and>
    set (fold (\<lambda>(k, v). btree_insert k v) kvs xs) = set xs \<union> set kvs"
  using assms
proof (induction kvs arbitrary: xs)
  case (Cons kv kvs)
  obtain k v where kv: "kv = (k, v)" by (cases kv)
  have "k \<notin> fst ` set xs"
    using Cons.prems by (auto simp: kv)
  note ins = btree_insert_spec [OF Cons.prems(1) _ this, of v]
  have "sorted (map fst (btree_insert k v xs))" "distinct (map fst (btree_insert k v xs) @ map fst kvs)"
      "set (btree_insert k v xs) = insert (k, v) (set xs)"
    using ins Cons.prems by (auto simp: kv)
  with Cons.IH [of "btree_insert k v xs"] show ?case
    by (simp add: kv)
qed simp

lemma register_all_replicators:
  "replicators (register_all env order reg a) =
     fold (\<lambda>(k, v). btree_insert k v)
       (map (\<lambda>(k, d). (replicator_kind env (cd_replicator d), cd_replicator d)) (order reg)) (replicators a)"
proof -
  have "replicators (fold (\<lambda>(k, d). register_replicator env (cd_replicator d)) xs b) =
      fold (\<lambda>(k, v). btree_insert k v)
        (map (\<lambda>(k, d). (replicator_kind env (cd_replicator d), cd_replicator d)) xs) (replicators b)" for xs b
    by (induction xs arbitrary: b) (auto simp: register_replicator_def)
  then show ?thesis by (simp add: register_all_def)
qed

lemma platform_replicator_kind:
  "documented_kinds (kinds env) \<Longrightarrow> d \<in> set (platform_descriptors (kinds env)) \<Longrightarrow>
   replicator_kind env (cd_replicator d) = cd_kind d"
  by (auto simp: documented_kinds_def platform_descriptors_def descriptor_def)

text \<open>
  C35. The world a server starts with does not depend on the order in which the hash map of component
  kinds is iterated: with a positive tick rate it is created, no kind is registered twice, and its
  replicator table is the list of all platform replicators sorted by kind.
\<close>

theorem bootstrap_order_free:
  assumes "documented_kinds (kinds env)" and "\<forall>reg. mset (order reg) = mset reg" and "0 < rate"
  shows "\<exists>a. bootstrap_phase1_world env order w rate Some = Some a \<and>
    replicators a =
      sort_key fst (map (\<lambda>d. (cd_kind d, cd_replicator d)) (platform_descriptors (kinds env)))"
proof -
  let ?ds = "platform_descriptors (kinds env)"
  let ?table = "map (\<lambda>d. (cd_kind d, cd_replicator d)) ?ds"
  define reg where "reg = rev (map (\<lambda>d. (cd_kind d, d)) ?ds)"
  define kvs where "kvs = map (\<lambda>(k, d). (replicator_kind env (cd_replicator d), cd_replicator d)) (order reg)"
  obtain a where a: "new_adapter env w rate = Some a" "replicators a = []"
    using assms(3) by (simp add: new_adapter_def)
  have "mset kvs = mset (map (\<lambda>(k, d). (replicator_kind env (cd_replicator d), cd_replicator d)) reg)"
    using assms(2) by (simp add: kvs_def)
  also have "map (\<lambda>(k, d). (replicator_kind env (cd_replicator d), cd_replicator d)) reg = rev ?table"
    by (simp add: reg_def rev_map comp_def platform_replicator_kind [OF assms(1)])
  finally have ms: "mset kvs = mset ?table" by simp
  have table: "map fst ?table = map cd_kind ?ds" by simp
  have "mset (map fst kvs) = mset (map fst ?table)"
    unfolding mset_map [of fst] ms ..
  from mset_eq_imp_distinct_iff [OF this] have dist: "distinct (map fst kvs)"
    unfolding table using platform_kinds_distinct [OF assms(1)] by blast
  have "mset (map fst (sort_key fst ?table)) = mset (map fst ?table)"
    unfolding mset_map [of fst] mset_sort ..
  from mset_eq_imp_distinct_iff [OF this] have dist': "distinct (map fst (sort_key fst ?table))"
    unfolding table using platform_kinds_distinct [OF assms(1)] by blast
  define tbl where "tbl = fold (\<lambda>(k, v). btree_insert k v) kvs []"
  have tbl: "sorted (map fst tbl)" "distinct (map fst tbl)" "set tbl = set (sort_key fst ?table)"
    using fold_btree_insert [of "[]" kvs] dist mset_eq_setD [OF ms] by (simp_all add: tbl_def)
  have "tbl = sort_key fst ?table"
    by (rule map_sorted_distinct_set_unique [of fst])
      (use tbl dist' in \<open>simp_all add: distinct_map\<close>)
  then have "replicators (register_all env order reg a) = sort_key fst ?table"
    by (simp add: register_all_replicators a(2) kvs_def [symmetric] tbl_def [symmetric])
  moreover have "bootstrap_phase1_world env order w rate Some = Some (register_all env order reg a)"
    by (simp add: bootstrap_phase1_world_def a(1) platform_registered [OF assms(1)] reg_def)
  ultimately show ?thesis by blast
qed

theorem bootstrap_order_free_witness:
  "\<exists>a. bootstrap_phase1_world sample_env rev empty_world 60 Some = Some a \<and>
     replicators a =
       sort_key fst (map (\<lambda>d. (cd_kind d, cd_replicator d)) (platform_descriptors (kinds sample_env)))"
  by (rule bootstrap_order_free) (simp_all add: documented_kinds_def sample_env_def sample_kinds_def)

lemma bootstrap_returns:
  "documented_kinds (kinds env) \<Longrightarrow> 0 < rate \<Longrightarrow> \<exists>a. bootstrap_phase1_world env order w rate Some = Some a"
  by (simp add: bootstrap_phase1_world_def platform_registered new_adapter_def)

lemma default_parts:
  "split_at (CHR '':'') ''0.0.0.0:50051'' = [''0.0.0.0'', ''50051'']"
  "split_at (CHR '':'') ''0.0.0.0:5000'' = [''0.0.0.0'', ''5000'']"
  "split_at (CHR '':'') ''[::]:4433'' = [''['', [], '']'', ''4433'']"
  "split_at (CHR '']'') ''::]:4433'' = [''::'', '':4433'']"
  "split_at (CHR ''%'') ''::'' = [''::'']"
  "parse_v4 ''0.0.0.0'' = Some [0, 0, 0, 0]" "parse_v6 ''::'' = Some [0, 0, 0, 0, 0, 0, 0, 0]"
  by code_simp+

lemma default_ports:
  "parse_digits 16 ''50051'' = Some 50051" "parse_digits 16 ''5000'' = Some 5000"
  "parse_digits 16 ''4433'' = Some 4433"
  by (simp_all add: parse_digits_def digit_of_def)

lemma default_addresses:
  "parse_socket_addr ''0.0.0.0:50051'' = Some (V4 [0, 0, 0, 0], 50051)"
  "parse_socket_addr ''0.0.0.0:5000'' = Some (V4 [0, 0, 0, 0], 5000)"
  "parse_socket_addr ''[::]:4433'' = Some (V6 [0, 0, 0, 0, 0, 0, 0, 0], 4433)"
  by (simp_all add: parse_socket_addr_def parse_socket_v4_def parse_socket_v6_def default_parts default_ports strip_prefix_def
      starts_with_def)

lemma sample_process_tls: "\<exists>tls. control_plane_tls sample_process = Inr tls"
proof -
  have "pe_read_file sample_process = Inr" "pe_tls_error sample_process = (\<lambda>_. None)"
    by (simp_all add: sample_process_def)
  then show ?thesis
    by (simp add: control_plane_tls_def build_tls_config_def split: prod.splits)
qed

lemma sample_process_serves: "\<exists>u. main_server sample_process = Serving u"
proof -
  let ?vars = "pe_vars sample_process"
  have "documented_kinds (kinds sample_env)"
    by (simp add: documented_kinds_def sample_env_def sample_kinds_def)
  from bootstrap_returns [OF this, of 60] obtain a where
    "bootstrap_phase1_world sample_env (pe_order sample_process) empty_world 60 Some = Some a" by auto
  moreover have "cfg_tick_rate (load_config ?vars) = 60"
    by (simp add: load_config_def uint_var_def sample_process_def)
  moreover have "choose_email_sender (pe_relay sample_process) ?vars = Inr (ResendEmailSender ''k'' ''onboarding@resend.dev'')"
    by (simp add: choose_email_sender_def resend_from_env_def require_var_def var_or_def sample_process_def)
  moreover obtain au where "new_auth ?vars (pe_google sample_process) = Some au"
    by (simp add: new_auth_def sample_process_def dev_key_def Let_def)
  moreover have "truthy ?vars ''AETHERIS_GRPC_TLS''"
    by (simp add: truthy_def sample_process_def to_lowercase_def char_to_lower_def)
  moreover have "cors_origin (pe_header_error sample_process) ?vars = Inr (OnlyOrigin ''https://aetheris.io'')"
    by (simp add: cors_origin_def var_or_def sample_process_def)
  moreover have "var_or ?vars ''AETHERIS_GRPC_ADDR'' d = d" "var_or ?vars ''AETHERIS_RENET_ADDR'' d = d"
      "var_or ?vars ''AETHERIS_WT_ADDR'' d = d" for d
    by (simp_all add: var_or_def sample_process_def)
  moreover obtain tls where "control_plane_tls sample_process = Inr tls"
    using sample_process_tls by blast
  moreover have "pe_ecs sample_process = sample_env" "pe_world sample_process = empty_world"
    by (simp_all add: sample_process_def)
  ultimately show ?thesis
    unfolding main_server_def Let_def by (simp add: default_addresses)
qed


subsection \<open>The certificate cache\<close>

text \<open>
  A certificate is generated once: whatever the day of a later start, the cached one is used, since only
  the version of the files is compared and never the end of its validity. From the eleventh day on
  the server presents an expired certificate, until somebody deletes the cache.
\<close>

lemma certificate_never_renewed:
  assumes "cached_identity C fs = None" and "self_signed C (today - 1) (today + 10) seed = (c, k, h)"
    and "load_pemfiles C c k = Some i" and "trim h = h"
  shows "\<exists>fs'. generate_self_signed_identity C today seed fs = Some ((i, h), fs') \<and>
    (\<forall>later seed'. generate_self_signed_identity C later seed' fs' = Some ((i, h), fs'))"
proof -
  have "trim CERT_VERSION = CERT_VERSION"
    by code_simp
  then show ?thesis
    using assms by (simp add: generate_self_signed_identity_def) (simp add: cached_identity_def)
qed

end
