(* ===== verification/Spec2Isabelle.thy ===== *)
theory Spec2Isabelle
  imports Auth_Props Registry_Props Payload_Props Simulate_Props Tick_Server
    Telemetry_Props Matchmaking_Props Transport_Props Startup_Props
begin

text \<open>
  A verification development for the Aetheris engine, an authoritative game server written in Rust. Paths
  below are relative to \<^verbatim>\<open>src/crates\<close>.

  \<^bold>\<open>The program.\<close> A server process (\<^verbatim>\<open>aetheris-server/src/main.rs\<close>) runs three services and a game loop. The
  authentication service issues one-time passwords and session tokens, the matchmaking service assigns
  players to game servers, the telemetry service turns reports of clients into logs and metrics. The
  game loop (\<^verbatim>\<open>tick.rs\<close>) runs a fixed number of ticks per second: it polls the transports, checks sessions
  with the authentication service, applies the updates of clients to the world, simulates it, and sends
  the changed components to the clients that may see them. The world is an adapter around an
  entity store (\<^verbatim>\<open>aetheris-ecs-bevy\<close>); native clients come over the Renet transport, browsers over the
  WebTransport bridge, and a multiplexer combines the two.

  \<^bold>\<open>Conventions.\<close> State is a record, every operation a function that returns the new state. A
  panic, and a loop that never ends, is \<open>None\<close>; an error is the left value of a sum. Machine integers are
  words and wrap as in a release build; floating-point numbers follow IEEE 754 with round to nearest
  even. Clock readings, random draws and fresh identifiers are arguments. Hash maps are maps where
  they are only looked up; where they are iterated the order is a parameter. Traits are records of
  functions. Third-party crates are parameters, and what a theorem needs of them is a named
  hypothesis, shown satisfiable by the theorem's witness. Logs and metrics are left out, except in the
  telemetry service, whose output they are.

  \<^bold>\<open>Foundations.\<close>
  \<^item> \<open>Prelude\<close>: integers, saturating operations, instants, status values, string functions, addresses.
  \<^item> \<open>Ieee\<close>: the arithmetic of \<^verbatim>\<open>f32\<close> and \<^verbatim>\<open>f64\<close> with monotonicity, exactness and error bounds of rounding.
  \<^item> \<open>Limiter\<close>: the locale \<open>window_limiter\<close>, the contract of a fixed-window limiter; its theorem says which
    requests of a sequence pass. \<open>Rate_Limit\<close> (interpretation \<open>rl\<close>) and \<open>Telemetry_Props\<close> (\<open>tl\<close>) provide it.
  \<^item> \<open>Samples\<close> and \<open>Tick_Samples\<close>: concrete library parameters for the witnesses.

  \<^bold>\<open>Authentication\<close> (\<^verbatim>\<open>aetheris-server/src/auth\<close>).
  \<^item> \<open>Rate_Limit\<close> models \<^verbatim>\<open>rate_limit.rs\<close>: \<open>check_limit\<close>, \<open>cleanup\<close>.
  \<^item> \<open>Auth\<close> models \<^verbatim>\<open>mod.rs\<close> and \<^verbatim>\<open>google.rs\<close>: \<open>AuthServiceImpl\<close> with \<open>request_otp\<close>, \<open>login\<close>, \<open>logout\<close>,
    \<open>refresh_token\<close>, \<open>verify_session\<close>, \<open>issue_connect_token\<close> and \<open>create_google_login_nonce\<close>. A login is also
    given in the two parts that run with and without the guard on the password store.
  \<^item> \<open>Auth_Props\<close>: tokens of a login verify; a password can be guessed three times and used once in
    sequence, but twice in a race; logout and refresh revoke for good; polled sessions stay alive;
    passwords are issued at a bounded rate.

  \<^bold>\<open>The world\<close> (\<^verbatim>\<open>aetheris-ecs-bevy/src\<close>).
  \<^item> \<open>Components\<close>, \<open>World\<close>: \<^verbatim>\<open>components.rs\<close>, \<^verbatim>\<open>physics_consts.rs\<close> and the part of the entity store the
    systems use: components with change ticks, queries, commands and resources.
  \<^item> \<open>Registry\<close>, \<open>Registry_Props\<close>: \<^verbatim>\<open>registry.rs\<close>. Platform components register without clash; input commands
    are not replayed while the client stays in the server's window.
  \<^item> \<open>Payload_Systems\<close>, \<open>Payload_Props\<close>: \<^verbatim>\<open>extraction.rs\<close>. Extraction conserves payload and never panics.
  \<^item> \<open>Interaction_Systems\<close>: \<^verbatim>\<open>interaction.rs\<close>. \<open>Simulate\<close>, \<open>Simulate_Props\<close>: the simulation step of \<^verbatim>\<open>adapter.rs\<close>; its
    angle loops are \<open>partial_function\<close>s, which return up to \<open>2^23\<close> and diverge for a huge rotation.
  \<^item> \<open>Adapter\<close>: all other methods of \<^verbatim>\<open>adapter.rs\<close>. \<open>Adapter_Inv\<close> proves its invariant for every method,
    \<open>Adapter_Runs\<close> over all sequences of calls, \<open>Adapter_Props\<close> what follows: identifiers are consistent,
    the optimised update loop equals a plain one, foreign updates are ignored, extraction is exact.

  \<^bold>\<open>The game loop\<close> (\<^verbatim>\<open>aetheris-server/src/tick.rs\<close>).
  \<^item> \<open>Tick\<close>: \<open>TickScheduler\<close> and its stages, composed in \<open>tick_step\<close> and \<open>run_scheduler\<close>.
  \<^item> \<open>Tick_Inv\<close>: one polled event is a sequence of permitted effects; the locale \<open>tick_invariant\<close> lifts what the
    effects keep to whole ticks. \<open>Tick_Clients\<close> interprets it for the client table and states the
    contract \<open>verifier_contract\<close> of a session verifier, which \<open>Tick_Auth\<close> shows for the authentication
    service. \<open>Tick_World\<close> does the same for the world: \<open>world_contract\<close>, provided by the adapter.
  \<^item> \<open>Tick_Send\<close>, \<open>Tick_Props\<close>: what clients with and without session can cause, and that each client is sent
    exactly what it may see, whatever the batching and fragmentation.
  \<^item> \<open>Outbound\<close>: the task behind the bounded channel as a step relation; it delivers everything that
    fits the channel and deadlocks with the tick otherwise. \<open>Tick_Server\<close> combines the scheduler with
    the service, the adapter and the task.

  \<^bold>\<open>Transports\<close> (\<^verbatim>\<open>multi_transport.rs\<close>, \<^verbatim>\<open>aetheris-transport-renet\<close>, \<^verbatim>\<open>aetheris-transport-webtransport\<close>).
  \<^item> \<open>Transport\<close>: the interface, the multiplexer and the locale \<open>transport_contract\<close>, with the lemma that a
    combination of transports that meet the contract meets it.
  \<^item> \<open>Renet\<close> (interpretation \<open>renet\<close>), \<open>Renet_Props\<close>: the token bucket in double precision and the transport. Polling
    loops are partial functions, proved to return if the queues of the crate are finite.
  \<^item> \<open>Web_Transport\<close> (interpretation \<open>wt\<close>), \<open>Web_Transport_Props\<close>: sessions and streams as interleaved steps,
    what is announced of a session and what the client counter counts.
  \<^item> \<open>Transport_Props\<close> (interpretations \<open>any\<close> and \<open>multi\<close>): both transports behind the multiplexer.

  \<^bold>\<open>Services and process.\<close>
  \<^item> \<open>Matchmaking\<close>, \<open>Matchmaking_Props\<close>: \<^verbatim>\<open>matchmaking/mod.rs\<close>, with the queue tasks as interleaved steps.
  \<^item> \<open>Telemetry\<close>, \<open>Telemetry_Props\<close>: \<^verbatim>\<open>telemetry.rs\<close>, on Unicode text with its byte lengths.
  \<^item> \<open>Startup\<close>, \<open>Startup_Props\<close>: \<^verbatim>\<open>config.rs\<close>, \<^verbatim>\<open>auth/email.rs\<close>, \<^verbatim>\<open>lib.rs\<close>, the decisions of \<^verbatim>\<open>main.rs\<close> and the
    certificate cache. A server that serves in production is hardened; its world does not depend on
    hash order.

  \<^bold>\<open>Bounds.\<close> No definition uses fuel: loops are structural recursions, functions with a
  termination proof, or partial functions in the option type. Strings outside telemetry are ASCII.

  \<^bold>\<open>Not modelled.\<close> The byte formats of the protocol crate, PASETO, hashing, OpenID Connect, the random generator
  (\<^verbatim>\<open>deterministic_rng.rs\<close> wraps a third-party one), \<^verbatim>\<open>renet\<close>, \<^verbatim>\<open>wtransport\<close> and the mail libraries are parameters. Creating
  sockets and threads, installing log and metrics back ends, signal handling and memory gauges in
  \<^verbatim>\<open>main.rs\<close> are input and output without a decision. \<^verbatim>\<open>aetheris-stress\<close> is a load generator for a running server,
  not part of it. \<^verbatim>\<open>aetheris-ecs-custom\<close> and \<^verbatim>\<open>aetheris-transport-quinn\<close> are empty crates.
\<close>

end
